(* ===== verification/Prelude.thy ===== *)
theory Prelude
  imports Main "HOL-Library.Word" "HOL-Library.Sublist"
begin

section \<open>Shared vocabulary: effectful procedures, event traces, finite maps\<close>

text \<open>
  Every reconciler of the operator is a Go method that talks to two outside services, the
  Kubernetes API server and a Nomad server. Neither is part of the repository, so a procedure
  of the model is a function of an abstract outside world of type \<open>'w\<close>: it returns its
  result, the calls it made in order (each with the answer it got), and the world after it.
  Nothing is assumed of \<open>'w\<close>, so a theorem about the emitted calls holds for every
  behaviour of the services: failures, concurrent writers, stale caches.
\<close>

named_theorems spec_rules \<open>rules that push a trace specification through a procedure\<close>
named_theorems trace_simps \<open>evaluation of trace predicates on explicit traces\<close>

type_synonym ('w, 'e, 'a) procedure = "'w \<Rightarrow> 'a \<times> 'e list \<times> 'w"

definition result_of :: "'a \<times> 'e list \<times> 'w \<Rightarrow> 'a" where
  "result_of x = fst x"

definition events_of :: "'a \<times> 'e list \<times> 'w \<Rightarrow> 'e list" where
  "events_of x = fst (snd x)"

definition world_of :: "'a \<times> 'e list \<times> 'w \<Rightarrow> 'w" where
  "world_of x = snd (snd x)"

lemma run_parts [simp]:
  "result_of (a, es, w) = a" "events_of (a, es, w) = es" "world_of (a, es, w) = w"
  by (simp_all add: result_of_def events_of_def world_of_def)

subsection \<open>Combinators\<close>

text \<open>
  \<open>ret\<close> returns without a call, \<open>call\<close> makes one call of a service and records it, \<open>observe\<close> reads
  a value that changes by itself (the clock) without a record,
  \<open>andThen\<close> is sequencing. \<open>bindE\<close> is Go's \<open>x, err := m(); if err != nil { return err }\<close>:
  it stops at the first error. \<open>forE\<close> is a \<open>for range\<close> loop whose body returns on error,
  \<open>forCollect\<close> the loop that runs every body and appends the errors to a slice.
\<close>

definition ret :: "'a \<Rightarrow> ('w, 'e, 'a) procedure" where
  "ret a = (\<lambda>w. (a, [], w))"

definition call :: "('r \<Rightarrow> 'e) \<Rightarrow> ('w \<Rightarrow> 'r \<times> 'w) \<Rightarrow> ('w, 'e, 'r) procedure" where
  "call ev f = (\<lambda>w. case f w of (r, w') \<Rightarrow> (r, [ev r], w'))"

definition emit :: "'e \<Rightarrow> ('w, 'e, unit) procedure" where
  "emit e = (\<lambda>w. ((), [e], w))"

definition observe :: "('w \<Rightarrow> 'a \<times> 'w) \<Rightarrow> ('w, 'e, 'a) procedure" where
  "observe f = (\<lambda>w. case f w of (a, w') \<Rightarrow> (a, [], w'))"

definition andThen ::
    "('w, 'e, 'a) procedure \<Rightarrow> ('a \<Rightarrow> ('w, 'e, 'b) procedure) \<Rightarrow> ('w, 'e, 'b) procedure" where
  "andThen m f = (\<lambda>w. case m w of (a, es, w1) \<Rightarrow>
     (case f a w1 of (b, es', w2) \<Rightarrow> (b, es @ es', w2)))"

definition bindE ::
    "('w, 'e, 'x + 'a) procedure \<Rightarrow> ('a \<Rightarrow> ('w, 'e, 'x + 'b) procedure) \<Rightarrow> ('w, 'e, 'x + 'b) procedure"
  where
  "bindE m f = andThen m (\<lambda>r. case r of Inl e \<Rightarrow> ret (Inl e) | Inr a \<Rightarrow> f a)"

definition liftE :: "'x + 'a \<Rightarrow> ('w, 'e, 'x + 'a) procedure" where
  "liftE r = ret r"

primrec forE :: "'i list \<Rightarrow> ('i \<Rightarrow> ('w, 'e, 'x + unit) procedure) \<Rightarrow> ('w, 'e, 'x + unit) procedure" where
  "forE [] body = ret (Inr ())"
| "forE (i # is) body = bindE (body i) (\<lambda>_. forE is body)"

primrec forCollect ::
    "'i list \<Rightarrow> ('i \<Rightarrow> ('w, 'e, 'x option) procedure) \<Rightarrow> ('w, 'e, 'x list) procedure" where
  "forCollect [] body = ret []"
| "forCollect (i # is) body = andThen (body i) (\<lambda>e. andThen (forCollect is body)
     (\<lambda>rest. ret (case e of None \<Rightarrow> rest | Some x \<Rightarrow> x # rest)))"

definition errOpt :: "'x + unit \<Rightarrow> 'x option" where
  "errOpt r = (case r of Inl e \<Rightarrow> Some e | Inr _ \<Rightarrow> None)"

definition optErr :: "'x option \<Rightarrow> 'x + unit" where
  "optErr r = (case r of None \<Rightarrow> Inr () | Some e \<Rightarrow> Inl e)"

lemma optErr_simps [simp]: "optErr None = Inr ()" "optErr (Some e) = Inl e"
  by (simp_all add: optErr_def)

lemma errOpt_simps [simp]: "errOpt (Inr u) = None" "errOpt (Inl e) = Some e"
  by (simp_all add: errOpt_def)

lemmas procedure_defs = ret_def call_def emit_def observe_def andThen_def bindE_def liftE_def

lemma ret_run: "ret a w = (a, [], w)"
  by (simp add: ret_def)

lemma call_run: "call ev f w = (fst (f w), [ev (fst (f w))], snd (f w))"
  by (simp add: call_def split: prod.split)

lemma andThen_ret [simp]: "andThen (ret a) f = f a"
  by (simp add: andThen_def ret_def fun_eq_iff split: prod.split)

lemma bindE_ret_Inr [simp]: "bindE (ret (Inr a)) f = f a"
  by (simp add: bindE_def)

lemma bindE_ret_Inl [simp]: "bindE (ret (Inl e)) f = ret (Inl e)"
  by (simp add: bindE_def)

lemma andThen_assoc: "andThen (andThen m f) g = andThen m (\<lambda>a. andThen (f a) g)"
  by (simp add: andThen_def fun_eq_iff split: prod.split)

lemma bindE_assoc: "bindE (bindE m f) g = bindE m (\<lambda>a. bindE (f a) g)"
  unfolding bindE_def andThen_assoc
  by (rule arg_cong [where f = "andThen m"]) (auto simp: fun_eq_iff ret_run split: sum.split)

lemma bindE_unit [simp]: "bindE m (\<lambda>a. ret (Inr a)) = m"
  unfolding bindE_def andThen_def fun_eq_iff ret_def by (auto split: prod.split sum.split)

lemma bindE_liftE [simp]: "bindE (liftE (Inr a)) f = f a" "bindE (liftE (Inl e)) f = liftE (Inl e)"
  by (simp_all add: liftE_def)

lemma forE_append: "forE (xs @ ys) body = bindE (forE xs body) (\<lambda>_. forE ys body)"
  by (induction xs) (simp_all add: bindE_assoc)

lemma bindE_done [simp]: "bindE m (\<lambda>_. ret (Inr ())) = m"
  unfolding bindE_def andThen_def fun_eq_iff ret_def by (auto split: prod.split sum.split)

lemma forE_single [simp]: "forE [i] body = body i"
  by simp

lemma forE_map: "forE (map f xs) body = forE xs (\<lambda>i. body (f i))"
  by (induction xs) simp_all

lemma andThen_run:
  "m w = (a, es, w1) \<Longrightarrow> f a w1 = (b, es', w2) \<Longrightarrow> andThen m f w = (b, es @ es', w2)"
  by (simp add: andThen_def)

lemma find_append:
  "find P (xs @ ys) = (case find P xs of Some x \<Rightarrow> Some x | None \<Rightarrow> find P ys)"
  by (induction xs) auto

subsection \<open>Specifications over every environment\<close>

text \<open>
  \<open>meets p Q\<close>: however the outside world behaves, a run of \<open>p\<close> ends with a result and a
  list of calls that satisfy \<open>Q\<close>. The rules replace the answer of each call by an arbitrary
  value, so a proof walks through the branches of the Go code and ends at explicit traces.
\<close>

definition meets :: "('w, 'e, 'a) procedure \<Rightarrow> ('a \<Rightarrow> 'e list \<Rightarrow> bool) \<Rightarrow> bool" where
  "meets p Q \<longleftrightarrow> (\<forall>w. Q (result_of (p w)) (events_of (p w)))"

lemma meetsI: "(\<And>w. Q (result_of (p w)) (events_of (p w))) \<Longrightarrow> meets p Q"
  by (simp add: meets_def)

lemma meetsD: "meets p Q \<Longrightarrow> Q (result_of (p w)) (events_of (p w))"
  by (simp add: meets_def)

lemma meets_mono: "meets p Q \<Longrightarrow> (\<And>r es. Q r es \<Longrightarrow> R r es) \<Longrightarrow> meets p R"
  by (auto simp: meets_def)

lemma meets_trivial: "(\<And>r es. Q r es) \<Longrightarrow> meets p Q"
  by (simp add: meets_def)

lemma meets_ret [spec_rules]: "Q a [] \<Longrightarrow> meets (ret a) Q"
  by (simp add: meets_def ret_run)

lemma meets_liftE [spec_rules]: "Q r [] \<Longrightarrow> meets (liftE r) Q"
  by (simp add: meets_def liftE_def ret_run)

lemma meets_call [spec_rules]: "(\<And>r. Q r [ev r]) \<Longrightarrow> meets (call ev f) Q"
  by (simp add: meets_def call_run)

lemma meets_emit [spec_rules]: "Q () [e] \<Longrightarrow> meets (emit e) Q"
  by (simp add: meets_def emit_def)

lemma meets_observe [spec_rules]: "(\<And>a. Q a []) \<Longrightarrow> meets (observe f) Q"
  by (simp add: meets_def observe_def split: prod.split)

lemma meets_andThen:
  assumes "meets m R" and "\<And>a es. R a es \<Longrightarrow> meets (f a) (\<lambda>b es'. Q b (es @ es'))"
  shows "meets (andThen m f) Q"
proof (rule meetsI)
  fix w
  obtain a es w1 where m: "m w = (a, es, w1)" by (cases "m w")
  obtain b es' w2 where f: "f a w1 = (b, es', w2)" by (cases "f a w1")
  from assms(1) have "R a es" using m by (auto dest: meetsD [of m R w])
  then have "meets (f a) (\<lambda>b es'. Q b (es @ es'))" by (rule assms(2))
  then have "Q b (es @ es')" using f by (auto dest: meetsD [of "f a" _ w1])
  then show "Q (result_of (andThen m f w)) (events_of (andThen m f w))"
    by (simp add: andThen_run [of m w a es w1 f b es' w2, OF m f])
qed

lemma meets_andThen_call [spec_rules]:
  "(\<And>r. meets (f r) (\<lambda>b es. Q b (ev r # es))) \<Longrightarrow> meets (andThen (call ev g) f) Q"
  by (rule meets_andThen [where R = "\<lambda>r es. es = [ev r]"]) (auto intro: spec_rules)

lemma meets_andThen_emit [spec_rules]:
  "meets (f ()) (\<lambda>b es. Q b (e # es)) \<Longrightarrow> meets (andThen (emit e) f) Q"
  by (rule meets_andThen [where R = "\<lambda>r es. es = [e]"]) (auto intro: spec_rules)

lemma meets_andThen_observe [spec_rules]:
  "(\<And>a. meets (f a) Q) \<Longrightarrow> meets (andThen (observe g) f) Q"
  by (rule meets_andThen [where R = "\<lambda>r es. es = []"]) (auto intro: spec_rules)

lemma meets_bindE:
  assumes "meets m R"
    and "\<And>e es. R (Inl e) es \<Longrightarrow> Q (Inl e) es"
    and "\<And>a es. R (Inr a) es \<Longrightarrow> meets (f a) (\<lambda>b es'. Q b (es @ es'))"
  shows "meets (bindE m f) Q"
  unfolding bindE_def
proof (rule meets_andThen [OF assms(1)])
  fix r es
  assume "R r es"
  then show "meets (case r of Inl e \<Rightarrow> ret (Inl e) | Inr a \<Rightarrow> f a) (\<lambda>b es'. Q b (es @ es'))"
    by (cases r) (auto intro!: meets_ret assms(2,3))
qed

lemma meets_bindE_call [spec_rules]:
  assumes "\<And>e. Q (Inl e) [ev (Inl e)]" and "\<And>a. meets (f a) (\<lambda>b es. Q b (ev (Inr a) # es))"
  shows "meets (bindE (call ev g) f) Q"
  by (rule meets_bindE [where R = "\<lambda>r es. es = [ev r]"]) (auto intro: spec_rules assms)

lemma meets_bindE_liftE [spec_rules]:
  assumes "\<And>e. r = Inl e \<Longrightarrow> Q (Inl e) []" and "\<And>a. r = Inr a \<Longrightarrow> meets (f a) Q"
  shows "meets (bindE (liftE r) f) Q"
  using assms by (cases r) (auto simp: liftE_def intro: meets_ret)

text \<open>The same two rules as weakest preconditions, for procedures with no specification of their own.\<close>

lemma meets_andThen_wp:
  "meets m (\<lambda>a es. meets (f a) (\<lambda>b es'. Q b (es @ es'))) \<Longrightarrow> meets (andThen m f) Q"
  by (erule meets_andThen)

lemma meets_bindE_wp:
  "meets m (\<lambda>r es. case r of Inl e \<Rightarrow> Q (Inl e) es | Inr a \<Rightarrow> meets (f a) (\<lambda>b es'. Q b (es @ es'))) \<Longrightarrow>
    meets (bindE m f) Q"
  by (erule meets_bindE) simp_all

lemma meets_if [spec_rules]:
  "(b \<Longrightarrow> meets p Q) \<Longrightarrow> (\<not> b \<Longrightarrow> meets q Q) \<Longrightarrow> meets (if b then p else q) Q"
  by simp

lemma meets_case_sum [spec_rules]:
  "(\<And>e. r = Inl e \<Longrightarrow> meets (f e) Q) \<Longrightarrow> (\<And>a. r = Inr a \<Longrightarrow> meets (g a) Q) \<Longrightarrow>
    meets (case r of Inl e \<Rightarrow> f e | Inr a \<Rightarrow> g a) Q"
  by (cases r) auto

lemma meets_case_option [spec_rules]:
  "(r = None \<Longrightarrow> meets p Q) \<Longrightarrow> (\<And>a. r = Some a \<Longrightarrow> meets (g a) Q) \<Longrightarrow>
    meets (case r of None \<Rightarrow> p | Some a \<Rightarrow> g a) Q"
  by (cases r) auto

lemma meets_case_prod [spec_rules]:
  "(\<And>a b. r = (a, b) \<Longrightarrow> meets (f a b) Q) \<Longrightarrow> meets (case r of (a, b) \<Rightarrow> f a b) Q"
  by (cases r) auto

lemma meets_Let [spec_rules]: "(\<And>x. x = t \<Longrightarrow> meets (f x) Q) \<Longrightarrow> meets (let x = t in f x) Q"
  by simp

text \<open>A loop keeps every trace property that is closed under appending the body's calls.\<close>

lemma meets_forE:
  assumes "\<And>i. i \<in> set is \<Longrightarrow> meets (body i) (\<lambda>r es. P es)" and "P []"
    and "\<And>es es'. P es \<Longrightarrow> P es' \<Longrightarrow> P (es @ es')"
  shows "meets (forE is body) (\<lambda>r es. P es)"
  using assms(1)
proof (induction "is")
  case Nil
  show ?case using assms(2) by (simp add: meets_ret)
next
  case (Cons i "is")
  have body: "meets (body i) (\<lambda>r es. P es)" using Cons.prems by simp
  have rest: "meets (forE is body) (\<lambda>r es. P es)" using Cons by simp
  show ?case
    by (simp, rule meets_bindE [OF body]) (auto intro: meets_mono [OF rest] assms(3))
qed

lemma meets_forCollect:
  assumes "\<And>i. i \<in> set is \<Longrightarrow> meets (body i) (\<lambda>r es. P es)" and "P []"
    and "\<And>es es'. P es \<Longrightarrow> P es' \<Longrightarrow> P (es @ es')"
  shows "meets (forCollect is body) (\<lambda>r es. P es)"
  using assms(1)
proof (induction "is")
  case Nil
  show ?case using assms(2) by (simp add: meets_ret)
next
  case (Cons i "is")
  have body: "meets (body i) (\<lambda>r es. P es)" using Cons.prems by simp
  have rest: "meets (forCollect is body) (\<lambda>r es. P es)" using Cons by simp
  have tail: "meets (andThen (forCollect is body)
      (\<lambda>rest. ret (case e of None \<Rightarrow> rest | Some x \<Rightarrow> x # rest))) (\<lambda>r es. P es)" for e
    by (rule meets_andThen [OF rest]) (auto intro: meets_ret)
  show ?case
    by (simp, rule meets_andThen [OF body]) (auto intro: meets_mono [OF tail] assms(3))
qed

subsection \<open>Trace predicates\<close>

text \<open>
  \<open>guarded p q es\<close>: each call of \<open>es\<close> that satisfies \<open>p\<close> is preceded, in the same run, by
  calls that satisfy \<open>q\<close> as a list. \<open>quiet p es\<close>: no call satisfies \<open>p\<close>.
\<close>

primrec guardedFrom :: "('e \<Rightarrow> bool) \<Rightarrow> ('e list \<Rightarrow> bool) \<Rightarrow> 'e list \<Rightarrow> 'e list \<Rightarrow> bool" where
  "guardedFrom p q past [] \<longleftrightarrow> True"
| "guardedFrom p q past (e # es) \<longleftrightarrow> (p e \<longrightarrow> q past) \<and> guardedFrom p q (past @ [e]) es"

definition guarded :: "('e \<Rightarrow> bool) \<Rightarrow> ('e list \<Rightarrow> bool) \<Rightarrow> 'e list \<Rightarrow> bool" where
  "guarded p q es \<longleftrightarrow> guardedFrom p q [] es"

definition quiet :: "('e \<Rightarrow> bool) \<Rightarrow> 'e list \<Rightarrow> bool" where
  "quiet p es \<longleftrightarrow> list_all (\<lambda>e. \<not> p e) es"

definition some_call :: "('e \<Rightarrow> bool) \<Rightarrow> 'e list \<Rightarrow> bool" where
  "some_call p es \<longleftrightarrow> list_ex p es"

lemma quiet_simps [trace_simps]:
  "quiet p [] \<longleftrightarrow> True" "quiet p (e # es) \<longleftrightarrow> \<not> p e \<and> quiet p es"
  by (simp_all add: quiet_def)

lemma quiet_append [trace_simps]: "quiet p (es @ es') \<longleftrightarrow> quiet p es \<and> quiet p es'"
  by (simp add: quiet_def)

lemma some_call_simps [trace_simps]:
  "some_call p [] \<longleftrightarrow> False" "some_call p (e # es) \<longleftrightarrow> p e \<or> some_call p es"
  by (simp_all add: some_call_def)

lemma some_call_append [trace_simps]:
  "some_call p (es @ es') \<longleftrightarrow> some_call p es \<or> some_call p es'"
  by (simp add: some_call_def)

lemma guarded_simps [trace_simps]:
  "guarded p q es \<longleftrightarrow> guardedFrom p q [] es"
  "guardedFrom p q past [] \<longleftrightarrow> True"
  "guardedFrom p q past (e # es) \<longleftrightarrow> (p e \<longrightarrow> q past) \<and> guardedFrom p q (past @ [e]) es"
  by (simp_all add: guarded_def)

lemma guardedFrom_append [trace_simps]:
  "guardedFrom p q past (es @ es') \<longleftrightarrow> guardedFrom p q past es \<and> guardedFrom p q (past @ es) es'"
  by (induction es arbitrary: past) auto

lemma guardedFrom_iff_nth:
  "guardedFrom p q past es \<longleftrightarrow> (\<forall>i < length es. p (es ! i) \<longrightarrow> q (past @ take i es))"
proof (induction es arbitrary: past)
  case Nil
  then show ?case by simp
next
  case (Cons e es)
  show ?case
    by (simp add: Cons.IH All_less_Suc2)
qed

text \<open>The meaning of \<open>guarded\<close>, call by call.\<close>

lemma guarded_iff_nth: "guarded p q es \<longleftrightarrow> (\<forall>i < length es. p (es ! i) \<longrightarrow> q (take i es))"
  by (simp add: guarded_def guardedFrom_iff_nth)

lemma quiet_guardedFrom: "quiet p es \<Longrightarrow> guardedFrom p q past es"
  by (induction es arbitrary: past) (auto simp: quiet_def)

lemma guardedFrom_past_mono:
  assumes "guardedFrom p q past es" and "\<And>xs. q (past @ xs) \<Longrightarrow> q (past' @ xs)"
  shows "guardedFrom p q past' es"
  using assms by (simp add: guardedFrom_iff_nth)

lemma guardedFrom_quiet_append:
  "quiet p es \<Longrightarrow> guardedFrom p q past (es @ es') \<longleftrightarrow> guardedFrom p q (past @ es) es'"
  by (simp add: guardedFrom_append quiet_guardedFrom)

lemma guardedFrom_met: "(\<And>xs. q (past @ xs)) \<Longrightarrow> guardedFrom p q past es"
  by (simp add: guardedFrom_iff_nth)

lemma guarded_conj: "guarded p (\<lambda>past. q past \<and> q' past) es \<longleftrightarrow> guarded p q es \<and> guarded p q' es"
  by (auto simp: guarded_iff_nth)

text \<open>When the guard only asks for an earlier call of some kind, a trace can be checked piecewise.\<close>

lemma guardedFrom_some_call:
  "guardedFrom p (some_call q) past es \<longleftrightarrow> some_call q past \<or> guardedFrom p (some_call q) [] es"
proof (cases "some_call q past")
  case True
  then show ?thesis by (auto simp: guardedFrom_iff_nth some_call_append)
next
  case False
  then show ?thesis by (simp add: guardedFrom_iff_nth some_call_append)
qed

lemma guarded_append:
  "guarded p (some_call q) (es @ es') \<longleftrightarrow>
    guarded p (some_call q) es \<and> (some_call q es \<or> guarded p (some_call q) es')"
  by (simp add: guarded_def guardedFrom_append guardedFrom_some_call [of p q es])

lemma quiet_guarded: "quiet p es \<Longrightarrow> guarded p q es"
  by (simp add: guarded_def quiet_guardedFrom)

lemma quietI: "list_all P es \<Longrightarrow> (\<And>e. P e \<Longrightarrow> \<not> p e) \<Longrightarrow> quiet p es"
  by (auto simp: quiet_def list_all_iff)

subsection \<open>Finite string maps\<close>

text \<open>
  A Go \<open>map[string]string\<close> is an association list read through \<^const>\<open>map_of\<close>. Every
  operation of the model reads it that way, so the order of the list and shadowed entries are
  never observed. \<open>mapsEqual\<close> is \<open>maps.Equal\<close>: the same keys with the same values.
\<close>

type_synonym strmap = "(string \<times> string) list"

definition mapsEqual :: "('k \<times> 'v) list \<Rightarrow> ('k \<times> 'v) list \<Rightarrow> bool" where
  "mapsEqual m1 m2 \<longleftrightarrow> list_all (\<lambda>(k, _). map_of m1 k = map_of m2 k) (m1 @ m2)"

lemma mapsEqual_iff: "mapsEqual m1 m2 \<longleftrightarrow> map_of m1 = map_of m2"
proof
  assume eq: "mapsEqual m1 m2"
  show "map_of m1 = map_of m2"
  proof
    fix k
    show "map_of m1 k = map_of m2 k"
    proof (cases "k \<in> fst ` set (m1 @ m2)")
      case True
      with eq show ?thesis by (fastforce simp: mapsEqual_def list_all_iff)
    next
      case False
      then have "map_of m1 k = None" and "map_of m2 k = None"
        by (auto simp: map_of_eq_None_iff)
      then show ?thesis by simp
    qed
  qed
qed (simp add: mapsEqual_def list_all_iff split: prod.splits)

lemma mapsEqual_refl [simp]: "mapsEqual m m"
  by (simp add: mapsEqual_iff)

text \<open>\<open>m[k] = v\<close> on such a map.\<close>

definition mapPut :: "'k \<Rightarrow> 'v \<Rightarrow> ('k \<times> 'v) list \<Rightarrow> ('k \<times> 'v) list" where
  "mapPut k v m = (k, v) # m"

lemma map_of_mapPut [simp]: "map_of (mapPut k v m) = (map_of m)(k \<mapsto> v)"
  by (simp add: mapPut_def)

text \<open>Reading an absent key of a Go map gives the zero value; for strings and byte slices, empty.\<close>

definition mapGetOr :: "'v \<Rightarrow> ('k \<times> 'v) list \<Rightarrow> 'k \<Rightarrow> 'v" where
  "mapGetOr z m k = (case map_of m k of None \<Rightarrow> z | Some v \<Rightarrow> v)"

end
