(* ===== verification/GoStrings.thy ===== *)
theory GoStrings
  imports Prelude "HOL-Library.Char_ord" "HOL-Library.List_Lexorder"
begin

section \<open>The Go standard library, as far as the operator uses it\<close>

text \<open>
  A Go string is a sequence of bytes: a \<^typ>\<open>char list\<close> (a \<^typ>\<open>char\<close> is a byte). The
  functions below are those of \<^verbatim>\<open>strings\<close>, \<^verbatim>\<open>strconv\<close>, \<^verbatim>\<open>fmt\<close>, \<^verbatim>\<open>time\<close>,
  \<^verbatim>\<open>encoding/hex\<close> and \<^verbatim>\<open>encoding/base64\<close> that the operator calls. The tables of package
  \<^verbatim>\<open>unicode\<close> for code points above 127 are a parameter.
\<close>

record unicode_tables =
  uc_lower :: "nat \<Rightarrow> nat"
  uc_print :: "nat \<Rightarrow> bool"

subsection \<open>Decimal numbers\<close>

definition digitChar :: "nat \<Rightarrow> char" where
  "digitChar d = char_of (48 + d)"

fun natDigits :: "nat \<Rightarrow> string" where
  "natDigits n = (if n < 10 then [digitChar n] else natDigits (n div 10) @ [digitChar (n mod 10)])"

declare natDigits.simps [simp del]

definition itoa :: "int \<Rightarrow> string" where
  "itoa i = (if i < 0 then ''-'' @ natDigits (nat (- i)) else natDigits (nat i))"

definition digitsVal :: "string \<Rightarrow> nat" where
  "digitsVal = foldl (\<lambda>n c. 10 * n + (of_char c - 48)) 0"

lemma of_char_digitChar: "d < 10 \<Longrightarrow> of_char (digitChar d) = 48 + (d::nat)"
  by (simp add: digitChar_def)

lemma digitsVal_natDigits [simp]: "digitsVal (natDigits n) = n"
proof (induction n rule: natDigits.induct)
  case (1 n)
  show ?case
  proof (cases "n < 10")
    case True
    then show ?thesis by (simp add: natDigits.simps [of n] digitsVal_def of_char_digitChar)
  next
    case False
    then have "foldl (\<lambda>n c. 10 * n + (of_char c - 48)) 0 (natDigits (n div 10)) = n div 10"
      using 1 by (simp add: digitsVal_def)
    with False show ?thesis
      by (simp add: natDigits.simps [of n] digitsVal_def of_char_digitChar)
  qed
qed

lemma natDigits_inject [simp]: "natDigits m = natDigits n \<longleftrightarrow> m = n"
  by (metis digitsVal_natDigits)

lemma natDigits_range: "c \<in> set (natDigits n) \<Longrightarrow> (48::nat) \<le> of_char c \<and> of_char c \<le> (57::nat)"
proof (induction n rule: natDigits.induct)
  case (1 n)
  then show ?case
    by (subst (asm) (2) natDigits.simps) (auto simp: of_char_digitChar split: if_splits)
qed

lemma natDigits_nonempty [simp]: "natDigits n \<noteq> []"
  by (subst natDigits.simps) simp

lemma not_digit_notin_natDigits:
  "\<not> ((48::nat) \<le> of_char c \<and> of_char c \<le> (57::nat)) \<Longrightarrow> c \<notin> set (natDigits n)"
  using natDigits_range by blast

lemma itoa_of_nat [simp]: "itoa (int n) = natDigits n"
  by (simp add: itoa_def)

lemma itoa_inject [simp]: "itoa i = itoa j \<longleftrightarrow> i = j"
proof
  assume eq: "itoa i = itoa j"
  have minus: "CHR ''-'' \<notin> set (natDigits n)" for n
    by (rule not_digit_notin_natDigits) simp
  have "CHR ''-'' \<in> set (itoa k) \<longleftrightarrow> k < 0" for k
    using minus by (simp add: itoa_def)
  with eq have sign: "i < 0 \<longleftrightarrow> j < 0" by metis
  show "i = j"
  proof (cases "i < 0")
    case True
    with sign eq have "nat (- i) = nat (- j)" by (simp add: itoa_def)
    with True sign show ?thesis by simp
  next
    case False
    with sign eq have "nat i = nat j" by (simp add: itoa_def)
    with False sign show ?thesis by simp
  qed
qed simp

subsection \<open>Package strings\<close>

fun strContains :: "string \<Rightarrow> string \<Rightarrow> bool" where
  "strContains [] sub \<longleftrightarrow> sub = []"
| "strContains (c # cs) sub \<longleftrightarrow> prefix sub (c # cs) \<or> strContains cs sub"

lemma strContains_sublist: "strContains s sub \<longleftrightarrow> sublist sub s"
proof (induction s)
  case Nil
  then show ?case by simp
next
  case (Cons c s)
  then show ?case by (simp add: sublist_Cons_right)
qed

definition trimLeft :: "char set \<Rightarrow> string \<Rightarrow> string" where
  "trimLeft cs s = dropWhile (\<lambda>c. c \<in> cs) s"

definition trimRight :: "char set \<Rightarrow> string \<Rightarrow> string" where
  "trimRight cs s = rev (dropWhile (\<lambda>c. c \<in> cs) (rev s))"

definition trimCut :: "string \<Rightarrow> string \<Rightarrow> string" where
  "trimCut s cs = trimRight (set cs) (trimLeft (set cs) s)"

definition trimPrefix :: "string \<Rightarrow> string \<Rightarrow> string" where
  "trimPrefix s p = (if prefix p s then drop (length p) s else s)"

primrec splitOn :: "'a \<Rightarrow> 'a list \<Rightarrow> 'a list list" where
  "splitOn sep [] = [[]]"
| "splitOn sep (c # cs) = (if c = sep then [] # splitOn sep cs
     else (case splitOn sep cs of [] \<Rightarrow> [[c]] | w # ws \<Rightarrow> (c # w) # ws))"

fun strJoin :: "string \<Rightarrow> string list \<Rightarrow> string" where
  "strJoin sep [] = []"
| "strJoin sep [w] = w"
| "strJoin sep (w # ws) = w @ sep @ strJoin sep ws"

text \<open>\<^verbatim>\<open>strings.ReplaceAll(s, old, new)\<close> for a non-empty \<^verbatim>\<open>old\<close>, the only use in the operator.\<close>

function (sequential) replaceAll :: "string \<Rightarrow> string \<Rightarrow> string \<Rightarrow> string" where
  "replaceAll [] old new = []"
| "replaceAll (c # cs) old new =
     (if old \<noteq> [] \<and> prefix old (c # cs) then new @ replaceAll (drop (length old) (c # cs)) old new
      else c # replaceAll cs old new)"
  by pat_completeness auto
termination
  by (relation "measure (\<lambda>(s, _, _). length s)") auto

declare replaceAll.simps(2) [simp del]

lemma splitOn_nonempty [simp]: "splitOn sep cs \<noteq> []"
  by (induction cs) (auto split: list.split)

lemma sep_notin_splitOn: "w \<in> set (splitOn sep cs) \<Longrightarrow> sep \<notin> set w"
proof (induction cs arbitrary: w)
  case Nil
  then show ?case by simp
next
  case (Cons c cs)
  obtain v vs where v: "splitOn sep cs = v # vs"
    by (meson list.exhaust splitOn_nonempty)
  with Cons show ?case by (auto split: if_splits)
qed

text \<open>Cutting at a separator undoes joining with it, when no piece holds the separator.\<close>

lemma splitOn_no_sep: "sep \<notin> set w \<Longrightarrow> splitOn sep w = [w]"
  by (induction w) auto

lemma splitOn_append_sep: "sep \<notin> set w \<Longrightarrow> splitOn sep (w @ sep # cs) = w # splitOn sep cs"
  by (induction w) auto

lemma splitOn_strJoin:
  "ws \<noteq> [] \<Longrightarrow> \<forall>w\<in>set ws. sep \<notin> set w \<Longrightarrow> splitOn sep (strJoin [sep] ws) = ws"
  by (induction "[sep]" ws rule: strJoin.induct) (auto simp: splitOn_no_sep splitOn_append_sep)

lemma strJoin_splitOn: "strJoin [sep] (splitOn sep cs) = cs"
proof (induction cs)
  case Nil
  then show ?case by simp
next
  case (Cons c cs)
  obtain v vs where v: "splitOn sep cs = v # vs"
    by (meson list.exhaust splitOn_nonempty)
  with Cons show ?case by (cases vs) auto
qed

lemma suffix_trimLeft: "suffix (trimLeft cs s) s"
  by (simp add: trimLeft_def suffix_dropWhile)

lemma prefix_trimRight: "prefix (trimRight cs s) s"
  using suffix_dropWhile [of "\<lambda>c. c \<in> cs" "rev s"]
  by (simp add: trimRight_def suffix_to_prefix)

lemma sublist_trimCut: "sublist (trimCut s cs) s"
  unfolding trimCut_def
  by (rule sublist_order.order_trans [OF prefix_imp_sublist [OF prefix_trimRight]
        suffix_imp_sublist [OF suffix_trimLeft]])

lemma set_trimCut: "set (trimCut s cs) \<subseteq> set s"
  by (rule set_mono_sublist [OF sublist_trimCut])

lemma length_trimCut: "length (trimCut s cs) \<le> length s"
  by (rule sublist_length_le [OF sublist_trimCut])

lemma trimRight_last: "trimRight cs s \<noteq> [] \<Longrightarrow> last (trimRight cs s) \<notin> cs"
  using hd_dropWhile [of "\<lambda>c. c \<in> cs" "rev s"] by (simp only: trimRight_def last_rev rev_is_Nil_conv not_False_eq_True True_implies_equals)

lemma trimCut_last: "trimCut s cs \<noteq> [] \<Longrightarrow> last (trimCut s cs) \<notin> set cs"
  by (simp add: trimCut_def trimRight_last)

lemma hd_rev_dropWhile_rev:
  assumes "rev (dropWhile P (rev xs)) \<noteq> []"
  shows "hd (rev (dropWhile P (rev xs))) = hd xs"
proof -
  have "suffix (dropWhile P (rev xs)) (rev xs)" by (rule suffix_dropWhile)
  then obtain ys where "rev xs = ys @ dropWhile P (rev xs)" by (auto simp: suffix_def)
  then have "xs = rev (dropWhile P (rev xs)) @ rev ys" by (metis rev_append rev_rev_ident)
  then show ?thesis using assms by (metis hd_append2)
qed

lemma trimCut_hd:
  assumes "trimCut s cs \<noteq> []"
  shows "hd (trimCut s cs) \<notin> set cs"
proof -
  let ?l = "dropWhile (\<lambda>c. c \<in> set cs) s"
  have ne: "rev (dropWhile (\<lambda>c. c \<in> set cs) (rev ?l)) \<noteq> []"
    using assms by (simp only: trimCut_def trimRight_def trimLeft_def not_False_eq_True)
  then have "?l \<noteq> []" by (metis dropWhile.simps(1) rev.simps(1))
  moreover have "hd (trimCut s cs) = hd ?l"
    unfolding trimCut_def trimRight_def trimLeft_def by (rule hd_rev_dropWhile_rev [OF ne])
  ultimately show ?thesis using hd_dropWhile [of "\<lambda>c. c \<in> set cs" s] by simp
qed

lemma trimCut_id:
  assumes "s \<noteq> []" "hd s \<notin> set cs" "last s \<notin> set cs"
  shows "trimCut s cs = s"
proof -
  have "dropWhile (\<lambda>c. c \<in> set cs) s = s"
    using assms(1,2) by (simp add: dropWhile_eq_self_iff)
  moreover have "dropWhile (\<lambda>c. c \<in> set cs) (rev s) = rev s"
    using assms(1,3) by (simp add: dropWhile_eq_self_iff hd_rev)
  ultimately show ?thesis by (simp add: trimCut_def trimLeft_def trimRight_def)
qed

subsection \<open>Decoding UTF-8: \<^verbatim>\<open>for _, r := range s\<close>\<close>

text \<open>
  Ranging over a string decodes one code point at a time; an invalid byte yields U+FFFD and
  advances by one byte. \<open>decodeRune\<close> returns the code point and its width.
\<close>

definition runeError :: nat where
  "runeError = 65533"

definition contByte :: "nat \<Rightarrow> bool" where
  "contByte b \<longleftrightarrow> 128 \<le> b \<and> b \<le> 191"

fun decode2 :: "nat \<Rightarrow> nat list \<Rightarrow> nat \<times> nat" where
  "decode2 b0 (b1 # _) = (if contByte b1 then ((b0 - 192) * 64 + (b1 - 128), 2) else (runeError, 1))"
| "decode2 b0 _ = (runeError, 1)"

fun decode3 :: "nat \<Rightarrow> nat \<Rightarrow> nat \<Rightarrow> nat list \<Rightarrow> nat \<times> nat" where
  "decode3 lo hi b0 (b1 # b2 # _) = (if lo \<le> b1 \<and> b1 \<le> hi \<and> contByte b2
     then ((b0 - 224) * 4096 + (b1 - 128) * 64 + (b2 - 128), 3) else (runeError, 1))"
| "decode3 lo hi b0 _ = (runeError, 1)"

fun decode4 :: "nat \<Rightarrow> nat \<Rightarrow> nat \<Rightarrow> nat list \<Rightarrow> nat \<times> nat" where
  "decode4 lo hi b0 (b1 # b2 # b3 # _) = (if lo \<le> b1 \<and> b1 \<le> hi \<and> contByte b2 \<and> contByte b3
     then ((b0 - 240) * 262144 + (b1 - 128) * 4096 + (b2 - 128) * 64 + (b3 - 128), 4)
     else (runeError, 1))"
| "decode4 lo hi b0 _ = (runeError, 1)"

definition decodeRune :: "nat \<Rightarrow> nat list \<Rightarrow> nat \<times> nat" where
  "decodeRune b0 bs =
     (if b0 < 128 then (b0, 1)
      else if 194 \<le> b0 \<and> b0 \<le> 223 then decode2 b0 bs
      else if b0 = 224 then decode3 160 191 b0 bs
      else if b0 = 237 then decode3 128 159 b0 bs
      else if 225 \<le> b0 \<and> b0 \<le> 239 then decode3 128 191 b0 bs
      else if b0 = 240 then decode4 144 191 b0 bs
      else if b0 = 244 then decode4 128 143 b0 bs
      else if 241 \<le> b0 \<and> b0 \<le> 243 then decode4 128 191 b0 bs
      else (runeError, 1))"

lemma decode_width:
  "1 \<le> snd (decode2 b0 bs)" "1 \<le> snd (decode3 lo hi b0 bs)" "1 \<le> snd (decode4 lo hi b0 bs)"
proof -
  show "1 \<le> snd (decode2 b0 bs)" by (cases "(b0, bs)" rule: decode2.cases) auto
  show "1 \<le> snd (decode3 lo hi b0 bs)" by (cases "(lo, hi, b0, bs)" rule: decode3.cases) auto
  show "1 \<le> snd (decode4 lo hi b0 bs)" by (cases "(lo, hi, b0, bs)" rule: decode4.cases) auto
qed

lemma decodeRune_width: "1 \<le> snd (decodeRune b0 bs)"
  unfolding decodeRune_def by (simp only: decode_width snd_conv order_refl split: if_split) simp

function (sequential) runesOf :: "nat list \<Rightarrow> nat list" where
  "runesOf [] = []"
| "runesOf (b0 # bs) =
     (case decodeRune b0 bs of (r, width) \<Rightarrow> r # runesOf (drop (width - 1) bs))"
  by pat_completeness auto
termination
  by (relation "measure length") (auto simp: le_imp_less_Suc)

definition runes :: "string \<Rightarrow> nat list" where
  "runes s = runesOf (map of_char s)"

lemma runesOf_ascii: "\<forall>b\<in>set bs. b < 128 \<Longrightarrow> runesOf bs = bs"
  by (induction bs) (auto simp: decodeRune_def)

definition asciiString :: "string \<Rightarrow> bool" where
  "asciiString s \<longleftrightarrow> (\<forall>c\<in>set s. of_char c < (128::nat))"

lemma runes_ascii: "asciiString s \<Longrightarrow> runes s = map of_char s"
  by (simp add: runes_def asciiString_def runesOf_ascii)

text \<open>\<^verbatim>\<open>unicode.ToLower\<close>, the mapping of \<^verbatim>\<open>strings.ToLower\<close>.\<close>

definition toLowerRune :: "unicode_tables \<Rightarrow> nat \<Rightarrow> nat" where
  "toLowerRune uc r = (if 65 \<le> r \<and> r \<le> 90 then r + 32 else if r < 128 then r else uc_lower uc r)"

end
