(* ===== verification/GoFormat.thy ===== *)
theory GoFormat
  imports GoStrings
begin

section \<open>Formatting: hex, base64, quoted strings, durations\<close>

text \<open>
  The formatting functions of the Go standard library whose output ends up in Kubernetes or
  Nomad objects: \<^verbatim>\<open>%x\<close> and \<^verbatim>\<open>hex.EncodeToString\<close>, \<^verbatim>\<open>base64.StdEncoding\<close>, \<^verbatim>\<open>%q\<close>,
  \<^verbatim>\<open>%d\<close>, \<^verbatim>\<open>fmt.Sprint\<close> of an integer slice and \<^verbatim>\<open>time.Duration.String\<close>.
\<close>

type_synonym byte = "8 word"

definition bytesOf :: "string \<Rightarrow> byte list" where
  "bytesOf s = map (\<lambda>c. of_nat (of_char c)) s"

definition stringOf :: "byte list \<Rightarrow> string" where
  "stringOf bs = map (\<lambda>b. char_of (unat b)) bs"

lemma unat_byte: "unat (b :: byte) < 256"
  using unsigned_less [of b] by simp

lemma stringOf_bytesOf [simp]: "stringOf (bytesOf s) = s"
  by (simp add: stringOf_def bytesOf_def o_def unat_of_nat take_bit_nat_eq_self)

subsection \<open>Hexadecimal\<close>

definition hexDigit :: "nat \<Rightarrow> char" where
  "hexDigit d = (if d < 10 then char_of (48 + d) else char_of (87 + d))"

definition hexByte :: "nat \<Rightarrow> string" where
  "hexByte b = [hexDigit (b div 16), hexDigit (b mod 16)]"

definition hexString :: "byte list \<Rightarrow> string" where
  "hexString bs = concat (map (\<lambda>b. hexByte (unat b)) bs)"

definition hexVal :: "char \<Rightarrow> nat" where
  "hexVal c = (let n = of_char c in if n < 58 then n - 48 else n - 87)"

lemma hexVal_hexDigit: "d < 16 \<Longrightarrow> hexVal (hexDigit d) = d"
  by (simp add: hexVal_def hexDigit_def Let_def)

lemma length_hexString [simp]: "length (hexString bs) = 2 * length bs"
  by (induction bs) (simp_all add: hexString_def hexByte_def)

lemma hexDigit_inject: "d < 16 \<Longrightarrow> e < 16 \<Longrightarrow> hexDigit d = hexDigit e \<longleftrightarrow> d = e"
  by (metis hexVal_hexDigit)

lemma hexByte_inject:
  assumes "a < 256" "b < 256" "hexByte a = hexByte b"
  shows "a = b"
proof -
  have "a div 16 = b div 16" "a mod 16 = b mod 16"
    using assms by (simp_all add: hexByte_def hexDigit_inject)
  then show ?thesis by (metis div_mult_mod_eq)
qed

lemma hexString_inject: "hexString as = hexString bs \<Longrightarrow> as = bs"
proof (induction as arbitrary: bs)
  case Nil
  then show ?case by (cases bs) (simp_all add: hexString_def hexByte_def)
next
  case (Cons a as)
  then obtain b bs' where bs: "bs = b # bs'"
    by (cases bs) (simp_all add: hexString_def hexByte_def)
  with Cons.prems have "hexByte (unat a) = hexByte (unat b)" "hexString as = hexString bs'"
    by (simp_all add: hexString_def hexByte_def)
  then have "a = b"
    using hexByte_inject [of "unat a" "unat b"] unat_byte [of a] unat_byte [of b]
    by (simp add: word_unat_eq_iff)
  then show ?case using Cons.IH \<open>hexString as = hexString bs'\<close> bs by simp
qed

subsection \<open>Base64, standard alphabet with padding\<close>

definition b64Char :: "nat \<Rightarrow> char" where
  "b64Char n = (if n < 26 then char_of (65 + n) else if n < 52 then char_of (71 + n)
     else if n < 62 then char_of (n - 4) else if n = 62 then CHR ''+'' else CHR ''/'')"

fun b64Encode :: "nat list \<Rightarrow> string" where
  "b64Encode [] = []"
| "b64Encode [a] = [b64Char (a div 4), b64Char ((a mod 4) * 16), CHR ''='', CHR ''='']"
| "b64Encode [a, b] = [b64Char (a div 4), b64Char ((a mod 4) * 16 + b div 16),
     b64Char ((b mod 16) * 4), CHR ''='']"
| "b64Encode (a # b # c # rest) = b64Char (a div 4) # b64Char ((a mod 4) * 16 + b div 16) #
     b64Char ((b mod 16) * 4 + c div 64) # b64Char (c mod 64) # b64Encode rest"

definition base64String :: "byte list \<Rightarrow> string" where
  "base64String bs = b64Encode (map unat bs)"

definition b64Val :: "char \<Rightarrow> nat" where
  "b64Val c = (let n = of_char c in if n = 43 then 62 else if n = 47 then 63
     else if n < 58 then n + 4 else if n < 91 then n - 65 else n - 71)"

fun b64Decode :: "string \<Rightarrow> nat list option" where
  "b64Decode [] = Some []"
| "b64Decode (p # q # r # s # rest) =
     (if r = CHR ''='' then (if s = CHR ''='' \<and> rest = []
          then Some [b64Val p * 4 + b64Val q div 16] else None)
      else if s = CHR ''='' then (if rest = []
          then Some [b64Val p * 4 + b64Val q div 16, (b64Val q mod 16) * 16 + b64Val r div 4] else None)
      else map_option (\<lambda>bs. (b64Val p * 4 + b64Val q div 16) # ((b64Val q mod 16) * 16 + b64Val r div 4)
          # ((b64Val r mod 4) * 64 + b64Val s) # bs) (b64Decode rest))"
| "b64Decode _ = None"

lemma b64Val_b64Char [simp]: "n < 64 \<Longrightarrow> b64Val (b64Char n) = n"
  by (auto simp: b64Val_def b64Char_def Let_def)

lemma b64Char_not_pad [simp]:
  assumes "n < 64"
  shows "b64Char n \<noteq> CHR ''=''"
proof
  assume pad: "b64Char n = CHR ''=''"
  then have "b64Val (b64Char n) = 0"
    by (simp add: b64Val_def)
  with assms have "n = 0" by simp
  then have "of_char (b64Char n) = (65::nat)" by (simp add: b64Char_def)
  with pad show False by simp
qed

lemma sextet_bounds:
  fixes a b c :: nat
  assumes "a < 256" "b < 256" "c < 256"
  shows "a div 4 < 64" "(a mod 4) * 16 < 64" "(a mod 4) * 16 + b div 16 < 64"
    "(b mod 16) * 4 < 64" "(b mod 16) * 4 + c div 64 < 64" "c mod 64 < 64"
  using assms by simp_all

lemma sextet_parts:
  fixes a b c :: nat
  assumes "a < 256" "b < 256" "c < 256"
  shows "((a mod 4) * 16) div 16 = a mod 4" "((a mod 4) * 16 + b div 16) div 16 = a mod 4"
    "((a mod 4) * 16 + b div 16) mod 16 = b div 16" "((b mod 16) * 4) div 4 = b mod 16"
    "((b mod 16) * 4 + c div 64) div 4 = b mod 16" "((b mod 16) * 4 + c div 64) mod 4 = c div 64"
    "(a div 4) * 4 + a mod 4 = a" "(b div 16) * 16 + b mod 16 = b" "(c div 64) * 64 + c mod 64 = c"
  using assms by simp_all

lemma b64Decode_b64Encode:
  "\<forall>b\<in>set bs. b < 256 \<Longrightarrow> b64Decode (b64Encode bs) = Some bs"
proof (induction bs rule: b64Encode.induct)
  case 1
  then show ?case by simp
next
  case (2 a)
  then have a: "a < 256" by simp
  show ?case using sextet_bounds [OF a a a] sextet_parts [OF a a a] by simp
next
  case (3 a b)
  then have a: "a < 256" and b: "b < 256" by simp_all
  show ?case using sextet_bounds [OF a b b] sextet_parts [OF a b b] by simp
next
  case (4 a b c rest)
  then have a: "a < 256" and b: "b < 256" and c: "c < 256" by simp_all
  show ?case using sextet_bounds [OF a b c] sextet_parts [OF a b c] 4 by simp
qed

lemma length_b64Encode: "length (b64Encode bs) = 4 * ((length bs + 2) div 3)"
proof (induction bs rule: b64Encode.induct)
  case (4 a b c rest)
  have "(length (a # b # c # rest) + 2) div 3 = Suc ((length rest + 2) div 3)" by simp
  with 4 show ?case by simp
qed simp_all

lemma base64_roundtrip: "b64Decode (base64String bs) = Some (map unat bs)"
  unfolding base64String_def
  by (rule b64Decode_b64Encode) (auto simp: unat_byte)

lemma length_base64String: "length (base64String bs) = 4 * ((length bs + 2) div 3)"
  by (simp add: base64String_def length_b64Encode)

subsection \<open>Quoted strings: \<^verbatim>\<open>%q\<close>\<close>

text \<open>
  \<^verbatim>\<open>strconv.Quote\<close> escapes the quote, the backslash and what is not printable. A printable
  code point is copied byte for byte.
\<close>

definition hexDigits :: "nat \<Rightarrow> nat \<Rightarrow> string" where
  "hexDigits k r = map (\<lambda>i. hexDigit ((r div 16 ^ i) mod 16)) (rev [0..<k])"

definition printableRune :: "unicode_tables \<Rightarrow> nat \<Rightarrow> bool" where
  "printableRune uc r \<longleftrightarrow> (if r < 128 then 32 \<le> r \<and> r \<le> 126 else uc_print uc r)"

definition escapeRune :: "unicode_tables \<Rightarrow> nat \<Rightarrow> string \<Rightarrow> string" where
  "escapeRune uc r raw =
     (if r = 34 \<or> r = 92 then [CHR 0x5C, char_of r]
      else if printableRune uc r then raw
      else if r = 7 then [CHR 0x5C, CHR ''a'']
      else if r = 8 then [CHR 0x5C, CHR ''b'']
      else if r = 12 then [CHR 0x5C, CHR ''f'']
      else if r = 10 then [CHR 0x5C, CHR ''n'']
      else if r = 13 then [CHR 0x5C, CHR ''r'']
      else if r = 9 then [CHR 0x5C, CHR ''t'']
      else if r = 11 then [CHR 0x5C, CHR ''v'']
      else if r < 32 \<or> r = 127 then [CHR 0x5C, CHR ''x''] @ hexByte r
      else if r < 65536 then [CHR 0x5C, CHR ''u''] @ hexDigits 4 r
      else [CHR 0x5C, CHR ''U''] @ hexDigits 8 r)"

function (sequential) quoteBody :: "unicode_tables \<Rightarrow> nat list \<Rightarrow> string" where
  "quoteBody uc [] = []"
| "quoteBody uc (b0 # bs) =
     (case decodeRune b0 bs of (r, width) \<Rightarrow>
       (if width = 1 \<and> r = runeError then [CHR 0x5C, CHR ''x''] @ hexByte b0
        else escapeRune uc r (map char_of (take width (b0 # bs)))) @ quoteBody uc (drop (width - 1) bs))"
  by pat_completeness auto
termination
  by (relation "measure (\<lambda>(_, bs). length bs)") (auto simp: le_imp_less_Suc)

definition goQuote :: "unicode_tables \<Rightarrow> string \<Rightarrow> string" where
  "goQuote uc s = [CHR 0x22] @ quoteBody uc (map of_char s) @ [CHR 0x22]"

text \<open>
  Plain text (printable ASCII with neither quote nor backslash) is copied; names, regions and
  datacenters as users write them are of this kind.
\<close>

definition plainText :: "string \<Rightarrow> bool" where
  "plainText s \<longleftrightarrow> (\<forall>c\<in>set s. (32::nat) \<le> of_char c \<and> of_char c \<le> (126::nat)
     \<and> of_char c \<noteq> (34::nat) \<and> of_char c \<noteq> (92::nat))"

lemma quoteBody_plain:
  "\<forall>b\<in>set bs. 32 \<le> b \<and> b \<le> 126 \<and> b \<noteq> 34 \<and> b \<noteq> 92 \<Longrightarrow> quoteBody uc bs = map char_of bs"
  by (induction bs)
    (auto simp: decodeRune_def escapeRune_def printableRune_def runeError_def)

lemma goQuote_plain: "plainText s \<Longrightarrow> goQuote uc s = [CHR 0x22] @ s @ [CHR 0x22]"
  by (simp add: goQuote_def plainText_def quoteBody_plain o_def)

subsection \<open>Durations\<close>

text \<open>
  \<^verbatim>\<open>time.Duration\<close> is a count of nanoseconds in an int64, here an \<^typ>\<open>int\<close>.
\<close>

definition hour :: int where
  "hour = 3600000000000"

definition second :: int where
  "second = 1000000000"

definition fracDigits :: "nat \<Rightarrow> nat \<Rightarrow> string" where
  "fracDigits prec v =
     (let ds = map (\<lambda>i. digitChar ((v div 10 ^ i) mod 10)) (rev [0..<prec]);
          kept = rev (dropWhile (\<lambda>c. c = CHR ''0'') (rev ds))
      in if kept = [] then [] else CHR ''.'' # kept)"

definition durationString :: "int \<Rightarrow> string" where
  "durationString d =
     (let u = nat \<bar>d\<bar>;
          body =
            (if u < 1000000000 then
               (if u = 0 then ''0s''
                else if u < 1000 then natDigits u @ ''ns''
                else if u < 1000000 then natDigits (u div 1000) @ fracDigits 3 u @ [CHR 0xC2, CHR 0xB5, CHR ''s'']
                else natDigits (u div 1000000) @ fracDigits 6 u @ ''ms'')
             else
               (let secs = u div 1000000000; mins = secs div 60; hours = mins div 60 in
                 (if mins > 0 then (if hours > 0 then natDigits hours @ ''h'' else []) @ natDigits (mins mod 60) @ ''m''
                  else []) @
                 natDigits (secs mod 60) @ fracDigits 9 u @ ''s''))
      in if d < 0 then CHR ''-'' # body else body)"

text \<open>\<^verbatim>\<open>fmt.Sprint\<close> of a slice of integers: \<^verbatim>\<open>[4647 4648]\<close>.\<close>

definition sprintInts :: "int list \<Rightarrow> string" where
  "sprintInts is = ''['' @ strJoin '' '' (map itoa is) @ '']''"

end
