(* ===== verification/GoErrors.thy ===== *)
theory GoErrors
  imports GoFormat
begin

section \<open>Error values and their classification (internal/nomad/errors.go)\<close>

text \<open>
  A Go error is a tree: a leaf made by some package, wrapped by \<^verbatim>\<open>fmt.Errorf\<close> with \<^verbatim>\<open>%w\<close>, or
  several joined by \<^verbatim>\<open>errors.Join\<close>. The leaves the operator tells apart are the API server's
  status errors, by their reason, and Nomad's \<^verbatim>\<open>api.UnexpectedResponseError\<close>, by its HTTP
  status and body. \<open>Sentinel\<close> is a package-level \<^verbatim>\<open>errors.New\<close> value compared by identity.
  \<open>GoPanic\<close> is not an error value but the unwinding of the goroutine: no code of the operator
  recovers from it, so it reaches the caller as the outcome of the whole method.
\<close>

datatype kube_reason = ReasonNotFound | ReasonAlreadyExists | ReasonOther string

datatype error =
    ApiStatus kube_reason string
  | UnexpectedResponse int string string
  | Sentinel string
  | PlainError string
  | Wrapped string error string
  | Joined "error list"
  | GoPanic string

fun errorText :: "error \<Rightarrow> string" where
  "errorText (ApiStatus _ msg) = msg"
| "errorText (UnexpectedResponse _ _ text) = text"
| "errorText (Sentinel msg) = msg"
| "errorText (PlainError msg) = msg"
| "errorText (Wrapped pre e post) = pre @ errorText e @ post"
| "errorText (Joined es) = strJoin [CHR 0x0A] (map errorText es)"
| "errorText (GoPanic msg) = msg"

text \<open>The tree in the order \<^verbatim>\<open>errors.Is\<close> and \<^verbatim>\<open>errors.As\<close> visit it.\<close>

fun errorChain :: "error \<Rightarrow> error list" where
  "errorChain (Wrapped pre e post) = Wrapped pre e post # errorChain e"
| "errorChain (Joined es) = Joined es # concat (map errorChain es)"
| "errorChain e = [e]"

definition errorsIs :: "error \<Rightarrow> error \<Rightarrow> bool" where
  "errorsIs e target \<longleftrightarrow> target \<in> set (errorChain e)"

fun asUnexpectedOne :: "error \<Rightarrow> (int \<times> string) option" where
  "asUnexpectedOne (UnexpectedResponse status body _) = Some (status, body)"
| "asUnexpectedOne _ = None"

fun asStatusOne :: "error \<Rightarrow> kube_reason option" where
  "asStatusOne (ApiStatus reason _) = Some reason"
| "asStatusOne _ = None"

primrec firstSome :: "('a \<Rightarrow> 'b option) \<Rightarrow> 'a list \<Rightarrow> 'b option" where
  "firstSome f [] = None"
| "firstSome f (x # xs) = (case f x of Some y \<Rightarrow> Some y | None \<Rightarrow> firstSome f xs)"

definition asUnexpectedResponse :: "error \<Rightarrow> (int \<times> string) option" where
  "asUnexpectedResponse e = firstSome asUnexpectedOne (errorChain e)"

text \<open>\<^verbatim>\<open>apierrors.IsNotFound\<close> and \<^verbatim>\<open>apierrors.IsAlreadyExists\<close> read the first status error.\<close>

definition kubeReason :: "error \<Rightarrow> kube_reason option" where
  "kubeReason e = firstSome asStatusOne (errorChain e)"

definition kubeIsNotFound :: "error \<Rightarrow> bool" where
  "kubeIsNotFound e \<longleftrightarrow> kubeReason e = Some ReasonNotFound"

definition kubeIsAlreadyExists :: "error \<Rightarrow> bool" where
  "kubeIsAlreadyExists e \<longleftrightarrow> kubeReason e = Some ReasonAlreadyExists"

text \<open>\<^verbatim>\<open>errors.Join\<close> of a list with no nil entry: nil when the list is empty.\<close>

definition errorsJoin :: "error list \<Rightarrow> error option" where
  "errorsJoin es = (if es = [] then None else Some (Joined es))"

lemma firstSome_append:
  "firstSome f (xs @ ys) = (case firstSome f xs of Some y \<Rightarrow> Some y | None \<Rightarrow> firstSome f ys)"
  by (induction xs) (auto split: option.splits)

text \<open>Wrapping an error with \<^verbatim>\<open>%w\<close> hides none of its classifications.\<close>

lemma wrapped_class [simp]:
  "asUnexpectedResponse (Wrapped pre e post) = asUnexpectedResponse e"
  "kubeReason (Wrapped pre e post) = kubeReason e"
  "kubeIsNotFound (Wrapped pre e post) = kubeIsNotFound e"
  "kubeIsAlreadyExists (Wrapped pre e post) = kubeIsAlreadyExists e"
  by (simp_all add: asUnexpectedResponse_def kubeReason_def kubeIsNotFound_def kubeIsAlreadyExists_def)

lemma leaf_class [simp]:
  "asUnexpectedResponse (UnexpectedResponse status body text) = Some (status, body)"
  "asUnexpectedResponse (ApiStatus reason msg) = None"
  "asUnexpectedResponse (PlainError msg) = None"
  "asUnexpectedResponse (Sentinel msg) = None"
  "asUnexpectedResponse (GoPanic msg) = None"
  "kubeReason (ApiStatus reason msg) = Some reason"
  "kubeReason (UnexpectedResponse status body text) = None"
  "kubeReason (PlainError msg) = None"
  "kubeReason (Sentinel msg) = None"
  "kubeReason (GoPanic msg) = None"
  by (simp_all add: asUnexpectedResponse_def kubeReason_def)

lemma not_found_not_exists: "kubeIsNotFound e \<Longrightarrow> \<not> kubeIsAlreadyExists e"
  by (simp add: kubeIsNotFound_def kubeIsAlreadyExists_def)

lemma errorsIs_wrapped [simp]:
  "errorsIs (Wrapped pre e post) (Sentinel s) = errorsIs e (Sentinel s)"
  "errorsIs (Sentinel t) (Sentinel s) \<longleftrightarrow> s = t"
  "errorsIs (PlainError t) (Sentinel s) \<longleftrightarrow> False"
  by (auto simp: errorsIs_def)

subsection \<open>Nomad's refusals\<close>

definition aclBootstrapAlreadyDoneText :: string where
  "aclBootstrapAlreadyDoneText = ''ACL bootstrap already done''"

definition nodePoolNotEmptyTexts :: "string list" where
  "nodePoolNotEmptyTexts = [''has nodes in regions'', ''has non-terminal jobs in regions'']"

definition namespaceNotEmptyTexts :: "string list" where
  "namespaceNotEmptyTexts = [''has non-terminal jobs'']"

definition statusBadRequest :: int where
  "statusBadRequest = 400"

definition statusNotFound :: int where
  "statusNotFound = 404"

definition IsACLAlreadyBootstrapped :: "error \<Rightarrow> bool" where
  "IsACLAlreadyBootstrapped err = (case asUnexpectedResponse err of
     None \<Rightarrow> False
   | Some (status, body) \<Rightarrow> status = statusBadRequest \<and> strContains body aclBootstrapAlreadyDoneText)"

definition IsNotFound :: "error \<Rightarrow> bool" where
  "IsNotFound err = (case asUnexpectedResponse err of
     None \<Rightarrow> False | Some (status, _) \<Rightarrow> status = statusNotFound)"

definition IsNodePoolNotEmpty :: "error \<Rightarrow> bool" where
  "IsNodePoolNotEmpty err = (case asUnexpectedResponse err of
     None \<Rightarrow> False | Some (_, body) \<Rightarrow> list_ex (strContains body) nodePoolNotEmptyTexts)"

definition IsNamespaceNotEmpty :: "error \<Rightarrow> bool" where
  "IsNamespaceNotEmpty err = (case asUnexpectedResponse err of
     None \<Rightarrow> False | Some (_, body) \<Rightarrow> list_ex (strContains body) namespaceNotEmptyTexts)"

lemma wrapped_nomad_class [simp]:
  "IsACLAlreadyBootstrapped (Wrapped pre e post) = IsACLAlreadyBootstrapped e"
  "IsNotFound (Wrapped pre e post) = IsNotFound e"
  "IsNodePoolNotEmpty (Wrapped pre e post) = IsNodePoolNotEmpty e"
  "IsNamespaceNotEmpty (Wrapped pre e post) = IsNamespaceNotEmpty e"
  by (simp_all add: IsACLAlreadyBootstrapped_def IsNotFound_def IsNodePoolNotEmpty_def
      IsNamespaceNotEmpty_def)

lemma strContains_trans:
  "strContains s t \<Longrightarrow> strContains t u \<Longrightarrow> strContains s u"
  unfolding strContains_sublist by (rule sublist_order.order_trans)

end
