(* ===== verification/KubeTypes.thy ===== *)
theory KubeTypes
  imports GoErrors
begin

section \<open>Kubernetes object metadata, conditions and the client interface\<close>

text \<open>
  The part of \<^verbatim>\<open>k8s.io/apimachinery\<close> and of controller-runtime's \<^verbatim>\<open>client.Client\<close> that the
  operator relies on. The API server is not modelled: a \<open>store\<close> is a record of arbitrary
  functions on the outside world, one per method of the client. As in controller-runtime, a
  successful \<^verbatim>\<open>Create\<close>, \<^verbatim>\<open>Update\<close> or \<^verbatim>\<open>Status().Update\<close> replaces the object in hand by the one
  the server answered.
\<close>

text \<open>A value of a third-party type that the operator only passes on, in serialised form.\<close>

type_synonym opaque = string

text \<open>Timestamps (\<^verbatim>\<open>metav1.Time\<close>) are integers; a zero \<^verbatim>\<open>DeletionTimestamp\<close> is \<^const>\<open>None\<close>.\<close>

type_synonym timestamp = int

record owner_ref =
  or_kind :: string
  or_name :: string
  or_uid :: string
  or_controller :: bool

record object_meta =
  om_name :: string
  om_namespace :: string
  om_labels :: strmap
  om_annotations :: strmap
  om_generation :: int
  om_resourceVersion :: string
  om_deletionTimestamp :: "timestamp option"
  om_finalizers :: "string list"
  om_ownerReferences :: "owner_ref list"

definition newMeta :: "string \<Rightarrow> string \<Rightarrow> strmap \<Rightarrow> object_meta" where
  "newMeta name ns labels =
     \<lparr>om_name = name, om_namespace = ns, om_labels = labels, om_annotations = [],
      om_generation = 0, om_resourceVersion = [], om_deletionTimestamp = None,
      om_finalizers = [], om_ownerReferences = []\<rparr>"

record namespaced_name =
  nn_namespace :: string
  nn_name :: string

definition objectKey :: "string \<Rightarrow> string \<Rightarrow> namespaced_name" where
  "objectKey ns name = \<lparr>nn_namespace = ns, nn_name = name\<rparr>"

lemma objectKey_simps [simp]:
  "nn_namespace (objectKey ns name) = ns" "nn_name (objectKey ns name) = name"
  "objectKey ns name = objectKey ns' name' \<longleftrightarrow> ns = ns' \<and> name = name'"
  by (simp_all add: objectKey_def)

datatype condition_status = ConditionTrue | ConditionFalse | ConditionUnknown

record condition =
  cn_type :: string
  cn_status :: condition_status
  cn_reason :: string
  cn_message :: string
  cn_observedGeneration :: int
  cn_lastTransitionTime :: timestamp

text \<open>\<^verbatim>\<open>ctrl.Result\<close>: the delay in nanoseconds after which the key is queued again, 0 for none.\<close>

record reconcile_result =
  rr_requeueAfter :: int

definition noRequeue :: reconcile_result where
  "noRequeue = \<lparr>rr_requeueAfter = 0\<rparr>"

definition requeueAfter :: "int \<Rightarrow> reconcile_result" where
  "requeueAfter d = \<lparr>rr_requeueAfter = d\<rparr>"

subsection \<open>Calls on one kind of object\<close>

text \<open>List options: the namespace (none for a cluster-wide list) and the labels to match.\<close>

record list_options =
  lo_namespace :: "string option"
  lo_labels :: strmap

definition inNamespace :: "string \<Rightarrow> list_options" where
  "inNamespace ns = \<lparr>lo_namespace = Some ns, lo_labels = []\<rparr>"

definition inNamespaceMatching :: "string \<Rightarrow> strmap \<Rightarrow> list_options" where
  "inNamespaceMatching ns labels = \<lparr>lo_namespace = Some ns, lo_labels = labels\<rparr>"

definition everywhere :: list_options where
  "everywhere = \<lparr>lo_namespace = None, lo_labels = []\<rparr>"

record ('w, 'o) store =
  st_get :: "namespaced_name \<Rightarrow> 'w \<Rightarrow> (error + 'o) \<times> 'w"
  st_list :: "list_options \<Rightarrow> 'w \<Rightarrow> (error + 'o list) \<times> 'w"
  st_create :: "'o \<Rightarrow> 'w \<Rightarrow> (error + 'o) \<times> 'w"
  st_update :: "'o \<Rightarrow> 'w \<Rightarrow> (error + 'o) \<times> 'w"
  st_updateStatus :: "'o \<Rightarrow> 'w \<Rightarrow> (error + 'o) \<times> 'w"
  st_delete :: "'o \<Rightarrow> 'w \<Rightarrow> (error + unit) \<times> 'w"

text \<open>A recorded call: its argument and the answer it got.\<close>

datatype 'o store_call =
    SGet namespaced_name "error + 'o"
  | SList list_options "error + 'o list"
  | SCreate 'o "error + 'o"
  | SUpdate 'o "error + 'o"
  | SUpdateStatus 'o "error + 'o"
  | SDelete 'o "error + unit"

fun isWrite :: "'o store_call \<Rightarrow> bool" where
  "isWrite (SGet _ _) = False"
| "isWrite (SList _ _) = False"
| "isWrite _ = True"

subsection \<open>Helpers of controller-runtime taken as parameters\<close>

text \<open>
  \<^verbatim>\<open>controllerutil\<close> and \<^verbatim>\<open>equality.Semantic\<close> are third-party: \<open>toolkit\<close> carries the functions the
  operator calls. \<open>toolkit_laws\<close> states what their documentation promises.
\<close>

record toolkit =
  tk_containsFinalizer :: "object_meta \<Rightarrow> string \<Rightarrow> bool"
  tk_addFinalizer :: "object_meta \<Rightarrow> string \<Rightarrow> object_meta"
  tk_removeFinalizer :: "object_meta \<Rightarrow> string \<Rightarrow> object_meta"
  tk_setControllerReference :: "object_meta \<Rightarrow> object_meta \<Rightarrow> error + object_meta"
  tk_ownerRefsEqual :: "owner_ref list \<Rightarrow> owner_ref list \<Rightarrow> bool"
  tk_unicode :: unicode_tables

definition toolkit_laws :: "toolkit \<Rightarrow> bool" where
  "toolkit_laws tk \<longleftrightarrow>
     (\<forall>m f. tk_containsFinalizer tk m f \<longleftrightarrow> f \<in> set (om_finalizers m)) \<and>
     (\<forall>m f. f \<in> set (om_finalizers (tk_addFinalizer tk m f))) \<and>
     (\<forall>m f. f \<notin> set (om_finalizers (tk_removeFinalizer tk m f))) \<and>
     (\<forall>a b. tk_ownerRefsEqual tk a b \<longleftrightarrow> a = b) \<and>
     (\<forall>owner m m'. tk_setControllerReference tk owner m = Inr m' \<longrightarrow>
        m' = m\<lparr>om_ownerReferences := om_ownerReferences m'\<rparr>)"

text \<open>An implementation that satisfies the documented behaviour.\<close>

definition sampleToolkit :: toolkit where
  "sampleToolkit =
     \<lparr>tk_containsFinalizer = (\<lambda>m f. f \<in> set (om_finalizers m)),
      tk_addFinalizer = (\<lambda>m f. if f \<in> set (om_finalizers m) then m
                               else m\<lparr>om_finalizers := om_finalizers m @ [f]\<rparr>),
      tk_removeFinalizer = (\<lambda>m f. m\<lparr>om_finalizers := filter (\<lambda>g. g \<noteq> f) (om_finalizers m)\<rparr>),
      tk_setControllerReference = (\<lambda>owner m. Inr (m\<lparr>om_ownerReferences :=
          [\<lparr>or_kind = ''NomadCluster'', or_name = om_name owner, or_uid = [], or_controller = True\<rparr>]\<rparr>)),
      tk_ownerRefsEqual = (\<lambda>a b. a = b),
      tk_unicode = \<lparr>uc_lower = (\<lambda>r. r), uc_print = (\<lambda>_. True)\<rparr>\<rparr>"

lemma sampleToolkit_laws: "toolkit_laws sampleToolkit"
  by (auto simp: toolkit_laws_def sampleToolkit_def)

lemma toolkit_lawsD:
  assumes "toolkit_laws tk"
  shows "tk_containsFinalizer tk m f \<longleftrightarrow> f \<in> set (om_finalizers m)"
    and "f \<in> set (om_finalizers (tk_addFinalizer tk m f))"
    and "f \<notin> set (om_finalizers (tk_removeFinalizer tk m f))"
    and "tk_ownerRefsEqual tk a b \<longleftrightarrow> a = b"
    and "tk_setControllerReference tk owner m = Inr m' \<Longrightarrow>
      m' = m\<lparr>om_ownerReferences := om_ownerReferences m'\<rparr>"
proof -
  note laws = assms [unfolded toolkit_laws_def]
  show "tk_containsFinalizer tk m f \<longleftrightarrow> f \<in> set (om_finalizers m)"
    by (rule laws [THEN conjunct1, rule_format])
  show "f \<in> set (om_finalizers (tk_addFinalizer tk m f))"
    by (rule laws [THEN conjunct2, THEN conjunct1, rule_format])
  show "f \<notin> set (om_finalizers (tk_removeFinalizer tk m f))"
    by (rule laws [THEN conjunct2, THEN conjunct2, THEN conjunct1, rule_format])
  show "tk_ownerRefsEqual tk a b \<longleftrightarrow> a = b"
    by (rule laws [THEN conjunct2, THEN conjunct2, THEN conjunct2, THEN conjunct1, rule_format])
  show "tk_setControllerReference tk owner m = Inr m' \<Longrightarrow>
      m' = m\<lparr>om_ownerReferences := om_ownerReferences m'\<rparr>"
    by (rule laws [THEN conjunct2, THEN conjunct2, THEN conjunct2, THEN conjunct2, rule_format])
qed

lemma setControllerReference_keeps:
  assumes "toolkit_laws tk" "tk_setControllerReference tk owner m = Inr m'"
  shows "om_finalizers m' = om_finalizers m" "om_name m' = om_name m" "om_namespace m' = om_namespace m"
proof -
  note eq = toolkit_lawsD(5) [OF assms]
  show "om_finalizers m' = om_finalizers m" using arg_cong [OF eq, of om_finalizers] by simp
  show "om_name m' = om_name m" using arg_cong [OF eq, of om_name] by simp
  show "om_namespace m' = om_namespace m" using arg_cong [OF eq, of om_namespace] by simp
qed

end
