(* ===== verification/ApiTypes.thy ===== *)
theory ApiTypes
  imports KubeTypes
begin

section \<open>The custom resources (api/v1alpha1)\<close>

text \<open>
  The Go structs of the five custom resources as records, and the admission rules their
  kubebuilder markers state as bool-valued functions. A pointer field is an \<open>option\<close>. The
  embedded \<^verbatim>\<open>clusterRef\<close> structs hold one name and are that name. No 32-bit arithmetic is
  done on the int32 and int64 fields, so they are integers.
\<close>

subsection \<open>Phases, condition types and reasons\<close>

definition PhasePending :: string where "PhasePending = ''Pending''"
definition PhaseBootstrapping :: string where "PhaseBootstrapping = ''Bootstrapping''"
definition PhaseReady :: string where "PhaseReady = ''Ready''"
definition PhaseDegraded :: string where "PhaseDegraded = ''Degraded''"

lemmas phase_defs = PhasePending_def PhaseBootstrapping_def PhaseReady_def PhaseDegraded_def

lemma phases_distinct [simp]:
  "distinct [PhasePending, PhaseBootstrapping, PhaseReady, PhaseDegraded, []]"
  by (simp add: phase_defs)

lemma phase_neqs [simp]:
  "PhasePending \<noteq> PhaseBootstrapping" "PhasePending \<noteq> PhaseReady" "PhasePending \<noteq> PhaseDegraded"
  "PhaseBootstrapping \<noteq> PhasePending" "PhaseBootstrapping \<noteq> PhaseReady"
  "PhaseBootstrapping \<noteq> PhaseDegraded" "PhaseReady \<noteq> PhasePending"
  "PhaseReady \<noteq> PhaseBootstrapping" "PhaseReady \<noteq> PhaseDegraded" "PhaseDegraded \<noteq> PhasePending"
  "PhaseDegraded \<noteq> PhaseBootstrapping" "PhaseDegraded \<noteq> PhaseReady" "PhasePending \<noteq> []"
  "PhaseBootstrapping \<noteq> []" "PhaseReady \<noteq> []" "PhaseDegraded \<noteq> []"
  by (simp_all add: phase_defs)

definition CondReconciled :: string where "CondReconciled = ''Reconciled''"
definition CondExternalAccessReady :: string where "CondExternalAccessReady = ''ExternalAccessReady''"
definition CondQuorumHealthy :: string where "CondQuorumHealthy = ''QuorumHealthy''"
definition CondACLBootstrapped :: string where "CondACLBootstrapped = ''ACLBootstrapped''"
definition CondReady :: string where "CondReady = ''Ready''"
definition CondRaftAddressDrift :: string where "CondRaftAddressDrift = ''RaftAddressDrift''"

lemmas cluster_condition_defs = CondReconciled_def CondExternalAccessReady_def CondQuorumHealthy_def
  CondACLBootstrapped_def CondReady_def CondRaftAddressDrift_def

definition NomadNodeCondReconciled :: string where "NomadNodeCondReconciled = ''Reconciled''"
definition NomadNodeCondDrainSpecPendingRestart :: string where
  "NomadNodeCondDrainSpecPendingRestart = ''DrainSpecPendingRestart''"
definition ReasonClusterNotReady :: string where "ReasonClusterNotReady = ''ClusterNotReady''"
definition ReasonDuplicateNodeName :: string where "ReasonDuplicateNodeName = ''DuplicateNodeName''"
definition ReasonReconciled :: string where "ReasonReconciled = ''Reconciled''"
definition ReasonDrainSpecEdited :: string where "ReasonDrainSpecEdited = ''DrainSpecEdited''"
definition ReasonDrainSpecInSync :: string where "ReasonDrainSpecInSync = ''DrainSpecInSync''"

definition NomadPoolCondReady :: string where "NomadPoolCondReady = ''Ready''"
definition NomadPoolCondDeleteBlocked :: string where "NomadPoolCondDeleteBlocked = ''DeleteBlocked''"
definition ReasonRegistered :: string where "ReasonRegistered = ''Registered''"
definition ReasonClusterNotFound :: string where "ReasonClusterNotFound = ''ClusterNotFound''"
definition ReasonPoolNameConflict :: string where "ReasonPoolNameConflict = ''PoolNameConflict''"
definition ReasonBuiltinPool :: string where "ReasonBuiltinPool = ''BuiltinPool''"
definition ReasonPoolNotEmpty :: string where "ReasonPoolNotEmpty = ''PoolNotEmpty''"
definition ReasonDeleteFailed :: string where "ReasonDeleteFailed = ''DeleteFailed''"

definition NomadNamespaceCondReady :: string where "NomadNamespaceCondReady = ''Ready''"
definition NomadNamespaceCondDeleteBlocked :: string where
  "NomadNamespaceCondDeleteBlocked = ''DeleteBlocked''"
definition ReasonNamespaceNameConflict :: string where
  "ReasonNamespaceNameConflict = ''NamespaceNameConflict''"
definition ReasonReservedNamespace :: string where "ReasonReservedNamespace = ''ReservedNamespace''"
definition ReasonNamespaceNotEmpty :: string where "ReasonNamespaceNotEmpty = ''NamespaceNotEmpty''"

definition NomadJobCondReady :: string where "NomadJobCondReady = ''Ready''"
definition NomadJobCondDeleteBlocked :: string where "NomadJobCondDeleteBlocked = ''DeleteBlocked''"
definition ReasonInvalidJobSpec :: string where "ReasonInvalidJobSpec = ''InvalidJobSpec''"
definition ReasonJobIDMismatch :: string where "ReasonJobIDMismatch = ''JobIDMismatch''"
definition ReasonNamespaceMismatch :: string where "ReasonNamespaceMismatch = ''NamespaceMismatch''"
definition ReasonDeregisterFailed :: string where "ReasonDeregisterFailed = ''DeregisterFailed''"

lemmas reason_defs = ReasonClusterNotReady_def ReasonDuplicateNodeName_def ReasonReconciled_def
  ReasonDrainSpecEdited_def ReasonDrainSpecInSync_def ReasonRegistered_def ReasonClusterNotFound_def
  ReasonPoolNameConflict_def ReasonBuiltinPool_def ReasonPoolNotEmpty_def ReasonDeleteFailed_def
  ReasonNamespaceNameConflict_def ReasonReservedNamespace_def ReasonNamespaceNotEmpty_def
  ReasonInvalidJobSpec_def ReasonJobIDMismatch_def ReasonNamespaceMismatch_def
  ReasonDeregisterFailed_def

lemmas condition_type_defs = NomadNodeCondReconciled_def NomadNodeCondDrainSpecPendingRestart_def
  NomadPoolCondReady_def NomadPoolCondDeleteBlocked_def NomadNamespaceCondReady_def
  NomadNamespaceCondDeleteBlocked_def NomadJobCondReady_def NomadJobCondDeleteBlocked_def

lemma condition_types_distinct [simp]:
  "NomadPoolCondReady \<noteq> NomadPoolCondDeleteBlocked" "NomadPoolCondDeleteBlocked \<noteq> NomadPoolCondReady"
  "NomadNamespaceCondReady \<noteq> NomadNamespaceCondDeleteBlocked"
  "NomadNamespaceCondDeleteBlocked \<noteq> NomadNamespaceCondReady"
  "NomadJobCondReady \<noteq> NomadJobCondDeleteBlocked" "NomadJobCondDeleteBlocked \<noteq> NomadJobCondReady"
  "NomadNodeCondReconciled \<noteq> NomadNodeCondDrainSpecPendingRestart"
  "NomadNodeCondDrainSpecPendingRestart \<noteq> NomadNodeCondReconciled"
  by (simp_all add: condition_type_defs)

subsection \<open>NomadCluster\<close>

definition GatewayModeManaged :: string where "GatewayModeManaged = ''Managed''"
definition GatewayModeExisting :: string where "GatewayModeExisting = ''Existing''"
definition ExternalAccessGateway :: string where "ExternalAccessGateway = ''Gateway''"
definition ExternalAccessLoadBalancer :: string where "ExternalAccessLoadBalancer = ''LoadBalancer''"

lemmas mode_defs = GatewayModeManaged_def GatewayModeExisting_def ExternalAccessGateway_def
  ExternalAccessLoadBalancer_def

lemma modes_distinct [simp]:
  "GatewayModeManaged \<noteq> GatewayModeExisting" "GatewayModeExisting \<noteq> GatewayModeManaged"
  "ExternalAccessGateway \<noteq> ExternalAccessLoadBalancer"
  "ExternalAccessLoadBalancer \<noteq> ExternalAccessGateway"
  by (simp_all add: mode_defs)

record storage_spec =
  ss_size :: string
  ss_storageClassName :: string

record tls_spec =
  ts_certSecretRef :: string

record gateway_ref =
  gr_name :: string
  gr_namespace :: string

record gateway_spec =
  gs_mode :: string
  gs_className :: string
  gs_ref :: "gateway_ref option"
  gs_rpcPorts :: "int list"
  gs_httpHostname :: string

record load_balancer_spec =
  lb_loadBalancerClass :: string
  lb_annotations :: strmap

record external_access_spec =
  ea_mode :: string
  ea_gateway :: "gateway_spec option"
  ea_loadBalancer :: "load_balancer_spec option"

record nomad_cluster_spec =
  cs_image :: string
  cs_servers :: int
  cs_region :: string
  cs_datacenters :: "string list"
  cs_nodeGCThreshold :: "int option"
  cs_storage :: storage_spec
  cs_tls :: tls_spec
  cs_externalAccess :: external_access_spec
  cs_resources :: opaque

record member_status =
  ms_name :: string
  ms_addr :: string
  ms_status :: string
  ms_leader :: bool
  ms_voter :: bool

record nomad_cluster_status =
  ct_phase :: string
  ct_conditions :: "condition list"
  ct_observedGeneration :: int
  ct_externalAddress :: string
  ct_members :: "member_status list"
  ct_leader :: string
  ct_quorum :: string
  ct_endpoint :: string
  ct_bootstrapTokenSecretRef :: string
  ct_gossipKeySecretRef :: string

record nomad_cluster =
  nc_meta :: object_meta
  nc_spec :: nomad_cluster_spec
  nc_status :: nomad_cluster_status

definition emptyClusterStatus :: nomad_cluster_status where
  "emptyClusterStatus = \<lparr>ct_phase = [], ct_conditions = [], ct_observedGeneration = 0,
     ct_externalAddress = [], ct_members = [], ct_leader = [], ct_quorum = [], ct_endpoint = [],
     ct_bootstrapTokenSecretRef = [], ct_gossipKeySecretRef = []\<rparr>"

abbreviation nc_name :: "nomad_cluster \<Rightarrow> string" where "nc_name nc \<equiv> om_name (nc_meta nc)"
abbreviation nc_namespace :: "nomad_cluster \<Rightarrow> string" where "nc_namespace nc \<equiv> om_namespace (nc_meta nc)"
abbreviation nc_phase :: "nomad_cluster \<Rightarrow> string" where "nc_phase nc \<equiv> ct_phase (nc_status nc)"
abbreviation nc_servers :: "nomad_cluster \<Rightarrow> int" where "nc_servers nc \<equiv> cs_servers (nc_spec nc)"
abbreviation nc_access :: "nomad_cluster \<Rightarrow> external_access_spec" where
  "nc_access nc \<equiv> cs_externalAccess (nc_spec nc)"

text \<open>
  The admission rules of the schema: enums, required lists and the CEL rules of one object. A
  presence test \<^verbatim>\<open>has(self.f)\<close> on a pointer field is \<open>f \<noteq> None\<close>; on the plain string
  \<^verbatim>\<open>className\<close> it does not survive decoding (an explicit empty string is present), so that rule
  is left out and the model admits more objects than the server does.
\<close>

definition admittedGateway :: "gateway_spec \<Rightarrow> bool" where
  "admittedGateway g \<longleftrightarrow>
     gs_mode g \<in> {GatewayModeManaged, GatewayModeExisting} \<and>
     (gs_mode g \<noteq> GatewayModeExisting \<or> gs_ref g \<noteq> None) \<and>
     1 \<le> length (gs_rpcPorts g)"

definition admittedExternalAccess :: "external_access_spec \<Rightarrow> bool" where
  "admittedExternalAccess ea \<longleftrightarrow>
     ea_mode ea \<in> {ExternalAccessGateway, ExternalAccessLoadBalancer} \<and>
     (ea_mode ea \<noteq> ExternalAccessGateway \<or> ea_gateway ea \<noteq> None) \<and>
     (ea_mode ea \<noteq> ExternalAccessLoadBalancer \<or> ea_gateway ea = None) \<and>
     (ea_mode ea \<noteq> ExternalAccessGateway \<or> ea_loadBalancer ea = None) \<and>
     (case ea_gateway ea of None \<Rightarrow> True | Some g \<Rightarrow> admittedGateway g)"

definition admittedCluster :: "nomad_cluster_spec \<Rightarrow> bool" where
  "admittedCluster s \<longleftrightarrow>
     cs_servers s \<in> {1, 3, 5} \<and>
     admittedExternalAccess (cs_externalAccess s) \<and>
     (ea_mode (cs_externalAccess s) \<noteq> ExternalAccessGateway \<or>
       (case ea_gateway (cs_externalAccess s) of
          None \<Rightarrow> True | Some g \<Rightarrow> int (length (gs_rpcPorts g)) = cs_servers s)) \<and>
     (ea_mode (cs_externalAccess s) \<noteq> ExternalAccessLoadBalancer \<or> cs_servers s = 1)"

lemma admittedCluster_gateway:
  assumes "admittedCluster s" "ea_mode (cs_externalAccess s) = ExternalAccessGateway"
  obtains g where "ea_gateway (cs_externalAccess s) = Some g" "admittedGateway g"
    "int (length (gs_rpcPorts g)) = cs_servers s"
  using assms by (auto simp: admittedCluster_def admittedExternalAccess_def)

subsection \<open>NomadNode\<close>

record node_drain_spec =
  nd_deadline :: "int option"
  nd_ignoreSystemJobs :: bool

record nomad_node_spec =
  no_clusterRef :: string
  no_nodeName :: string
  no_eligible :: bool
  no_drain :: "node_drain_spec option"

record last_drain_status =
  ld_status :: string
  ld_startedAt :: timestamp
  ld_updatedAt :: timestamp

record nomad_node_status =
  nt_nodeID :: string
  nt_status :: string
  nt_schedulingEligibility :: string
  nt_draining :: bool
  nt_drainObservedGeneration :: int
  nt_lastDrain :: "last_drain_status option"
  nt_nodeClass :: string
  nt_nodePool :: string
  nt_datacenter :: string
  nt_observedGeneration :: int
  nt_conditions :: "condition list"

record nomad_node =
  no_meta :: object_meta
  no_spec :: nomad_node_spec
  no_status :: nomad_node_status

definition emptyNodeStatus :: nomad_node_status where
  "emptyNodeStatus = \<lparr>nt_nodeID = [], nt_status = [], nt_schedulingEligibility = [],
     nt_draining = False, nt_drainObservedGeneration = 0, nt_lastDrain = None, nt_nodeClass = [],
     nt_nodePool = [], nt_datacenter = [], nt_observedGeneration = 0, nt_conditions = []\<rparr>"

abbreviation no_name :: "nomad_node \<Rightarrow> string" where "no_name nn \<equiv> om_name (no_meta nn)"
abbreviation no_generation :: "nomad_node \<Rightarrow> int" where "no_generation nn \<equiv> om_generation (no_meta nn)"

subsection \<open>NomadPool\<close>

record nomad_pool_spec =
  ps_clusterRef :: string
  ps_poolName :: string
  ps_description :: string
  ps_meta :: strmap

record nomad_pool_status =
  pt_nodeCount :: int
  pt_jobCount :: int
  pt_observedGeneration :: int
  pt_conditions :: "condition list"

record nomad_pool =
  np_meta :: object_meta
  np_spec :: nomad_pool_spec
  np_status :: nomad_pool_status

definition nameChars :: "string \<Rightarrow> bool" where
  "nameChars s \<longleftrightarrow> list_all (\<lambda>c. let n = of_char c :: nat in
     (97 \<le> n \<and> n \<le> 122) \<or> (65 \<le> n \<and> n \<le> 90) \<or> (48 \<le> n \<and> n \<le> 57) \<or> c = CHR ''-'' \<or> c = CHR ''_'') s"

definition admittedPool :: "nomad_pool_spec \<Rightarrow> bool" where
  "admittedPool s \<longleftrightarrow> nameChars (ps_poolName s) \<and> 1 \<le> length (ps_poolName s) \<and>
     length (ps_poolName s) \<le> 128 \<and> ps_poolName s \<noteq> ''default'' \<and> ps_poolName s \<noteq> ''all''"

subsection \<open>NomadNamespace\<close>

record nomad_namespace_spec =
  ns_clusterRef :: string
  ns_namespaceName :: string
  ns_description :: string
  ns_meta :: strmap

record nomad_namespace_status =
  nst_jobCount :: int
  nst_observedGeneration :: int
  nst_conditions :: "condition list"

record nomad_namespace =
  nns_meta :: object_meta
  nns_spec :: nomad_namespace_spec
  nns_status :: nomad_namespace_status

definition admittedNamespace :: "nomad_namespace_spec \<Rightarrow> bool" where
  "admittedNamespace s \<longleftrightarrow> nameChars (ns_namespaceName s) \<and> 1 \<le> length (ns_namespaceName s) \<and>
     length (ns_namespaceName s) \<le> 128 \<and> ns_namespaceName s \<noteq> ''default''"

subsection \<open>NomadJob\<close>

text \<open>\<^verbatim>\<open>spec.job\<close> is a \<^verbatim>\<open>runtime.RawExtension\<close>: the JSON bytes as the user wrote them.\<close>

record nomad_job_spec =
  js_clusterRef :: string
  js_jobID :: string
  js_nomadNamespace :: string
  js_job :: string

record nomad_job_group_status =
  jg_running :: int
  jg_desired :: int

record nomad_job_status =
  jt_jobStatus :: string
  jt_jobVersion :: int
  jt_groups :: "(string \<times> nomad_job_group_status) list"
  jt_observedGeneration :: int
  jt_conditions :: "condition list"

record nomad_job =
  nj_meta :: object_meta
  nj_spec :: nomad_job_spec
  nj_status :: nomad_job_status

definition admittedJob :: "nomad_job_spec \<Rightarrow> bool" where
  "admittedJob s \<longleftrightarrow>
     list_all (\<lambda>c. nameChars [c] \<or> c = CHR ''.'') (js_jobID s) \<and>
     1 \<le> length (js_jobID s) \<and> length (js_jobID s) \<le> 128 \<and>
     nameChars (js_nomadNamespace s) \<and> 1 \<le> length (js_nomadNamespace s) \<and>
     length (js_nomadNamespace s) \<le> 128"

end
