(* ===== verification/NomadClient.thy ===== *)
theory NomadClient
  imports ApiTypes
begin

section \<open>The Nomad client (internal/nomad)\<close>

text \<open>
  Package \<^verbatim>\<open>internal/nomad\<close> wraps \<^verbatim>\<open>github.com/hashicorp/nomad/api\<close>. The wrapped library and the
  Nomad server are parameters: \<open>nomad_api\<close> has one function of the outside world per endpoint
  the client uses. The records below are the fields of the library's structs that the operator
  reads or writes; what it only carries along is an opaque rest.
\<close>

subsection \<open>The library's types and wire values\<close>

definition NodeStatusDown :: string where "NodeStatusDown = ''down''"
definition NodeSchedulingEligible :: string where "NodeSchedulingEligible = ''eligible''"
definition NodeSchedulingIneligible :: string where "NodeSchedulingIneligible = ''ineligible''"
definition DrainStatusComplete :: string where "DrainStatusComplete = ''complete''"
definition NodePoolDefault :: string where "NodePoolDefault = ''default''"
definition NodePoolAll :: string where "NodePoolAll = ''all''"

lemma eligibility_distinct [simp]:
  "NodeSchedulingEligible \<noteq> NodeSchedulingIneligible"
  "NodeSchedulingIneligible \<noteq> NodeSchedulingEligible"
  by (simp_all add: NodeSchedulingEligible_def NodeSchedulingIneligible_def)

record drain_spec =
  ds_deadline :: int
  ds_ignoreSystemJobs :: bool

record drain_metadata =
  dm_status :: string
  dm_startedAt :: timestamp
  dm_updatedAt :: timestamp

record node_stub =
  stub_ID :: string
  stub_Name :: string
  stub_Status :: string
  stub_CreateIndex :: nat
  stub_SchedulingEligibility :: string
  stub_Drain :: bool
  stub_LastDrain :: "drain_metadata option"
  stub_NodeClass :: string
  stub_NodePool :: string
  stub_Datacenter :: string

record api_node =
  an_ID :: string
  an_DrainStrategy :: "drain_spec option"

record node_pool =
  pool_Name :: string
  pool_Description :: string
  pool_Meta :: strmap
  pool_rest :: opaque

record api_namespace =
  ans_Name :: string
  ans_Description :: string
  ans_Meta :: strmap
  ans_rest :: opaque

record task_group =
  tg_Name :: "string option"
  tg_Count :: "int option"

record api_job =
  aj_ID :: "string option"
  aj_Region :: "string option"
  aj_Namespace :: "string option"
  aj_TaskGroups :: "task_group option list"
  aj_Status :: "string option"
  aj_Version :: "64 word option"
  aj_rest :: opaque

record task_group_summary =
  tgs_Running :: int

record server_health =
  sh_Name :: string
  sh_Address :: string
  sh_SerfStatus :: string
  sh_Leader :: bool
  sh_Voter :: bool

text \<open>The namespace of \<^verbatim>\<open>QueryOptions\<close> and \<^verbatim>\<open>WriteOptions\<close>; empty means the default one.\<close>

record request_options =
  ro_Namespace :: string

record 'w nomad_api =
  api_NodesList :: "request_options \<Rightarrow> 'w \<Rightarrow> (error + node_stub list) \<times> 'w"
  api_NodesInfo :: "string \<Rightarrow> request_options \<Rightarrow> 'w \<Rightarrow> (error + api_node option) \<times> 'w"
  api_NodesToggleEligibility :: "string \<Rightarrow> bool \<Rightarrow> request_options \<Rightarrow> 'w \<Rightarrow> (error + unit) \<times> 'w"
  api_NodesUpdateDrain ::
    "string \<Rightarrow> drain_spec option \<Rightarrow> bool \<Rightarrow> request_options \<Rightarrow> 'w \<Rightarrow> (error + unit) \<times> 'w"
  api_AgentSelf :: "'w \<Rightarrow> (error + unit) \<times> 'w"
  api_AgentHealth :: "'w \<Rightarrow> (error + bool option) \<times> 'w"
  api_StatusLeader :: "'w \<Rightarrow> (error + string) \<times> 'w"
  api_AutopilotServerHealth :: "request_options \<Rightarrow> 'w \<Rightarrow> (error + server_health list) \<times> 'w"
  api_BootstrapOpts :: "string \<Rightarrow> request_options \<Rightarrow> 'w \<Rightarrow> (error + string) \<times> 'w"
  api_PoolsInfo :: "string \<Rightarrow> request_options \<Rightarrow> 'w \<Rightarrow> (error + node_pool option) \<times> 'w"
  api_PoolsRegister :: "node_pool \<Rightarrow> request_options \<Rightarrow> 'w \<Rightarrow> (error + unit) \<times> 'w"
  api_PoolsDelete :: "string \<Rightarrow> request_options \<Rightarrow> 'w \<Rightarrow> (error + unit) \<times> 'w"
  api_PoolsListNodes :: "string \<Rightarrow> request_options \<Rightarrow> 'w \<Rightarrow> (error + opaque list) \<times> 'w"
  api_PoolsListJobs :: "string \<Rightarrow> request_options \<Rightarrow> 'w \<Rightarrow> (error + opaque list) \<times> 'w"
  api_NamespacesInfo :: "string \<Rightarrow> request_options \<Rightarrow> 'w \<Rightarrow> (error + api_namespace option) \<times> 'w"
  api_NamespacesRegister :: "api_namespace \<Rightarrow> request_options \<Rightarrow> 'w \<Rightarrow> (error + unit) \<times> 'w"
  api_NamespacesDelete :: "string \<Rightarrow> request_options \<Rightarrow> 'w \<Rightarrow> (error + unit) \<times> 'w"
  api_JobsList :: "request_options \<Rightarrow> 'w \<Rightarrow> (error + opaque list) \<times> 'w"
  api_JobsInfo :: "string \<Rightarrow> request_options \<Rightarrow> 'w \<Rightarrow> (error + api_job option) \<times> 'w"
  api_JobsPlan :: "api_job \<Rightarrow> bool \<Rightarrow> request_options \<Rightarrow> 'w \<Rightarrow> (error + string option) \<times> 'w"
  api_JobsRegister :: "api_job \<Rightarrow> request_options \<Rightarrow> 'w \<Rightarrow> (error + string) \<times> 'w"
  api_JobsDeregister :: "string \<Rightarrow> bool \<Rightarrow> request_options \<Rightarrow> 'w \<Rightarrow> (error + unit) \<times> 'w"
  api_JobsSummary :: "string \<Rightarrow> request_options \<Rightarrow> 'w \<Rightarrow> (error + (string \<times> task_group_summary) list) \<times> 'w"

subsection \<open>Config (config.go)\<close>

record tls_config =
  tls_CACert :: string
  tls_ClientCert :: string
  tls_ClientKey :: string
  tls_Insecure :: bool
  tls_CACertPEM :: string
  tls_ClientCertPEM :: string
  tls_ClientKeyPEM :: string

record config =
  cfg_Address :: string
  cfg_Region :: string
  cfg_Token :: string
  cfg_TLSServerName :: string
  cfg_TLS :: tls_config

definition emptyTLS :: tls_config where
  "emptyTLS = \<lparr>tls_CACert = [], tls_ClientCert = [], tls_ClientKey = [], tls_Insecure = False,
     tls_CACertPEM = [], tls_ClientCertPEM = [], tls_ClientKeyPEM = []\<rparr>"

definition Validate :: "config \<Rightarrow> error option" where
  "Validate c =
     (if cfg_Address c = [] then Some (PlainError ''nomad: Address is required'')
      else if (tls_ClientCert (cfg_TLS c) = []) \<noteq> (tls_ClientKey (cfg_TLS c) = [])
        then Some (PlainError ''nomad: ClientCert and ClientKey must be set together'')
      else None)"

definition hasTLSMaterial :: "config \<Rightarrow> bool" where
  "hasTLSMaterial c \<longleftrightarrow> cfg_TLSServerName c \<noteq> [] \<or>
     tls_CACert (cfg_TLS c) \<noteq> [] \<or> tls_ClientCert (cfg_TLS c) \<noteq> [] \<or> tls_ClientKey (cfg_TLS c) \<noteq> [] \<or>
     tls_Insecure (cfg_TLS c) \<or>
     0 < length (tls_CACertPEM (cfg_TLS c)) \<or> 0 < length (tls_ClientCertPEM (cfg_TLS c)) \<or>
     0 < length (tls_ClientKeyPEM (cfg_TLS c))"

subsection \<open>Client construction (client.go)\<close>

text \<open>The library's own \<^verbatim>\<open>api.Config\<close> and \<^verbatim>\<open>api.TLSConfig\<close>, the fields the wrapper sets.\<close>

record api_tls_config =
  atls_material :: tls_config
  atls_TLSServerName :: string

record api_config =
  ac_Address :: string
  ac_Region :: string
  ac_SecretID :: string
  ac_TLSConfig :: "api_tls_config option"

definition apiConfigOf :: "config \<Rightarrow> api_config" where
  "apiConfigOf cfg =
     \<lparr>ac_Address = cfg_Address cfg, ac_Region = cfg_Region cfg, ac_SecretID = cfg_Token cfg,
      ac_TLSConfig = (if hasTLSMaterial cfg
        then Some \<lparr>atls_material = cfg_TLS cfg, atls_TLSServerName = cfg_TLSServerName cfg\<rparr>
        else None)\<rparr>"

definition NewClient :: "(api_config \<Rightarrow> error + 'w nomad_api) \<Rightarrow> config \<Rightarrow> error + 'w nomad_api" where
  "NewClient newApi cfg =
     (case Validate cfg of
        Some err \<Rightarrow> Inl err
      | None \<Rightarrow> (case newApi (apiConfigOf cfg) of
                   Inl err \<Rightarrow> Inl (Wrapped ''nomad: new client: '' err [])
                 | Inr c \<Rightarrow> Inr c))"

definition queryOpts :: request_options where
  "queryOpts = \<lparr>ro_Namespace = []\<rparr>"

definition writeOpts :: request_options where
  "writeOpts = \<lparr>ro_Namespace = []\<rparr>"

definition nsQueryOpts :: "string \<Rightarrow> request_options" where
  "nsQueryOpts namespace = \<lparr>ro_Namespace = namespace\<rparr>"

definition jobWriteOpts :: "api_job option \<Rightarrow> request_options" where
  "jobWriteOpts job = (case job of
     None \<Rightarrow> \<lparr>ro_Namespace = []\<rparr>
   | Some j \<Rightarrow> (case aj_Namespace j of None \<Rightarrow> \<lparr>ro_Namespace = []\<rparr> | Some ns \<Rightarrow> \<lparr>ro_Namespace = ns\<rparr>))"

subsection \<open>Calls\<close>

text \<open>
  \<open>wrapErr pre m f\<close> is the shape every method has: on an error, \<^verbatim>\<open>fmt.Errorf(pre + "%w", err)\<close>;
  otherwise a function of the reply.
\<close>

definition wrapErr ::
    "string \<Rightarrow> ('w \<Rightarrow> (error + 'a) \<times> 'w) \<Rightarrow> ('a \<Rightarrow> 'b) \<Rightarrow> 'w \<Rightarrow> (error + 'b) \<times> 'w" where
  "wrapErr pre m f = (\<lambda>w. case m w of
     (Inl err, w') \<Rightarrow> (Inl (Wrapped pre err []), w')
   | (Inr x, w') \<Rightarrow> (Inr (f x), w'))"

text \<open>The read methods that turn a 404 into \<^verbatim>\<open>(nil, nil)\<close>.\<close>

definition wrapLookup ::
    "string \<Rightarrow> ('w \<Rightarrow> (error + 'a option) \<times> 'w) \<Rightarrow> 'w \<Rightarrow> (error + 'a option) \<times> 'w" where
  "wrapLookup pre m = (\<lambda>w. case m w of
     (Inl err, w') \<Rightarrow> (if IsNotFound err then (Inr None, w') else (Inl (Wrapped pre err []), w'))
   | (Inr x, w') \<Rightarrow> (Inr x, w'))"

definition named :: "unicode_tables \<Rightarrow> string \<Rightarrow> string \<Rightarrow> string \<Rightarrow> string" where
  "named uc pre name post = pre @ goQuote uc name @ post"

definition ListNodes :: "'w nomad_api \<Rightarrow> 'w \<Rightarrow> (error + node_stub list) \<times> 'w" where
  "ListNodes c = wrapErr ''nomad: list nodes: '' (api_NodesList c queryOpts) (\<lambda>nodes. nodes)"

definition NodeInfo :: "unicode_tables \<Rightarrow> 'w nomad_api \<Rightarrow> string \<Rightarrow> 'w \<Rightarrow> (error + api_node option) \<times> 'w" where
  "NodeInfo uc c i = wrapErr (named uc ''nomad: node info '' i '': '') (api_NodesInfo c i queryOpts) (\<lambda>node. node)"

definition Ping :: "'w nomad_api \<Rightarrow> 'w \<Rightarrow> (error + unit) \<times> 'w" where
  "Ping c = wrapErr ''nomad: ping: '' (api_AgentSelf c) (\<lambda>_. ())"

definition Leader :: "'w nomad_api \<Rightarrow> 'w \<Rightarrow> (error + string) \<times> 'w" where
  "Leader c = wrapErr ''nomad: leader: '' (api_StatusLeader c) (\<lambda>leader. leader)"

definition ServerHealthy :: "'w nomad_api \<Rightarrow> 'w \<Rightarrow> (error + bool) \<times> 'w" where
  "ServerHealthy c = wrapErr ''nomad: health: '' (api_AgentHealth c) (\<lambda>server. server = Some True)"

record nomad_member =
  nm_Name :: string
  nm_Addr :: string
  nm_Status :: string
  nm_Leader :: bool
  nm_Voter :: bool

definition toMembers :: "server_health list \<Rightarrow> nomad_member list" where
  "toMembers servers = map (\<lambda>s. \<lparr>nm_Name = sh_Name s, nm_Addr = sh_Address s,
     nm_Status = sh_SerfStatus s, nm_Leader = sh_Leader s, nm_Voter = sh_Voter s\<rparr>) servers"

definition ServerHealth :: "'w nomad_api \<Rightarrow> 'w \<Rightarrow> (error + nomad_member list) \<times> 'w" where
  "ServerHealth c = wrapErr ''nomad: autopilot server health: '' (api_AutopilotServerHealth c queryOpts) toMembers"

definition ACLBootstrap :: "'w nomad_api \<Rightarrow> string \<Rightarrow> 'w \<Rightarrow> (error + string) \<times> 'w" where
  "ACLBootstrap c token = wrapErr ''nomad: acl bootstrap: '' (api_BootstrapOpts c token writeOpts) (\<lambda>secretID. secretID)"

definition SetEligibility :: "unicode_tables \<Rightarrow> 'w nomad_api \<Rightarrow> string \<Rightarrow> bool \<Rightarrow> 'w \<Rightarrow> (error + unit) \<times> 'w" where
  "SetEligibility uc c nodeID eligible = wrapErr (named uc ''nomad: set eligibility '' nodeID '': '')
     (api_NodesToggleEligibility c nodeID eligible writeOpts) (\<lambda>_. ())"

definition UpdateDrain ::
    "unicode_tables \<Rightarrow> 'w nomad_api \<Rightarrow> string \<Rightarrow> drain_spec option \<Rightarrow> bool \<Rightarrow> 'w \<Rightarrow> (error + unit) \<times> 'w" where
  "UpdateDrain uc c nodeID spec markEligible = wrapErr (named uc ''nomad: update drain '' nodeID '': '')
     (api_NodesUpdateDrain c nodeID spec markEligible writeOpts) (\<lambda>_. ())"

definition GetNodePool :: "unicode_tables \<Rightarrow> 'w nomad_api \<Rightarrow> string \<Rightarrow> 'w \<Rightarrow> (error + node_pool option) \<times> 'w" where
  "GetNodePool uc c name = wrapLookup (named uc ''nomad: get node pool '' name '': '') (api_PoolsInfo c name queryOpts)"

definition UpsertNodePool :: "unicode_tables \<Rightarrow> 'w nomad_api \<Rightarrow> node_pool \<Rightarrow> 'w \<Rightarrow> (error + unit) \<times> 'w" where
  "UpsertNodePool uc c pool = wrapErr (named uc ''nomad: upsert node pool '' (pool_Name pool) '': '')
     (api_PoolsRegister c pool writeOpts) (\<lambda>_. ())"

definition DeleteNodePool :: "unicode_tables \<Rightarrow> 'w nomad_api \<Rightarrow> string \<Rightarrow> 'w \<Rightarrow> (error + unit) \<times> 'w" where
  "DeleteNodePool uc c name = wrapErr (named uc ''nomad: delete node pool '' name '': '')
     (api_PoolsDelete c name writeOpts) (\<lambda>_. ())"

definition CountNodePoolNodes :: "unicode_tables \<Rightarrow> 'w nomad_api \<Rightarrow> string \<Rightarrow> 'w \<Rightarrow> (error + int) \<times> 'w" where
  "CountNodePoolNodes uc c name = wrapErr (named uc ''nomad: list node pool '' name '' nodes: '')
     (api_PoolsListNodes c name queryOpts) (\<lambda>nodes. int (length nodes))"

definition CountNodePoolJobs :: "unicode_tables \<Rightarrow> 'w nomad_api \<Rightarrow> string \<Rightarrow> 'w \<Rightarrow> (error + int) \<times> 'w" where
  "CountNodePoolJobs uc c name = wrapErr (named uc ''nomad: list node pool '' name '' jobs: '')
     (api_PoolsListJobs c name queryOpts) (\<lambda>jobs. int (length jobs))"

definition jobDiffNone :: string where
  "jobDiffNone = ''None''"

definition GetJob ::
    "unicode_tables \<Rightarrow> 'w nomad_api \<Rightarrow> string \<Rightarrow> string \<Rightarrow> 'w \<Rightarrow> (error + api_job option) \<times> 'w" where
  "GetJob uc c namespace jobID = wrapLookup (named uc ''nomad: get job '' jobID '': '')
     (api_JobsInfo c jobID (nsQueryOpts namespace))"

definition PlanJob :: "'w nomad_api \<Rightarrow> api_job \<Rightarrow> 'w \<Rightarrow> (error + bool) \<times> 'w" where
  "PlanJob c job = wrapErr ''nomad: plan job: '' (api_JobsPlan c job True (jobWriteOpts (Some job)))
     (\<lambda>diff. case diff of None \<Rightarrow> True | Some ty \<Rightarrow> ty \<noteq> jobDiffNone)"

definition RegisterJob :: "'w nomad_api \<Rightarrow> api_job \<Rightarrow> 'w \<Rightarrow> (error + string) \<times> 'w" where
  "RegisterJob c job = wrapErr ''nomad: register job: '' (api_JobsRegister c job (jobWriteOpts (Some job)))
     (\<lambda>warnings. warnings)"

definition DeregisterJob ::
    "unicode_tables \<Rightarrow> 'w nomad_api \<Rightarrow> string \<Rightarrow> string \<Rightarrow> bool \<Rightarrow> 'w \<Rightarrow> (error + unit) \<times> 'w" where
  "DeregisterJob uc c namespace jobID purge = wrapErr (named uc ''nomad: deregister job '' jobID '': '')
     (api_JobsDeregister c jobID purge (nsQueryOpts namespace)) (\<lambda>_. ())"

definition JobGroupSummary ::
    "unicode_tables \<Rightarrow> 'w nomad_api \<Rightarrow> string \<Rightarrow> string \<Rightarrow> 'w \<Rightarrow> (error + (string \<times> task_group_summary) list) \<times> 'w" where
  "JobGroupSummary uc c namespace jobID = wrapErr (named uc ''nomad: job summary '' jobID '': '')
     (api_JobsSummary c jobID (nsQueryOpts namespace)) (\<lambda>summary. summary)"

definition GetNamespace ::
    "unicode_tables \<Rightarrow> 'w nomad_api \<Rightarrow> string \<Rightarrow> 'w \<Rightarrow> (error + api_namespace option) \<times> 'w" where
  "GetNamespace uc c name = wrapLookup (named uc ''nomad: get namespace '' name '': '')
     (api_NamespacesInfo c name queryOpts)"

definition UpsertNamespace :: "unicode_tables \<Rightarrow> 'w nomad_api \<Rightarrow> api_namespace \<Rightarrow> 'w \<Rightarrow> (error + unit) \<times> 'w" where
  "UpsertNamespace uc c ns = wrapErr (named uc ''nomad: upsert namespace '' (ans_Name ns) '': '')
     (api_NamespacesRegister c ns writeOpts) (\<lambda>_. ())"

definition DeleteNamespace :: "unicode_tables \<Rightarrow> 'w nomad_api \<Rightarrow> string \<Rightarrow> 'w \<Rightarrow> (error + unit) \<times> 'w" where
  "DeleteNamespace uc c name = wrapErr (named uc ''nomad: delete namespace '' name '': '')
     (api_NamespacesDelete c name writeOpts) (\<lambda>_. ())"

definition CountNamespaceJobs :: "unicode_tables \<Rightarrow> 'w nomad_api \<Rightarrow> string \<Rightarrow> 'w \<Rightarrow> (error + int) \<times> 'w" where
  "CountNamespaceJobs uc c name = wrapErr (named uc ''nomad: list namespace '' name '' jobs: '')
     (api_JobsList c (nsQueryOpts name)) (\<lambda>jobs. int (length jobs))"

end
