(* ===== verification/Platform.thy ===== *)
theory Platform
  imports NomadClient
begin

section \<open>The services the reconcilers talk to\<close>

text \<open>
  The Kubernetes objects the operator builds or reads (the fields it sets or looks at), the
  record of outside services every reconciler is given, and the calls it can make, each of
  which is recorded as an \<open>event\<close> with its answer.
\<close>

subsection \<open>Core, apps, policy and Gateway API objects\<close>

record secret =
  se_meta :: object_meta
  se_data :: strmap

record config_map =
  cm_meta :: object_meta
  cm_data :: strmap

record service_port =
  sp_name :: string
  sp_port :: int
  sp_targetPort :: "int option"
  sp_protocol :: string

text \<open>\<open>sv_ingress\<close> is \<^verbatim>\<open>status.loadBalancer.ingress\<close>, as pairs of IP and hostname.\<close>

record service =
  sv_meta :: object_meta
  sv_type :: string
  sv_clusterIP :: string
  sv_publishNotReadyAddresses :: bool
  sv_selector :: strmap
  sv_ports :: "service_port list"
  sv_loadBalancerClass :: "string option"
  sv_ingress :: "(string \<times> string) list"

record pod_disruption_budget =
  pdb_meta :: object_meta
  pdb_minAvailable :: int
  pdb_matchLabels :: strmap

record env_var =
  env_name :: string
  env_text :: string
  env_fieldPath :: "string option"

record volume_mount =
  vm_name :: string
  vm_mountPath :: string
  vm_readOnly :: bool

record container_port =
  cp_name :: string
  cp_containerPort :: int
  cp_protocol :: string

datatype probe_handler = ExecProbe "string list" | TCPProbe int

record probe =
  pb_handler :: probe_handler
  pb_initialDelaySeconds :: int
  pb_periodSeconds :: int
  pb_failureThreshold :: int

record container =
  co_name :: string
  co_image :: string
  co_command :: "string list"
  co_env :: "env_var list"
  co_ports :: "container_port list"
  co_volumeMounts :: "volume_mount list"
  co_readinessProbe :: "probe option"
  co_livenessProbe :: "probe option"
  co_resources :: opaque

datatype volume_source = ConfigMapVolume string | EmptyDirVolume | SecretVolume string

record volume =
  vo_name :: string
  vo_source :: volume_source

record volume_claim =
  vc_name :: string
  vc_accessModes :: "string list"
  vc_storage :: opaque
  vc_storageClassName :: "string option"

record pod_template =
  pod_labels :: strmap
  pod_annotations :: strmap
  pod_antiAffinity :: "(string \<times> strmap) list"
  pod_initContainers :: "container list"
  pod_containers :: "container list"
  pod_volumes :: "volume list"

record stateful_set =
  sf_meta :: object_meta
  sf_serviceName :: string
  sf_replicas :: int
  sf_podManagementPolicy :: string
  sf_updateStrategy :: string
  sf_matchLabels :: strmap
  sf_volumeClaims :: "volume_claim list"
  sf_template :: pod_template

text \<open>
  \<^verbatim>\<open>AllowedRoutes.Namespaces.From\<close> is three pointers deep; each layer is an \<open>option\<close>.
\<close>

record gateway_listener =
  gl_name :: string
  gl_port :: int
  gl_protocol :: string
  gl_hostname :: "string option"
  gl_tlsMode :: "string option"
  gl_allowedRoutes :: "string option option option"

record gateway =
  gw_meta :: object_meta
  gw_className :: string
  gw_listeners :: "gateway_listener list"
  gw_addresses :: "string list"

record parent_reference =
  pr_group :: string
  pr_kind :: string
  pr_name :: string
  pr_namespace :: string
  pr_sectionName :: "string option"

record tls_route =
  tr_meta :: object_meta
  tr_parentRefs :: "parent_reference list"
  tr_hostnames :: "string list"
  tr_backendRefs :: "(string \<times> int) list"

record tcp_route =
  cr_meta :: object_meta
  cr_parentRefs :: "parent_reference list"
  cr_backendRefs :: "(string \<times> int) list"

datatype applied_object =
    AConfigMap config_map
  | AService service
  | AStatefulSet stateful_set
  | APDB pod_disruption_budget
  | AGateway gateway
  | ATLSRoute tls_route
  | ATCPRoute tcp_route

fun appliedMeta :: "applied_object \<Rightarrow> object_meta" where
  "appliedMeta (AConfigMap x) = cm_meta x"
| "appliedMeta (AService x) = sv_meta x"
| "appliedMeta (AStatefulSet x) = sf_meta x"
| "appliedMeta (APDB x) = pdb_meta x"
| "appliedMeta (AGateway x) = gw_meta x"
| "appliedMeta (ATLSRoute x) = tr_meta x"
| "appliedMeta (ATCPRoute x) = cr_meta x"

fun withAppliedMeta :: "applied_object \<Rightarrow> object_meta \<Rightarrow> applied_object" where
  "withAppliedMeta (AConfigMap x) m = AConfigMap (x\<lparr>cm_meta := m\<rparr>)"
| "withAppliedMeta (AService x) m = AService (x\<lparr>sv_meta := m\<rparr>)"
| "withAppliedMeta (AStatefulSet x) m = AStatefulSet (x\<lparr>sf_meta := m\<rparr>)"
| "withAppliedMeta (APDB x) m = APDB (x\<lparr>pdb_meta := m\<rparr>)"
| "withAppliedMeta (AGateway x) m = AGateway (x\<lparr>gw_meta := m\<rparr>)"
| "withAppliedMeta (ATLSRoute x) m = ATLSRoute (x\<lparr>tr_meta := m\<rparr>)"
| "withAppliedMeta (ATCPRoute x) m = ATCPRoute (x\<lparr>cr_meta := m\<rparr>)"

lemma appliedMeta_with [simp]: "appliedMeta (withAppliedMeta x m) = m"
  by (cases x) simp_all

subsection \<open>Recorded calls\<close>

datatype nomad_call =
    NListNodes "error + node_stub list"
  | NNodeInfo string "error + api_node option"
  | NSetEligibility string bool "error + unit"
  | NUpdateDrain string "drain_spec option" bool "error + unit"
  | NGetNodePool string "error + node_pool option"
  | NUpsertNodePool node_pool "error + unit"
  | NDeleteNodePool string "error + unit"
  | NCountNodePoolNodes string "error + int"
  | NCountNodePoolJobs string "error + int"
  | NGetNamespace string "error + api_namespace option"
  | NUpsertNamespace api_namespace "error + unit"
  | NDeleteNamespace string "error + unit"
  | NCountNamespaceJobs string "error + int"
  | NGetJob string string "error + api_job option"
  | NPlanJob api_job "error + bool"
  | NRegisterJob api_job "error + string"
  | NDeregisterJob string string bool "error + unit"
  | NJobGroupSummary string string "error + (string \<times> task_group_summary) list"
  | NLeader "error + string"
  | NACLBootstrap string "error + string"
  | NServerHealth "error + nomad_member list"

text \<open>Calls that change the state of the Nomad server.\<close>

fun nomadWrite :: "nomad_call \<Rightarrow> bool" where
  "nomadWrite (NSetEligibility _ _ _) = True"
| "nomadWrite (NUpdateDrain _ _ _ _) = True"
| "nomadWrite (NUpsertNodePool _ _) = True"
| "nomadWrite (NDeleteNodePool _ _) = True"
| "nomadWrite (NUpsertNamespace _ _) = True"
| "nomadWrite (NDeleteNamespace _ _) = True"
| "nomadWrite (NRegisterJob _ _) = True"
| "nomadWrite (NDeregisterJob _ _ _ _) = True"
| "nomadWrite (NACLBootstrap _ _) = True"
| "nomadWrite _ = False"

datatype event =
    EvCluster "nomad_cluster store_call"
  | EvNode "nomad_node store_call"
  | EvPool "nomad_pool store_call"
  | EvNamespace "nomad_namespace store_call"
  | EvJob "nomad_job store_call"
  | EvSecret "secret store_call"
  | EvGateway "gateway store_call"
  | EvService "service store_call"
  | EvApply applied_object "error + unit"
  | EvRand nat "error + byte list"
  | EvRecord string string string string
  | EvNomad nomad_call

fun isNomadWrite :: "event \<Rightarrow> bool" where
  "isNomadWrite (EvNomad c) = nomadWrite c"
| "isNomadWrite _ = False"

fun isNomadCall :: "event \<Rightarrow> bool" where
  "isNomadCall (EvNomad c) = True"
| "isNomadCall _ = False"

text \<open>The service a call goes to; a procedure is often characterised by the services it talks to.\<close>

datatype channel = ChCluster | ChNode | ChPool | ChNamespace | ChJob | ChSecret | ChGateway | ChService
  | ChApply | ChRand | ChRecord | ChNomad

fun channelOf :: "event \<Rightarrow> channel" where
  "channelOf (EvCluster _) = ChCluster"
| "channelOf (EvNode _) = ChNode"
| "channelOf (EvPool _) = ChPool"
| "channelOf (EvNamespace _) = ChNamespace"
| "channelOf (EvJob _) = ChJob"
| "channelOf (EvSecret _) = ChSecret"
| "channelOf (EvGateway _) = ChGateway"
| "channelOf (EvService _) = ChService"
| "channelOf (EvApply _ _) = ChApply"
| "channelOf (EvRand _ _) = ChRand"
| "channelOf (EvRecord _ _ _ _) = ChRecord"
| "channelOf (EvNomad _) = ChNomad"

definition onChannels :: "channel set \<Rightarrow> event list \<Rightarrow> bool" where
  "onChannels cs es \<longleftrightarrow> list_all (\<lambda>e. channelOf e \<in> cs) es"

lemma onChannels_simps [trace_simps]:
  "onChannels cs [] \<longleftrightarrow> True"
  "onChannels cs (e # es) \<longleftrightarrow> channelOf e \<in> cs \<and> onChannels cs es"
  "onChannels cs (es @ es') \<longleftrightarrow> onChannels cs es \<and> onChannels cs es'"
  by (simp_all add: onChannels_def)

lemma onChannels_mono: "onChannels cs es \<Longrightarrow> cs \<subseteq> ds \<Longrightarrow> onChannels ds es"
  by (auto simp: onChannels_def list_all_iff)

lemma onChannels_quiet: "onChannels cs es \<Longrightarrow> (\<And>e. p e \<Longrightarrow> channelOf e \<notin> cs) \<Longrightarrow> quiet p es"
  by (auto simp: onChannels_def quiet_def list_all_iff)

type_synonym ('w, 'a) reconciler_proc = "('w, event, error + 'a) procedure"

subsection \<open>The record of services\<close>

record 'w platform =
  pf_clusters :: "('w, nomad_cluster) store"
  pf_nodes :: "('w, nomad_node) store"
  pf_pools :: "('w, nomad_pool) store"
  pf_namespaces :: "('w, nomad_namespace) store"
  pf_jobs :: "('w, nomad_job) store"
  pf_secrets :: "('w, secret) store"
  pf_gateways :: "('w, gateway) store"
  pf_services :: "('w, service) store"
  pf_gvkForObject :: "applied_object \<Rightarrow> error + unit"
  pf_patchApply :: "applied_object \<Rightarrow> 'w \<Rightarrow> (error + unit) \<times> 'w"
  pf_rand :: "nat \<Rightarrow> 'w \<Rightarrow> (error + byte list) \<times> 'w"
  pf_now :: "'w \<Rightarrow> timestamp \<times> 'w"
  pf_toolkit :: toolkit

definition kGet ::
    "('o store_call \<Rightarrow> event) \<Rightarrow> ('w, 'o) store \<Rightarrow> namespaced_name \<Rightarrow> ('w, 'o) reconciler_proc" where
  "kGet ev st key = call (\<lambda>r. ev (SGet key r)) (st_get st key)"

definition kList ::
    "('o store_call \<Rightarrow> event) \<Rightarrow> ('w, 'o) store \<Rightarrow> list_options \<Rightarrow> ('w, 'o list) reconciler_proc" where
  "kList ev st opts = call (\<lambda>r. ev (SList opts r)) (st_list st opts)"

definition kCreate :: "('o store_call \<Rightarrow> event) \<Rightarrow> ('w, 'o) store \<Rightarrow> 'o \<Rightarrow> ('w, 'o) reconciler_proc" where
  "kCreate ev st obj = call (\<lambda>r. ev (SCreate obj r)) (st_create st obj)"

definition kUpdate :: "('o store_call \<Rightarrow> event) \<Rightarrow> ('w, 'o) store \<Rightarrow> 'o \<Rightarrow> ('w, 'o) reconciler_proc" where
  "kUpdate ev st obj = call (\<lambda>r. ev (SUpdate obj r)) (st_update st obj)"

definition kUpdateStatus ::
    "('o store_call \<Rightarrow> event) \<Rightarrow> ('w, 'o) store \<Rightarrow> 'o \<Rightarrow> ('w, 'o) reconciler_proc" where
  "kUpdateStatus ev st obj = call (\<lambda>r. ev (SUpdateStatus obj r)) (st_updateStatus st obj)"

definition kDelete :: "('o store_call \<Rightarrow> event) \<Rightarrow> ('w, 'o) store \<Rightarrow> 'o \<Rightarrow> ('w, unit) reconciler_proc" where
  "kDelete ev st obj = call (\<lambda>r. ev (SDelete obj r)) (st_delete st obj)"

definition nomadCall ::
    "(error + 'a \<Rightarrow> nomad_call) \<Rightarrow> ('w \<Rightarrow> (error + 'a) \<times> 'w) \<Rightarrow> ('w, 'a) reconciler_proc" where
  "nomadCall ev f = call (\<lambda>r. EvNomad (ev r)) f"

definition recordEvent :: "string \<Rightarrow> string \<Rightarrow> string \<Rightarrow> string \<Rightarrow> ('w, event, unit) procedure" where
  "recordEvent kind reason act note = emit (EvRecord kind reason act note)"

lemmas kube_calls = kGet_def kList_def kCreate_def kUpdate_def kUpdateStatus_def kDelete_def
  nomadCall_def recordEvent_def

text \<open>\<^verbatim>\<open>client.IgnoreNotFound\<close> on the error of the first read of a reconcile.\<close>

definition ignoreNotFound :: "error \<Rightarrow> error + reconcile_result" where
  "ignoreNotFound e = (if kubeIsNotFound e then Inr noRequeue else Inl e)"

end
