(* ===== verification/Conditions.thy ===== *)
theory Conditions
  imports Platform
begin

section \<open>Status conditions\<close>

text \<open>
  Each reconciler has its own copy of "upsert a condition by type". \<open>setCondition\<close>
  (conditions.go) fills the transition time with the current time and overwrites it by the old
  one when the status is unchanged; the four others choose between the two. The contract they
  share is the locale \<open>condition_setter\<close>, interpreted on each copy.
\<close>

definition findCondition :: "string \<Rightarrow> condition list \<Rightarrow> condition option" where
  "findCondition ty cs = find (\<lambda>c. cn_type c = ty) cs"

subsection \<open>conditions.go\<close>

primrec upsertByType :: "condition \<Rightarrow> condition list \<Rightarrow> condition list" where
  "upsertByType cond [] = [cond]"
| "upsertByType cond (c # cs) =
     (if cn_type c = cn_type cond
      then (if cn_status c = cn_status cond
            then cond\<lparr>cn_lastTransitionTime := cn_lastTransitionTime c\<rparr> else cond) # cs
      else c # upsertByType cond cs)"

definition setCondition ::
    "timestamp \<Rightarrow> nomad_cluster \<Rightarrow> string \<Rightarrow> condition_status \<Rightarrow> string \<Rightarrow> string \<Rightarrow> nomad_cluster" where
  "setCondition now nc condType status reason msg =
     (let cond = \<lparr>cn_type = condType, cn_status = status, cn_reason = reason, cn_message = msg,
                  cn_observedGeneration = om_generation (nc_meta nc), cn_lastTransitionTime = now\<rparr>
      in nc\<lparr>nc_status := (nc_status nc)\<lparr>ct_conditions :=
           upsertByType cond (ct_conditions (nc_status nc))\<rparr>\<rparr>)"

subsection \<open>The four per-kind setters\<close>

text \<open>
  Their loops are the same text: find the entry, choose the transition time, replace it; append
  with the current time if there is none.
\<close>

primrec replaceByType ::
    "timestamp \<Rightarrow> (timestamp \<Rightarrow> condition) \<Rightarrow> string \<Rightarrow> condition_status \<Rightarrow> condition list \<Rightarrow> condition list" where
  "replaceByType now mk ty status [] = [mk now]"
| "replaceByType now mk ty status (c # cs) =
     (if cn_type c = ty
      then (if cn_status c \<noteq> status then mk now else mk (cn_lastTransitionTime c)) # cs
      else c # replaceByType now mk ty status cs)"

definition newCondition ::
    "string \<Rightarrow> condition_status \<Rightarrow> string \<Rightarrow> string \<Rightarrow> int \<Rightarrow> timestamp \<Rightarrow> condition" where
  "newCondition ty status reason msg gen t =
     \<lparr>cn_type = ty, cn_status = status, cn_reason = reason, cn_message = msg,
      cn_observedGeneration = gen, cn_lastTransitionTime = t\<rparr>"

definition setNodeCondition ::
    "timestamp \<Rightarrow> nomad_node \<Rightarrow> string \<Rightarrow> condition_status \<Rightarrow> string \<Rightarrow> string \<Rightarrow> nomad_node" where
  "setNodeCondition now nn condType status reason msg =
     nn\<lparr>no_status := (no_status nn)\<lparr>nt_conditions :=
       replaceByType now (newCondition condType status reason msg (om_generation (no_meta nn)))
         condType status (nt_conditions (no_status nn))\<rparr>\<rparr>"

definition setPoolCondition ::
    "timestamp \<Rightarrow> nomad_pool \<Rightarrow> string \<Rightarrow> condition_status \<Rightarrow> string \<Rightarrow> string \<Rightarrow> nomad_pool" where
  "setPoolCondition now np condType status reason msg =
     np\<lparr>np_status := (np_status np)\<lparr>pt_conditions :=
       replaceByType now (newCondition condType status reason msg (om_generation (np_meta np)))
         condType status (pt_conditions (np_status np))\<rparr>\<rparr>"

definition setNamespaceCondition ::
    "timestamp \<Rightarrow> nomad_namespace \<Rightarrow> string \<Rightarrow> condition_status \<Rightarrow> string \<Rightarrow> string \<Rightarrow> nomad_namespace" where
  "setNamespaceCondition now nn condType status reason msg =
     nn\<lparr>nns_status := (nns_status nn)\<lparr>nst_conditions :=
       replaceByType now (newCondition condType status reason msg (om_generation (nns_meta nn)))
         condType status (nst_conditions (nns_status nn))\<rparr>\<rparr>"

definition setJobCondition ::
    "timestamp \<Rightarrow> nomad_job \<Rightarrow> string \<Rightarrow> condition_status \<Rightarrow> string \<Rightarrow> string \<Rightarrow> nomad_job" where
  "setJobCondition now nj condType status reason msg =
     nj\<lparr>nj_status := (nj_status nj)\<lparr>jt_conditions :=
       replaceByType now (newCondition condType status reason msg (om_generation (nj_meta nj)))
         condType status (jt_conditions (nj_status nj))\<rparr>\<rparr>"

lemmas setter_defs = setNodeCondition_def setPoolCondition_def setNamespaceCondition_def
  setJobCondition_def

lemma upsertByType_replaceByType:
  "upsertByType (newCondition ty status reason msg gen now) cs =
   replaceByType now (newCondition ty status reason msg gen) ty status cs"
  by (induction cs) (auto simp: newCondition_def)

lemma setCondition_replace:
  "setCondition now nc ty status reason msg = nc\<lparr>nc_status := (nc_status nc)\<lparr>ct_conditions :=
     replaceByType now (newCondition ty status reason msg (om_generation (nc_meta nc)))
       ty status (ct_conditions (nc_status nc))\<rparr>\<rparr>"
  unfolding setCondition_def Let_def
  by (simp add: upsertByType_replaceByType [symmetric]) (simp add: newCondition_def)

subsection \<open>The shared contract\<close>

text \<open>
  A setter leaves one entry of its type: the new status, reason, message and generation, with the
  transition time moved exactly when the status changed. Entries of other types are untouched,
  and no type is added twice.
\<close>

locale condition_setter =
  fixes conditions :: "'o \<Rightarrow> condition list"
    and generation :: "'o \<Rightarrow> int"
    and setter :: "timestamp \<Rightarrow> 'o \<Rightarrow> string \<Rightarrow> condition_status \<Rightarrow> string \<Rightarrow> string \<Rightarrow> 'o"
  assumes entry: "findCondition ty (conditions (setter now x ty st reason msg)) =
      Some (newCondition ty st reason msg (generation x)
        (case findCondition ty (conditions x) of
           Some c \<Rightarrow> if cn_status c = st then cn_lastTransitionTime c else now
         | None \<Rightarrow> now))"
    and other: "ty' \<noteq> ty \<Longrightarrow>
      findCondition ty' (conditions (setter now x ty st reason msg)) = findCondition ty' (conditions x)"
    and types: "map cn_type (conditions (setter now x ty st reason msg)) =
      (if ty \<in> cn_type ` set (conditions x) then map cn_type (conditions x)
       else map cn_type (conditions x) @ [ty])"
    and generation_kept: "generation (setter now x ty st reason msg) = generation x"
begin

text \<open>The list stays a map keyed by type, as \<^verbatim>\<open>+listMapKey=type\<close> demands.\<close>

lemma distinct_types:
  "distinct (map cn_type (conditions x)) \<Longrightarrow>
   distinct (map cn_type (conditions (setter now x ty st reason msg)))"
  by (auto simp: types)

text \<open>The transition time moves only when the status does.\<close>

lemma transition_kept:
  assumes "findCondition ty (conditions x) = Some c" and "cn_status c = st"
  shows "findCondition ty (conditions (setter now x ty st reason msg)) =
    Some (newCondition ty st reason msg (generation x) (cn_lastTransitionTime c))"
  using assms by (simp add: entry)

lemma transition_moved:
  assumes "findCondition ty (conditions x) = Some c" and "cn_status c \<noteq> st"
  shows "findCondition ty (conditions (setter now x ty st reason msg)) =
    Some (newCondition ty st reason msg (generation x) now)"
  using assms by (simp add: entry)

text \<open>A second pass with the same verdict changes nothing, whatever the clock says.\<close>

lemma steady:
  "findCondition ty (conditions (setter now' (setter now x ty st reason msg) ty st reason msg)) =
   findCondition ty (conditions (setter now x ty st reason msg))"
  by (simp add: entry [of ty now'] generation_kept) (simp add: entry newCondition_def)

lemma steady_types:
  "map cn_type (conditions (setter now' (setter now x ty st reason msg) ty st' reason' msg')) =
   map cn_type (conditions (setter now x ty st reason msg))"
proof -
  have "ty \<in> set (map cn_type (conditions (setter now x ty st reason msg)))"
    by (subst types) auto
  then show ?thesis by (subst types) auto
qed

end

lemma findCondition_replaceByType:
  assumes "\<And>t. cn_type (mk t) = ty" "\<And>t. cn_status (mk t) = st"
  shows "findCondition ty (replaceByType now mk ty st cs) = Some (mk
    (case findCondition ty cs of
       Some c \<Rightarrow> if cn_status c = st then cn_lastTransitionTime c else now | None \<Rightarrow> now))"
  by (induction cs) (simp_all add: findCondition_def assms)

lemma findCondition_replaceByType_other:
  assumes "\<And>t. cn_type (mk t) = ty" "ty' \<noteq> ty"
  shows "findCondition ty' (replaceByType now mk ty st cs) = findCondition ty' cs"
  by (induction cs) (use assms in \<open>auto simp: findCondition_def\<close>)

lemma types_replaceByType:
  assumes "\<And>t. cn_type (mk t) = ty"
  shows "map cn_type (replaceByType now mk ty st cs) =
    (if ty \<in> cn_type ` set cs then map cn_type cs else map cn_type cs @ [ty])"
  by (induction cs) (auto simp: assms)

lemma newCondition_simps [simp]:
  "cn_type (newCondition ty st reason msg gen t) = ty"
  "cn_status (newCondition ty st reason msg gen t) = st"
  "cn_reason (newCondition ty st reason msg gen t) = reason"
  "cn_message (newCondition ty st reason msg gen t) = msg"
  "cn_observedGeneration (newCondition ty st reason msg gen t) = gen"
  "cn_lastTransitionTime (newCondition ty st reason msg gen t) = t"
  by (simp_all add: newCondition_def)

lemmas setter_laws = findCondition_replaceByType findCondition_replaceByType_other
  types_replaceByType setter_defs setCondition_replace

interpretation cluster_cond: condition_setter
    "\<lambda>nc. ct_conditions (nc_status nc)" "\<lambda>nc. om_generation (nc_meta nc)" setCondition
  by unfold_locales (simp_all add: setter_laws)

interpretation node_cond: condition_setter
    "\<lambda>nn. nt_conditions (no_status nn)" "\<lambda>nn. om_generation (no_meta nn)" setNodeCondition
  by unfold_locales (simp_all add: setter_laws)

interpretation pool_cond: condition_setter
    "\<lambda>np. pt_conditions (np_status np)" "\<lambda>np. om_generation (np_meta np)" setPoolCondition
  by unfold_locales (simp_all add: setter_laws)

interpretation namespace_cond: condition_setter
    "\<lambda>nn. nst_conditions (nns_status nn)" "\<lambda>nn. om_generation (nns_meta nn)" setNamespaceCondition
  by unfold_locales (simp_all add: setter_laws)

interpretation job_cond: condition_setter
    "\<lambda>nj. jt_conditions (nj_status nj)" "\<lambda>nj. om_generation (nj_meta nj)" setJobCondition
  by unfold_locales (simp_all add: setter_laws)

subsection \<open>What a setter leaves alone\<close>

lemma setCondition_frame [simp]:
  "nc_meta (setCondition now nc ty st reason msg) = nc_meta nc"
  "nc_spec (setCondition now nc ty st reason msg) = nc_spec nc"
  "ct_phase (nc_status (setCondition now nc ty st reason msg)) = ct_phase (nc_status nc)"
  "ct_externalAddress (nc_status (setCondition now nc ty st reason msg)) = ct_externalAddress (nc_status nc)"
  "ct_observedGeneration (nc_status (setCondition now nc ty st reason msg)) = ct_observedGeneration (nc_status nc)"
  "ct_members (nc_status (setCondition now nc ty st reason msg)) = ct_members (nc_status nc)"
  "ct_quorum (nc_status (setCondition now nc ty st reason msg)) = ct_quorum (nc_status nc)"
  "ct_leader (nc_status (setCondition now nc ty st reason msg)) = ct_leader (nc_status nc)"
  by (simp_all add: setCondition_replace)

lemma setNodeCondition_frame [simp]:
  "no_meta (setNodeCondition now nn ty st reason msg) = no_meta nn"
  "no_spec (setNodeCondition now nn ty st reason msg) = no_spec nn"
  "nt_drainObservedGeneration (no_status (setNodeCondition now nn ty st reason msg)) =
   nt_drainObservedGeneration (no_status nn)"
  "nt_nodeID (no_status (setNodeCondition now nn ty st reason msg)) = nt_nodeID (no_status nn)"
  "nt_draining (no_status (setNodeCondition now nn ty st reason msg)) = nt_draining (no_status nn)"
  by (simp_all add: setNodeCondition_def)

lemma setPoolCondition_frame [simp]:
  "np_meta (setPoolCondition now np ty st reason msg) = np_meta np"
  "np_spec (setPoolCondition now np ty st reason msg) = np_spec np"
  "pt_nodeCount (np_status (setPoolCondition now np ty st reason msg)) = pt_nodeCount (np_status np)"
  "pt_jobCount (np_status (setPoolCondition now np ty st reason msg)) = pt_jobCount (np_status np)"
  by (simp_all add: setPoolCondition_def)

lemma setNamespaceCondition_frame [simp]:
  "nns_meta (setNamespaceCondition now nn ty st reason msg) = nns_meta nn"
  "nns_spec (setNamespaceCondition now nn ty st reason msg) = nns_spec nn"
  "nst_jobCount (nns_status (setNamespaceCondition now nn ty st reason msg)) = nst_jobCount (nns_status nn)"
  by (simp_all add: setNamespaceCondition_def)

lemma setJobCondition_frame [simp]:
  "nj_meta (setJobCondition now nj ty st reason msg) = nj_meta nj"
  "nj_spec (setJobCondition now nj ty st reason msg) = nj_spec nj"
  "jt_groups (nj_status (setJobCondition now nj ty st reason msg)) = jt_groups (nj_status nj)"
  "jt_jobStatus (nj_status (setJobCondition now nj ty st reason msg)) = jt_jobStatus (nj_status nj)"
  "jt_jobVersion (nj_status (setJobCondition now nj ty st reason msg)) = jt_jobVersion (nj_status nj)"
  by (simp_all add: setJobCondition_def)

end
