(* ===== verification/NomadOps.thy ===== *)
theory NomadOps
  imports Conditions
begin

section \<open>The reconcilers' view of Nomad (nomad*_ops.go) and the client's contract\<close>

text \<open>
  Each reconciler declares, at its own side, the interface of Nomad calls it needs; the client of
  \<open>NomadClient\<close> satisfies all of them. Here are the interfaces as records of functions, the
  default factories that fill them from \<^const>\<open>NewClient\<close>, and what the reconcilers rely on: a
  failing call keeps the classification of the library's error, and a lookup never fails for
  the reason that the object is missing.
\<close>

subsection \<open>Interfaces\<close>

record 'w NomadOps =
  op_Leader :: "'w \<Rightarrow> (error + string) \<times> 'w"
  op_ACLBootstrap :: "string \<Rightarrow> 'w \<Rightarrow> (error + string) \<times> 'w"
  op_ServerHealth :: "'w \<Rightarrow> (error + nomad_member list) \<times> 'w"

record 'w NomadNodeOps =
  op_ListNodes :: "'w \<Rightarrow> (error + node_stub list) \<times> 'w"
  op_NodeInfo :: "string \<Rightarrow> 'w \<Rightarrow> (error + api_node option) \<times> 'w"
  op_SetEligibility :: "string \<Rightarrow> bool \<Rightarrow> 'w \<Rightarrow> (error + unit) \<times> 'w"
  op_UpdateDrain :: "string \<Rightarrow> drain_spec option \<Rightarrow> bool \<Rightarrow> 'w \<Rightarrow> (error + unit) \<times> 'w"

record 'w NomadPoolOps =
  op_GetNodePool :: "string \<Rightarrow> 'w \<Rightarrow> (error + node_pool option) \<times> 'w"
  op_UpsertNodePool :: "node_pool \<Rightarrow> 'w \<Rightarrow> (error + unit) \<times> 'w"
  op_DeleteNodePool :: "string \<Rightarrow> 'w \<Rightarrow> (error + unit) \<times> 'w"
  op_CountNodePoolNodes :: "string \<Rightarrow> 'w \<Rightarrow> (error + int) \<times> 'w"
  op_CountNodePoolJobs :: "string \<Rightarrow> 'w \<Rightarrow> (error + int) \<times> 'w"

record 'w NomadNamespaceOps =
  op_GetNamespace :: "string \<Rightarrow> 'w \<Rightarrow> (error + api_namespace option) \<times> 'w"
  op_UpsertNamespace :: "api_namespace \<Rightarrow> 'w \<Rightarrow> (error + unit) \<times> 'w"
  op_DeleteNamespace :: "string \<Rightarrow> 'w \<Rightarrow> (error + unit) \<times> 'w"
  op_CountNamespaceJobs :: "string \<Rightarrow> 'w \<Rightarrow> (error + int) \<times> 'w"

record 'w NomadJobOps =
  op_GetJob :: "string \<Rightarrow> string \<Rightarrow> 'w \<Rightarrow> (error + api_job option) \<times> 'w"
  op_PlanJob :: "api_job \<Rightarrow> 'w \<Rightarrow> (error + bool) \<times> 'w"
  op_RegisterJob :: "api_job \<Rightarrow> 'w \<Rightarrow> (error + string) \<times> 'w"
  op_DeregisterJob :: "string \<Rightarrow> string \<Rightarrow> bool \<Rightarrow> 'w \<Rightarrow> (error + unit) \<times> 'w"
  op_JobGroupSummary :: "string \<Rightarrow> string \<Rightarrow> 'w \<Rightarrow> (error + (string \<times> task_group_summary) list) \<times> 'w"

text \<open>A factory builds the interface from a per-cluster config, or fails.\<close>

type_synonym 'ops client_factory = "config \<Rightarrow> error + 'ops"

subsection \<open>Default factories\<close>

type_synonym 'w api_constructor = "api_config \<Rightarrow> error + 'w nomad_api"

definition DefaultNomadClientFactory :: "'w api_constructor \<Rightarrow> 'w NomadOps client_factory" where
  "DefaultNomadClientFactory newApi cfg = (case NewClient newApi cfg of Inl err \<Rightarrow> Inl err | Inr c \<Rightarrow>
     Inr \<lparr>op_Leader = Leader c, op_ACLBootstrap = ACLBootstrap c, op_ServerHealth = ServerHealth c\<rparr>)"

definition DefaultNomadNodeClientFactory ::
    "unicode_tables \<Rightarrow> 'w api_constructor \<Rightarrow> 'w NomadNodeOps client_factory" where
  "DefaultNomadNodeClientFactory uc newApi cfg = (case NewClient newApi cfg of Inl err \<Rightarrow> Inl err | Inr c \<Rightarrow>
     Inr \<lparr>op_ListNodes = ListNodes c, op_NodeInfo = NodeInfo uc c,
          op_SetEligibility = SetEligibility uc c, op_UpdateDrain = UpdateDrain uc c\<rparr>)"

definition DefaultNomadPoolClientFactory ::
    "unicode_tables \<Rightarrow> 'w api_constructor \<Rightarrow> 'w NomadPoolOps client_factory" where
  "DefaultNomadPoolClientFactory uc newApi cfg = (case NewClient newApi cfg of Inl err \<Rightarrow> Inl err | Inr c \<Rightarrow>
     Inr \<lparr>op_GetNodePool = GetNodePool uc c, op_UpsertNodePool = UpsertNodePool uc c,
          op_DeleteNodePool = DeleteNodePool uc c, op_CountNodePoolNodes = CountNodePoolNodes uc c,
          op_CountNodePoolJobs = CountNodePoolJobs uc c\<rparr>)"

definition DefaultNomadNamespaceClientFactory ::
    "unicode_tables \<Rightarrow> 'w api_constructor \<Rightarrow> 'w NomadNamespaceOps client_factory" where
  "DefaultNomadNamespaceClientFactory uc newApi cfg = (case NewClient newApi cfg of Inl err \<Rightarrow> Inl err | Inr c \<Rightarrow>
     Inr \<lparr>op_GetNamespace = GetNamespace uc c, op_UpsertNamespace = UpsertNamespace uc c,
          op_DeleteNamespace = DeleteNamespace uc c, op_CountNamespaceJobs = CountNamespaceJobs uc c\<rparr>)"

definition DefaultNomadJobClientFactory ::
    "unicode_tables \<Rightarrow> 'w api_constructor \<Rightarrow> 'w NomadJobOps client_factory" where
  "DefaultNomadJobClientFactory uc newApi cfg = (case NewClient newApi cfg of Inl err \<Rightarrow> Inl err | Inr c \<Rightarrow>
     Inr \<lparr>op_GetJob = GetJob uc c, op_PlanJob = PlanJob c, op_RegisterJob = RegisterJob c,
          op_DeregisterJob = DeregisterJob uc c, op_JobGroupSummary = JobGroupSummary uc c\<rparr>)"

subsection \<open>Contract of a wrapped call\<close>

text \<open>
  \<open>raw\<close> is the library's call and \<open>wrapped\<close> the client's method. One raw call is made; on success
  the reply goes through \<open>out\<close>, on failure the error is the raw one inside context text.
\<close>

locale wrapped_call =
  fixes raw :: "'w \<Rightarrow> (error + 'a) \<times> 'w"
    and out :: "'a \<Rightarrow> 'b"
    and wrapped :: "'w \<Rightarrow> (error + 'b) \<times> 'w"
  assumes success: "raw w = (Inr x, w') \<Longrightarrow> wrapped w = (Inr (out x), w')"
    and failure: "raw w = (Inl e, w') \<Longrightarrow> \<exists>pre post. wrapped w = (Inl (Wrapped pre e post), w')"
begin

lemma world: "snd (wrapped w) = snd (raw w)"
proof (cases "raw w")
  case (Pair r w')
  then show ?thesis by (cases r) (auto dest: success failure)
qed

lemma fails_iff: "(\<exists>e. fst (wrapped w) = Inl e) \<longleftrightarrow> (\<exists>e. fst (raw w) = Inl e)"
proof (cases "raw w")
  case (Pair r w')
  then show ?thesis by (cases r) (auto dest: success failure)
qed

text \<open>Callers classify the wrapped error and get the verdict on the library's error.\<close>

lemma classified:
  assumes "fst (wrapped w) = Inl err"
  obtains e where "fst (raw w) = Inl e" "IsNotFound err = IsNotFound e"
    "IsACLAlreadyBootstrapped err = IsACLAlreadyBootstrapped e"
    "IsNodePoolNotEmpty err = IsNodePoolNotEmpty e"
    "IsNamespaceNotEmpty err = IsNamespaceNotEmpty e"
    "kubeIsNotFound err = kubeIsNotFound e"
proof (cases "raw w")
  case (Pair r w')
  with assms obtain e where r: "r = Inl e" by (cases r) (auto dest: success)
  with Pair obtain pre post where "wrapped w = (Inl (Wrapped pre e post), w')"
    using failure by blast
  with assms have "err = Wrapped pre e post" by simp
  with Pair r show ?thesis using that by simp
qed

end

lemma wrapErr_contract: "wrapped_call raw out (wrapErr pre raw out)"
  by unfold_locales (auto simp: wrapErr_def)

lemmas client_methods = ListNodes_def NodeInfo_def Ping_def Leader_def ServerHealthy_def
  ServerHealth_def ACLBootstrap_def SetEligibility_def UpdateDrain_def UpsertNodePool_def
  DeleteNodePool_def CountNodePoolNodes_def CountNodePoolJobs_def PlanJob_def RegisterJob_def
  DeregisterJob_def JobGroupSummary_def UpsertNamespace_def DeleteNamespace_def
  CountNamespaceJobs_def

interpretation delete_pool: wrapped_call "api_PoolsDelete c name writeOpts" "\<lambda>_. ()" "DeleteNodePool uc c name"
  for uc c name unfolding client_methods by (rule wrapErr_contract)

interpretation delete_namespace: wrapped_call "api_NamespacesDelete c name writeOpts" "\<lambda>_. ()"
    "DeleteNamespace uc c name"
  for uc c name unfolding client_methods by (rule wrapErr_contract)

interpretation deregister_job: wrapped_call "api_JobsDeregister c jobID purge (nsQueryOpts namespace)" "\<lambda>_. ()"
    "DeregisterJob uc c namespace jobID purge"
  for uc c namespace jobID purge unfolding client_methods by (rule wrapErr_contract)

interpretation acl_bootstrap: wrapped_call "api_BootstrapOpts c token writeOpts" "\<lambda>secretID. secretID"
    "ACLBootstrap c token"
  for c token unfolding client_methods by (rule wrapErr_contract)

interpretation list_nodes: wrapped_call "api_NodesList c queryOpts" "\<lambda>nodes. nodes" "ListNodes c"
  for c unfolding client_methods by (rule wrapErr_contract)

interpretation leader: wrapped_call "api_StatusLeader c" "\<lambda>leader. leader" "Leader c"
  for c unfolding client_methods by (rule wrapErr_contract)

subsection \<open>Contract of a lookup\<close>

text \<open>A lookup is a wrapped call except that "no such object" is the answer \<^const>\<open>None\<close>.\<close>

locale nil_on_missing =
  fixes raw :: "'w \<Rightarrow> (error + 'a option) \<times> 'w"
    and lookup :: "'w \<Rightarrow> (error + 'a option) \<times> 'w"
  assumes found: "raw w = (Inr x, w') \<Longrightarrow> lookup w = (Inr x, w')"
    and missing: "raw w = (Inl e, w') \<Longrightarrow> IsNotFound e \<Longrightarrow> lookup w = (Inr None, w')"
    and failed: "raw w = (Inl e, w') \<Longrightarrow> \<not> IsNotFound e \<Longrightarrow>
      \<exists>pre post. lookup w = (Inl (Wrapped pre e post), w')"
begin

lemma never_not_found: "fst (lookup w) = Inl err \<Longrightarrow> \<not> IsNotFound err"
proof (cases "raw w")
  case (Pair r w')
  assume err: "fst (lookup w) = Inl err"
  show ?thesis
  proof (cases r)
    case (Inr x)
    with Pair err show ?thesis by (auto dest: found)
  next
    case (Inl e)
    show ?thesis
    proof (cases "IsNotFound e")
      case True
      with Pair Inl err show ?thesis by (auto dest: missing)
    next
      case False
      with Pair Inl obtain pre post where "lookup w = (Inl (Wrapped pre e post), w')"
        using failed by blast
      with err False show ?thesis by auto
    qed
  qed
qed

text \<open>\<^const>\<open>None\<close> is the answer exactly on a 404 or an empty reply.\<close>

lemma none_iff:
  "fst (lookup w) = Inr None \<longleftrightarrow>
    fst (raw w) = Inr None \<or> (\<exists>e. fst (raw w) = Inl e \<and> IsNotFound e)"
proof (cases "raw w")
  case (Pair r w')
  show ?thesis
  proof (cases r)
    case (Inr x)
    with Pair show ?thesis by (auto dest: found)
  next
    case (Inl e)
    show ?thesis
    proof (cases "IsNotFound e")
      case True
      with Pair Inl show ?thesis by (auto dest: missing)
    next
      case False
      with Pair Inl show ?thesis by (auto dest: failed)
    qed
  qed
qed

end

lemma wrapLookup_contract: "nil_on_missing raw (wrapLookup pre raw)"
  by unfold_locales (auto simp: wrapLookup_def)

interpretation get_pool: nil_on_missing "api_PoolsInfo c name queryOpts" "GetNodePool uc c name"
  for uc c name unfolding GetNodePool_def by (rule wrapLookup_contract)

interpretation get_namespace: nil_on_missing "api_NamespacesInfo c name queryOpts" "GetNamespace uc c name"
  for uc c name unfolding GetNamespace_def by (rule wrapLookup_contract)

interpretation get_job: nil_on_missing "api_JobsInfo c jobID (nsQueryOpts namespace)" "GetJob uc c namespace jobID"
  for uc c namespace jobID unfolding GetJob_def by (rule wrapLookup_contract)

end
