(* ===== verification/Names.thy ===== *)
theory Names
  imports NomadOps
begin

section \<open>Object names (names.go, nomadnode_names.go)\<close>

text \<open>
  Every object a cluster owns is named by \<open>names\<close>; the name of a node object is the Nomad node
  name made into an RFC 1123 subdomain by \<open>sanitizeNodeName\<close>.
\<close>

subsection \<open>names.go\<close>

record resourceNames =
  rn_nc :: nomad_cluster
  rn_StatefulSet :: string
  rn_HeadlessSvc :: string
  rn_APISvc :: string
  rn_ConfigMap :: string
  rn_PDB :: string
  rn_Gateway :: string
  rn_GossipSecret :: string
  rn_TokenSecret :: string
  rn_TLSRoute :: string
  rn_LBService :: string

definition names :: "nomad_cluster \<Rightarrow> resourceNames" where
  "names nc =
     (let base = nc_name nc @ ''-server''; apiSvc = nc_name nc @ ''-nomad'' in
      \<lparr>rn_nc = nc, rn_StatefulSet = base, rn_HeadlessSvc = base @ ''-headless'', rn_APISvc = apiSvc,
       rn_ConfigMap = base @ ''-config'', rn_PDB = base @ ''-pdb'', rn_Gateway = nc_name nc @ ''-gateway'',
       rn_GossipSecret = nc_name nc @ ''-nomad-gossip-key'',
       rn_TokenSecret = nc_name nc @ ''-nomad-bootstrap-token'',
       rn_TLSRoute = apiSvc @ ''-tls'', rn_LBService = nc_name nc @ ''-lb''\<rparr>)"

definition PodName :: "resourceNames \<Rightarrow> nat \<Rightarrow> string" where
  "PodName r ordinal = rn_StatefulSet r @ ''-'' @ natDigits ordinal"

definition PodSvc :: "resourceNames \<Rightarrow> nat \<Rightarrow> string" where
  "PodSvc r ordinal = rn_StatefulSet r @ ''-'' @ natDigits ordinal @ ''-rpc''"

definition TCPRoute :: "resourceNames \<Rightarrow> nat \<Rightarrow> string" where
  "TCPRoute r ordinal = nc_name (rn_nc r) @ ''-rpc-'' @ natDigits ordinal"

definition Labels :: "resourceNames \<Rightarrow> strmap" where
  "Labels r = [(''app.kubernetes.io/name'', ''nomad''),
     (''app.kubernetes.io/instance'', nc_name (rn_nc r)),
     (''app.kubernetes.io/managed-by'', ''nomad-operator'')]"

lemma names_simps [simp]:
  "rn_nc (names nc) = nc"
  "rn_StatefulSet (names nc) = nc_name nc @ ''-server''"
  "rn_HeadlessSvc (names nc) = nc_name nc @ ''-server-headless''"
  "rn_APISvc (names nc) = nc_name nc @ ''-nomad''"
  "rn_ConfigMap (names nc) = nc_name nc @ ''-server-config''"
  "rn_PDB (names nc) = nc_name nc @ ''-server-pdb''"
  "rn_Gateway (names nc) = nc_name nc @ ''-gateway''"
  "rn_GossipSecret (names nc) = nc_name nc @ ''-nomad-gossip-key''"
  "rn_TokenSecret (names nc) = nc_name nc @ ''-nomad-bootstrap-token''"
  "rn_TLSRoute (names nc) = nc_name nc @ ''-nomad-tls''"
  "rn_LBService (names nc) = nc_name nc @ ''-lb''"
  by (simp_all add: names_def Let_def)

subsection \<open>Names of different clusters and roles never collide\<close>

text \<open>
  The Services of one namespace: a role per Service the operator creates. Two Services with the
  same name belong to the same cluster and have the same role.
\<close>

datatype service_role = HeadlessRole | APIRole | LoadBalancerRole | PodRole nat

fun serviceName :: "nomad_cluster \<Rightarrow> service_role \<Rightarrow> string" where
  "serviceName nc HeadlessRole = rn_HeadlessSvc (names nc)"
| "serviceName nc APIRole = rn_APISvc (names nc)"
| "serviceName nc LoadBalancerRole = rn_LBService (names nc)"
| "serviceName nc (PodRole i) = PodSvc (names nc) i"

lemma dash_notin_natDigits [simp]: "CHR ''-'' \<notin> set (natDigits n)"
  by (rule not_digit_notin_natDigits) simp

lemma dash_split_inject:
  assumes "a @ CHR ''-'' # x = b @ CHR ''-'' # y" "CHR ''-'' \<notin> set x" "CHR ''-'' \<notin> set y"
  shows "a = b \<and> x = y"
proof -
  have "rev x @ CHR ''-'' # rev a = rev y @ CHR ''-'' # rev b"
    using arg_cong [OF assms(1), of rev] by simp
  then have "splitOn (CHR ''-'') (rev x @ CHR ''-'' # rev a) = splitOn (CHR ''-'') (rev y @ CHR ''-'' # rev b)"
    by simp
  then have "rev x = rev y"
    using assms(2,3) by (simp add: splitOn_append_sep)
  with assms(1) show ?thesis by simp
qed

lemma ordinal_name_inject: "a @ ''-'' @ natDigits i = b @ ''-'' @ natDigits j \<longleftrightarrow> a = b \<and> i = j"
  using dash_split_inject [of a "natDigits i" b "natDigits j"] by auto

lemma last_serviceName:
  "last (serviceName nc r) = (case r of HeadlessRole \<Rightarrow> CHR ''s'' | APIRole \<Rightarrow> CHR ''d''
     | LoadBalancerRole \<Rightarrow> CHR ''b'' | PodRole i \<Rightarrow> CHR ''c'')"
  by (cases r) (simp_all add: PodSvc_def)

lemma serviceName_inject:
  "serviceName nc r = serviceName nc' r' \<longleftrightarrow> nc_name nc = nc_name nc' \<and> r = r'"
proof
  assume eq: "serviceName nc r = serviceName nc' r'"
  then have "last (serviceName nc r) = last (serviceName nc' r')" by simp
  note kinds = this [unfolded last_serviceName]
  show "nc_name nc = nc_name nc' \<and> r = r'"
  proof (cases r; cases r')
    fix i j
    assume r: "r = PodRole i" "r' = PodRole j"
    with eq have "(nc_name nc @ ''-server'') @ ''-'' @ natDigits i = (nc_name nc' @ ''-server'') @ ''-'' @ natDigits j"
      by (simp add: PodSvc_def)
    then show ?thesis unfolding ordinal_name_inject using r by simp
  qed (use kinds eq in simp_all)
qed (cases r, auto simp: PodSvc_def)

lemma PodName_inject: "PodName (names nc) i = PodName (names nc') j \<longleftrightarrow> nc_name nc = nc_name nc' \<and> i = j"
  using ordinal_name_inject [of "nc_name nc @ ''-server''" i "nc_name nc' @ ''-server''" j]
  by (simp add: PodName_def)

lemma TCPRoute_inject: "TCPRoute (names nc) i = TCPRoute (names nc') j \<longleftrightarrow> nc_name nc = nc_name nc' \<and> i = j"
  using ordinal_name_inject [of "nc_name nc @ ''-rpc''" i "nc_name nc' @ ''-rpc''" j]
  by (simp add: TCPRoute_def)

subsection \<open>nomadnode_names.go\<close>

definition labelByte :: "nat \<Rightarrow> char" where
  "labelByte r = (if (97 \<le> r \<and> r \<le> 122) \<or> (48 \<le> r \<and> r \<le> 57) then char_of r else CHR ''-'')"

lemma length_replaceAll:
  assumes "length new < length old"
  shows "length (replaceAll s old new) \<le> length s"
    "strContains s old \<Longrightarrow> length (replaceAll s old new) < length s"
proof -
  have "length (replaceAll s old new) \<le> length s \<and>
      (strContains s old \<longrightarrow> length (replaceAll s old new) < length s)"
    using assms
  proof (induction s old new rule: replaceAll.induct)
    case (1 old new)
    then show ?case by auto
  next
    case (2 c cs old new)
    show ?case
    proof (cases "old \<noteq> [] \<and> prefix old (c # cs)")
      case True
      then have "length old \<le> length (c # cs)" using prefix_length_le by blast
      with 2 True show ?thesis by (subst (1 2) replaceAll.simps(2)) fastforce
    next
      case False
      with 2 show ?thesis by (subst (1 2) replaceAll.simps(2)) auto
    qed
  qed
  then show "length (replaceAll s old new) \<le> length s"
    "strContains s old \<Longrightarrow> length (replaceAll s old new) < length s" by simp_all
qed

function collapseDashes :: "string \<Rightarrow> string" where
  "collapseDashes out =
     (if strContains out ''--'' then collapseDashes (replaceAll out ''--'' ''-'') else out)"
  by auto
termination
  by (relation "measure length") (simp_all add: length_replaceAll)

declare collapseDashes.simps [simp del]

definition sanitizeLabel :: "nat list \<Rightarrow> string" where
  "sanitizeLabel label =
     (let out = trimCut (collapseDashes (map labelByte label)) ''-'' in
      if length out > 63 then trimCut (take 63 out) ''-'' else out)"

text \<open>
  \<^verbatim>\<open>strings.ToLower\<close> and the cut at dots are done on code points: every code point above 127 is
  illegal in a label, so the UTF-8 encoding in between is not observable.
\<close>

definition sanitizeNodeName :: "unicode_tables \<Rightarrow> string \<Rightarrow> string" where
  "sanitizeNodeName uc name =
     (let labels = filter (\<lambda>l. l \<noteq> []) (map sanitizeLabel (splitOn 46 (map (toLowerRune uc) (runes name))));
          out = strJoin ''.'' labels;
          out = (if length out > 253 then trimCut (take 253 out) ''-.'' else out)
      in if out = [] then ''node'' else out)"

subsection \<open>The result is always an RFC 1123 subdomain\<close>

definition alnum :: "char \<Rightarrow> bool" where
  "alnum c \<longleftrightarrow> (let n = of_char c :: nat in (97 \<le> n \<and> n \<le> 122) \<or> (48 \<le> n \<and> n \<le> 57))"

definition labelChars :: "string \<Rightarrow> bool" where
  "labelChars s \<longleftrightarrow> (\<forall>c\<in>set s. alnum c \<or> c = CHR ''-'')"

definition validLabel :: "string \<Rightarrow> bool" where
  "validLabel l \<longleftrightarrow> l \<noteq> [] \<and> length l \<le> 63 \<and> labelChars l \<and> alnum (hd l) \<and> alnum (last l)"

definition validSubdomain :: "string \<Rightarrow> bool" where
  "validSubdomain s \<longleftrightarrow> length s \<le> 253 \<and> (\<forall>l\<in>set (splitOn (CHR ''.'') s). validLabel l)"

lemma not_alnum [simp]: "\<not> alnum CHR ''-''" "\<not> alnum CHR ''.''"
  by (simp_all add: alnum_def)

lemma labelByte_chars: "alnum (labelByte r) \<or> labelByte r = CHR ''-''"
  by (simp add: labelByte_def alnum_def Let_def)

lemma dot_notin_label: "labelChars l \<Longrightarrow> CHR ''.'' \<notin> set l"
  by (auto simp: labelChars_def)

lemma labelChars_subset: "set s \<subseteq> set t \<Longrightarrow> labelChars t \<Longrightarrow> labelChars s"
  by (auto simp: labelChars_def)

lemma set_replaceAll: "set (replaceAll s old new) \<subseteq> set s \<union> set new"
proof (induction s old new rule: replaceAll.induct)
  case (2 c cs old new)
  then show ?case
    by (subst replaceAll.simps(2)) (auto dest!: subsetD in_set_dropD split: if_splits)
qed simp

lemma labelChars_collapse: "labelChars s \<Longrightarrow> labelChars (collapseDashes s)"
proof (induction s rule: collapseDashes.induct)
  case (1 out)
  show ?case
  proof (cases "strContains out ''--''")
    case True
    moreover have "labelChars (replaceAll out ''--'' ''-'')"
      using 1(2) set_replaceAll [of out "''--''" "''-''"] by (auto simp: labelChars_def)
    ultimately show ?thesis using 1(1) by (simp add: collapseDashes.simps [of out])
  next
    case False
    with 1(2) show ?thesis by (simp add: collapseDashes.simps [of out])
  qed
qed

lemma collapse_no_dashes: "\<not> strContains (collapseDashes s) ''--''"
  by (induction s rule: collapseDashes.induct) (subst collapseDashes.simps, simp)

lemma collapse_id: "\<not> strContains s ''--'' \<Longrightarrow> collapseDashes s = s"
  by (simp add: collapseDashes.simps)

lemma trimCut_label:
  assumes "labelChars s" "trimCut s ''-'' \<noteq> []"
  shows "labelChars (trimCut s ''-'')" "alnum (hd (trimCut s ''-''))" "alnum (last (trimCut s ''-''))"
proof -
  show chars: "labelChars (trimCut s ''-'')"
    using assms(1) by (rule labelChars_subset [OF set_trimCut])
  have "hd (trimCut s ''-'') \<in> set (trimCut s ''-'')" "last (trimCut s ''-'') \<in> set (trimCut s ''-'')"
    using assms(2) by simp_all
  then show "alnum (hd (trimCut s ''-''))" "alnum (last (trimCut s ''-''))"
    using chars trimCut_hd [OF assms(2)] trimCut_last [OF assms(2)] by (auto simp: labelChars_def)
qed

lemma sanitizeLabel_valid: "sanitizeLabel label = [] \<or> validLabel (sanitizeLabel label)"
proof -
  let ?out = "trimCut (collapseDashes (map labelByte label)) ''-''"
  have chars: "labelChars (collapseDashes (map labelByte label))"
    by (rule labelChars_collapse) (use labelByte_chars in \<open>auto simp: labelChars_def\<close>)
  have cut: "labelChars (take 63 ?out)"
    using chars set_trimCut set_take_subset by (meson labelChars_subset subset_trans)
  show ?thesis
  proof (cases "length ?out > 63")
    case True
    have "length (trimCut (take 63 ?out) ''-'') \<le> 63"
      using length_trimCut [of "take 63 ?out" "''-''"] by simp
    with True show ?thesis
      using trimCut_label [OF cut] by (auto simp: sanitizeLabel_def validLabel_def Let_def)
  next
    case False
    then show ?thesis
      using trimCut_label [OF chars] by (auto simp: sanitizeLabel_def validLabel_def Let_def)
  qed
qed

lemma sanitizeLabel_no_dashes: "\<not> strContains (sanitizeLabel label) ''--''"
proof -
  let ?c = "collapseDashes (map labelByte label)"
  let ?out = "trimCut ?c ''-''"
  have "sublist ?out ?c" by (rule sublist_trimCut)
  moreover have "sublist (trimCut (take 63 ?out) ''-'') ?out"
    by (rule sublist_order.order_trans [OF sublist_trimCut prefix_imp_sublist [OF take_is_prefix]])
  ultimately have "sublist (sanitizeLabel label) ?c"
    by (simp add: sanitizeLabel_def Let_def) (blast intro: sublist_order.order_trans)
  then show ?thesis
    using collapse_no_dashes [of "map labelByte label"] strContains_trans strContains_sublist by blast
qed

lemma splitOn_append:
  "splitOn sep (p @ q) =
   butlast (splitOn sep p) @ (last (splitOn sep p) @ hd (splitOn sep q)) # tl (splitOn sep q)"
proof (induction p)
  case Nil
  then show ?case by (simp add: list.expand)
next
  case (Cons c p)
  obtain v vs where v: "splitOn sep p = v # vs"
    by (meson list.exhaust splitOn_nonempty)
  with Cons show ?case by (cases vs) auto
qed

lemma last_splitOn:
  assumes "p \<noteq> []" "last p \<noteq> sep"
  shows "last (splitOn sep p) \<noteq> [] \<and> last (last (splitOn sep p)) = last p"
  using assms
proof (induction p)
  case (Cons c p)
  obtain v vs where v: "splitOn sep p = v # vs"
    by (meson list.exhaust splitOn_nonempty)
  with Cons show ?case by (cases p; cases vs) auto
qed simp

text \<open>Cutting a list of valid labels anywhere and trimming the end leaves valid labels.\<close>

lemma validLabel_prefix:
  assumes "validLabel (p @ q)" "p \<noteq> []" "alnum (last p)"
  shows "validLabel p"
  using assms by (auto simp: validLabel_def labelChars_def)

lemma valid_prefix:
  assumes all: "\<forall>l\<in>set (splitOn (CHR ''.'') (p @ q)). validLabel l"
    and p: "p \<noteq> []" "alnum (last p)"
  shows "\<forall>l\<in>set (splitOn (CHR ''.'') p). validLabel l"
proof -
  let ?P = "splitOn (CHR ''.'') p" and ?Q = "splitOn (CHR ''.'') q"
  have "last p \<noteq> CHR ''.''" using p(2) by (auto simp: alnum_def)
  from last_splitOn [OF p(1) this] have "last ?P \<noteq> []" "alnum (last (last ?P))"
    using p(2) by simp_all
  moreover have "validLabel (last ?P @ hd ?Q)"
    using all by (simp add: splitOn_append)
  ultimately have "validLabel (last ?P)" by (blast intro: validLabel_prefix)
  moreover have "\<forall>l\<in>set (butlast ?P). validLabel l"
    using all by (simp add: splitOn_append)
  ultimately show ?thesis
    by (metis append_butlast_last_id splitOn_nonempty in_set_conv_decomp rotate1.simps(2) set_ConsD set_rotate1)
qed

lemma hd_splitOn: "splitOn sep (c # cs) = ws \<Longrightarrow> c \<noteq> sep \<Longrightarrow> \<exists>w. hd ws = c # w"
  by (auto split: list.split)

lemma hd_of_valid:
  assumes "\<forall>l\<in>set (splitOn (CHR ''.'') s). validLabel l"
  shows "s \<noteq> []" "alnum (hd s)"
proof -
  show ne: "s \<noteq> []" using assms by (auto simp: validLabel_def)
  obtain c cs where s: "s = c # cs" using ne by (cases s) auto
  obtain v vs where v: "splitOn (CHR ''.'') cs = v # vs"
    by (meson list.exhaust splitOn_nonempty)
  show "alnum (hd s)" using assms v s by (auto simp: validLabel_def split: if_splits)
qed

lemma trimCut_prefix:
  assumes "s \<noteq> []" "hd s \<notin> set cs"
  shows "prefix (trimCut s cs) s"
proof -
  have "trimLeft (set cs) s = s" using assms by (cases s) (simp_all add: trimLeft_def)
  then show ?thesis using prefix_trimRight by (simp add: trimCut_def)
qed

lemma set_splitOn: "w \<in> set (splitOn sep s) \<Longrightarrow> set w \<subseteq> set s"
proof (induction s arbitrary: w)
  case (Cons c s)
  obtain v vs where v: "splitOn sep s = v # vs"
    by (meson list.exhaust splitOn_nonempty)
  with Cons show ?case by (fastforce split: if_splits)
qed simp

lemma set_eq_splitOn: "set s \<subseteq> insert sep (\<Union>w\<in>set (splitOn sep s). set w)"
proof (induction s)
  case (Cons c s)
  obtain v vs where v: "splitOn sep s = v # vs"
    by (meson list.exhaust splitOn_nonempty)
  with Cons show ?case by auto
qed simp

lemma cut_valid:
  assumes all: "\<forall>l\<in>set (splitOn (CHR ''.'') s). validLabel l"
    and cut: "trimCut (take 253 s) ''-.'' \<noteq> []"
  shows "\<forall>l\<in>set (splitOn (CHR ''.'') (trimCut (take 253 s) ''-.'')). validLabel l"
proof -
  let ?p = "trimCut (take 253 s) ''-.''"
  note s = hd_of_valid [OF all]
  then have "take 253 s \<noteq> []" "hd (take 253 s) \<notin> set ''-.''" by (auto simp: alnum_def)
  then have "prefix ?p (take 253 s)" by (rule trimCut_prefix)
  then have "prefix ?p s" using take_is_prefix prefix_order.order_trans by blast
  then obtain q where q: "s = ?p @ q" by (auto simp: prefix_def)
  have "last ?p \<in> set s" using cut by (metis q UnCI last_in_set set_append)
  moreover have "\<forall>c\<in>set s. alnum c \<or> c = CHR ''-'' \<or> c = CHR ''.''"
    using all set_eq_splitOn [of s "CHR ''.''"] by (fastforce simp: validLabel_def labelChars_def)
  ultimately have "alnum (last ?p)" using trimCut_last [OF cut] by auto
  with all cut show ?thesis by (metis q valid_prefix)
qed

lemma node_valid: "validSubdomain ''node''"
  by (simp add: validSubdomain_def validLabel_def labelChars_def alnum_def)

lemma sanitizeNodeName_is_valid: "validSubdomain (sanitizeNodeName uc name)"
proof -
  let ?labels = "filter (\<lambda>l. l \<noteq> []) (map sanitizeLabel (splitOn 46 (map (toLowerRune uc) (runes name))))"
  let ?out = "strJoin ''.'' ?labels"
  have valid: "\<forall>l\<in>set ?labels. validLabel l" using sanitizeLabel_valid by auto
  show ?thesis
  proof (cases "?labels = []")
    case True
    then show ?thesis using node_valid by (simp add: sanitizeNodeName_def)
  next
    case False
    have "\<forall>l\<in>set ?labels. CHR ''.'' \<notin> set l"
      using valid dot_notin_label by (auto simp: validLabel_def)
    with False have all: "\<forall>l\<in>set (splitOn (CHR ''.'') ?out). validLabel l"
      using valid splitOn_strJoin [of ?labels "CHR ''.''"] by simp
    have len: "length (trimCut (take 253 ?out) ''-.'') \<le> 253"
      using length_trimCut [of "take 253 ?out" "''-.''"] by simp
    show ?thesis
      using node_valid all len cut_valid [OF all]
      by (simp add: sanitizeNodeName_def Let_def validSubdomain_def)
  qed
qed


text \<open>
  C36: for every node name, however spelled and in whatever encoding, the derived object name is a
  valid RFC 1123 subdomain: at most 253 characters, dot-separated labels that are non-empty, at
  most 63 characters of lower-case letters, digits and dashes, and alphanumeric at both ends.
\<close>

theorem sanitizeNodeName_valid: "validSubdomain (sanitizeNodeName uc name)"
  by (rule sanitizeNodeName_is_valid)

subsection \<open>Names that are already valid are kept\<close>

lemma valid_chars:
  assumes "validSubdomain s"
  shows "\<forall>c\<in>set s. alnum c \<or> c = CHR ''-'' \<or> c = CHR ''.''"
  using assms set_eq_splitOn [of s "CHR ''.''"]
  by (fastforce simp: validSubdomain_def validLabel_def labelChars_def)

lemma splitOn_map:
  "(\<And>c. c \<in> set s \<Longrightarrow> f c = f sep \<longleftrightarrow> c = sep) \<Longrightarrow> splitOn (f sep) (map f s) = map (map f) (splitOn sep s)"
proof (induction s)
  case (Cons c s)
  obtain v vs where v: "splitOn sep s = v # vs"
    by (meson list.exhaust splitOn_nonempty)
  with Cons show ?case by auto
qed simp

lemma toLowerRune_id:
  "alnum c \<or> c = CHR ''-'' \<or> c = CHR ''.'' \<Longrightarrow> toLowerRune uc (of_char c) = of_char c"
  by (auto simp: toLowerRune_def alnum_def Let_def)

lemma lower_runes_valid:
  assumes "\<forall>c\<in>set s. alnum c \<or> c = CHR ''-'' \<or> c = CHR ''.''"
  shows "map (toLowerRune uc) (runes s) = map of_char s"
proof -
  have "asciiString s" using assms by (fastforce simp: asciiString_def alnum_def Let_def)
  then have "map (toLowerRune uc) (runes s) = map (\<lambda>c. toLowerRune uc (of_char c)) s"
    by (simp add: runes_ascii)
  also have "\<dots> = map of_char s"
    using assms by (simp add: toLowerRune_id)
  finally show ?thesis .
qed

lemma labelByte_id: "alnum c \<or> c = CHR ''-'' \<Longrightarrow> labelByte (of_char c) = c"
  by (auto simp: labelByte_def alnum_def Let_def)

lemma sanitizeLabel_id:
  assumes "validLabel l" "\<not> strContains l ''--''"
  shows "sanitizeLabel (map of_char l) = l"
proof -
  have "map labelByte (map of_char l) = l"
    using assms(1) by (simp add: validLabel_def labelChars_def o_def labelByte_id map_idI)
  moreover have "trimCut l ''-'' = l"
    using assms(1) by (intro trimCut_id) (auto simp: validLabel_def alnum_def)
  ultimately show ?thesis
    using assms collapse_id [OF assms(2)] by (simp add: sanitizeLabel_def validLabel_def)
qed

lemma sublist_splitOn: "w \<in> set (splitOn sep s) \<Longrightarrow> sublist w s"
proof (induction s arbitrary: w)
  case (Cons c s)
  obtain v vs where v: "splitOn sep s = v # vs"
    by (meson list.exhaust splitOn_nonempty)
  have "prefix v s"
    using v
  proof (induction s arbitrary: v vs)
    case (Cons d s)
    obtain u us where "splitOn sep s = u # us"
      by (meson list.exhaust splitOn_nonempty)
    with Cons show ?case by (auto split: if_splits)
  qed simp
  moreover have "w \<in> set vs \<Longrightarrow> sublist w (c # s)"
    using Cons.IH v by (simp add: sublist_Cons_right)
  ultimately show ?case using Cons.prems Cons.IH v
    by (auto simp: sublist_Cons_right split: if_splits)
qed simp

lemma sanitize_id:
  assumes valid: "validSubdomain s" and single: "\<not> strContains s ''--''"
  shows "sanitizeNodeName uc s = s"
proof -
  let ?ls = "splitOn (CHR ''.'') s"
  note chars = valid_chars [OF valid]
  have inj: "(of_char c :: nat) = of_char (CHR ''.'') \<longleftrightarrow> c = CHR ''.''" for c :: char
    by (simp add: of_char_eq_iff del: of_char_Char)
  have "splitOn 46 (map (toLowerRune uc) (runes s)) = map (map of_char) ?ls"
    using splitOn_map [of s "of_char :: char \<Rightarrow> nat" "CHR ''.''"] inj
    by (simp add: lower_runes_valid [OF chars])
  moreover have "\<forall>l\<in>set ?ls. sanitizeLabel (map of_char l) = l"
  proof (rule ballI, rule sanitizeLabel_id)
    fix l
    assume l: "l \<in> set ?ls"
    then show "validLabel l" using valid by (simp add: validSubdomain_def)
    show "\<not> strContains l ''--''"
      using single sublist_splitOn [OF l] strContains_trans strContains_sublist by blast
  qed
  ultimately have "map sanitizeLabel (splitOn 46 (map (toLowerRune uc) (runes s))) = ?ls"
    by (simp add: map_idI o_def)
  moreover have "filter (\<lambda>l. l \<noteq> []) ?ls = ?ls"
    using valid by (auto simp: validSubdomain_def validLabel_def intro: filter_True)
  moreover have "s \<noteq> []" using valid hd_of_valid(1) by (auto simp: validSubdomain_def)
  ultimately show ?thesis
    using valid by (simp add: sanitizeNodeName_def strJoin_splitOn validSubdomain_def)
qed

lemma sublist_in_split:
  assumes "sublist xs s" "sep \<notin> set xs"
  shows "\<exists>w\<in>set (splitOn sep s). sublist xs w"
proof -
  obtain a b where s: "s = a @ xs @ b" using assms(1) by (auto simp: sublist_def)
  have "hd (splitOn sep (xs @ b)) = xs @ hd (splitOn sep b)"
    using assms(2) by (simp add: splitOn_append splitOn_no_sep)
  then have "last (splitOn sep a) @ xs @ hd (splitOn sep b) \<in> set (splitOn sep s)"
    unfolding s by (simp add: splitOn_append [of sep a])
  then show ?thesis by (rule bexI [rotated]) (rule sublist_appendI)
qed

lemma sanitize_single: "\<not> strContains (sanitizeNodeName uc name) ''--''"
proof -
  let ?labels = "filter (\<lambda>l. l \<noteq> []) (map sanitizeLabel (splitOn 46 (map (toLowerRune uc) (runes name))))"
  let ?out = "strJoin ''.'' ?labels"
  have labels: "\<forall>l\<in>set ?labels. CHR ''.'' \<notin> set l \<and> \<not> sublist ''--'' l"
    using sanitizeLabel_valid sanitizeLabel_no_dashes dot_notin_label
    by (auto simp: validLabel_def strContains_sublist)
  have out: "\<not> sublist ''--'' ?out"
  proof (cases "?labels = []")
    case False
    with labels have "splitOn (CHR ''.'') ?out = ?labels" by (intro splitOn_strJoin) auto
    then show ?thesis using sublist_in_split [of "''--''" ?out "CHR ''.''"] labels by auto
  qed (simp only: strJoin.simps sublist_Nil_right list.distinct not_False_eq_True)
  have cut: "sublist (trimCut (take 253 ?out) ''-.'') ?out"
    by (rule sublist_order.order_trans [OF sublist_trimCut prefix_imp_sublist [OF take_is_prefix]])
  have "\<not> sublist ''--'' (trimCut (take 253 ?out) ''-.'')"
    using out cut sublist_order.order_trans by blast
  with out show ?thesis
    unfolding strContains_sublist sanitizeNodeName_def Let_def by (simp add: sublist_Cons_right)
qed

text \<open>
  The names the operator leaves alone are exactly the valid subdomains without a run of
  dashes; in particular sanitising is idempotent, so a name read back from an object is a fixed
  point.
\<close>

lemma sanitizeNodeName_fixed_iff:
  "sanitizeNodeName uc s = s \<longleftrightarrow> validSubdomain s \<and> \<not> strContains s ''--''"
  by (metis sanitize_id sanitize_single sanitizeNodeName_is_valid)

end
