(* ===== verification/Sha256.thy ===== *)
theory Sha256
  imports GoFormat
begin

section \<open>SHA-256 (crypto/sha256)\<close>

text \<open>
  The rollout hash of the server configuration is \<^verbatim>\<open>sha256.Sum256\<close> of the rendered text. The
  digest is computed here as FIPS 180-4 defines it, on 32-bit words with wrap-around addition.
\<close>

unbundle bit_operations_syntax

definition shaK :: "32 word list" where
  "shaK =
    [0x428A2F98, 0x71374491, 0xB5C0FBCF, 0xE9B5DBA5, 0x3956C25B, 0x59F111F1,
     0x923F82A4, 0xAB1C5ED5, 0xD807AA98, 0x12835B01, 0x243185BE, 0x550C7DC3,
     0x72BE5D74, 0x80DEB1FE, 0x9BDC06A7, 0xC19BF174, 0xE49B69C1, 0xEFBE4786,
     0x0FC19DC6, 0x240CA1CC, 0x2DE92C6F, 0x4A7484AA, 0x5CB0A9DC, 0x76F988DA,
     0x983E5152, 0xA831C66D, 0xB00327C8, 0xBF597FC7, 0xC6E00BF3, 0xD5A79147,
     0x06CA6351, 0x14292967, 0x27B70A85, 0x2E1B2138, 0x4D2C6DFC, 0x53380D13,
     0x650A7354, 0x766A0ABB, 0x81C2C92E, 0x92722C85, 0xA2BFE8A1, 0xA81A664B,
     0xC24B8B70, 0xC76C51A3, 0xD192E819, 0xD6990624, 0xF40E3585, 0x106AA070,
     0x19A4C116, 0x1E376C08, 0x2748774C, 0x34B0BCB5, 0x391C0CB3, 0x4ED8AA4A,
     0x5B9CCA4F, 0x682E6FF3, 0x748F82EE, 0x78A5636F, 0x84C87814, 0x8CC70208,
     0x90BEFFFA, 0xA4506CEB, 0xBEF9A3F7, 0xC67178F2]"

definition shaInit :: "32 word list" where
  "shaInit =
    [0x6A09E667, 0xBB67AE85, 0x3C6EF372, 0xA54FF53A, 0x510E527F, 0x9B05688C,
     0x1F83D9AB, 0x5BE0CD19]"

definition bigSigma0 :: "32 word \<Rightarrow> 32 word" where
  "bigSigma0 x = word_rotr 2 x XOR word_rotr 13 x XOR word_rotr 22 x"

definition bigSigma1 :: "32 word \<Rightarrow> 32 word" where
  "bigSigma1 x = word_rotr 6 x XOR word_rotr 11 x XOR word_rotr 25 x"

definition smallSigma0 :: "32 word \<Rightarrow> 32 word" where
  "smallSigma0 x = word_rotr 7 x XOR word_rotr 18 x XOR drop_bit 3 x"

definition smallSigma1 :: "32 word \<Rightarrow> 32 word" where
  "smallSigma1 x = word_rotr 17 x XOR word_rotr 19 x XOR drop_bit 10 x"

definition choose32 :: "32 word \<Rightarrow> 32 word \<Rightarrow> 32 word \<Rightarrow> 32 word" where
  "choose32 x y z = (x AND y) XOR (NOT x AND z)"

definition majority32 :: "32 word \<Rightarrow> 32 word \<Rightarrow> 32 word \<Rightarrow> 32 word" where
  "majority32 x y z = (x AND y) XOR (x AND z) XOR (y AND z)"

text \<open>Padding: a one bit, zeros, and the bit length as a 64-bit big-endian number.\<close>

definition shaPad :: "byte list \<Rightarrow> byte list" where
  "shaPad bs = bs @ [0x80] @ replicate (nat ((55 - int (length bs)) mod 64)) 0 @
     map (\<lambda>i. of_nat (8 * length bs div 256 ^ i)) (rev [0..<8])"

fun wordsOf :: "byte list \<Rightarrow> 32 word list" where
  "wordsOf (a # b # c # d # rest) =
     (push_bit 24 (ucast a) OR push_bit 16 (ucast b) OR push_bit 8 (ucast c) OR ucast d) # wordsOf rest"
| "wordsOf _ = []"

function shaBlocks :: "'a list \<Rightarrow> 'a list list" where
  "shaBlocks ws = (if length ws < 16 then [] else take 16 ws # shaBlocks (drop 16 ws))"
  by auto
termination
  by (relation "measure length") auto

declare shaBlocks.simps [simp del]

primrec shaSchedule :: "nat \<Rightarrow> 32 word list \<Rightarrow> 32 word list" where
  "shaSchedule 0 ws = ws"
| "shaSchedule (Suc n) ws = shaSchedule n (ws @
     [smallSigma1 (ws ! (length ws - 2)) + ws ! (length ws - 7) +
      smallSigma0 (ws ! (length ws - 15)) + ws ! (length ws - 16)])"

fun shaRound :: "32 word \<times> 32 word \<Rightarrow> 32 word list \<Rightarrow> 32 word list" where
  "shaRound (k, m) [a, b, c, d, e, f, g, h] =
     (let t1 = h + bigSigma1 e + choose32 e f g + k + m; t2 = bigSigma0 a + majority32 a b c
      in [t1 + t2, a, b, c, d + t1, e, f, g])"
| "shaRound _ st = st"

definition shaCompress :: "32 word list \<Rightarrow> 32 word list \<Rightarrow> 32 word list" where
  "shaCompress st block = map2 (+) st (fold shaRound (zip shaK (shaSchedule 48 block)) st)"

definition bytesOfWord :: "32 word \<Rightarrow> byte list" where
  "bytesOfWord x = map (\<lambda>i. ucast (drop_bit (8 * i) x)) [3, 2, 1, 0]"

definition sha256 :: "byte list \<Rightarrow> byte list" where
  "sha256 bs = concat (map bytesOfWord (foldl shaCompress shaInit (shaBlocks (wordsOf (shaPad bs)))))"

subsection \<open>A digest has 32 bytes\<close>

lemma length_shaRound [simp]: "length (shaRound km st) = length st"
  by (cases "(km, st)" rule: shaRound.cases) (simp_all add: Let_def)

lemma length_fold_shaRound [simp]: "length (fold shaRound kms st) = length st"
  by (induction kms arbitrary: st) simp_all

lemma length_shaCompress [simp]: "length (shaCompress st block) = length st"
  by (simp add: shaCompress_def)

lemma length_foldl_shaCompress [simp]: "length (foldl shaCompress st blocks) = length st"
  by (induction blocks arbitrary: st) simp_all

lemma length_concat_bytesOfWord: "length (concat (map bytesOfWord ws)) = 4 * length ws"
  by (induction ws) (simp_all add: bytesOfWord_def)

lemma length_sha256 [simp]: "length (sha256 bs) = 32"
  by (simp add: sha256_def length_concat_bytesOfWord) (simp add: shaInit_def)

text \<open>Padding fills whole 64-byte blocks, so no byte of the message is dropped.\<close>

lemma pad_arith: "(n + (nat ((55 - int n) mod 64) + 9)) mod 64 = 0"
proof -
  have "int (n + (nat ((55 - int n) mod 64) + 9)) mod 64 = ((int n + 9) + (55 - int n) mod 64) mod 64"
    by (simp add: ac_simps)
  also have "\<dots> = ((int n + 9) + (55 - int n)) mod 64"
    by (rule mod_add_right_eq)
  finally have "int ((n + (nat ((55 - int n) mod 64) + 9)) mod 64) = 0"
    by (simp only: zmod_int) simp
  then show ?thesis by simp
qed

lemma length_shaPad: "length (shaPad bs) mod 64 = 0"
  using pad_arith [of "length bs"]
  by (simp only: shaPad_def length_append length_map length_rev length_upt length_replicate
      list.size One_nat_def) (simp add: ac_simps)

end
