(* ===== verification/ClusterConfig.thy ===== *)
theory ClusterConfig
  imports Names Sha256
begin

section \<open>Rendered configuration, client configuration, member status\<close>

text \<open>
  config_render.go, nomadclient.go and status_members.go: the server configuration with its
  rollout hash, the configuration of the per-cluster Nomad client, and the projection of the
  observed servers into the status.
\<close>

subsection \<open>config_render.go\<close>

definition portHTTP :: int where "portHTTP = 4646"
definition portRPC :: int where "portRPC = 4647"
definition portSerf :: int where "portSerf = 4648"

lemmas port_defs = portHTTP_def portRPC_def portSerf_def

definition newline :: string where
  "newline = [CHR 0x0A]"

definition inQuotes :: "string \<Rightarrow> string" where
  "inQuotes s = [CHR 0x22] @ s @ [CHR 0x22]"

definition firstOr :: "string list \<Rightarrow> string \<Rightarrow> string" where
  "firstOr xs dflt = (if length xs = 0 then dflt else hd xs)"

definition trimLeadingSpace :: "string \<Rightarrow> string" where
  "trimLeadingSpace s = trimPrefix s '' ''"

definition nilDereference :: error where
  "nilDereference = GoPanic ''invalid memory address or nil pointer dereference''"

definition rpcAdvertisePorts :: "nomad_cluster \<Rightarrow> error + int list" where
  "rpcAdvertisePorts nc =
     (if ea_mode (nc_access nc) = ExternalAccessLoadBalancer then Inr [portRPC]
      else (case ea_gateway (nc_access nc) of
              None \<Rightarrow> Inl nilDereference
            | Some g \<Rightarrow> Inr (gs_rpcPorts g)))"

definition renderBody :: "unicode_tables \<Rightarrow> nomad_cluster \<Rightarrow> string" where
  "renderBody uc nc =
     (let n = names nc;
          retryJoin = inQuotes (rn_HeadlessSvc n @ ''.'' @ nc_namespace nc @ ''.svc.cluster.local'');
          gcLine = (case cs_nodeGCThreshold (nc_spec nc) of
              None \<Rightarrow> []
            | Some d \<Rightarrow> ''  node_gc_threshold = '' @ goQuote uc (durationString d) @ newline)
      in ''region     = '' @ goQuote uc (cs_region (nc_spec nc)) @ newline @
         ''datacenter = '' @ goQuote uc (firstOr (cs_datacenters (nc_spec nc)) ''dc1'') @ newline @
         ''data_dir   = '' @ inQuotes ''/var/lib/nomad'' @ newline @
         ''bind_addr  = '' @ inQuotes ''0.0.0.0'' @ newline @ newline @
         ''server {'' @ newline @ ''  enabled          = true'' @ newline @
         ''  bootstrap_expect = '' @ itoa (nc_servers nc) @ newline @
         gcLine @
         ''  server_join {'' @ newline @ ''    retry_join = ['' @ retryJoin @ '']'' @ newline @
         ''  }'' @ newline @ ''}'' @ newline @ newline @
         ''acl {'' @ newline @ ''  enabled = true'' @ newline @ ''}'' @ newline @ newline @
         ''tls {'' @ newline @ ''  http = true'' @ newline @ ''  rpc  = true'' @ newline @
         ''  ca_file   = '' @ inQuotes ''/nomad/tls/ca.crt'' @ newline @
         ''  cert_file = '' @ inQuotes ''/nomad/tls/tls.crt'' @ newline @
         ''  key_file  = '' @ inQuotes ''/nomad/tls/tls.key'' @ newline @
         ''  verify_server_hostname = true'' @ newline @
         ''  verify_https_client    = true'' @ newline @ ''}'' @ newline)"

definition hashInput :: "string \<Rightarrow> string \<Rightarrow> int list \<Rightarrow> string" where
  "hashInput body gatewayAddress ports =
     body @ ''|gw='' @ gatewayAddress @ ''|ports='' @ sprintInts ports"

definition renderConfig :: "unicode_tables \<Rightarrow> nomad_cluster \<Rightarrow> string \<Rightarrow> error + string \<times> string" where
  "renderConfig uc nc gatewayAddress =
     (let body = renderBody uc nc in
      case rpcAdvertisePorts nc of
        Inl err \<Rightarrow> Inl err
      | Inr ports \<Rightarrow> Inr (body, hexString (sha256 (bytesOf (hashInput body gatewayAddress ports)))))"

subsection \<open>What the rollout hash depends on\<close>

lemma sprintInts_chars: "CHR ''|'' \<notin> set (sprintInts is)"
proof -
  have bar: "CHR ''|'' \<notin> set (itoa i)" for i
    using not_digit_notin_natDigits [of "CHR ''|''"] by (simp add: itoa_def)
  have "CHR ''|'' \<notin> set (strJoin '' '' (map itoa is))"
    by (induction "is" rule: induct_list012) (simp_all add: bar)
  then show ?thesis by (simp add: sprintInts_def)
qed

lemma space_notin_itoa: "CHR '' '' \<notin> set (itoa i)"
  using not_digit_notin_natDigits [of "CHR '' ''"] by (simp add: itoa_def)

lemma itoa_nonempty: "itoa i \<noteq> []"
  by (simp add: itoa_def)

lemma strJoin_itoa_inject:
  assumes "strJoin '' '' (map itoa is) = strJoin '' '' (map itoa js)"
  shows "is = js"
proof (cases "is = [] \<or> js = []")
  case True
  have none: "strJoin '' '' (map itoa ks) = [] \<longleftrightarrow> ks = []" for ks
    by (induction ks rule: induct_list012) (simp_all add: itoa_nonempty)
  show ?thesis using True assms none [of "is"] none [of js] by auto
next
  case False
  have cut: "ks \<noteq> [] \<Longrightarrow> splitOn (CHR '' '') (strJoin '' '' (map itoa ks)) = map itoa ks" for ks
    by (rule splitOn_strJoin) (simp_all add: space_notin_itoa)
  from False have "is \<noteq> []" "js \<noteq> []" by simp_all
  then have "map itoa is = map itoa js"
    using cut [of "is"] cut [of js] assms by argo
  then show ?thesis by (simp add: inj_map_eq_map inj_def)
qed

lemma sprintInts_inject [simp]: "sprintInts is = sprintInts js \<longleftrightarrow> is = js"
  by (auto simp: sprintInts_def strJoin_itoa_inject)

lemma bar_split_inject:
  assumes "a @ CHR ''|'' # x = b @ CHR ''|'' # y" "CHR ''|'' \<notin> set x" "CHR ''|'' \<notin> set y"
  shows "a = b \<and> x = y"
proof -
  have "splitOn (CHR ''|'') (rev x @ CHR ''|'' # rev a) = splitOn (CHR ''|'') (rev y @ CHR ''|'' # rev b)"
    using arg_cong [OF assms(1), of rev] by simp
  then have "rev x = rev y"
    using assms(2,3) by (simp add: splitOn_append_sep)
  with assms(1) show ?thesis by simp
qed

text \<open>
  The hashed text determines the body, the address and the ports: a change of any of them
  changes the input of the hash. The separator is a bar, which no address contains.
\<close>

lemma hashInput_inject:
  assumes "CHR ''|'' \<notin> set gw" "CHR ''|'' \<notin> set gw'"
  shows "hashInput body gw ports = hashInput body' gw' ports' \<longleftrightarrow> body = body' \<and> gw = gw' \<and> ports = ports'"
proof
  assume eq: "hashInput body gw ports = hashInput body' gw' ports'"
  have "body @ ''|gw='' @ gw = body' @ ''|gw='' @ gw' \<and> ''ports='' @ sprintInts ports = ''ports='' @ sprintInts ports'"
    by (rule bar_split_inject) (use eq in \<open>simp_all add: hashInput_def sprintInts_chars\<close>)
  moreover from this have "body = body' \<and> ''gw='' @ gw = ''gw='' @ gw'"
    by (intro bar_split_inject) (use assms in simp_all)
  ultimately show "body = body' \<and> gw = gw' \<and> ports = ports'" by simp
qed simp

lemma renderConfig_total:
  assumes "admittedCluster (nc_spec nc)"
  shows "\<exists>body hash. renderConfig uc nc gw = Inr (body, hash) \<and> length hash = 64"
proof (cases "ea_mode (nc_access nc) = ExternalAccessLoadBalancer")
  case True
  then show ?thesis by (simp add: renderConfig_def rpcAdvertisePorts_def Let_def)
next
  case False
  with assms have "ea_mode (nc_access nc) = ExternalAccessGateway"
    by (auto simp: admittedCluster_def admittedExternalAccess_def)
  with assms obtain g where "ea_gateway (nc_access nc) = Some g" by (rule admittedCluster_gateway)
  with False show ?thesis by (simp add: renderConfig_def rpcAdvertisePorts_def Let_def)
qed

subsection \<open>nomadclient.go\<close>

text \<open>
  The configuration of the Nomad client of one cluster. The certificate Secret must be readable;
  the token Secret may be missing, or unreadable for any reason, and then the token is empty.
\<close>

definition clusterNomadConfig :: "'w platform \<Rightarrow> nomad_cluster \<Rightarrow> ('w, config) reconciler_proc" where
  "clusterNomadConfig pf nc =
     (let n = names nc;
          endpoint = ''https://'' @ rn_APISvc n @ ''.'' @ nc_namespace nc @ ''.svc:'' @ itoa portHTTP
      in bindE (kGet EvSecret (pf_secrets pf)
                 (objectKey (nc_namespace nc) (ts_certSecretRef (cs_tls (nc_spec nc))))) (\<lambda>certSec.
         let cfg = \<lparr>cfg_Address = endpoint, cfg_Region = cs_region (nc_spec nc), cfg_Token = [],
               cfg_TLSServerName = ''server.'' @ cs_region (nc_spec nc) @ ''.nomad'',
               cfg_TLS = emptyTLS\<lparr>tls_CACertPEM := mapGetOr [] (se_data certSec) ''ca.crt'',
                 tls_ClientCertPEM := mapGetOr [] (se_data certSec) ''tls.crt'',
                 tls_ClientKeyPEM := mapGetOr [] (se_data certSec) ''tls.key''\<rparr>\<rparr>
         in andThen (kGet EvSecret (pf_secrets pf) (objectKey (nc_namespace nc) (rn_TokenSecret n)))
              (\<lambda>r. ret (Inr (case r of
                 Inl _ \<Rightarrow> cfg
               | Inr tokenSec \<Rightarrow> cfg\<lparr>cfg_Token := mapGetOr [] (se_data tokenSec) ''token''\<rparr>)))))"

text \<open>A call that changes a Secret.\<close>

fun secretWrite :: "event \<Rightarrow> bool" where
  "secretWrite (EvSecret c) = isWrite c"
| "secretWrite _ = False"

lemma clusterNomadConfig_spec:
  "meets (clusterNomadConfig pf nc) (\<lambda>r es. onChannels {ChSecret} es \<and> quiet secretWrite es)"
  unfolding clusterNomadConfig_def Let_def kube_calls
  by (auto intro!: spec_rules simp: trace_simps)

text \<open>
  The library's configuration for the cluster \<open>nc\<close>: its own API Service over https, its region, the three
  certificates of \<open>certSec\<close> and no file, verification on, the server name of the region, and the
  token of the second Secret, if that could be read.
\<close>

definition tlsPinned :: "nomad_cluster \<Rightarrow> secret \<Rightarrow> error + secret \<Rightarrow> api_config \<Rightarrow> bool" where
  "tlsPinned nc certSec tokenSec ac \<longleftrightarrow>
     ac_Address ac = ''https://'' @ nc_name nc @ ''-nomad.'' @ nc_namespace nc @ ''.svc:4646'' \<and>
     ac_Region ac = cs_region (nc_spec nc) \<and>
     ac_SecretID ac = (case tokenSec of Inl _ \<Rightarrow> [] | Inr s \<Rightarrow> mapGetOr [] (se_data s) ''token'') \<and>
     (case ac_TLSConfig ac of
        None \<Rightarrow> False
      | Some t \<Rightarrow> atls_TLSServerName t = ''server.'' @ cs_region (nc_spec nc) @ ''.nomad'' \<and>
          \<not> tls_Insecure (atls_material t) \<and>
          tls_CACertPEM (atls_material t) = mapGetOr [] (se_data certSec) ''ca.crt'' \<and>
          tls_ClientCertPEM (atls_material t) = mapGetOr [] (se_data certSec) ''tls.crt'' \<and>
          tls_ClientKeyPEM (atls_material t) = mapGetOr [] (se_data certSec) ''tls.key'' \<and>
          tls_CACert (atls_material t) = [] \<and> tls_ClientCert (atls_material t) = [] \<and>
          tls_ClientKey (atls_material t) = [])"

lemma itoa_portHTTP: "itoa portHTTP = ''4646''"
proof -
  have "char_of (52 :: nat) = CHR ''4''" "char_of (54 :: nat) = CHR ''6''" by code_simp+
  then show ?thesis by (simp add: portHTTP_def itoa_def natDigits.simps digitChar_def)
qed

lemmas pinned_defs = tlsPinned_def NewClient_def Validate_def hasTLSMaterial_def emptyTLS_def apiConfigOf_def itoa_portHTTP

text \<open>
  Building a config reads the certificate Secret, and when that is there the token Secret; the config
  is accepted by \<^const>\<open>NewClient\<close>, which hands the library exactly what \<open>tlsPinned\<close> says.
\<close>

lemma clusterNomadConfig_pinned:
  "meets (clusterNomadConfig pf nc) (\<lambda>r es.
     let certKey = objectKey (nc_namespace nc) (ts_certSecretRef (cs_tls (nc_spec nc)));
         tokenKey = objectKey (nc_namespace nc) (rn_TokenSecret (names nc))
     in case r of
       Inl e \<Rightarrow> es = [EvSecret (SGet certKey (Inl e))]
     | Inr cfg \<Rightarrow> (\<exists>certSec tokenSec.
         es = [EvSecret (SGet certKey (Inr certSec)), EvSecret (SGet tokenKey tokenSec)] \<and>
         tlsPinned nc certSec tokenSec (apiConfigOf cfg) \<and>
         NewClient newApi cfg = map_sum (\<lambda>err. Wrapped ''nomad: new client: '' err []) id (newApi (apiConfigOf cfg))))"
  unfolding clusterNomadConfig_def Let_def kube_calls
  by (rule spec_rules, simp, rule spec_rules, rule spec_rules)
    (auto simp: pinned_defs split: sum.split)

subsection \<open>status_members.go\<close>

definition toMemberStatus :: "nomad_member list \<Rightarrow> member_status list" where
  "toMemberStatus members = map (\<lambda>m. \<lparr>ms_name = nm_Name m, ms_addr = nm_Addr m,
     ms_status = nm_Status m, ms_leader = nm_Leader m, ms_voter = nm_Voter m\<rparr>) members"

fun countVoters :: "nomad_member list \<Rightarrow> int" where
  "countVoters [] = 0"
| "countVoters (m # ms) = (if nm_Voter m then 1 else 0) + countVoters ms"

definition quorumString :: "nomad_member list \<Rightarrow> string" where
  "quorumString members = itoa (countVoters members) @ ''/'' @ itoa (int (length members))"

lemma countVoters_filter: "countVoters ms = int (length (filter nm_Voter ms))"
  by (induction ms) simp_all

lemma length_toMemberStatus [simp]: "length (toMemberStatus ms) = length ms"
  by (simp add: toMemberStatus_def)

text \<open>The status text and the member list agree, and the text can be read back.\<close>

lemma quorumString_members:
  "quorumString ms = itoa (int (length (filter ms_voter (toMemberStatus ms)))) @ ''/'' @
     itoa (int (length (toMemberStatus ms)))"
proof -
  have "length (filter ms_voter (toMemberStatus ms)) = length (filter nm_Voter ms)"
    by (induction ms) (simp_all add: toMemberStatus_def)
  then show ?thesis by (simp add: quorumString_def countVoters_filter)
qed

end
