(* ===== verification/Workload.thy ===== *)
theory Workload
  imports ClusterConfig
begin

section \<open>Workload objects (resources_workload.go)\<close>

text \<open>
  Builders of the ConfigMap, the Services, the disruption budget and the StatefulSet of one
  cluster. They are pure; the two panics they can raise (a nil gateway block outside
  LoadBalancer mode, a storage size \<^verbatim>\<open>resource.MustParse\<close> rejects) are results. The parser of
  quantities is third-party: \<open>parseQuantity\<close> is a parameter.
\<close>

definition rpcAdvertisePod :: string where "rpcAdvertisePod = ''pod''"
definition rpcAdvertiseExternal :: string where "rpcAdvertiseExternal = ''external''"

definition rpcAdvertiseStrategy :: "nomad_cluster \<Rightarrow> string" where
  "rpcAdvertiseStrategy nc = (if nc_servers nc = 1 then rpcAdvertiseExternal else rpcAdvertisePod)"

text \<open>The init script, around the two values of \<^verbatim>\<open>RPCADV\<close> and the overlay it writes.\<close>

definition podAdvertise :: string where "podAdvertise = ''${POD_IP}:4647''"
definition externalAdvertise :: string where "externalAdvertise = ''${GW}:${RPCPORT}''"

definition overlayTemplate :: "string list" where
  "overlayTemplate =
     [''server {'',
      ''  encrypt = '' @ inQuotes ''${KEY}'',
      ''}'',
      ''advertise {'',
      ''  http = '' @ inQuotes ''${GW}:4646'',
      ''  rpc  = '' @ inQuotes ''${RPCADV}'',
      ''  serf = '' @ inQuotes ''${POD_IP}'',
      ''}'']"

definition initEntrypoint :: string where
  "initEntrypoint = concat (map (\<lambda>line. line @ newline)
    ([''#!/bin/sh'',
     ''set -eu'',
     ''ORD='' @ inQuotes ''${HOSTNAME##*-}'',
     ''PORTS='' @ inQuotes ''$(cat /config/rpc_ports)'',
     ''GW='' @ inQuotes ''$(cat /config/gateway_address)'',
     ''KEY='' @ inQuotes ''$(cat /nomad/gossip/key)'',
     ''i=0; RPCPORT='' @ inQuotes [],
     ''for p in $PORTS; do if [ '' @ inQuotes ''$i'' @ '' = '' @ inQuotes ''$ORD'' @
       '' ]; then RPCPORT='' @ inQuotes ''$p'' @ ''; fi; i=$((i+1)); done'',
     ''if [ '' @ inQuotes ''$(cat /config/rpc_advertise)'' @ '' = '' @ inQuotes ''pod'' @
       '' ]; then RPCADV='' @ inQuotes podAdvertise @ ''; else RPCADV='' @
       inQuotes externalAdvertise @ ''; fi'',
     ''cp /config/server.hcl /nomad/config/server.hcl'',
     ''cat > /nomad/config/overlay.hcl <<EOF''] @ overlayTemplate @ [''EOF'']))"

definition portsText :: "int list \<Rightarrow> string" where
  "portsText ports = trimLeadingSpace (concat (map (\<lambda>p. '' '' @ itoa p) ports))"

definition buildConfigMap :: "unicode_tables \<Rightarrow> nomad_cluster \<Rightarrow> string \<Rightarrow> error + config_map" where
  "buildConfigMap uc nc gatewayAddress =
     (case renderConfig uc nc gatewayAddress of
        Inl err \<Rightarrow> Inl err
      | Inr (body, _) \<Rightarrow> (case rpcAdvertisePorts nc of
          Inl err \<Rightarrow> Inl err
        | Inr ports \<Rightarrow> Inr
            \<lparr>cm_meta = newMeta (rn_ConfigMap (names nc)) (nc_namespace nc) (Labels (names nc)),
             cm_data = [(''server.hcl'', body), (''gateway_address'', gatewayAddress),
               (''rpc_ports'', portsText ports), (''rpc_advertise'', rpcAdvertiseStrategy nc),
               (''entrypoint.sh'', initEntrypoint)]\<rparr>))"

subsection \<open>Services and disruption budget\<close>

definition servicePort :: "string \<Rightarrow> int \<Rightarrow> int option \<Rightarrow> string \<Rightarrow> service_port" where
  "servicePort name port target proto =
     \<lparr>sp_name = name, sp_port = port, sp_targetPort = target, sp_protocol = proto\<rparr>"

definition buildHeadlessService :: "nomad_cluster \<Rightarrow> service" where
  "buildHeadlessService nc =
     \<lparr>sv_meta = newMeta (rn_HeadlessSvc (names nc)) (nc_namespace nc) (Labels (names nc)),
      sv_type = [], sv_clusterIP = ''None'', sv_publishNotReadyAddresses = True,
      sv_selector = Labels (names nc),
      sv_ports = [servicePort ''serf-tcp'' portSerf None ''TCP'', servicePort ''serf-udp'' portSerf None ''UDP'',
        servicePort ''rpc'' portRPC None ''TCP''],
      sv_loadBalancerClass = None, sv_ingress = []\<rparr>"

definition podNameLabel :: string where
  "podNameLabel = ''statefulset.kubernetes.io/pod-name''"

definition buildPodService :: "nomad_cluster \<Rightarrow> nat \<Rightarrow> service" where
  "buildPodService nc ordinal =
     \<lparr>sv_meta = newMeta (PodSvc (names nc) ordinal) (nc_namespace nc) (Labels (names nc)),
      sv_type = ''ClusterIP'', sv_clusterIP = [], sv_publishNotReadyAddresses = True,
      sv_selector = mapPut podNameLabel (PodName (names nc) ordinal) (Labels (names nc)),
      sv_ports = [servicePort ''rpc'' portRPC (Some portRPC) ''TCP''],
      sv_loadBalancerClass = None, sv_ingress = []\<rparr>"

definition buildAPIService :: "nomad_cluster \<Rightarrow> service" where
  "buildAPIService nc =
     \<lparr>sv_meta = newMeta (rn_APISvc (names nc)) (nc_namespace nc) (Labels (names nc)),
      sv_type = ''ClusterIP'', sv_clusterIP = [], sv_publishNotReadyAddresses = False,
      sv_selector = Labels (names nc),
      sv_ports = [servicePort ''http'' portHTTP (Some portHTTP) ''TCP''],
      sv_loadBalancerClass = None, sv_ingress = []\<rparr>"

definition buildPDB :: "nomad_cluster \<Rightarrow> pod_disruption_budget" where
  "buildPDB nc =
     \<lparr>pdb_meta = newMeta (rn_PDB (names nc)) (nc_namespace nc) (Labels (names nc)),
      pdb_minAvailable = nc_servers nc - 1, pdb_matchLabels = Labels (names nc)\<rparr>"

subsection \<open>StatefulSet\<close>

definition MustParse :: "(string \<Rightarrow> opaque option) \<Rightarrow> string \<Rightarrow> error + opaque" where
  "MustParse parseQuantity s = (case parseQuantity s of
     None \<Rightarrow> Inl (GoPanic (''cannot parse '' @ s)) | Some q \<Rightarrow> Inr q)"

definition readinessProbe :: probe where
  "readinessProbe = \<lparr>pb_handler = ExecProbe [''nomad'', ''operator'', ''api'', ''/v1/agent/health?type=server''],
     pb_initialDelaySeconds = 10, pb_periodSeconds = 10, pb_failureThreshold = 6\<rparr>"

definition livenessProbe :: probe where
  "livenessProbe = \<lparr>pb_handler = TCPProbe portRPC, pb_initialDelaySeconds = 30,
     pb_periodSeconds = 30, pb_failureThreshold = 5\<rparr>"

definition podIPEnv :: env_var where
  "podIPEnv = \<lparr>env_name = ''POD_IP'', env_text = [], env_fieldPath = Some ''status.podIP''\<rparr>"

definition literalEnv :: "string \<Rightarrow> string \<Rightarrow> env_var" where
  "literalEnv name txt = \<lparr>env_name = name, env_text = txt, env_fieldPath = None\<rparr>"

definition mountAt :: "string \<Rightarrow> string \<Rightarrow> bool \<Rightarrow> volume_mount" where
  "mountAt name path ro = \<lparr>vm_name = name, vm_mountPath = path, vm_readOnly = ro\<rparr>"

definition containerPort :: "string \<Rightarrow> int \<Rightarrow> string \<Rightarrow> container_port" where
  "containerPort name port proto = \<lparr>cp_name = name, cp_containerPort = port, cp_protocol = proto\<rparr>"

definition renderContainer :: "nomad_cluster \<Rightarrow> container" where
  "renderContainer nc =
     \<lparr>co_name = ''render-config'', co_image = cs_image (nc_spec nc),
      co_command = [''/bin/sh'', ''/config/entrypoint.sh''], co_env = [podIPEnv], co_ports = [],
      co_volumeMounts = [mountAt ''config'' ''/config'' False, mountAt ''rendered'' ''/nomad/config'' False,
        mountAt ''gossip'' ''/nomad/gossip'' True],
      co_readinessProbe = None, co_livenessProbe = None, co_resources = []\<rparr>"

definition nomadContainer :: "nomad_cluster \<Rightarrow> container" where
  "nomadContainer nc =
     \<lparr>co_name = ''nomad'', co_image = cs_image (nc_spec nc),
      co_command = [''nomad'', ''agent'', ''-config=/nomad/config''],
      co_env = [podIPEnv, literalEnv ''NOMAD_ADDR'' ''https://127.0.0.1:4646'',
        literalEnv ''NOMAD_CACERT'' ''/nomad/tls/ca.crt'', literalEnv ''NOMAD_CLIENT_CERT'' ''/nomad/tls/tls.crt'',
        literalEnv ''NOMAD_CLIENT_KEY'' ''/nomad/tls/tls.key''],
      co_ports = [containerPort ''http'' portHTTP [], containerPort ''rpc'' portRPC [],
        containerPort ''serf-tcp'' portSerf ''TCP'', containerPort ''serf-udp'' portSerf ''UDP''],
      co_volumeMounts = [mountAt ''rendered'' ''/nomad/config'' False, mountAt ''data'' ''/var/lib/nomad'' False,
        mountAt ''tls'' ''/nomad/tls'' True],
      co_readinessProbe = Some readinessProbe, co_livenessProbe = Some livenessProbe,
      co_resources = cs_resources (nc_spec nc)\<rparr>"

definition podVolumes :: "nomad_cluster \<Rightarrow> volume list" where
  "podVolumes nc =
     [\<lparr>vo_name = ''config'', vo_source = ConfigMapVolume (rn_ConfigMap (names nc))\<rparr>,
      \<lparr>vo_name = ''rendered'', vo_source = EmptyDirVolume\<rparr>,
      \<lparr>vo_name = ''tls'', vo_source = SecretVolume (ts_certSecretRef (cs_tls (nc_spec nc)))\<rparr>,
      \<lparr>vo_name = ''gossip'', vo_source = SecretVolume (rn_GossipSecret (names nc))\<rparr>]"

definition buildStatefulSet ::
    "(string \<Rightarrow> opaque option) \<Rightarrow> nomad_cluster \<Rightarrow> string \<Rightarrow> error + stateful_set" where
  "buildStatefulSet parseQuantity nc configHash =
     (case MustParse parseQuantity (ss_size (cs_storage (nc_spec nc))) of
        Inl err \<Rightarrow> Inl err
      | Inr storageQty \<Rightarrow> Inr (let labels = Labels (names nc) in
          \<lparr>sf_meta = newMeta (rn_StatefulSet (names nc)) (nc_namespace nc) labels,
           sf_serviceName = rn_HeadlessSvc (names nc), sf_replicas = nc_servers nc,
           sf_podManagementPolicy = ''Parallel'', sf_updateStrategy = ''RollingUpdate'',
           sf_matchLabels = labels,
           sf_volumeClaims = [\<lparr>vc_name = ''data'', vc_accessModes = [''ReadWriteOnce''],
             vc_storage = storageQty,
             vc_storageClassName = (if ss_storageClassName (cs_storage (nc_spec nc)) \<noteq> []
               then Some (ss_storageClassName (cs_storage (nc_spec nc))) else None)\<rparr>],
           sf_template = \<lparr>pod_labels = labels,
             pod_annotations = [(''nomad.operator.io/config-hash'', configHash)],
             pod_antiAffinity = [(''kubernetes.io/hostname'', labels)],
             pod_initContainers = [renderContainer nc],
             pod_containers = [nomadContainer nc], pod_volumes = podVolumes nc\<rparr>\<rparr>))"

subsection \<open>What the objects promise\<close>

text \<open>The init script cuts \<^verbatim>\<open>rpc_ports\<close> at blanks and takes the word at the pod's ordinal.\<close>

lemma concat_ports: "concat (map (\<lambda>p. '' '' @ itoa p) (q # ports)) =
    CHR '' '' # strJoin '' '' (map itoa (q # ports))"
  by (induction ports arbitrary: q) simp_all

lemma portsText_join: "portsText ports = strJoin '' '' (map itoa ports)"
proof (cases ports)
  case Nil
  then show ?thesis by (simp add: portsText_def trimLeadingSpace_def trimPrefix_def)
next
  case (Cons q qs)
  show ?thesis
    unfolding portsText_def Cons concat_ports by (simp add: trimLeadingSpace_def trimPrefix_def)
qed

lemma portsText_words:
  "ports \<noteq> [] \<Longrightarrow> splitOn (CHR '' '') (portsText ports) = map itoa ports"
  unfolding portsText_join by (rule splitOn_strJoin) (simp_all add: space_notin_itoa)

text \<open>Every volume a container mounts is declared by the pod or is the claim.\<close>

definition declaredVolumes :: "stateful_set \<Rightarrow> string list" where
  "declaredVolumes ss = map vo_name (pod_volumes (sf_template ss)) @ map vc_name (sf_volumeClaims ss)"

definition mountedVolumes :: "stateful_set \<Rightarrow> string list" where
  "mountedVolumes ss = map vm_name (concat (map co_volumeMounts
     (pod_initContainers (sf_template ss) @ pod_containers (sf_template ss))))"

definition selects :: "strmap \<Rightarrow> strmap \<Rightarrow> bool" where
  "selects sel labels \<longleftrightarrow> list_all (\<lambda>(k, _). map_of labels k = map_of sel k) sel"

lemma selects_refl [simp]: "selects m m"
  by (simp add: selects_def list_all_iff split: prod.split)

lemma buildStatefulSet_wired:
  assumes "buildStatefulSet pq nc hash = Inr ss"
  shows "set (mountedVolumes ss) \<subseteq> set (declaredVolumes ss)"
    and "selects (sf_matchLabels ss) (pod_labels (sf_template ss))"
    and "selects (sv_selector (buildHeadlessService nc)) (pod_labels (sf_template ss))"
    and "selects (sv_selector (buildAPIService nc)) (pod_labels (sf_template ss))"
    and "selects (pdb_matchLabels (buildPDB nc)) (pod_labels (sf_template ss))"
    and "sf_serviceName ss = om_name (sv_meta (buildHeadlessService nc))"
    and "sf_replicas ss = nc_servers nc"
    and "ConfigMapVolume (rn_ConfigMap (names nc)) \<in> vo_source ` set (pod_volumes (sf_template ss))"
  using assms
  by (auto simp: buildStatefulSet_def Let_def MustParse_def mountedVolumes_def declaredVolumes_def
      renderContainer_def nomadContainer_def mountAt_def podVolumes_def buildHeadlessService_def
      buildAPIService_def buildPDB_def newMeta_def split: option.splits)

text \<open>A pod Service selects the pod of its ordinal and no other pod of the set.\<close>

lemma podNameLabel_fresh [simp]: "map_of (Labels r) podNameLabel = None"
  by (simp add: Labels_def podNameLabel_def)

lemma buildPodService_selects:
  "selects (sv_selector (buildPodService nc i)) (mapPut podNameLabel (PodName (names nc) j) (Labels (names nc)))
    \<longleftrightarrow> i = j"
proof
  assume "selects (sv_selector (buildPodService nc i))
    (mapPut podNameLabel (PodName (names nc) j) (Labels (names nc)))"
  then have "PodName (names nc) j = PodName (names nc) i"
    by (simp add: selects_def buildPodService_def mapPut_def)
  then show "i = j" by (simp add: PodName_inject)
qed (simp add: buildPodService_def)

end
