(* ===== verification/Security.thy ===== *)
theory Security
  imports Workload
begin

section \<open>Security material of a cluster (security.go)\<close>

text \<open>
  The gossip key and ACL bootstrap token Secrets, the gate on the certificate Secret, and
  \<open>applyObject\<close>, the server-side apply every owned object goes through. A reconciler is the record
  of what its methods use; the recorder may be nil.
\<close>

record 'w cluster_reconciler =
  rc_platform :: "'w platform"
  rc_newNomadClient :: "'w NomadOps client_factory"
  rc_recorder :: bool
  rc_parseQuantity :: "string \<Rightarrow> opaque option"

definition annotationACLBootstrapped :: string where
  "annotationACLBootstrapped = ''nomad.operator.io/acl-bootstrapped''"

text \<open>
  \<^verbatim>\<open>rand.Read(buf)\<close> fills a buffer of a given length; what the source delivers beyond it is not
  used and what it leaves out stays zero.
\<close>

definition fillBuffer :: "nat \<Rightarrow> byte list \<Rightarrow> byte list" where
  "fillBuffer n bs = take n (bs @ replicate n 0)"

lemma length_fillBuffer [simp]: "length (fillBuffer n bs) = n"
  by (simp add: fillBuffer_def)

definition randRead :: "'w platform \<Rightarrow> nat \<Rightarrow> ('w, byte list) reconciler_proc" where
  "randRead pf n = bindE (call (EvRand n) (pf_rand pf n)) (\<lambda>bs. ret (Inr (fillBuffer n bs)))"

definition wrapped :: "string \<Rightarrow> ('w, 'a) reconciler_proc \<Rightarrow> ('w, 'a) reconciler_proc" where
  "wrapped pre p = andThen p (\<lambda>r. ret (case r of Inl e \<Rightarrow> Inl (Wrapped pre e []) | Inr a \<Rightarrow> Inr a))"

subsection \<open>Gossip key\<close>

definition gossipSecret :: "nomad_cluster \<Rightarrow> byte list \<Rightarrow> secret" where
  "gossipSecret nc buf =
     \<lparr>se_meta = newMeta (rn_GossipSecret (names nc)) (nc_namespace nc) (Labels (names nc)),
      se_data = [(''key'', base64String buf)]\<rparr>"

definition ensureGossipKey :: "'w cluster_reconciler \<Rightarrow> nomad_cluster \<Rightarrow> ('w, string) reconciler_proc" where
  "ensureGossipKey rc nc =
     (let pf = rc_platform rc; n = names nc in
      andThen (kGet EvSecret (pf_secrets pf) (objectKey (nc_namespace nc) (rn_GossipSecret n))) (\<lambda>r.
        case r of
          Inr _ \<Rightarrow> ret (Inr (rn_GossipSecret n))
        | Inl err \<Rightarrow>
            if \<not> kubeIsNotFound err then ret (Inl err)
            else bindE (wrapped ''gossip key rand: '' (randRead pf 32)) (\<lambda>buf.
              andThen (kCreate EvSecret (pf_secrets pf) (gossipSecret nc buf)) (\<lambda>c.
                ret (case c of
                  Inl cerr \<Rightarrow> if \<not> kubeIsAlreadyExists cerr then Inl cerr else Inr (rn_GossipSecret n)
                | Inr _ \<Rightarrow> Inr (rn_GossipSecret n))))))"

subsection \<open>Certificate gate\<close>

definition certKeys :: "string list" where
  "certKeys = [''tls.crt'', ''tls.key'', ''ca.crt'']"

definition certSecretReady :: "'w cluster_reconciler \<Rightarrow> nomad_cluster \<Rightarrow> ('w, bool) reconciler_proc" where
  "certSecretReady rc nc =
     andThen (kGet EvSecret (pf_secrets (rc_platform rc))
               (objectKey (nc_namespace nc) (ts_certSecretRef (cs_tls (nc_spec nc))))) (\<lambda>r. ret (
       case r of
         Inl err \<Rightarrow> if kubeIsNotFound err then Inr False else Inl err
       | Inr s \<Rightarrow> Inr (list_all (\<lambda>k. length (mapGetOr [] (se_data s) k) \<noteq> 0) certKeys)))"

subsection \<open>Bootstrap token\<close>

definition stampUUID :: "byte list \<Rightarrow> byte list" where
  "stampUUID b = (b[6 := (b ! 6 AND 0x0F) OR 0x40])[8 := (b ! 8 AND 0x3F) OR 0x80]"

definition slice :: "nat \<Rightarrow> nat \<Rightarrow> 'a list \<Rightarrow> 'a list" where
  "slice i j xs = take (j - i) (drop i xs)"

definition uuidText :: "byte list \<Rightarrow> string" where
  "uuidText b = hexString (slice 0 4 b) @ ''-'' @ hexString (slice 4 6 b) @ ''-'' @
     hexString (slice 6 8 b) @ ''-'' @ hexString (slice 8 10 b) @ ''-'' @ hexString (slice 10 16 b)"

definition newBootstrapToken :: "'w platform \<Rightarrow> ('w, string) reconciler_proc" where
  "newBootstrapToken pf = bindE (wrapped ''bootstrap token rand: '' (randRead pf 16))
     (\<lambda>b. ret (Inr (uuidText (stampUUID b))))"

definition tokenSecret :: "nomad_cluster \<Rightarrow> string \<Rightarrow> secret" where
  "tokenSecret nc token =
     \<lparr>se_meta = newMeta (rn_TokenSecret (names nc)) (nc_namespace nc) (Labels (names nc)),
      se_data = [(''token'', token)]\<rparr>"

text \<open>The first half: the Secret as it is, or a new one around a fresh token.\<close>

definition obtainTokenSecret :: "'w cluster_reconciler \<Rightarrow> nomad_cluster \<Rightarrow> ('w, secret) reconciler_proc" where
  "obtainTokenSecret rc nc =
     (let pf = rc_platform rc in
      andThen (kGet EvSecret (pf_secrets pf) (objectKey (nc_namespace nc) (rn_TokenSecret (names nc)))) (\<lambda>r.
        case r of
          Inr sec \<Rightarrow> ret (Inr sec)
        | Inl err \<Rightarrow>
            if kubeIsNotFound err
            then bindE (newBootstrapToken pf) (\<lambda>token.
                   wrapped ''write token secret: '' (kCreate EvSecret (pf_secrets pf) (tokenSecret nc token)))
            else ret (Inl err)))"

definition markBootstrapped :: "secret \<Rightarrow> secret" where
  "markBootstrapped sec = sec\<lparr>se_meta := (se_meta sec)\<lparr>om_annotations :=
     mapPut annotationACLBootstrapped ''true'' (om_annotations (se_meta sec))\<rparr>\<rparr>"

definition confirmedBootstrapped :: "secret \<Rightarrow> bool" where
  "confirmedBootstrapped sec \<longleftrightarrow>
     mapGetOr [] (om_annotations (se_meta sec)) annotationACLBootstrapped = ''true''"

definition ensureBootstrapToken ::
    "'w cluster_reconciler \<Rightarrow> nomad_cluster \<Rightarrow> 'w NomadOps \<Rightarrow> ('w, unit) reconciler_proc" where
  "ensureBootstrapToken rc nc ops =
     (let pf = rc_platform rc in
      bindE (obtainTokenSecret rc nc) (\<lambda>sec.
      let token = mapGetOr [] (se_data sec) ''token'' in
      andThen (nomadCall (NACLBootstrap token) (op_ACLBootstrap ops token)) (\<lambda>r.
      let proceed =
        (if confirmedBootstrapped sec then ret (Inr ())
         else bindE (wrapped ''mark token secret bootstrapped: ''
                      (kUpdate EvSecret (pf_secrets pf) (markBootstrapped sec))) (\<lambda>_. ret (Inr ())))
      in case r of
           Inl err \<Rightarrow> if \<not> IsACLAlreadyBootstrapped err then ret (Inl (Wrapped ''acl bootstrap: '' err []))
                      else proceed
         | Inr _ \<Rightarrow> proceed)))"

subsection \<open>Server-side apply\<close>

definition applyObject ::
    "'w cluster_reconciler \<Rightarrow> nomad_cluster \<Rightarrow> applied_object \<Rightarrow> ('w, unit) reconciler_proc" where
  "applyObject rc nc obj =
     (let pf = rc_platform rc in
      bindE (liftE (tk_setControllerReference (pf_toolkit pf) (nc_meta nc) (appliedMeta obj))) (\<lambda>m.
      let owned = withAppliedMeta obj m in
      bindE (liftE (pf_gvkForObject pf owned)) (\<lambda>_.
      call (EvApply owned) (pf_patchApply pf owned))))"

subsection \<open>The bootstrap token is a version 4 UUID\<close>

definition isHex :: "char \<Rightarrow> bool" where
  "isHex c \<longleftrightarrow> c \<in> set ''0123456789abcdef''"

definition uuidV4 :: "string \<Rightarrow> bool" where
  "uuidV4 s \<longleftrightarrow> map length (splitOn (CHR ''-'') s) = [8, 4, 4, 4, 12] \<and>
     list_all (list_all isHex) (splitOn (CHR ''-'') s) \<and> s ! 14 = CHR ''4'' \<and> s ! 19 \<in> set ''89ab''"

lemma isHex_hexDigit: "d < 16 \<Longrightarrow> isHex (hexDigit d)"
proof -
  have "list_all (\<lambda>d. isHex (hexDigit d)) [0..<16]" by code_simp
  then show "d < 16 \<Longrightarrow> isHex (hexDigit d)" by (simp add: list_all_iff)
qed

lemma isHex_hexString: "list_all isHex (hexString bs)"
proof (induction bs)
  case (Cons b bs)
  have "unat b div 16 < 16" using unat_byte [of b] by simp
  then show ?case using Cons by (simp add: hexString_def hexByte_def isHex_hexDigit)
qed (simp add: hexString_def)

lemma dash_notin_hexString: "CHR ''-'' \<notin> set (hexString bs)"
proof -
  have "\<not> isHex (CHR ''-'')" by (simp add: isHex_def)
  then show ?thesis using isHex_hexString [of bs] by (auto simp: list_all_iff)
qed

lemma and_low_bits: "(n :: nat) AND 15 = n mod 16" "(n :: nat) AND 63 = n mod 64"
proof -
  have "n AND mask 4 = n mod 2 ^ 4" "n AND mask 6 = n mod 2 ^ 6"
    by (simp_all only: take_bit_eq_mask [symmetric] take_bit_eq_mod)
  moreover have "mask 4 = (15 :: nat)" "mask 6 = (63 :: nat)" "(2 :: nat) ^ 4 = 16" "(2 :: nat) ^ 6 = 64"
    by (simp_all add: mask_eq_exp_minus_1)
  ultimately show "n AND 15 = n mod 16" "n AND 63 = n mod 64" by simp_all
qed

lemma version_nibble: "unat ((x AND 0x0F) OR 0x40 :: byte) div 16 = 4"
proof -
  have "unat ((x AND 0x0F) OR 0x40 :: byte) = (unat x AND 15) OR 64"
    by (simp add: unsigned_or_eq unsigned_and_eq)
  also have "unat x AND 15 = unat x mod 16" by (rule and_low_bits)
  finally have eq: "unat ((x AND 0x0F) OR 0x40 :: byte) = (unat x mod 16) OR 64" .
  have "\<forall>m \<in> set [0..<16]. (m OR 64) div 16 = (4 :: nat)" by code_simp
  then have "m < 16 \<Longrightarrow> (m OR 64) div 16 = (4 :: nat)" for m
    by (auto simp only: set_upt atLeastLessThan_iff)
  then show ?thesis unfolding eq by simp
qed

lemma variant_nibble: "hexDigit (unat ((x AND 0x3F) OR 0x80 :: byte) div 16) \<in> set ''89ab''"
proof -
  have "unat ((x AND 0x3F) OR 0x80 :: byte) = (unat x AND 63) OR 128"
    by (simp add: unsigned_or_eq unsigned_and_eq)
  also have "unat x AND 63 = unat x mod 64" by (rule and_low_bits)
  finally have eq: "unat ((x AND 0x3F) OR 0x80 :: byte) = (unat x mod 64) OR 128" .
  have "(m OR 128) div 16 = (m div 16) OR (8 :: nat)" for m
    using drop_bit_or [of 4 m 128] by (simp add: drop_bit_eq_div)
  moreover have "\<forall>k \<in> set [0..<4]. hexDigit (k OR 8) \<in> set ''89ab''" by code_simp
  then have "k < 4 \<Longrightarrow> hexDigit (k OR 8) \<in> set ''89ab''" for k
    by (auto simp only: set_upt atLeastLessThan_iff)
  moreover have "unat x mod 64 div 16 < 4" by simp
  ultimately show ?thesis unfolding eq by metis
qed

lemma splitOn_uuidText:
  "splitOn (CHR ''-'') (uuidText b) = map hexString
     [slice 0 4 b, slice 4 6 b, slice 6 8 b, slice 8 10 b, slice 10 16 b]"
  by (simp add: uuidText_def splitOn_append_sep splitOn_no_sep dash_notin_hexString)

lemma hexString_simps:
  "hexString [] = []"
  "hexString (b # bs) = hexDigit (unat b div 16) # hexDigit (unat b mod 16) # hexString bs"
  by (simp_all add: hexString_def hexByte_def)

lemma uuidText_nth:
  assumes "length b = 16"
  shows "uuidText b ! 14 = hexDigit (unat (b ! 6) div 16)"
    and "uuidText b ! 19 = hexDigit (unat (b ! 8) div 16)"
proof -
  obtain b0 b1 b2 b3 b4 b5 b6 b7 b8 r where
    b: "b = [b0, b1, b2, b3, b4, b5, b6, b7, b8] @ r"
    using assms by (auto simp: length_Suc_conv numeral_eq_Suc)
  obtain b9 r' where r: "r = b9 # r'" using assms b by (cases r) auto
  show "uuidText b ! 14 = hexDigit (unat (b ! 6) div 16)"
    and "uuidText b ! 19 = hexDigit (unat (b ! 8) div 16)"
    by (simp_all add: b r uuidText_def slice_def hexString_simps)
qed

lemma uuidV4_stamped:
  assumes "length b = 16"
  shows "uuidV4 (uuidText (stampUUID b))"
proof -
  let ?s = "stampUUID b"
  have len: "length ?s = 16" using assms by (simp add: stampUUID_def)
  have "hexDigit 4 = CHR ''4''" by code_simp
  then have "uuidText ?s ! 14 = CHR ''4''" "uuidText ?s ! 19 \<in> set ''89ab''"
    unfolding uuidText_nth [OF len]
    using assms version_nibble variant_nibble by (simp_all add: stampUUID_def)
  then show ?thesis
    using len by (simp add: uuidV4_def splitOn_uuidText isHex_hexString) (simp add: slice_def)
qed

subsection \<open>Specifications over every environment\<close>

lemma meets_wrapped [spec_rules]:
  "meets p (\<lambda>r es. Q (case r of Inl e \<Rightarrow> Inl (Wrapped pre e []) | Inr a \<Rightarrow> Inr a) es) \<Longrightarrow> meets (wrapped pre p) Q"
  unfolding wrapped_def by (rule meets_andThen_wp) (erule meets_mono, rule meets_ret, simp)

lemmas wp = meets_wrapped meets_ret meets_liftE meets_call meets_emit meets_observe meets_andThen_wp
  meets_bindE_wp meets_if meets_case_sum meets_case_option meets_case_prod meets_Let

fun secretCreated :: "event \<Rightarrow> secret option" where
  "secretCreated (EvSecret (SCreate s _)) = Some s"
| "secretCreated _ = None"

definition secretCreate :: "event \<Rightarrow> bool" where
  "secretCreate e \<longleftrightarrow> secretCreated e \<noteq> None"

fun secretUpdate :: "event \<Rightarrow> bool" where
  "secretUpdate (EvSecret (SUpdate _ _)) = True"
| "secretUpdate _ = False"

fun secretMissing :: "namespaced_name \<Rightarrow> event \<Rightarrow> bool" where
  "secretMissing key (EvSecret (SGet k (Inl e))) \<longleftrightarrow> k = key \<and> kubeIsNotFound e"
| "secretMissing key _ = False"

text \<open>The Secret exists: it was read, or created, or someone else had created it.\<close>

fun secretPresent :: "namespaced_name \<Rightarrow> event \<Rightarrow> bool" where
  "secretPresent key (EvSecret (SGet k (Inr _))) \<longleftrightarrow> k = key"
| "secretPresent key (EvSecret (SCreate s (Inr _))) \<longleftrightarrow>
     objectKey (om_namespace (se_meta s)) (om_name (se_meta s)) = key"
| "secretPresent key (EvSecret (SCreate s (Inl e))) \<longleftrightarrow>
     objectKey (om_namespace (se_meta s)) (om_name (se_meta s)) = key \<and> kubeIsAlreadyExists e"
| "secretPresent key _ = False"

text \<open>
  The bytes a Secret's value is made of were drawn from the random source: the gossip key decodes to 32
  bytes that begin with what the source delivered, the token is the stamped text of 16 such bytes.
\<close>

fun keyDrawn :: "secret \<Rightarrow> event \<Rightarrow> bool" where
  "keyDrawn s (EvRand n (Inr bs)) \<longleftrightarrow> n = 32 \<and>
     (case map_of (se_data s) ''key'' of None \<Rightarrow> False
      | Some key \<Rightarrow> (case b64Decode key of None \<Rightarrow> False
          | Some buf \<Rightarrow> length buf = 32 \<and> prefix (map unat (take 32 bs)) buf))"
| "keyDrawn s _ \<longleftrightarrow> False"

fun tokenDrawn :: "secret \<Rightarrow> event \<Rightarrow> bool" where
  "tokenDrawn s (EvRand n (Inr bs)) \<longleftrightarrow> n = 16 \<and>
     map_of (se_data s) ''token'' = Some (uuidText (stampUUID (fillBuffer 16 bs)))"
| "tokenDrawn s _ \<longleftrightarrow> False"

text \<open>
  What the Secrets carry when they are created after the calls \<open>past\<close>: 32 random bytes in base64, a
  random version 4 UUID; no owner, so they outlive the cluster object.
\<close>

definition goodGossipSecret :: "nomad_cluster \<Rightarrow> event list \<Rightarrow> secret \<Rightarrow> bool" where
  "goodGossipSecret nc past s \<longleftrightarrow>
     om_name (se_meta s) = rn_GossipSecret (names nc) \<and> om_namespace (se_meta s) = nc_namespace nc \<and>
     om_ownerReferences (se_meta s) = [] \<and>
     (case map_of (se_data s) ''key'' of None \<Rightarrow> False | Some key \<Rightarrow> length key = 44) \<and>
     some_call (keyDrawn s) past"

definition goodTokenSecret :: "nomad_cluster \<Rightarrow> event list \<Rightarrow> secret \<Rightarrow> bool" where
  "goodTokenSecret nc past s \<longleftrightarrow>
     om_name (se_meta s) = rn_TokenSecret (names nc) \<and> om_namespace (se_meta s) = nc_namespace nc \<and>
     om_ownerReferences (se_meta s) = [] \<and>
     (case map_of (se_data s) ''token'' of None \<Rightarrow> False | Some token \<Rightarrow> uuidV4 token) \<and>
     some_call (tokenDrawn s) past"

text \<open>Every Secret that is created satisfies \<open>P\<close>, given the calls before it.\<close>

primrec createsAfter :: "(event list \<Rightarrow> secret \<Rightarrow> bool) \<Rightarrow> event list \<Rightarrow> event list \<Rightarrow> bool" where
  "createsAfter P past [] \<longleftrightarrow> True"
| "createsAfter P past (e # es) \<longleftrightarrow>
     (case secretCreated e of None \<Rightarrow> True | Some s \<Rightarrow> P past s) \<and> createsAfter P (past @ [e]) es"

definition createsOnly :: "(event list \<Rightarrow> secret \<Rightarrow> bool) \<Rightarrow> event list \<Rightarrow> bool" where
  "createsOnly P es \<longleftrightarrow> createsAfter P [] es"

lemma createsAfter_append:
  "createsAfter P past (es @ es') \<longleftrightarrow> createsAfter P past es \<and> createsAfter P (past @ es) es'"
  by (induction es arbitrary: past) auto

lemmas createsOnly_simps [trace_simps] = createsOnly_def createsAfter.simps createsAfter_append

lemma secretCreate_simps [simp]:
  "secretCreate (EvSecret (SCreate s r))" "\<not> secretCreate (EvSecret (SGet k g))"
  "\<not> secretCreate (EvSecret (SUpdate s r))" "\<not> secretCreate (EvRand n b)" "\<not> secretCreate (EvNomad c)"
  by (simp_all add: secretCreate_def)

lemma fillBuffer_delivered: "prefix (map unat (take n bs)) (map unat (fillBuffer n bs))"
  by (simp add: fillBuffer_def map_mono_prefix)

lemma gossipSecret_good:
  "EvRand 32 (Inr bs) \<in> set past \<Longrightarrow> goodGossipSecret nc past (gossipSecret nc (fillBuffer 32 bs))"
  by (auto simp: goodGossipSecret_def gossipSecret_def newMeta_def length_base64String base64_roundtrip
      fillBuffer_delivered some_call_def list_ex_iff intro!: bexI [of _ "EvRand 32 (Inr bs)"])

lemma tokenSecret_good:
  "EvRand 16 (Inr bs) \<in> set past \<Longrightarrow>
    goodTokenSecret nc past (tokenSecret nc (uuidText (stampUUID (fillBuffer 16 bs))))"
  by (auto simp: goodTokenSecret_def tokenSecret_def newMeta_def uuidV4_stamped some_call_def list_ex_iff
      intro!: bexI [of _ "EvRand 16 (Inr bs)"])

lemma secret_keys [simp]:
  "om_name (se_meta (gossipSecret nc buf)) = rn_GossipSecret (names nc)"
  "om_namespace (se_meta (gossipSecret nc buf)) = nc_namespace nc"
  "om_name (se_meta (tokenSecret nc token)) = rn_TokenSecret (names nc)"
  "om_namespace (se_meta (tokenSecret nc token)) = nc_namespace nc"
  by (simp_all add: gossipSecret_def tokenSecret_def newMeta_def)

definition gossipKeyOf :: "nomad_cluster \<Rightarrow> namespaced_name" where
  "gossipKeyOf nc = objectKey (nc_namespace nc) (rn_GossipSecret (names nc))"

definition tokenKeyOf :: "nomad_cluster \<Rightarrow> namespaced_name" where
  "tokenKeyOf nc = objectKey (nc_namespace nc) (rn_TokenSecret (names nc))"

lemma ensureGossipKey_spec:
  "meets (ensureGossipKey rc nc) (\<lambda>r es.
     onChannels {ChSecret, ChRand} es \<and>
     (\<forall>n. r = Inr n \<longrightarrow> n = rn_GossipSecret (names nc) \<and> some_call (secretPresent (gossipKeyOf nc)) es) \<and>
     guarded secretCreate (some_call (secretMissing (gossipKeyOf nc))) es \<and>
     quiet secretUpdate es \<and> createsOnly (goodGossipSecret nc) es)"
  unfolding ensureGossipKey_def Let_def kube_calls randRead_def
  by (auto intro!: wp simp: trace_simps gossipKeyOf_def gossipSecret_good split: sum.splits if_splits)

fun bootstrapAccepted :: "event \<Rightarrow> bool" where
  "bootstrapAccepted (EvNomad (NACLBootstrap _ (Inr _))) \<longleftrightarrow> True"
| "bootstrapAccepted (EvNomad (NACLBootstrap _ (Inl e))) \<longleftrightarrow> IsACLAlreadyBootstrapped e"
| "bootstrapAccepted _ \<longleftrightarrow> False"

fun bootstrapCalled :: "event \<Rightarrow> bool" where
  "bootstrapCalled (EvNomad (NACLBootstrap _ _)) \<longleftrightarrow> True"
| "bootstrapCalled _ \<longleftrightarrow> False"

text \<open>A Secret that comes back from the API server without the marker, read or just created.\<close>

fun unconfirmedSeen :: "event \<Rightarrow> bool" where
  "unconfirmedSeen (EvSecret (SGet _ (Inr s))) \<longleftrightarrow> \<not> confirmedBootstrapped s"
| "unconfirmedSeen (EvSecret (SCreate _ (Inr s))) \<longleftrightarrow> \<not> confirmedBootstrapped s"
| "unconfirmedSeen _ \<longleftrightarrow> False"

lemma length_16 [simp]: "uuidV4 (uuidText (stampUUID (fillBuffer 16 bs)))"
  by (rule uuidV4_stamped) simp

lemma obtainTokenSecret_spec:
  "meets (obtainTokenSecret rc nc) (\<lambda>r es.
     onChannels {ChSecret, ChRand} es \<and>
     (\<forall>sec. r = Inr sec \<longrightarrow> some_call (secretPresent (tokenKeyOf nc)) es \<and>
        (\<not> confirmedBootstrapped sec \<longrightarrow> some_call unconfirmedSeen es)) \<and>
     guarded secretCreate (some_call (secretMissing (tokenKeyOf nc))) es \<and>
     quiet secretUpdate es \<and> createsOnly (goodTokenSecret nc) es)"
  unfolding obtainTokenSecret_def Let_def kube_calls randRead_def newBootstrapToken_def
  by (auto intro!: wp simp: trace_simps tokenKeyOf_def tokenSecret_good split: sum.splits if_splits)

lemma ensureBootstrapToken_tail:
  "meets (andThen (nomadCall (NACLBootstrap token) (op_ACLBootstrap ops token)) (\<lambda>r.
      let proceed = (if confirmedBootstrapped sec then ret (Inr ())
         else bindE (wrapped pre (kUpdate EvSecret st (markBootstrapped sec))) (\<lambda>_. ret (Inr ())))
      in case r of
           Inl err \<Rightarrow> if \<not> IsACLAlreadyBootstrapped err then ret (Inl (Wrapped pre' err [])) else proceed
         | Inr _ \<Rightarrow> proceed))
     (\<lambda>r es. onChannels {ChSecret, ChNomad} es \<and> some_call bootstrapCalled es \<and>
       (r = Inr () \<longrightarrow> some_call bootstrapAccepted es) \<and>
       guarded secretUpdate (some_call bootstrapAccepted) es \<and>
       (\<not> quiet secretUpdate es \<longrightarrow> \<not> confirmedBootstrapped sec) \<and>
       quiet secretCreate es)"
  unfolding Let_def kube_calls
  by (auto intro!: wp simp: trace_simps split: sum.splits)

text \<open>
  The contract of the token step: the token is registered on every pass that has a Secret, success
  means Nomad accepted it, the marker is written only after that and only on a Secret that lacks
  it, and a token is minted only when no Secret exists.
\<close>

lemma ensureBootstrapToken_spec:
  "meets (ensureBootstrapToken rc nc ops) (\<lambda>r es.
     onChannels {ChSecret, ChRand, ChNomad} es \<and>
     (r = Inr () \<longrightarrow> some_call bootstrapAccepted es \<and> some_call (secretPresent (tokenKeyOf nc)) es) \<and>
     guarded secretUpdate (some_call bootstrapAccepted) es \<and>
     guarded secretUpdate (some_call unconfirmedSeen) es \<and>
     guarded secretCreate (some_call (secretMissing (tokenKeyOf nc))) es \<and>
     createsOnly (goodTokenSecret nc) es)"
proof -
  have creates: "quiet secretCreate es \<Longrightarrow> createsAfter P past es" for P past es
    by (induction es arbitrary: past) (auto simp: quiet_def secretCreate_def)
  have sub: "onChannels {ChSecret, ChRand} es \<Longrightarrow> onChannels {ChSecret, ChRand, ChNomad} es"
    "onChannels {ChSecret, ChNomad} es \<Longrightarrow> onChannels {ChSecret, ChRand, ChNomad} es" for es
    by (auto elim: onChannels_mono)
  show ?thesis
    unfolding ensureBootstrapToken_def Let_def
    apply (rule meets_bindE [OF obtainTokenSecret_spec])
     apply (simp add: sub quiet_guarded)
    apply (rule meets_mono [OF ensureBootstrapToken_tail [unfolded Let_def]])
    apply (auto simp: trace_simps(1-4) some_call_append onChannels_simps guarded_append
        createsOnly_simps intro: sub creates quiet_guarded)
    done
qed

lemma applyObject_spec:
  "meets (applyObject rc nc obj) (\<lambda>r es. (es = [] \<and> (\<exists>e. r = Inl e)) \<or>
     (\<exists>m. es = [EvApply (withAppliedMeta obj m) r] \<and>
       tk_setControllerReference (pf_toolkit (rc_platform rc)) (nc_meta nc) (appliedMeta obj) = Inr m))"
  unfolding applyObject_def Let_def
  by (auto intro!: wp split: sum.splits)

end
