(* ===== verification/InitScript.thy ===== *)
theory InitScript
  imports Security
begin

section \<open>The init container (initEntrypoint)\<close>

text \<open>
  What the shell script \<^verbatim>\<open>/config/entrypoint.sh\<close> does in the init container of one server: it reads the files
  of the ConfigMap and of the gossip Secret, picks the word of \<^verbatim>\<open>rpc_ports\<close> at the ordinal its host name
  ends in, chooses the address to advertise, copies the shared \<^verbatim>\<open>server.hcl\<close> and writes the overlay. The
  templates it expands are those \<^const>\<open>initEntrypoint\<close> is made of. The pod's host name, which the
  StatefulSet sets to the pod's name, and its address are arguments; \<open>None\<close> is an aborted script
  (\<^verbatim>\<open>set -eu\<close>).
\<close>

subsection \<open>The shell constructs the script uses\<close>

text \<open>A command substitution drops the trailing newlines.\<close>

definition substituted :: "string \<Rightarrow> string" where
  "substituted s = rev (dropWhile (\<lambda>c. c = CHR 0x0A) (rev s))"

text \<open>\<^verbatim>\<open>${HOSTNAME##*-}\<close>: what follows the last dash, or everything.\<close>

definition afterLastDash :: "string \<Rightarrow> string" where
  "afterLastDash s = rev (takeWhile (\<lambda>c. c \<noteq> CHR ''-'') (rev s))"

text \<open>An unquoted expansion is cut at blanks, tabs and newlines; there are no empty words.\<close>

definition shellWords :: "string \<Rightarrow> string list" where
  "shellWords s = filter (\<lambda>w. w \<noteq> [])
     (splitOn (CHR '' '') (map (\<lambda>c. if c = CHR 0x09 \<or> c = CHR 0x0A then CHR '' '' else c) s))"

text \<open>The loop over \<^verbatim>\<open>$PORTS\<close>: the last word whose number, as a text, is \<open>ord\<close>.\<close>

fun portAt :: "nat \<Rightarrow> string \<Rightarrow> string list \<Rightarrow> string \<Rightarrow> string" where
  "portAt i ord [] rpcPort = rpcPort"
| "portAt i ord (p # ps) rpcPort = portAt (Suc i) ord ps (if natDigits i = ord then p else rpcPort)"

text \<open>\<^verbatim>\<open>${NAME}\<close> is replaced by the variable's value; a variable that is not set ends the script.\<close>

function expandVars :: "strmap \<Rightarrow> string \<Rightarrow> string option" where
  "expandVars env [] = Some []"
| "expandVars env (c # cs) =
     (if c = CHR ''$'' \<and> cs \<noteq> [] \<and> hd cs = CHR ''{''
      then (case map_of env (takeWhile (\<lambda>c. c \<noteq> CHR ''}'') (tl cs)) of
          None \<Rightarrow> None
        | Some v \<Rightarrow> map_option ((@) v) (expandVars env (tl (dropWhile (\<lambda>c. c \<noteq> CHR ''}'') cs))))
      else map_option ((#) c) (expandVars env cs))"
  by pat_completeness auto

termination
proof (relation "measure (\<lambda>(env, s). length s)")
  fix cs :: string
  have "length (dropWhile (\<lambda>c. c \<noteq> CHR ''}'') cs) \<le> length cs" by (rule length_dropWhile_le)
  then show "((env, tl (dropWhile (\<lambda>c. c \<noteq> CHR ''}'') cs)), env, c # cs) \<in> measure (\<lambda>(env, s). length s)" for env c
    by (simp add: le_imp_less_Suc)
qed simp_all

subsection \<open>The script\<close>

definition overlayTemplateText :: string where
  "overlayTemplateText = concat (map (\<lambda>line. line @ newline) overlayTemplate)"

definition runEntrypoint :: "strmap \<Rightarrow> strmap \<Rightarrow> string \<Rightarrow> string \<Rightarrow> (string \<times> string) option" where
  "runEntrypoint config gossip hostname podIP =
     (case map_of config ''rpc_ports'' of None \<Rightarrow> None
      | Some ports \<Rightarrow> (case map_of config ''gateway_address'' of None \<Rightarrow> None
      | Some addr \<Rightarrow> (case map_of gossip ''key'' of None \<Rightarrow> None
      | Some key \<Rightarrow>
          (let env = [(''POD_IP'', podIP), (''GW'', substituted addr), (''KEY'', substituted key),
                (''RPCPORT'', portAt 0 (afterLastDash hostname) (shellWords (substituted ports)) [])];
               advertise = (if substituted (mapGetOr [] config ''rpc_advertise'') = ''pod''
                 then podAdvertise else externalAdvertise)
           in case expandVars env advertise of None \<Rightarrow> None
              | Some rpcAdv \<Rightarrow> (case map_of config ''server.hcl'' of None \<Rightarrow> None
              | Some hcl \<Rightarrow> map_option (Pair hcl) (expandVars ((''RPCADV'', rpcAdv) # env) overlayTemplateText))))))"

text \<open>The overlay of a server with its four values filled in.\<close>

definition overlayText :: "string \<Rightarrow> string \<Rightarrow> string \<Rightarrow> string \<Rightarrow> string" where
  "overlayText key http rpc serf = concat (map (\<lambda>line. line @ newline)
     [''server {'', ''  encrypt = '' @ inQuotes key, ''}'',
      ''advertise {'', ''  http = '' @ inQuotes http, ''  rpc  = '' @ inQuotes rpc, ''  serf = '' @ inQuotes serf, ''}''])"

subsection \<open>What it computes\<close>

lemma substituted_same: "CHR 0x0A \<notin> set s \<Longrightarrow> substituted s = s"
  by (cases s rule: rev_cases) (auto simp: substituted_def)

lemma afterLastDash_cut: "CHR ''-'' \<notin> set s \<Longrightarrow> afterLastDash (pre @ CHR ''-'' # s) = s"
proof -
  assume "CHR ''-'' \<notin> set s"
  then have "takeWhile (\<lambda>c. c \<noteq> CHR ''-'') (rev s @ CHR ''-'' # rev pre) = rev s"
    by (subst takeWhile_append2) auto
  then show ?thesis by (simp add: afterLastDash_def)
qed

lemma ordinal_of_pod: "afterLastDash (PodName (names nc) i) = natDigits i"
  using afterLastDash_cut [of "natDigits i" "nc_name nc @ ''-server''"] not_digit_notin_natDigits [of "CHR ''-''" i]
  by (simp add: PodName_def)

lemma portAt_later: "i < k \<Longrightarrow> portAt k (natDigits i) ps acc = acc"
  by (induction ps arbitrary: k) auto

lemma portAt_nth: "i < length ps \<Longrightarrow> portAt k (natDigits (k + i)) ps acc = ps ! i"
proof (induction ps arbitrary: i k acc)
  case (Cons p ps)
  then show ?case
    by (cases i) (use portAt_later [of k "Suc k"] Cons.IH [of _ "Suc k"] in auto)
qed simp

lemma portsText_chars:
  assumes "\<not> 48 \<le> (of_char c :: nat)" "c \<noteq> CHR '' ''" "c \<noteq> CHR ''-''"
  shows "c \<notin> set (portsText ports)"
proof -
  have "c \<notin> set (itoa k)" for k
    using assms not_digit_notin_natDigits [of c] by (simp add: itoa_def)
  then show ?thesis
    unfolding portsText_join using assms(2) by (induction ports rule: induct_list012) simp_all
qed

lemma shellWords_ports: "ports \<noteq> [] \<Longrightarrow> shellWords (substituted (portsText ports)) = map itoa ports"
proof -
  assume ne: "ports \<noteq> []"
  have blank: "CHR 0x0A \<notin> set (portsText ports)" "CHR 0x09 \<notin> set (portsText ports)"
    by (rule portsText_chars; simp)+
  then have "map (\<lambda>c. if c = CHR 0x09 \<or> c = CHR 0x0A then CHR '' '' else c) (portsText ports) = portsText ports"
    by (auto intro!: map_idI)
  then show ?thesis
    using blank(1) portsText_words [OF ne]
    by (simp add: substituted_same shellWords_def filter_id_conv itoa_nonempty)
qed

lemma base64_line: "substituted (base64String bs) = base64String bs"
proof -
  have char: "b64Char n \<noteq> CHR 0x0A" for n
  proof
    assume "b64Char n = CHR 0x0A"
    then have "of_char (b64Char n) = (10 :: nat)" by simp
    then show False by (auto simp: b64Char_def split: if_splits)
  qed
  have "CHR 0x0A \<notin> set (b64Encode ns)" for ns
    by (induction ns rule: b64Encode.induct) (auto dest: char [THEN notE, OF sym])
  then show ?thesis by (simp add: base64String_def substituted_same)
qed

text \<open>The expansions of the three templates.\<close>

lemma expand_advertise:
  "map_of env ''POD_IP'' = Some ip \<Longrightarrow> expandVars env podAdvertise = Some (ip @ '':4647'')"
  "map_of env ''GW'' = Some gw \<Longrightarrow> map_of env ''RPCPORT'' = Some p \<Longrightarrow>
    expandVars env externalAdvertise = Some (gw @ '':'' @ p)"
  by (simp_all add: podAdvertise_def externalAdvertise_def)

lemma expand_overlay:
  assumes "map_of env ''KEY'' = Some key" "map_of env ''GW'' = Some gw"
    and "map_of env ''RPCADV'' = Some adv" "map_of env ''POD_IP'' = Some ip"
  shows "expandVars env overlayTemplateText = Some (overlayText key (gw @ '':4646'') adv ip)"
  by (simp add: overlayTemplateText_def overlayTemplate_def overlayText_def newline_def inQuotes_def assms)

text \<open>
  On the ConfigMap of a cluster and its gossip Secret, the script never aborts; the server advertises the
  external address with the port of its ordinal when it is alone, and its own pod's address with the port
  it binds when it has peers.
\<close>

definition advertisedRPC :: "nomad_cluster \<Rightarrow> string \<Rightarrow> int \<Rightarrow> string \<Rightarrow> string" where
  "advertisedRPC nc addr port podIP =
     (if nc_servers nc = 1 then substituted addr @ '':'' @ itoa port else podIP @ '':'' @ itoa portRPC)"

lemma itoa_portRPC: "itoa portRPC = ''4647''"
proof -
  have "char_of (52 :: nat) = CHR ''4''" "char_of (54 :: nat) = CHR ''6''" "char_of (55 :: nat) = CHR ''7''" by code_simp+
  then show ?thesis by (simp add: portRPC_def itoa_def natDigits.simps digitChar_def)
qed

lemma runEntrypoint_server:
  assumes cm: "buildConfigMap uc nc addr = Inr cm" and ports: "rpcAdvertisePorts nc = Inr ports" "i < length ports"
  shows "runEntrypoint (cm_data cm) (se_data (gossipSecret nc buf)) (PodName (names nc) i) ip =
    Some (renderBody uc nc, overlayText (base64String buf) (substituted addr @ '':4646'')
      (advertisedRPC nc addr (ports ! i) ip) ip)"
proof -
  have data: "cm_data cm = [(''server.hcl'', renderBody uc nc), (''gateway_address'', addr),
      (''rpc_ports'', portsText ports), (''rpc_advertise'', rpcAdvertiseStrategy nc), (''entrypoint.sh'', initEntrypoint)]"
    using cm ports(1) by (auto simp: buildConfigMap_def renderConfig_def Let_def)
  have words: "shellWords (substituted (portsText ports)) = map itoa ports"
    using ports(2) by (intro shellWords_ports) auto
  have port: "portAt 0 (natDigits i) (map itoa ports) [] = itoa (ports ! i)"
    using portAt_nth [of i "map itoa ports" 0] ports(2) by simp
  have strategy: "substituted (rpcAdvertiseStrategy nc) = ''pod'' \<longleftrightarrow> nc_servers nc \<noteq> 1"
    by (simp add: rpcAdvertiseStrategy_def rpcAdvertisePod_def rpcAdvertiseExternal_def substituted_same)
  show ?thesis
    by (simp add: runEntrypoint_def data gossipSecret_def Let_def mapGetOr_def ordinal_of_pod words port strategy
        expand_advertise expand_overlay base64_line advertisedRPC_def itoa_portRPC)
qed

end
