(* ===== verification/ExternalAccess.thy ===== *)
theory ExternalAccess
  imports Security
begin

section \<open>External access (resources_gateway.go, resources_loadbalancer.go)\<close>

text \<open>
  How the advertised address of a cluster is resolved: a Gateway the operator owns, a Gateway the
  user owns and the operator only verifies, or a LoadBalancer Service; and the routes of the two
  Gateway modes. Every dereference of the optional gateway block is a branch of the model.
\<close>

subsection \<open>Builders\<close>

definition listenerNameHTTP :: string where
  "listenerNameHTTP = ''http''"

definition listenerNameRPC :: "nat \<Rightarrow> string" where
  "listenerNameRPC ordinal = ''rpc-'' @ natDigits ordinal"

definition httpListenerOf :: "gateway_spec \<Rightarrow> gateway_listener" where
  "httpListenerOf g = \<lparr>gl_name = listenerNameHTTP, gl_port = portHTTP, gl_protocol = ''TLS'',
     gl_hostname = Some (gs_httpHostname g), gl_tlsMode = Some ''Passthrough'', gl_allowedRoutes = None\<rparr>"

definition rpcListener :: "nat \<Rightarrow> int \<Rightarrow> gateway_listener" where
  "rpcListener ordinal p = \<lparr>gl_name = listenerNameRPC ordinal, gl_port = p, gl_protocol = ''TCP'',
     gl_hostname = None, gl_tlsMode = None, gl_allowedRoutes = None\<rparr>"

definition gatewayOf :: "nomad_cluster \<Rightarrow> error + gateway_spec" where
  "gatewayOf nc = (case ea_gateway (nc_access nc) of None \<Rightarrow> Inl nilDereference | Some g \<Rightarrow> Inr g)"

definition buildManagedGateway :: "nomad_cluster \<Rightarrow> error + gateway" where
  "buildManagedGateway nc = (case gatewayOf nc of Inl err \<Rightarrow> Inl err | Inr g \<Rightarrow> Inr
     \<lparr>gw_meta = newMeta (rn_Gateway (names nc)) (nc_namespace nc) (Labels (names nc)),
      gw_className = gs_className g,
      gw_listeners = httpListenerOf g #
        map (\<lambda>(ordinal, p). rpcListener ordinal p) (enumerate 0 (gs_rpcPorts g)),
      gw_addresses = []\<rparr>)"

definition parentGateway :: "nomad_cluster \<Rightarrow> error + parent_reference" where
  "parentGateway nc = (case gatewayOf nc of Inl err \<Rightarrow> Inl err | Inr g \<Rightarrow>
     (let (gwName, gwNs) =
        (if gs_mode g = GatewayModeExisting
         then (case gs_ref g of
                 Some ref \<Rightarrow> (gr_name ref, gr_namespace ref)
               | None \<Rightarrow> (rn_Gateway (names nc), nc_namespace nc))
         else (rn_Gateway (names nc), nc_namespace nc))
      in Inr \<lparr>pr_group = ''gateway.networking.k8s.io'', pr_kind = ''Gateway'', pr_name = gwName,
              pr_namespace = gwNs, pr_sectionName = None\<rparr>))"

definition buildTLSRoute :: "nomad_cluster \<Rightarrow> error + tls_route" where
  "buildTLSRoute nc = (case parentGateway nc of Inl err \<Rightarrow> Inl err | Inr parent \<Rightarrow>
     (case gatewayOf nc of Inl err \<Rightarrow> Inl err | Inr g \<Rightarrow> Inr
       \<lparr>tr_meta = newMeta (rn_TLSRoute (names nc)) (nc_namespace nc) (Labels (names nc)),
        tr_parentRefs = [parent\<lparr>pr_sectionName := Some listenerNameHTTP\<rparr>],
        tr_hostnames = [gs_httpHostname g],
        tr_backendRefs = [(rn_APISvc (names nc), portHTTP)]\<rparr>))"

definition tcpRouteFor :: "nomad_cluster \<Rightarrow> nat \<Rightarrow> error + tcp_route" where
  "tcpRouteFor nc ordinal = (case parentGateway nc of Inl err \<Rightarrow> Inl err | Inr parent \<Rightarrow> Inr
     \<lparr>cr_meta = newMeta (TCPRoute (names nc) ordinal) (nc_namespace nc) (Labels (names nc)),
      cr_parentRefs = [parent\<lparr>pr_sectionName := Some (listenerNameRPC ordinal)\<rparr>],
      cr_backendRefs = [(PodSvc (names nc) ordinal, portRPC)]\<rparr>)"

primrec mapE :: "('a \<Rightarrow> 'x + 'b) \<Rightarrow> 'a list \<Rightarrow> 'x + 'b list" where
  "mapE f [] = Inr []"
| "mapE f (x # xs) = (case f x of Inl e \<Rightarrow> Inl e | Inr y \<Rightarrow>
     (case mapE f xs of Inl e \<Rightarrow> Inl e | Inr ys \<Rightarrow> Inr (y # ys)))"

text \<open>\<^verbatim>\<open>make\<close> with a negative capacity panics; the loop runs over \<^verbatim>\<open>range int(servers)\<close>.\<close>

definition buildTCPRoutes :: "nomad_cluster \<Rightarrow> error + tcp_route list" where
  "buildTCPRoutes nc =
     (if nc_servers nc < 0 then Inl (GoPanic ''makeslice: cap out of range'')
      else mapE (tcpRouteFor nc) [0..<nat (nc_servers nc)])"

definition buildLoadBalancerService :: "nomad_cluster \<Rightarrow> service" where
  "buildLoadBalancerService nc =
     (let svc = \<lparr>sv_meta = newMeta (rn_LBService (names nc)) (nc_namespace nc) (Labels (names nc)),
            sv_type = ''LoadBalancer'', sv_clusterIP = [], sv_publishNotReadyAddresses = False,
            sv_selector = Labels (names nc),
            sv_ports = [servicePort ''rpc'' portRPC (Some portRPC) ''TCP'',
              servicePort ''http'' portHTTP (Some portHTTP) ''TCP''],
            sv_loadBalancerClass = None, sv_ingress = []\<rparr>
      in case ea_loadBalancer (nc_access nc) of
           None \<Rightarrow> svc
         | Some lb \<Rightarrow>
             let svc1 = (if lb_loadBalancerClass lb \<noteq> []
                   then svc\<lparr>sv_loadBalancerClass := Some (lb_loadBalancerClass lb)\<rparr> else svc)
             in if length (lb_annotations lb) > 0
                then svc1\<lparr>sv_meta := (sv_meta svc1)\<lparr>om_annotations := lb_annotations lb\<rparr>\<rparr> else svc1)"

subsection \<open>The owned Gateway and the LoadBalancer Service\<close>

definition firstAddress :: "string list \<Rightarrow> string \<times> bool" where
  "firstAddress addrs = (case find (\<lambda>a. a \<noteq> []) addrs of Some a \<Rightarrow> (a, True) | None \<Rightarrow> ([], False))"

definition ensureManagedGateway ::
    "'w cluster_reconciler \<Rightarrow> nomad_cluster \<Rightarrow> ('w, string \<times> bool) reconciler_proc" where
  "ensureManagedGateway rc nc =
     bindE (liftE (buildManagedGateway nc)) (\<lambda>gw.
     bindE (applyObject rc nc (AGateway gw)) (\<lambda>_.
     bindE (kGet EvGateway (pf_gateways (rc_platform rc))
             (objectKey (om_namespace (gw_meta gw)) (om_name (gw_meta gw)))) (\<lambda>current.
     ret (Inr (firstAddress (gw_addresses current))))))"

fun firstIngress :: "(string \<times> string) list \<Rightarrow> string \<times> bool" where
  "firstIngress [] = ([], False)"
| "firstIngress ((ip, host) # rest) =
     (if ip \<noteq> [] then (ip, True) else if host \<noteq> [] then (host, True) else firstIngress rest)"

definition ensureLoadBalancer ::
    "'w cluster_reconciler \<Rightarrow> nomad_cluster \<Rightarrow> ('w, string \<times> bool) reconciler_proc" where
  "ensureLoadBalancer rc nc =
     (let svc = buildLoadBalancerService nc in
      bindE (applyObject rc nc (AService svc)) (\<lambda>_.
      andThen (kGet EvService (pf_services (rc_platform rc))
                (objectKey (om_namespace (sv_meta svc)) (om_name (sv_meta svc)))) (\<lambda>r. ret (
        case r of
          Inl err \<Rightarrow> if kubeIsNotFound err then Inr ([], False) else Inl err
        | Inr current \<Rightarrow> Inr (firstIngress (sv_ingress current))))))"

subsection \<open>The user's Gateway\<close>

definition listenerAdmitsNamespace :: "gateway_listener \<Rightarrow> string \<Rightarrow> string \<Rightarrow> bool" where
  "listenerAdmitsNamespace l gwNS routeNS =
     (let fromNS = (case gl_allowedRoutes l of
          Some (Some (Some f)) \<Rightarrow> f | _ \<Rightarrow> ''Same'')
      in if fromNS = ''All'' then True else if fromNS = ''Same'' then gwNS = routeNS else False)"

definition listenersByName :: "gateway_listener list \<Rightarrow> string \<rightharpoonup> gateway_listener" where
  "listenersByName ls = map_of (rev (map (\<lambda>l. (gl_name l, l)) ls))"

text \<open>The verification, as the first refusal (reason and message) or none.\<close>

definition checkHTTPListener :: "gateway \<Rightarrow> gateway_spec \<Rightarrow> string \<Rightarrow> (string \<times> string) option" where
  "checkHTTPListener gw g ns =
     (let invalid = (''HTTPListenerInvalid'',
        ''referenced Gateway lacks a valid HTTPS/TLS listener for the configured hostname'') in
      case listenersByName (gw_listeners gw) listenerNameHTTP of
        None \<Rightarrow> Some invalid
      | Some l \<Rightarrow>
          if gl_protocol l \<noteq> ''TLS'' \<or> gl_hostname l \<noteq> Some (gs_httpHostname g) then Some invalid
          else if \<not> listenerAdmitsNamespace l (om_namespace (gw_meta gw)) ns
          then Some (''NamespaceNotAdmitted'', ''referenced Gateway HTTP listener does not admit namespace '' @ ns)
          else None)"

primrec checkRPCListeners ::
    "gateway \<Rightarrow> string \<Rightarrow> nat \<Rightarrow> int list \<Rightarrow> (string \<times> string) option" where
  "checkRPCListeners gw ns ordinal [] = None"
| "checkRPCListeners gw ns ordinal (p # ps) =
     (let invalid = (''RPCListenerInvalid'',
        ''referenced Gateway lacks a valid TCP listener for RPC port '' @ itoa p) in
      case listenersByName (gw_listeners gw) (listenerNameRPC ordinal) of
        None \<Rightarrow> Some invalid
      | Some l \<Rightarrow>
          if gl_protocol l \<noteq> ''TCP'' \<or> gl_port l \<noteq> p then Some invalid
          else if \<not> listenerAdmitsNamespace l (om_namespace (gw_meta gw)) ns
          then Some (''NamespaceNotAdmitted'', ''referenced Gateway RPC listener does not admit namespace '' @ ns)
          else checkRPCListeners gw ns (Suc ordinal) ps)"

definition checkListeners :: "gateway \<Rightarrow> gateway_spec \<Rightarrow> string \<Rightarrow> (string \<times> string) option" where
  "checkListeners gw g ns = (case checkHTTPListener gw g ns of
     Some refusal \<Rightarrow> Some refusal | None \<Rightarrow> checkRPCListeners gw ns 0 (gs_rpcPorts g))"

definition provisionedPhase :: "string \<Rightarrow> bool" where
  "provisionedPhase p \<longleftrightarrow> p = PhaseReady \<or> p = PhaseDegraded"

definition withCondition ::
    "'w cluster_reconciler \<Rightarrow> nomad_cluster \<Rightarrow> string \<Rightarrow> condition_status \<Rightarrow> string \<Rightarrow> string \<Rightarrow>
     (nomad_cluster \<Rightarrow> ('w, 'a) reconciler_proc) \<Rightarrow> ('w, 'a) reconciler_proc" where
  "withCondition rc nc ty status reason msg k =
     andThen (observe (pf_now (rc_platform rc))) (\<lambda>now. k (setCondition now nc ty status reason msg))"

definition setNotReady ::
    "'w cluster_reconciler \<Rightarrow> nomad_cluster \<Rightarrow> string \<Rightarrow> string \<Rightarrow>
     ('w, nomad_cluster \<times> string \<times> bool) reconciler_proc" where
  "setNotReady rc nc reason msg =
     (if provisionedPhase (nc_phase nc) then ret (Inr (nc, [], False))
      else withCondition rc nc CondExternalAccessReady ConditionFalse reason msg
             (\<lambda>nc. ret (Inr (nc, [], False))))"

definition ensureExistingGateway ::
    "'w cluster_reconciler \<Rightarrow> nomad_cluster \<Rightarrow> ('w, nomad_cluster \<times> string \<times> bool) reconciler_proc" where
  "ensureExistingGateway rc nc =
     bindE (liftE (gatewayOf nc)) (\<lambda>g.
     case gs_ref g of
       None \<Rightarrow> ret (Inl nilDereference)
     | Some ref \<Rightarrow>
         andThen (kGet EvGateway (pf_gateways (rc_platform rc)) (objectKey (gr_namespace ref) (gr_name ref))) (\<lambda>r.
         case r of
           Inl err \<Rightarrow>
             if kubeIsNotFound err
             then setNotReady rc nc ''GatewayNotFound''
                    (''referenced Gateway '' @ gr_namespace ref @ ''/'' @ gr_name ref @ '' not found'')
             else ret (Inl err)
         | Inr gw \<Rightarrow>
             (case checkListeners gw g (nc_namespace nc) of
                Some (reason, msg) \<Rightarrow> setNotReady rc nc reason msg
              | None \<Rightarrow>
                  (case find (\<lambda>a. a \<noteq> []) (gw_addresses gw) of
                     Some a \<Rightarrow> ret (Inr (nc, a, True))
                   | None \<Rightarrow> setNotReady rc nc ''GatewayNoAddress''
                       ''referenced Gateway has no assigned address yet''))))"

definition ensureGateway ::
    "'w cluster_reconciler \<Rightarrow> nomad_cluster \<Rightarrow> ('w, nomad_cluster \<times> string \<times> bool) reconciler_proc" where
  "ensureGateway rc nc =
     bindE (liftE (gatewayOf nc)) (\<lambda>g.
     if gs_mode g = GatewayModeExisting then ensureExistingGateway rc nc
     else bindE (ensureManagedGateway rc nc) (\<lambda>(a, ready). ret (Inr (nc, a, ready))))"

subsection \<open>What the address step does to the cluster object\<close>

lemma meets_withCondition:
  "(\<And>now. meets (k (setCondition now nc ty status reason msg)) Q) \<Longrightarrow>
    meets (withCondition rc nc ty status reason msg k) Q"
  unfolding withCondition_def by (auto intro!: wp)

text \<open>The object a step hands on: the same cluster with, at most, other conditions.\<close>

definition sameCluster :: "nomad_cluster \<Rightarrow> nomad_cluster \<Rightarrow> bool" where
  "sameCluster nc nc' \<longleftrightarrow> nc_meta nc' = nc_meta nc \<and> nc_spec nc' = nc_spec nc \<and>
     nc_phase nc' = nc_phase nc \<and>
     ct_externalAddress (nc_status nc') = ct_externalAddress (nc_status nc) \<and>
     (provisionedPhase (nc_phase nc) \<longrightarrow> nc' = nc)"

lemma sameCluster_refl [simp]: "sameCluster nc nc"
  by (simp add: sameCluster_def)

lemma sameCluster_setCondition [simp]:
  "\<not> provisionedPhase (nc_phase nc) \<Longrightarrow> sameCluster nc (setCondition now nc ty st reason msg)"
  by (simp add: sameCluster_def)

fun appliesObject :: "(applied_object \<Rightarrow> bool) \<Rightarrow> event \<Rightarrow> bool" where
  "appliesObject P (EvApply obj _) \<longleftrightarrow> P obj"
| "appliesObject P _ \<longleftrightarrow> False"

fun isStatefulSet :: "applied_object \<Rightarrow> bool" where
  "isStatefulSet (AStatefulSet _) \<longleftrightarrow> True"
| "isStatefulSet _ \<longleftrightarrow> False"

fun isFrontDoor :: "applied_object \<Rightarrow> bool" where
  "isFrontDoor (AGateway _) \<longleftrightarrow> True"
| "isFrontDoor (AService s) \<longleftrightarrow> sv_type s = ''LoadBalancer''"
| "isFrontDoor _ \<longleftrightarrow> False"

lemma isStatefulSet_with [simp]: "isStatefulSet (withAppliedMeta obj m) = isStatefulSet obj"
  by (cases obj) simp_all

lemma isFrontDoor_with [simp]: "isFrontDoor (withAppliedMeta obj m) = isFrontDoor obj"
  by (cases obj) simp_all

lemma loadBalancer_type [simp]: "sv_type (buildLoadBalancerService nc) = ''LoadBalancer''"
  by (simp add: buildLoadBalancerService_def Let_def split: option.split)

text \<open>An address is reported as ready only if it is not empty.\<close>

lemma firstAddress_ready [simp]: "firstAddress addrs \<noteq> ([], True)"
  by (auto simp: firstAddress_def find_Some_iff split: option.splits)

lemma firstIngress_ready [simp]: "firstIngress ing \<noteq> ([], True)"
  by (induction ing rule: firstIngress.induct) (auto split: if_splits)

definition addressStep :: "nomad_cluster \<Rightarrow> error + nomad_cluster \<times> string \<times> bool \<Rightarrow> event list \<Rightarrow> bool" where
  "addressStep nc r es \<longleftrightarrow>
     onChannels {ChApply, ChGateway, ChService} es \<and> quiet (appliesObject (\<lambda>obj. \<not> isFrontDoor obj)) es \<and>
     (\<forall>nc' a ready. r = Inr (nc', a, ready) \<longrightarrow> sameCluster nc nc' \<and> (ready \<longrightarrow> a \<noteq> [] \<and> nc' = nc))"

lemmas applyObject_wp = applyObject_spec [THEN meets_mono]

lemma ensureLoadBalancer_spec:
  "meets (bindE (ensureLoadBalancer rc nc) (\<lambda>(a, ready). ret (Inr (nc, a, ready)))) (addressStep nc)"
  unfolding ensureLoadBalancer_def Let_def kube_calls
  by (auto intro!: wp applyObject_wp simp: addressStep_def trace_simps split: sum.splits if_splits)

lemma ensureManagedGateway_spec:
  "meets (bindE (ensureManagedGateway rc nc) (\<lambda>(a, ready). ret (Inr (nc, a, ready)))) (addressStep nc)"
  unfolding ensureManagedGateway_def kube_calls
  by (auto intro!: wp applyObject_wp simp: addressStep_def trace_simps split: sum.splits)

lemma ensureExistingGateway_spec: "meets (ensureExistingGateway rc nc) (addressStep nc)"
  unfolding ensureExistingGateway_def kube_calls setNotReady_def
  by (auto intro!: wp meets_withCondition simp: addressStep_def trace_simps find_Some_iff
      split: sum.splits option.splits)

lemma ensureGateway_spec: "meets (ensureGateway rc nc) (addressStep nc)"
proof -
  have "meets (liftE (gatewayOf nc)) (\<lambda>r es. es = [])" by (simp add: meets_liftE)
  then show ?thesis
    unfolding ensureGateway_def
    by (rule meets_bindE)
      (auto simp: addressStep_def trace_simps intro!: meets_if ensureExistingGateway_spec [THEN meets_mono]
        ensureManagedGateway_spec [THEN meets_mono])
qed

subsection \<open>What the verification of a Gateway means\<close>

text \<open>
  Routes attach by listener name, so a listener serves the route of a section name if the last
  listener of that name has the right protocol and hostname or port and admits the namespace.
\<close>

definition servesHTTP :: "gateway \<Rightarrow> gateway_spec \<Rightarrow> string \<Rightarrow> bool" where
  "servesHTTP gw g ns \<longleftrightarrow> (case listenersByName (gw_listeners gw) listenerNameHTTP of
     None \<Rightarrow> False
   | Some l \<Rightarrow> gl_protocol l = ''TLS'' \<and> gl_hostname l = Some (gs_httpHostname g) \<and>
       listenerAdmitsNamespace l (om_namespace (gw_meta gw)) ns)"

definition servesRPC :: "gateway \<Rightarrow> string \<Rightarrow> nat \<Rightarrow> int \<Rightarrow> bool" where
  "servesRPC gw ns ordinal p \<longleftrightarrow> (case listenersByName (gw_listeners gw) (listenerNameRPC ordinal) of
     None \<Rightarrow> False
   | Some l \<Rightarrow> gl_protocol l = ''TCP'' \<and> gl_port l = p \<and>
       listenerAdmitsNamespace l (om_namespace (gw_meta gw)) ns)"

lemma checkRPCListeners_iff:
  "checkRPCListeners gw ns n ps = None \<longleftrightarrow> list_all (\<lambda>(i, p). servesRPC gw ns i p) (enumerate n ps)"
  by (induction ps arbitrary: n) (auto simp: servesRPC_def Let_def split: option.splits)

lemma checkListeners_iff:
  "checkListeners gw g ns = None \<longleftrightarrow>
    servesHTTP gw g ns \<and> list_all (\<lambda>(i, p). servesRPC gw ns i p) (enumerate 0 (gs_rpcPorts g))"
  by (auto simp: checkListeners_def checkHTTPListener_def servesHTTP_def Let_def checkRPCListeners_iff
      split: option.splits)

text \<open>The Gateway the operator builds has one listener per name, and passes its own verification.\<close>

lemma listenerNameRPC_inject [simp]: "listenerNameRPC i = listenerNameRPC j \<longleftrightarrow> i = j"
  by (simp add: listenerNameRPC_def)

lemma listenerName_distinct [simp]: "listenerNameRPC i \<noteq> listenerNameHTTP" "listenerNameHTTP \<noteq> listenerNameRPC i"
  by (simp_all add: listenerNameRPC_def listenerNameHTTP_def)

lemma listenersByName_lookup:
  assumes "distinct (map gl_name ls)" "l \<in> set ls"
  shows "listenersByName ls (gl_name l) = Some l"
  unfolding listenersByName_def using assms by (intro map_of_is_SomeI) (auto simp: rev_map [symmetric] o_def)

lemma managed_names:
  assumes "buildManagedGateway nc = Inr gw"
  shows "distinct (map gl_name (gw_listeners gw))"
proof -
  have "map (gl_name \<circ> (\<lambda>(i, p). rpcListener i p)) (enumerate n ps) = map listenerNameRPC [n..<n + length ps]" for n ps
    by (rule nth_equalityI) (simp_all add: nth_enumerate_eq rpcListener_def)
  moreover have "distinct (map listenerNameRPC is) \<longleftrightarrow> distinct is" for "is"
    by (simp add: distinct_map inj_on_def)
  ultimately show ?thesis
    using assms by (auto simp: buildManagedGateway_def httpListenerOf_def split: sum.splits)
qed

lemma managed_accepted:
  assumes gw: "buildManagedGateway nc = Inr gw" and g: "gatewayOf nc = Inr g"
  shows "checkListeners gw g (nc_namespace nc) = None"
proof -
  have ls: "gw_listeners gw = httpListenerOf g # map (\<lambda>(i, p). rpcListener i p) (enumerate 0 (gs_rpcPorts g))"
    and ns: "om_namespace (gw_meta gw) = nc_namespace nc"
    using gw g by (auto simp: buildManagedGateway_def newMeta_def)
  note find = listenersByName_lookup [OF managed_names [OF gw]]
  have "listenersByName (gw_listeners gw) listenerNameHTTP = Some (httpListenerOf g)"
    using find [of "httpListenerOf g"] by (simp add: ls) (simp add: httpListenerOf_def)
  then have "servesHTTP gw g (nc_namespace nc)"
    by (simp add: servesHTTP_def httpListenerOf_def listenerAdmitsNamespace_def ns)
  moreover have "servesRPC gw (nc_namespace nc) i p" if "(i, p) \<in> set (enumerate 0 (gs_rpcPorts g))" for i p
  proof -
    have "rpcListener i p \<in> set (gw_listeners gw)" using that by (force simp: ls)
    from find [OF this] show ?thesis
      by (simp add: servesRPC_def rpcListener_def listenerAdmitsNamespace_def ns)
  qed
  ultimately show ?thesis by (auto simp: checkListeners_iff list_all_iff)
qed

lemma mapE_total: "(\<And>x. x \<in> set xs \<Longrightarrow> \<exists>y. f x = Inr y) \<Longrightarrow> \<exists>ys. mapE f xs = Inr ys \<and> length ys = length xs"
  by (induction xs) (fastforce split: sum.split)+

text \<open>An admitted cluster in Gateway mode never runs into a nil dereference.\<close>

lemma routes_total:
  assumes "admittedCluster (nc_spec nc)" "ea_mode (nc_access nc) = ExternalAccessGateway"
  shows "\<exists>t. buildTLSRoute nc = Inr t" and "\<exists>rs. buildTCPRoutes nc = Inr rs \<and> int (length rs) = nc_servers nc"
    and "\<exists>gw. buildManagedGateway nc = Inr gw"
proof -
  obtain g where "ea_gateway (nc_access nc) = Some g" using assms by (rule admittedCluster_gateway)
  then have g: "gatewayOf nc = Inr g" by (simp add: gatewayOf_def)
  then show "\<exists>t. buildTLSRoute nc = Inr t" "\<exists>gw. buildManagedGateway nc = Inr gw"
    by (auto simp: buildTLSRoute_def parentGateway_def buildManagedGateway_def split: prod.split)
  have "0 \<le> nc_servers nc" using assms(1) by (auto simp: admittedCluster_def)
  moreover have "\<exists>y. tcpRouteFor nc i = Inr y" for i
    using g by (auto simp: tcpRouteFor_def parentGateway_def split: prod.split)
  ultimately show "\<exists>rs. buildTCPRoutes nc = Inr rs \<and> int (length rs) = nc_servers nc"
    using mapE_total [of "[0..<nat (nc_servers nc)]" "tcpRouteFor nc"] by (auto simp: buildTCPRoutes_def)
qed

end
