(* ===== verification/Cluster.thy ===== *)
theory Cluster
  imports ExternalAccess
begin

section \<open>The cluster reconciler (nomadcluster_controller.go)\<close>

text \<open>
  One pass over a NomadCluster: security material, the external address, the owned objects in
  their order, quorum and ACL bootstrap. The Go method is cut at its numbered sections; each
  part returns what the next one needs.
\<close>

definition requeueShort :: int where "requeueShort = 15 * second"
definition requeueSteady :: int where "requeueSteady = 60 * second"

definition setPhase :: "string \<Rightarrow> nomad_cluster \<Rightarrow> nomad_cluster" where
  "setPhase p nc = nc\<lparr>nc_status := (nc_status nc)\<lparr>ct_phase := p\<rparr>\<rparr>"

definition finish ::
    "'w cluster_reconciler \<Rightarrow> nomad_cluster \<Rightarrow> reconcile_result \<Rightarrow> ('w, reconcile_result) reconciler_proc" where
  "finish rc nc res =
     bindE (kUpdateStatus EvCluster (pf_clusters (rc_platform rc)) nc) (\<lambda>_. ret (Inr res))"

definition clientFor :: "'w cluster_reconciler \<Rightarrow> nomad_cluster \<Rightarrow> ('w, 'w NomadOps) reconciler_proc" where
  "clientFor rc nc = bindE (clusterNomadConfig (rc_platform rc) nc) (\<lambda>cfg. liftE (rc_newNomadClient rc cfg))"

subsection \<open>Address drift\<close>

definition checkAddressDrift ::
    "'w cluster_reconciler \<Rightarrow> nomad_cluster \<Rightarrow> string \<Rightarrow> string \<Rightarrow>
     (nomad_cluster \<Rightarrow> ('w, 'a) reconciler_proc) \<Rightarrow> ('w, 'a) reconciler_proc" where
  "checkAddressDrift rc nc prev cur k =
     (if prev = [] \<or> prev = cur
      then withCondition rc nc CondRaftAddressDrift ConditionFalse ''Stable'' ''external advertise address stable'' k
      else
        let msg = ''external advertise address changed '' @ prev @ '' -> '' @ cur in
        if nc_servers nc = 1
        then withCondition rc nc CondRaftAddressDrift ConditionTrue ''AddressChanged''
               (msg @ ''; single-node raft will wedge on the ensuing roll - see the restart-resilience recovery runbook'')
               (\<lambda>nc. if nc_phase nc = PhaseReady \<and> rc_recorder rc
                  then andThen (recordEvent ''Warning'' CondRaftAddressDrift ''RaftAddressDrift''
                         (msg @ ''; servers:1 raft will wedge - see recovery runbook'')) (\<lambda>_. k nc)
                  else k nc)
        else withCondition rc nc CondRaftAddressDrift ConditionTrue ''AddressChangedHA''
               (msg @ ''; HA autopilot will self-heal'')
               (\<lambda>nc. if rc_recorder rc
                  then andThen (recordEvent ''Normal'' CondRaftAddressDrift ''RaftAddressDrift''
                         (msg @ ''; HA autopilot will self-heal'')) (\<lambda>_. k nc)
                  else k nc))"

subsection \<open>Quorum and ACL bootstrap\<close>

definition observeMembers :: "nomad_cluster \<Rightarrow> error + nomad_member list \<Rightarrow> nomad_cluster" where
  "observeMembers nc r = (case r of
     Inl _ \<Rightarrow> nc
   | Inr members \<Rightarrow> if length members > 0
       then nc\<lparr>nc_status := (nc_status nc)\<lparr>ct_members := toMemberStatus members,
              ct_quorum := quorumString members\<rparr>\<rparr>
       else nc)"

definition noLeader ::
    "'w cluster_reconciler \<Rightarrow> nomad_cluster \<Rightarrow> ('w, reconcile_result) reconciler_proc" where
  "noLeader rc nc =
     withCondition rc nc CondQuorumHealthy ConditionFalse ''NoLeader'' ''waiting for quorum'' (\<lambda>nc.
     if nc_phase nc = PhaseReady
     then withCondition rc (setPhase PhaseDegraded nc) CondReady ConditionFalse ''QuorumLost'' ''leader lost''
            (\<lambda>nc. finish rc nc (requeueAfter requeueShort))
     else finish rc nc (requeueAfter requeueShort))"

definition becomeReady ::
    "'w cluster_reconciler \<Rightarrow> nomad_cluster \<Rightarrow> ('w, reconcile_result) reconciler_proc" where
  "becomeReady rc nc =
     (let n = names nc;
          nc1 = nc\<lparr>nc_status := (nc_status nc)\<lparr>ct_bootstrapTokenSecretRef := rn_TokenSecret n\<rparr>\<rparr>
      in withCondition rc nc1 CondACLBootstrapped ConditionTrue ''Bootstrapped'' ''acl bootstrapped'' (\<lambda>nc.
         let nc2 = nc\<lparr>nc_status := (nc_status nc)\<lparr>
               ct_endpoint := ''https://'' @ rn_APISvc n @ ''.'' @ nc_namespace nc @ ''.svc:'' @ itoa portHTTP,
               ct_phase := PhaseReady\<rparr>\<rparr>
         in withCondition rc nc2 CondReady ConditionTrue ''Ready'' ''cluster ready''
              (\<lambda>nc. finish rc nc (requeueAfter requeueSteady))))"

definition bootstrapAndReady ::
    "'w cluster_reconciler \<Rightarrow> nomad_cluster \<Rightarrow> ('w, reconcile_result) reconciler_proc" where
  "bootstrapAndReady rc nc =
     bindE (clientFor rc nc) (\<lambda>ops.
     andThen (nomadCall NLeader (op_Leader ops)) (\<lambda>l.
     case l of
       Inl _ \<Rightarrow> noLeader rc nc
     | Inr leader \<Rightarrow>
         if leader = [] then noLeader rc nc
         else withCondition rc nc CondQuorumHealthy ConditionTrue ''LeaderElected'' ''quorum healthy'' (\<lambda>nc.
           let nc1 = nc\<lparr>nc_status := (nc_status nc)\<lparr>ct_leader := leader\<rparr>\<rparr> in
           andThen (nomadCall NServerHealth (op_ServerHealth ops)) (\<lambda>m.
           let nc2 = observeMembers nc1 m in
           andThen (ensureBootstrapToken rc nc2 ops) (\<lambda>b.
           case b of
             Inl err \<Rightarrow> withCondition rc nc2 CondACLBootstrapped ConditionFalse ''BootstrapFailed'' (errorText err)
                          (\<lambda>nc. finish rc nc (requeueAfter requeueShort))
           | Inr _ \<Rightarrow> becomeReady rc nc2)))))"

subsection \<open>Owned objects\<close>

text \<open>
  Section 3 of the method, in its order. A builder that panics does so when it is reached, after
  the applies before it.
\<close>

definition applyBuilt ::
    "'w cluster_reconciler \<Rightarrow> nomad_cluster \<Rightarrow> error + applied_object \<Rightarrow> ('w, unit) reconciler_proc" where
  "applyBuilt rc nc obj = bindE (liftE obj) (applyObject rc nc)"

definition applyRoutes :: "'w cluster_reconciler \<Rightarrow> nomad_cluster \<Rightarrow> ('w, unit) reconciler_proc" where
  "applyRoutes rc nc =
     (if ea_mode (nc_access nc) = ExternalAccessGateway
      then bindE (forE [0..<nat (nc_servers nc)]
                    (\<lambda>ordinal. applyObject rc nc (AService (buildPodService nc ordinal)))) (\<lambda>_.
           bindE (applyBuilt rc nc (map_sum id ATLSRoute (buildTLSRoute nc))) (\<lambda>_.
           bindE (liftE (buildTCPRoutes nc)) (\<lambda>routes.
           forE routes (\<lambda>rt. applyObject rc nc (ATCPRoute rt)))))
      else ret (Inr ()))"

definition provision :: "'w cluster_reconciler \<Rightarrow> nomad_cluster \<Rightarrow> string \<Rightarrow> ('w, unit) reconciler_proc" where
  "provision rc nc extAddr =
     (let uc = tk_unicode (pf_toolkit (rc_platform rc)) in
      bindE (liftE (renderConfig uc nc extAddr)) (\<lambda>(_, configHash).
      bindE (applyBuilt rc nc (map_sum id AConfigMap (buildConfigMap uc nc extAddr))) (\<lambda>_.
      bindE (applyObject rc nc (AService (buildHeadlessService nc))) (\<lambda>_.
      bindE (applyObject rc nc (AService (buildAPIService nc))) (\<lambda>_.
      bindE (applyRoutes rc nc) (\<lambda>_.
      bindE (applyBuilt rc nc (map_sum id AStatefulSet (buildStatefulSet (rc_parseQuantity rc) nc configHash))) (\<lambda>_.
      applyObject rc nc (APDB (buildPDB nc)))))))))"

subsection \<open>Reconcile\<close>

definition resolveAddress ::
    "'w cluster_reconciler \<Rightarrow> nomad_cluster \<Rightarrow> ('w, nomad_cluster \<times> string \<times> bool) reconciler_proc" where
  "resolveAddress rc nc =
     (if ea_mode (nc_access nc) = ExternalAccessLoadBalancer
      then bindE (ensureLoadBalancer rc nc) (\<lambda>(a, ready). ret (Inr (nc, a, ready)))
      else ensureGateway rc nc)"

definition waitForCert :: "'w cluster_reconciler \<Rightarrow> nomad_cluster \<Rightarrow> ('w, reconcile_result) reconciler_proc" where
  "waitForCert rc nc =
     (if provisionedPhase (nc_phase nc) then finish rc nc (requeueAfter requeueShort)
      else withCondition rc (setPhase PhasePending nc) CondReady ConditionFalse ''WaitingForCert'' ''cert Secret not ready''
             (\<lambda>nc. finish rc nc (requeueAfter requeueShort)))"

text \<open>\<^verbatim>\<open>Mode == Gateway && Gateway.Mode == Existing\<close>; the second operand dereferences.\<close>

definition existingMode :: "nomad_cluster \<Rightarrow> error + bool" where
  "existingMode nc =
     (if ea_mode (nc_access nc) = ExternalAccessGateway
      then (case gatewayOf nc of Inl err \<Rightarrow> Inl err | Inr g \<Rightarrow> Inr (gs_mode g = GatewayModeExisting))
      else Inr False)"

definition waitForAddress ::
    "'w cluster_reconciler \<Rightarrow> nomad_cluster \<Rightarrow> ('w, reconcile_result) reconciler_proc" where
  "waitForAddress rc nc =
     (if provisionedPhase (nc_phase nc) then finish rc nc (requeueAfter requeueShort)
      else let nc1 = setPhase PhasePending nc in
        bindE (liftE (existingMode nc1)) (\<lambda>existing.
        if \<not> existing
        then withCondition rc nc1 CondExternalAccessReady ConditionFalse ''WaitingForAddress'' ''external address not assigned''
               (\<lambda>nc. finish rc nc (requeueAfter requeueShort))
        else finish rc nc1 (requeueAfter requeueShort)))"

definition seedBootstrapping :: "nomad_cluster \<Rightarrow> nomad_cluster" where
  "seedBootstrapping nc =
     (if nc_phase nc = PhasePending \<or> nc_phase nc = [] then setPhase PhaseBootstrapping nc else nc)"

definition rollOut ::
    "'w cluster_reconciler \<Rightarrow> nomad_cluster \<Rightarrow> string \<Rightarrow> ('w, reconcile_result) reconciler_proc" where
  "rollOut rc nc extAddr =
     (let prevAddr = ct_externalAddress (nc_status nc);
          nc1 = nc\<lparr>nc_status := (nc_status nc)\<lparr>ct_externalAddress := extAddr\<rparr>\<rparr>
      in withCondition rc nc1 CondExternalAccessReady ConditionTrue ''Assigned'' ''external address assigned'' (\<lambda>nc.
         checkAddressDrift rc nc prevAddr extAddr (\<lambda>nc.
         bindE (kUpdateStatus EvCluster (pf_clusters (rc_platform rc)) nc) (\<lambda>nc.
         bindE (provision rc nc extAddr) (\<lambda>_.
         bootstrapAndReady rc (seedBootstrapping nc))))))"

definition reconcileCluster ::
    "'w cluster_reconciler \<Rightarrow> nomad_cluster \<Rightarrow> ('w, reconcile_result) reconciler_proc" where
  "reconcileCluster rc nc =
     (let nc1 = nc\<lparr>nc_status := (nc_status nc)\<lparr>ct_observedGeneration := om_generation (nc_meta nc)\<rparr>\<rparr> in
      withCondition rc nc1 CondReconciled ConditionTrue ''Accepted'' ''spec accepted'' (\<lambda>nc.
      bindE (ensureGossipKey rc nc) (\<lambda>gossipName.
      let nc = nc\<lparr>nc_status := (nc_status nc)\<lparr>ct_gossipKeySecretRef := gossipName\<rparr>\<rparr> in
      bindE (certSecretReady rc nc) (\<lambda>certReady.
      if \<not> certReady then waitForCert rc nc
      else bindE (resolveAddress rc nc) (\<lambda>(nc, extAddr, extReady).
           if \<not> extReady then waitForAddress rc nc
           else rollOut rc nc extAddr)))))"

definition ReconcileCluster ::
    "'w cluster_reconciler \<Rightarrow> namespaced_name \<Rightarrow> ('w, reconcile_result) reconciler_proc" where
  "ReconcileCluster rc key =
     andThen (kGet EvCluster (pf_clusters (rc_platform rc)) key) (\<lambda>r. case r of
       Inl err \<Rightarrow> ret (ignoreNotFound err)
     | Inr nc \<Rightarrow> reconcileCluster rc nc)"

subsection \<open>Mapping a Gateway to the clusters that reference it\<close>

definition referencesGateway :: "object_meta \<Rightarrow> nomad_cluster \<Rightarrow> bool" where
  "referencesGateway obj nc = (case ea_gateway (nc_access nc) of
     None \<Rightarrow> False
   | Some g \<Rightarrow> (if gs_mode g \<noteq> GatewayModeExisting then False
       else (case gs_ref g of None \<Rightarrow> False
         | Some ref \<Rightarrow> gr_name ref = om_name obj \<and> gr_namespace ref = om_namespace obj)))"

definition gatewayToClusters ::
    "'w cluster_reconciler \<Rightarrow> object_meta \<Rightarrow> ('w, event, namespaced_name list) procedure" where
  "gatewayToClusters rc obj =
     andThen (kList EvCluster (pf_clusters (rc_platform rc)) everywhere) (\<lambda>r. ret (case r of
       Inl _ \<Rightarrow> []
     | Inr items \<Rightarrow> map (\<lambda>nc. objectKey (nc_namespace nc) (nc_name nc)) (filter (referencesGateway obj) items)))"

subsection \<open>The rollout as a list of objects\<close>

text \<open>
  The abstract view of section 3: the objects in order, each as its builder's result. \<open>provision\<close>
  is the plain loop over that list.
\<close>

definition routeObjects :: "nomad_cluster \<Rightarrow> (error + applied_object) list" where
  "routeObjects nc =
     (if ea_mode (nc_access nc) = ExternalAccessGateway
      then map (\<lambda>ordinal. Inr (AService (buildPodService nc ordinal))) [0..<nat (nc_servers nc)] @
           [map_sum id ATLSRoute (buildTLSRoute nc)] @
           (case buildTCPRoutes nc of Inl err \<Rightarrow> [Inl err] | Inr routes \<Rightarrow> map (\<lambda>rt. Inr (ATCPRoute rt)) routes)
      else [])"

definition rolloutObjects ::
    "unicode_tables \<Rightarrow> (string \<Rightarrow> opaque option) \<Rightarrow> nomad_cluster \<Rightarrow> string \<Rightarrow> (error + applied_object) list" where
  "rolloutObjects uc pq nc extAddr =
     (case renderConfig uc nc extAddr of
        Inl err \<Rightarrow> [Inl err]
      | Inr (_, configHash) \<Rightarrow>
          [map_sum id AConfigMap (buildConfigMap uc nc extAddr),
           Inr (AService (buildHeadlessService nc)), Inr (AService (buildAPIService nc))] @
          routeObjects nc @
          [map_sum id AStatefulSet (buildStatefulSet pq nc configHash), Inr (APDB (buildPDB nc))])"

lemma applyRoutes_loop: "applyRoutes rc nc = forE (routeObjects nc) (applyBuilt rc nc)"
  by (simp add: applyRoutes_def routeObjects_def forE_append forE_map applyBuilt_def bindE_assoc o_def
      split: sum.split)

lemma provision_refines:
  "provision rc nc extAddr = forE (rolloutObjects (tk_unicode (pf_toolkit (rc_platform rc)))
     (rc_parseQuantity rc) nc extAddr) (applyBuilt rc nc)"
  unfolding provision_def rolloutObjects_def Let_def applyRoutes_loop
  by (simp add: forE_append bindE_assoc applyBuilt_def split: sum.split prod.split)

end
