(* ===== verification/Lifecycle.thy ===== *)
theory Lifecycle
  imports ClusterConfig
begin

section \<open>The life cycle of a managed resource\<close>

text \<open>
  Pools, namespaces and jobs are reconciled by three copies of one pattern: a finalizer is put on
  the object before Nomad is touched, Nomad is called only while the cluster is Ready, and the
  finalizer is dropped only when there is nothing left to clean up. The pattern is stated once, as
  a scan of the calls of a pass, and as a locale that each reconciler interprets.
\<close>

subsection \<open>What the three reconcilers are made of\<close>

record ('w, 'ops) kind_reconciler =
  kr_platform :: "'w platform"
  kr_newNomadClient :: "'ops client_factory"
  kr_recorder :: bool

abbreviation kr_toolkit :: "('w, 'ops) kind_reconciler \<Rightarrow> toolkit" where
  "kr_toolkit kr \<equiv> pf_toolkit (kr_platform kr)"

text \<open>\<^verbatim>\<open>r.Recorder.Eventf\<close>: a nil recorder is a nil dereference.\<close>

definition eventf ::
    "('w, 'ops) kind_reconciler \<Rightarrow> string \<Rightarrow> string \<Rightarrow> string \<Rightarrow> string \<Rightarrow> ('w, unit) reconciler_proc" where
  "eventf kr kind reason act note =
     (if kr_recorder kr then andThen (recordEvent kind reason act note) (\<lambda>_. ret (Inr ()))
      else ret (Inl nilDereference))"

definition stamped :: "('w, 'ops) kind_reconciler \<Rightarrow> (timestamp \<Rightarrow> ('w, 'a) reconciler_proc) \<Rightarrow> ('w, 'a) reconciler_proc" where
  "stamped kr k = andThen (observe (pf_now (kr_platform kr))) k"

definition clusterClient :: "('w, 'ops) kind_reconciler \<Rightarrow> nomad_cluster \<Rightarrow> ('w, 'ops) reconciler_proc" where
  "clusterClient kr nc =
     bindE (clusterNomadConfig (kr_platform kr) nc) (\<lambda>cfg. liftE (kr_newNomadClient kr cfg))"

lemma meets_stamped: "(\<And>now. meets (k now) Q) \<Longrightarrow> meets (stamped kr k) Q"
  unfolding stamped_def by (rule meets_andThen_observe)

lemma clusterClient_spec:
  "meets (clusterClient kr nc) (\<lambda>r es. onChannels {ChSecret} es \<and> quiet secretWrite es)"
  unfolding clusterClient_def
  by (rule meets_bindE [OF clusterNomadConfig_spec]) (auto intro: meets_liftE)

lemmas kwp = meets_ret meets_liftE meets_call meets_emit meets_observe meets_andThen_wp
  meets_bindE_wp meets_if meets_case_sum meets_case_option meets_case_prod meets_Let meets_stamped
  clusterClient_spec [THEN meets_mono]

subsection \<open>Scanning a pass\<close>

text \<open>
  \<open>scan obs R s past es\<close>: each call satisfies \<open>R\<close>, given the calls before it and the last value
  \<open>obs\<close> saw in an answer.
\<close>

primrec scan ::
    "('e \<Rightarrow> 's option) \<Rightarrow> ('s \<Rightarrow> 'e list \<Rightarrow> 'e \<Rightarrow> bool) \<Rightarrow> 's \<Rightarrow> 'e list \<Rightarrow> 'e list \<Rightarrow> bool" where
  "scan obs R s past [] \<longleftrightarrow> True"
| "scan obs R s past (e # es) \<longleftrightarrow>
     R s past e \<and> scan obs R (case obs e of None \<Rightarrow> s | Some t \<Rightarrow> t) (past @ [e]) es"

lemma scan_inert:
  "list_all (\<lambda>e. obs e = None \<and> (\<forall>s past. R s past e)) es \<Longrightarrow>
    scan obs R s past (es @ es') \<longleftrightarrow> scan obs R s (past @ es) es'"
  by (induction es arbitrary: past) simp_all

lemma scan_guardedFrom:
  assumes "scan obs R s past es" "\<And>s past e. R s past e \<Longrightarrow> p e \<Longrightarrow> q past"
  shows "guardedFrom p q past es"
  using assms(1) by (induction es arbitrary: s past) (auto intro: assms(2))

subsection \<open>The rules of a managed resource\<close>

type_synonym own_calls = "event \<Rightarrow> object_meta store_call option"

text \<open>The finalizer is on the object: it was read with it, or written with it and accepted.\<close>

definition holdsFinalizer :: "toolkit \<Rightarrow> string \<Rightarrow> own_calls \<Rightarrow> event \<Rightarrow> bool" where
  "holdsFinalizer tk fin own e \<longleftrightarrow> (case own e of
     Some (SGet _ (Inr m)) \<Rightarrow> tk_containsFinalizer tk m fin
   | Some (SUpdate m (Inr _)) \<Rightarrow> tk_containsFinalizer tk m fin
   | _ \<Rightarrow> False)"

definition answeredFinalizer :: "toolkit \<Rightarrow> string \<Rightarrow> own_calls \<Rightarrow> event \<Rightarrow> bool option" where
  "answeredFinalizer tk fin own e = (case own e of
     Some (SGet _ (Inr m)) \<Rightarrow> Some (tk_containsFinalizer tk m fin)
   | Some (SUpdate _ (Inr m)) \<Rightarrow> Some (tk_containsFinalizer tk m fin)
   | Some (SUpdateStatus _ (Inr m)) \<Rightarrow> Some (tk_containsFinalizer tk m fin)
   | _ \<Rightarrow> None)"

fun clusterServing :: "event \<Rightarrow> bool" where
  "clusterServing (EvCluster (SGet _ (Inr nc))) \<longleftrightarrow> nc_phase nc = PhaseReady"
| "clusterServing _ \<longleftrightarrow> False"

fun clusterGoneOrGoing :: "event \<Rightarrow> bool" where
  "clusterGoneOrGoing (EvCluster (SGet _ (Inl e))) \<longleftrightarrow> kubeIsNotFound e"
| "clusterGoneOrGoing (EvCluster (SGet _ (Inr nc))) \<longleftrightarrow> om_deletionTimestamp (nc_meta nc) \<noteq> None"
| "clusterGoneOrGoing _ \<longleftrightarrow> False"

text \<open>
  Nomad is called only after the cluster was seen Ready and the finalizer was in place; an update
  that takes the finalizer off an object that had it needs a reason; the object itself is never
  deleted by the operator.
\<close>

definition lifecycleRule ::
    "toolkit \<Rightarrow> string \<Rightarrow> own_calls \<Rightarrow> (event \<Rightarrow> bool) \<Rightarrow> bool \<Rightarrow> event list \<Rightarrow> event \<Rightarrow> bool" where
  "lifecycleRule tk fin own released had past e \<longleftrightarrow>
     (isNomadCall e \<longrightarrow> some_call clusterServing past \<and> some_call (holdsFinalizer tk fin own) past) \<and>
     (case own e of
        Some (SUpdate m _) \<Rightarrow> had \<and> \<not> tk_containsFinalizer tk m fin \<longrightarrow>
          some_call (\<lambda>e. clusterGoneOrGoing e \<or> released e) past
      | Some (SDelete _ _) \<Rightarrow> False
      | _ \<Rightarrow> True)"

definition lifecycleSafe ::
    "toolkit \<Rightarrow> string \<Rightarrow> own_calls \<Rightarrow> (event \<Rightarrow> bool) \<Rightarrow> event list \<Rightarrow> bool" where
  "lifecycleSafe tk fin own released es \<longleftrightarrow>
     scan (answeredFinalizer tk fin own) (lifecycleRule tk fin own released) False [] es"

definition takesFinalizerOff :: "toolkit \<Rightarrow> string \<Rightarrow> own_calls \<Rightarrow> event \<Rightarrow> bool" where
  "takesFinalizerOff tk fin own e \<longleftrightarrow> (case own e of
     Some (SUpdate m _) \<Rightarrow> \<not> tk_containsFinalizer tk m fin | _ \<Rightarrow> False)"

definition deletesOwn :: "own_calls \<Rightarrow> event \<Rightarrow> bool" where
  "deletesOwn own e \<longleftrightarrow> (case own e of Some (SDelete _ _) \<Rightarrow> True | _ \<Rightarrow> False)"

locale managed_resource =
  fixes tk :: toolkit and fin :: string and own :: own_calls and released :: "event \<Rightarrow> bool"
    and pass :: "'w \<Rightarrow> (error + reconcile_result) \<times> event list \<times> 'w"
  assumes safe: "toolkit_laws tk \<Longrightarrow> lifecycleSafe tk fin own released (events_of (pass w))"
begin

lemma calls_protected:
  "toolkit_laws tk \<Longrightarrow> guarded isNomadCall
     (\<lambda>past. some_call clusterServing past \<and> some_call (holdsFinalizer tk fin own) past) (events_of (pass w))"
  unfolding guarded_def
  by (rule scan_guardedFrom [OF safe [unfolded lifecycleSafe_def]]) (simp_all add: lifecycleRule_def)

lemma object_kept: "toolkit_laws tk \<Longrightarrow> quiet (deletesOwn own) (events_of (pass w))"
proof -
  assume "toolkit_laws tk"
  then have "guardedFrom (deletesOwn own) (\<lambda>_. False) [] (events_of (pass w))"
    by (rule scan_guardedFrom [OF safe [unfolded lifecycleSafe_def]]) (auto simp: lifecycleRule_def deletesOwn_def split: option.splits store_call.splits)
  then show ?thesis by (auto simp: guardedFrom_iff_nth quiet_def list_all_length)
qed

end

lemma lifecycle_inert:
  assumes "onChannels {ChSecret} es" "\<And>c. own (EvSecret c) = None"
  shows "scan (answeredFinalizer tk fin own) (lifecycleRule tk fin own released) had past (es @ es') \<longleftrightarrow>
    scan (answeredFinalizer tk fin own) (lifecycleRule tk fin own released) had (past @ es) es'"
proof (rule scan_inert)
  have "answeredFinalizer tk fin own e = None \<and> (\<forall>s past. lifecycleRule tk fin own released s past e)"
    if ch: "channelOf e = ChSecret" for e
  proof -
    obtain c where "e = EvSecret c" using ch by (cases e) simp_all
    then show ?thesis by (simp add: assms(2) answeredFinalizer_def lifecycleRule_def)
  qed
  then show "list_all (\<lambda>e. answeredFinalizer tk fin own e = None \<and>
      (\<forall>s past. lifecycleRule tk fin own released s past e)) es"
    using assms(1) by (simp add: onChannels_def list_all_iff)
qed

lemma lifecycle_inert_end:
  assumes "onChannels {ChSecret} es" "\<And>c. own (EvSecret c) = None"
  shows "scan (answeredFinalizer tk fin own) (lifecycleRule tk fin own released) had past es"
  using lifecycle_inert [of es own tk fin released had past "[]"] assms by simp

lemmas lifecycle_simps = lifecycleRule_def answeredFinalizer_def holdsFinalizer_def lifecycle_inert
  lifecycle_inert_end trace_simps

subsection \<open>Rules about single calls\<close>

text \<open>\<open>obeys rule es\<close>: every call satisfies \<open>rule\<close>, given the calls before it.\<close>

definition obeys :: "('e list \<Rightarrow> 'e \<Rightarrow> bool) \<Rightarrow> 'e list \<Rightarrow> bool" where
  "obeys rule es \<longleftrightarrow> scan (\<lambda>_. None) (\<lambda>(_ :: unit) past e. rule past e) () [] es"

lemma obeys_nth: "obeys rule es \<longleftrightarrow> (\<forall>i < length es. rule (take i es) (es ! i))"
proof -
  have "scan (\<lambda>_. None) (\<lambda>(_ :: unit) past e. rule past e) u past es \<longleftrightarrow>
      (\<forall>i < length es. rule (past @ take i es) (es ! i))" for u past
    by (induction es arbitrary: past) (simp_all add: All_less_Suc2)
  then show ?thesis by (simp add: obeys_def)
qed

end
