(* ===== verification/Samples.thy ===== *)
theory Samples
  imports Lifecycle
begin

section \<open>Sample objects and a sample environment\<close>

text \<open>
  A cluster of three servers behind a managed Gateway, and an environment whose world is a single
  state: every store answers with one fixed object. They instantiate the outside services in the
  concrete runs that show a property's hypotheses can hold.
\<close>

definition sampleCluster :: nomad_cluster where
  "sampleCluster =
     \<lparr>nc_meta = newMeta ''prod'' ''nomad'' [],
      nc_spec = \<lparr>cs_image = ''nomad:1.10'', cs_servers = 3, cs_region = ''eu'', cs_datacenters = [''dc1''],
        cs_nodeGCThreshold = Some (24 * hour),
        cs_storage = \<lparr>ss_size = ''10Gi'', ss_storageClassName = []\<rparr>, cs_tls = \<lparr>ts_certSecretRef = ''nomad-tls''\<rparr>,
        cs_externalAccess = \<lparr>ea_mode = ExternalAccessGateway,
          ea_gateway = Some \<lparr>gs_mode = GatewayModeManaged, gs_className = ''envoy'', gs_ref = None,
            gs_rpcPorts = [4647, 4657, 4667], gs_httpHostname = ''nomad.example.org''\<rparr>,
          ea_loadBalancer = None\<rparr>,
        cs_resources = []\<rparr>,
      nc_status = emptyClusterStatus\<rparr>"

lemma sampleCluster_admitted: "admittedCluster (nc_spec sampleCluster)"
  by (simp add: sampleCluster_def admittedCluster_def admittedExternalAccess_def admittedGateway_def)

definition readyCluster :: nomad_cluster where
  "readyCluster = sampleCluster\<lparr>nc_status := (nc_status sampleCluster)\<lparr>ct_phase := PhaseReady\<rparr>\<rparr>"

definition sampleUnicode :: unicode_tables where
  "sampleUnicode = \<lparr>uc_lower = (\<lambda>r. r), uc_print = (\<lambda>_. True)\<rparr>"

text \<open>A store that answers every read with \<open>obj\<close> and accepts every write as it is.\<close>

definition fixedStore :: "'o \<Rightarrow> (unit, 'o) store" where
  "fixedStore obj = \<lparr>st_get = (\<lambda>_ w. (Inr obj, w)), st_list = (\<lambda>_ w. (Inr [obj], w)),
     st_create = (\<lambda>x w. (Inr x, w)), st_update = (\<lambda>x w. (Inr x, w)),
     st_updateStatus = (\<lambda>x w. (Inr x, w)), st_delete = (\<lambda>_ w. (Inr (), w))\<rparr>"

definition emptyStore :: "(unit, 'o) store" where
  "emptyStore = \<lparr>st_get = (\<lambda>_ w. (Inl (ApiStatus ReasonNotFound ''not found''), w)), st_list = (\<lambda>_ w. (Inr [], w)),
     st_create = (\<lambda>x w. (Inr x, w)), st_update = (\<lambda>x w. (Inr x, w)),
     st_updateStatus = (\<lambda>x w. (Inr x, w)), st_delete = (\<lambda>_ w. (Inr (), w))\<rparr>"

definition sampleSecret :: secret where
  "sampleSecret = \<lparr>se_meta = newMeta ''nomad-tls'' ''nomad'' [],
     se_data = [(''ca.crt'', ''ca''), (''tls.crt'', ''crt''), (''tls.key'', ''key''), (''token'', ''t'')]\<rparr>"

definition samplePlatform :: "unit platform" where
  "samplePlatform = \<lparr>pf_clusters = fixedStore readyCluster, pf_nodes = emptyStore, pf_pools = emptyStore,
     pf_namespaces = emptyStore, pf_jobs = emptyStore, pf_secrets = fixedStore sampleSecret,
     pf_gateways = emptyStore, pf_services = emptyStore, pf_gvkForObject = (\<lambda>_. Inr ()),
     pf_patchApply = (\<lambda>_ w. (Inr (), w)), pf_rand = (\<lambda>n w. (Inr (replicate n 0), w)),
     pf_now = (\<lambda>w. (0, w)), pf_toolkit = sampleToolkit\<rparr>"

text \<open>Metadata of an object that is being deleted and still carries the finalizer.\<close>

definition deletedMeta :: "string \<Rightarrow> string \<Rightarrow> object_meta" where
  "deletedMeta name fin = (newMeta name ''nomad'' [])\<lparr>om_finalizers := [fin], om_deletionTimestamp := Some 1\<rparr>"

definition sampleReconciler :: "unit platform \<Rightarrow> 'ops \<Rightarrow> (unit, 'ops) kind_reconciler" where
  "sampleReconciler pf ops = \<lparr>kr_platform = pf, kr_newNomadClient = (\<lambda>_. Inr ops), kr_recorder = True\<rparr>"

lemma sampleReconciler_laws:
  "pf_toolkit pf = sampleToolkit \<Longrightarrow> toolkit_laws (kr_toolkit (sampleReconciler pf ops))"
  by (simp add: sampleReconciler_def sampleToolkit_laws)

lemma sample_toolkit [simp]: "pf_toolkit samplePlatform = sampleToolkit"
  by (simp add: samplePlatform_def)

lemmas sample_defs = sampleReconciler_def samplePlatform_def fixedStore_def emptyStore_def sampleSecret_def
  deletedMeta_def readyCluster_def sampleCluster_def sampleToolkit_def newMeta_def emptyClusterStatus_def

text \<open>Running a procedure in the sample environment.\<close>

lemmas sample_run = sample_defs kube_calls andThen_def bindE_def call_run ret_run clusterClient_def
  clusterNomadConfig_def liftE_def Let_def stamped_def trace_simps

end
