(* ===== verification/ClusterSpec.thy ===== *)
theory ClusterSpec
  imports Cluster Samples
begin

section \<open>Properties of the cluster reconciler\<close>

text \<open>
  What a pass over a NomadCluster guarantees for every behaviour of the API server and of Nomad:
  the rollout is the object list in order, nothing is rolled out before its prerequisites were
  seen, the phase moves only along its state machine, and a pass that succeeds is repeated.
\<close>

subsection \<open>The rollout\<close>

definition bareObject :: "applied_object \<Rightarrow> applied_object" where
  "bareObject obj = withAppliedMeta obj (newMeta [] [] [])"

lemma bareObject_with [simp]: "bareObject (withAppliedMeta obj m) = bareObject obj"
  by (cases obj) (simp_all add: bareObject_def)

fun appliedOf :: "event \<Rightarrow> applied_object list" where
  "appliedOf (EvApply obj _) = [obj]"
| "appliedOf _ = []"

text \<open>The objects sent to the API server, without metadata (the owner reference is third-party).\<close>

definition attempted :: "event list \<Rightarrow> applied_object list" where
  "attempted es = concat (map appliedOf es)"

lemma attempted_simps [simp]:
  "attempted [] = []" "attempted (e # es) = appliedOf e @ attempted es"
  "attempted (es @ es') = attempted es @ attempted es'"
  by (simp_all add: attempted_def)

definition bareResults :: "(error + applied_object) list \<Rightarrow> (error + applied_object) list" where
  "bareResults objs = map (map_sum id bareObject) objs"

definition bareAttempts :: "event list \<Rightarrow> (error + applied_object) list" where
  "bareAttempts es = map (\<lambda>obj. Inr (bareObject obj)) (attempted es)"

lemma bareAttempts_simps [simp]:
  "bareAttempts [] = []" "bareAttempts (EvApply obj r # es) = Inr (bareObject obj) # bareAttempts es"
  "bareAttempts (es @ es') = bareAttempts es @ bareAttempts es'"
  by (simp_all add: bareAttempts_def)

lemma bareResults_simps [simp]:
  "bareResults [] = []" "bareResults (x # xs) = map_sum id bareObject x # bareResults xs"
  "bareResults (xs @ ys) = bareResults xs @ bareResults ys"
  by (simp_all add: bareResults_def)

definition rolledOut :: "(error + applied_object) list \<Rightarrow> error + unit \<Rightarrow> event list \<Rightarrow> bool" where
  "rolledOut objs r es \<longleftrightarrow> onChannels {ChApply} es \<and> prefix (bareAttempts es) (bareResults objs) \<and>
     (r = Inr () \<longrightarrow> bareAttempts es = bareResults objs)"

lemma applyBuilt_spec:
  "meets (applyBuilt rc nc obj) (\<lambda>r es. rolledOut [obj] r es)"
proof (cases obj)
  case (Inl e)
  then show ?thesis by (auto simp: applyBuilt_def liftE_def rolledOut_def trace_simps intro!: wp)
next
  case (Inr x)
  then show ?thesis
    by (simp add: applyBuilt_def)
      (rule meets_mono [OF applyObject_spec], auto simp: rolledOut_def trace_simps)
qed

lemma prefix_singleton: "prefix xs [a] \<Longrightarrow> prefix xs (a # ys)"
  by (cases xs) auto

lemma rollout_loop: "meets (forE objs (applyBuilt rc nc)) (\<lambda>r es. rolledOut objs r es)"
proof (induction objs)
  case Nil
  show ?case by (auto simp: rolledOut_def trace_simps intro!: wp)
next
  case (Cons obj objs)
  show ?case
    by (simp, rule meets_bindE [OF applyBuilt_spec])
      (auto simp: rolledOut_def trace_simps intro!: meets_mono [OF Cons.IH] dest: prefix_singleton)
qed

lemma provision_spec:
  "meets (provision rc nc extAddr) (\<lambda>r es. rolledOut (rolloutObjects
     (tk_unicode (pf_toolkit (rc_platform rc))) (rc_parseQuantity rc) nc extAddr) r es)"
  unfolding provision_refines by (rule rollout_loop)

lemma rolledOut_channels: "rolledOut objs r es \<Longrightarrow> onChannels {ChApply} es"
  by (simp add: rolledOut_def)

subsection \<open>Procedures that leave the cluster object alone\<close>

definition offCluster :: "event list \<Rightarrow> bool" where
  "offCluster es \<longleftrightarrow> quiet (\<lambda>e. channelOf e = ChCluster) es"

lemma offCluster_channels [simp]:
  "onChannels {ChSecret} es \<Longrightarrow> offCluster es"
  "onChannels {ChSecret, ChRand} es \<Longrightarrow> offCluster es"
  "onChannels {ChSecret, ChRand, ChNomad} es \<Longrightarrow> offCluster es"
  "onChannels {ChApply} es \<Longrightarrow> offCluster es"
  "onChannels {ChApply, ChGateway, ChService} es \<Longrightarrow> offCluster es"
  by (auto simp: offCluster_def elim!: onChannels_quiet)

lemma clientFor_spec:
  "meets (clientFor rc nc) (\<lambda>r es. onChannels {ChSecret} es \<and> quiet secretWrite es)"
  unfolding clientFor_def
  by (rule meets_bindE [OF clusterNomadConfig_spec]) (auto intro!: wp)

lemma certSecretReady_spec:
  "meets (certSecretReady rc nc) (\<lambda>r es. onChannels {ChSecret} es \<and> quiet secretWrite es \<and>
     (r = Inr True \<longrightarrow> (\<exists>s. es = [EvSecret (SGet (objectKey (nc_namespace nc)
         (ts_certSecretRef (cs_tls (nc_spec nc)))) (Inr s))] \<and>
       list_all (\<lambda>k. length (mapGetOr [] (se_data s) k) \<noteq> 0) certKeys)))"
  unfolding certSecretReady_def kube_calls
  by (auto intro!: wp simp: trace_simps split: sum.splits if_splits)

lemma resolveAddress_spec: "meets (resolveAddress rc nc) (addressStep nc)"
  unfolding resolveAddress_def by (rule meets_if [OF ensureLoadBalancer_spec ensureGateway_spec])

lemma addressStep_offCluster [simp]: "addressStep nc r es \<Longrightarrow> offCluster es"
  by (simp add: addressStep_def)

lemma rolledOut_offCluster [simp]: "rolledOut objs r es \<Longrightarrow> offCluster es"
  by (simp add: rolledOut_def)

subsection \<open>The phase as a state machine\<close>

text \<open>
  A status write is judged against the phase the API server last reported and the calls made so
  far. A provisioned cluster (Ready or Degraded) never goes back to a provisioning phase; Ready is
  entered only with a leader and an accepted bootstrap, Degraded only from Ready without a leader.
\<close>

fun statusWrite :: "event \<Rightarrow> nomad_cluster option" where
  "statusWrite (EvCluster (SUpdateStatus nc _)) = Some nc"
| "statusWrite _ = None"

fun observedPhase :: "event \<Rightarrow> string option" where
  "observedPhase (EvCluster (SGet _ (Inr nc))) = Some (nc_phase nc)"
| "observedPhase (EvCluster (SUpdateStatus _ (Inr nc))) = Some (nc_phase nc)"
| "observedPhase _ = None"

primrec phaseScan ::
    "(string \<Rightarrow> event list \<Rightarrow> nomad_cluster \<Rightarrow> bool) \<Rightarrow> string \<Rightarrow> event list \<Rightarrow> event list \<Rightarrow> bool" where
  "phaseScan R p past [] \<longleftrightarrow> True"
| "phaseScan R p past (e # es) \<longleftrightarrow>
     (case statusWrite e of None \<Rightarrow> True | Some nc \<Rightarrow> R p past nc) \<and>
     phaseScan R (case observedPhase e of None \<Rightarrow> p | Some q \<Rightarrow> q) (past @ [e]) es"

fun electedLeader :: "event \<Rightarrow> bool" where
  "electedLeader (EvNomad (NLeader (Inr l))) \<longleftrightarrow> l \<noteq> []"
| "electedLeader _ \<longleftrightarrow> False"

fun leaderMissing :: "event \<Rightarrow> bool" where
  "leaderMissing (EvNomad (NLeader (Inr l))) \<longleftrightarrow> l = []"
| "leaderMissing (EvNomad (NLeader (Inl _))) \<longleftrightarrow> True"
| "leaderMissing _ \<longleftrightarrow> False"

definition phaseMove :: "string \<Rightarrow> string \<Rightarrow> bool" where
  "phaseMove p q \<longleftrightarrow> q = p \<or>
     \<not> provisionedPhase p \<and> q = PhasePending \<or>
     p \<in> {PhasePending, []} \<and> q = PhaseBootstrapping \<or>
     q = PhaseReady \<or>
     p = PhaseReady \<and> q = PhaseDegraded"

definition phaseRule :: "string \<Rightarrow> event list \<Rightarrow> nomad_cluster \<Rightarrow> bool" where
  "phaseRule p past nc \<longleftrightarrow> phaseMove p (nc_phase nc) \<and>
     (nc_phase nc = PhaseReady \<and> p \<noteq> PhaseReady \<longrightarrow>
        some_call electedLeader past \<and> some_call bootstrapAccepted past) \<and>
     (nc_phase nc = PhaseDegraded \<and> p \<noteq> PhaseDegraded \<longrightarrow> some_call leaderMissing past)"

lemma phaseScan_append_off [simp]:
  "offCluster es \<Longrightarrow> phaseScan R p past (es @ es') \<longleftrightarrow> phaseScan R p (past @ es) es'"
proof (induction es arbitrary: past)
  case (Cons e es)
  have "statusWrite e = None \<and> observedPhase e = None"
    using Cons.prems by (cases e rule: channelOf.cases) (simp_all add: offCluster_def quiet_def)
  with Cons show ?case by (simp add: offCluster_def quiet_def)
qed simp

lemma phaseScan_off [simp]: "offCluster es \<Longrightarrow> phaseScan R p past es"
  using phaseScan_append_off [of es R p past "[]"] by simp

lemma phaseRule_same: "phaseRule p past nc" if "nc_phase nc = p"
  using that by (simp add: phaseRule_def phaseMove_def)

lemma setPhase_phase [simp]: "nc_phase (setPhase p nc) = p"
  by (simp add: setPhase_def)

lemma observeMembers_phase [simp]: "nc_phase (observeMembers nc r) = nc_phase nc"
  by (simp add: observeMembers_def split: sum.split)

lemmas ensureBootstrapToken_wp = ensureBootstrapToken_spec [THEN meets_mono]

lemma bootstrap_phase:
  assumes "nc_phase nc = p \<or> p \<in> {PhasePending, []} \<and> nc_phase nc = PhaseBootstrapping"
  shows "meets (bootstrapAndReady rc nc) (\<lambda>r es. phaseScan phaseRule p past es)"
  unfolding bootstrapAndReady_def
proof (rule meets_bindE [OF clientFor_spec])
  fix ops es
  assume es: "onChannels {ChSecret} es \<and> quiet secretWrite es"
  show "meets (andThen (nomadCall NLeader (op_Leader ops)) (\<lambda>l. case l of
       Inl _ \<Rightarrow> noLeader rc nc
     | Inr leader \<Rightarrow>
         if leader = [] then noLeader rc nc
         else withCondition rc nc CondQuorumHealthy ConditionTrue ''LeaderElected'' ''quorum healthy'' (\<lambda>nc.
           let nc1 = nc\<lparr>nc_status := (nc_status nc)\<lparr>ct_leader := leader\<rparr>\<rparr> in
           andThen (nomadCall NServerHealth (op_ServerHealth ops)) (\<lambda>m.
           let nc2 = observeMembers nc1 m in
           andThen (ensureBootstrapToken rc nc2 ops) (\<lambda>b.
           case b of
             Inl err \<Rightarrow> withCondition rc nc2 CondACLBootstrapped ConditionFalse ''BootstrapFailed'' (errorText err)
                          (\<lambda>nc. finish rc nc (requeueAfter requeueShort))
           | Inr _ \<Rightarrow> becomeReady rc nc2)))))
     (\<lambda>r es'. phaseScan phaseRule p past (es @ es'))"
    using es assms unfolding noLeader_def becomeReady_def finish_def kube_calls Let_def
    by (auto intro!: wp meets_withCondition ensureBootstrapToken_wp split: sum.splits
        simp: phaseRule_def phaseMove_def trace_simps)
qed simp_all

lemmas clusterStep_wp = provision_spec [THEN meets_mono] resolveAddress_spec [THEN meets_mono]
  certSecretReady_spec [THEN meets_mono] ensureGossipKey_spec [THEN meets_mono]

lemma meets_checkAddressDrift:
  assumes "\<And>now reason msg st evs. onChannels {ChRecord} evs \<Longrightarrow>
    meets (k (setCondition now nc CondRaftAddressDrift st reason msg)) (\<lambda>r es. Q r (evs @ es))"
  shows "meets (checkAddressDrift rc nc prev cur k) Q"
proof -
  have one: "meets (k (setCondition now nc CondRaftAddressDrift st reason msg)) Q" for now st reason msg
    using assms [of "[]"] by (simp add: trace_simps)
  have two: "meets (k (setCondition now nc CondRaftAddressDrift st reason msg)) (\<lambda>r es. Q r (EvRecord a b c d # es))"
    for now st reason msg a b c d
    using assms [of "[EvRecord a b c d]"] by (simp add: trace_simps)
  show ?thesis
    unfolding checkAddressDrift_def Let_def kube_calls
    by (intro meets_if meets_withCondition meets_andThen_emit one two)
qed

lemma offCluster_record [simp]: "onChannels {ChRecord} es \<Longrightarrow> offCluster es"
  by (auto simp: offCluster_def elim!: onChannels_quiet)

lemma rollOut_phase:
  assumes "nc_phase nc = p"
  shows "meets (rollOut rc nc extAddr) (\<lambda>r es. phaseScan phaseRule p past es)"
proof -
  have boot: "meets (bootstrapAndReady rc (seedBootstrapping nc')) (\<lambda>r es. phaseScan phaseRule (nc_phase nc') past' es)"
    for nc' past'
    by (rule bootstrap_phase) (simp add: seedBootstrapping_def)
  show ?thesis
    unfolding rollOut_def Let_def kube_calls
    by (auto intro!: wp meets_withCondition meets_checkAddressDrift clusterStep_wp boot [THEN meets_mono]
        simp: assms phaseRule_same split: sum.splits)
qed

lemma waitForCert_phase:
  "nc_phase nc = p \<Longrightarrow> meets (waitForCert rc nc) (\<lambda>r es. phaseScan phaseRule p past es)"
  unfolding waitForCert_def finish_def kube_calls
  by (auto intro!: wp meets_withCondition simp: phaseRule_def phaseMove_def split: sum.splits)

lemma waitForAddress_phase:
  "nc_phase nc = p \<Longrightarrow> meets (waitForAddress rc nc) (\<lambda>r es. phaseScan phaseRule p past es)"
  unfolding waitForAddress_def finish_def kube_calls Let_def
  by (auto intro!: wp meets_withCondition simp: phaseRule_def phaseMove_def split: sum.splits)

lemma reconcileCluster_phase:
  assumes "nc_phase nc = p"
  shows "meets (reconcileCluster rc nc) (\<lambda>r es. phaseScan phaseRule p past es)"
proof -
  have tail: "meets (bindE (resolveAddress rc nc1) (\<lambda>(nc, extAddr, extReady).
      if \<not> extReady then waitForAddress rc nc else rollOut rc nc extAddr))
      (\<lambda>r es. phaseScan phaseRule p past' es)" if "nc_phase nc1 = p" for nc1 past'
    by (rule meets_bindE [OF resolveAddress_spec])
      (auto simp: that addressStep_def sameCluster_def
        intro!: meets_case_prod meets_if waitForAddress_phase rollOut_phase)
  have gate: "meets (bindE (certSecretReady rc nc1) (\<lambda>certReady. if \<not> certReady then waitForCert rc nc1
      else bindE (resolveAddress rc nc1) (\<lambda>(nc, extAddr, extReady).
        if \<not> extReady then waitForAddress rc nc else rollOut rc nc extAddr)))
      (\<lambda>r es. phaseScan phaseRule p past' es)" if "nc_phase nc1 = p" for nc1 past'
    by (rule meets_bindE [OF certSecretReady_spec]) (auto simp: that intro!: meets_if waitForCert_phase tail)
  show ?thesis
    unfolding reconcileCluster_def Let_def
    by (rule meets_withCondition, rule meets_bindE [OF ensureGossipKey_spec]) (auto simp: assms intro!: gate)
qed

subsection \<open>Prerequisites of the rollout\<close>

fun certComplete :: "nomad_cluster \<Rightarrow> event \<Rightarrow> bool" where
  "certComplete nc (EvSecret (SGet k (Inr s))) \<longleftrightarrow>
     k = objectKey (nc_namespace nc) (ts_certSecretRef (cs_tls (nc_spec nc))) \<and>
     list_all (\<lambda>k. length (mapGetOr [] (se_data s) k) \<noteq> 0) certKeys"
| "certComplete nc _ \<longleftrightarrow> False"

fun addressPersisted :: "event \<Rightarrow> bool" where
  "addressPersisted (EvCluster (SUpdateStatus nc (Inr _))) \<longleftrightarrow> ct_externalAddress (nc_status nc) \<noteq> []"
| "addressPersisted _ \<longleftrightarrow> False"

definition rolloutGuard :: "nomad_cluster \<Rightarrow> event list \<Rightarrow> bool" where
  "rolloutGuard nc past \<longleftrightarrow> some_call (secretPresent (gossipKeyOf nc)) past \<and>
     some_call (certComplete nc) past \<and> some_call addressPersisted past"

definition rollsOut :: "event \<Rightarrow> bool" where
  "rollsOut e \<longleftrightarrow> appliesObject (\<lambda>obj. \<not> isFrontDoor obj) e"

lemma rollsOut_other [simp]:
  "\<not> rollsOut (EvCluster c)" "\<not> rollsOut (EvSecret s)" "\<not> rollsOut (EvNomad n)"
  by (simp_all add: rollsOut_def)

lemma quiet_rollsOut [simp]:
  "onChannels {ChSecret} es \<Longrightarrow> quiet rollsOut es"
  "onChannels {ChSecret, ChRand} es \<Longrightarrow> quiet rollsOut es"
  "onChannels {ChRecord} es \<Longrightarrow> quiet rollsOut es"
  "addressStep nc r es \<Longrightarrow> quiet rollsOut es"
  by (auto simp: rollsOut_def addressStep_def quiet_def elim!: onChannels_quiet [unfolded quiet_def]
      elim: appliesObject.elims)

lemma rolloutGuard_met:
  "rolloutGuard nc past \<Longrightarrow> guardedFrom p (rolloutGuard nc) past es"
  by (rule guardedFrom_met) (simp add: rolloutGuard_def some_call_append)

lemma rollOut_guarded:
  assumes "some_call (secretPresent (gossipKeyOf nc0)) past" "some_call (certComplete nc0) past" "extAddr \<noteq> []"
  shows "meets (rollOut rc nc extAddr) (\<lambda>r es. guardedFrom rollsOut (rolloutGuard nc0) past es)"
proof -
  have rest: "meets q (\<lambda>r es. guardedFrom rollsOut (rolloutGuard nc0) (past @ evs @ [EvCluster (SUpdateStatus nc' (Inr a))]) es)"
    if "ct_externalAddress (nc_status nc') \<noteq> []" for q evs nc' a
    by (rule meets_trivial, rule rolloutGuard_met)
      (simp add: rolloutGuard_def assms that some_call_append some_call_simps)
  show ?thesis
    unfolding rollOut_def Let_def kube_calls
    by (rule meets_withCondition, rule meets_checkAddressDrift, rule meets_bindE_call)
      (simp_all add: guardedFrom_quiet_append assms rest)
qed

lemma reconcileCluster_guarded:
  "meets (reconcileCluster rc nc) (\<lambda>r es. guardedFrom rollsOut (rolloutGuard nc) past es)"
proof -
  have wait: "meets (waitForCert rc nc1) (\<lambda>r es. guardedFrom rollsOut G past' es)"
    "meets (waitForAddress rc nc1) (\<lambda>r es. guardedFrom rollsOut G past' es)" for nc1 G past'
    unfolding waitForCert_def waitForAddress_def finish_def kube_calls Let_def
    by (auto intro!: wp meets_withCondition split: sum.splits)
  have tail: "meets (bindE (resolveAddress rc nc1) (\<lambda>(nc, extAddr, extReady).
      if \<not> extReady then waitForAddress rc nc else rollOut rc nc extAddr))
      (\<lambda>r es. guardedFrom rollsOut (rolloutGuard nc) past' es)"
    if "some_call (secretPresent (gossipKeyOf nc)) past'" "some_call (certComplete nc) past'" for nc1 past'
  proof (rule meets_bindE [OF resolveAddress_spec])
    fix a es
    assume step: "addressStep nc1 (Inr a) es"
    obtain nc2 addr ready where a: "a = (nc2, addr, ready)" by (cases a)
    have "ready \<Longrightarrow> addr \<noteq> []" using step by (simp add: a addressStep_def ex_bool_eq)
    moreover have "quiet rollsOut es" using step by simp
    ultimately show "meets (case a of (nc, extAddr, extReady) \<Rightarrow>
        if \<not> extReady then waitForAddress rc nc else rollOut rc nc extAddr)
        (\<lambda>b es'. guardedFrom rollsOut (rolloutGuard nc) past' (es @ es'))"
      by (auto simp: a guardedFrom_quiet_append that some_call_append intro!: wait rollOut_guarded)
  qed (simp add: quiet_guardedFrom)
  have gate: "meets (bindE (certSecretReady rc nc1) (\<lambda>certReady. if \<not> certReady then waitForCert rc nc1
      else bindE (resolveAddress rc nc1) (\<lambda>(nc, extAddr, extReady).
        if \<not> extReady then waitForAddress rc nc else rollOut rc nc extAddr)))
      (\<lambda>r es. guardedFrom rollsOut (rolloutGuard nc) past' es)"
    if "some_call (secretPresent (gossipKeyOf nc)) past'" "nc_meta nc1 = nc_meta nc" "nc_spec nc1 = nc_spec nc"
    for nc1 past'
    by (rule meets_bindE [OF certSecretReady_spec], simp add: quiet_guardedFrom)
      (auto simp: guardedFrom_quiet_append that some_call_append some_call_simps
        intro!: meets_if wait tail)
  have key: "gossipKeyOf (setCondition now x ty st re ms) = gossipKeyOf nc"
    if "nc_meta x = nc_meta nc" for now x ty st re ms
    using that by (simp add: gossipKeyOf_def)
  show ?thesis
    unfolding reconcileCluster_def Let_def
    by (rule meets_withCondition, rule meets_bindE [OF ensureGossipKey_spec])
      (auto simp: guardedFrom_quiet_append quiet_guardedFrom some_call_append key intro!: gate)
qed

subsection \<open>A pass that ends well is repeated\<close>

definition requeues :: "error + reconcile_result \<Rightarrow> bool" where
  "requeues r \<longleftrightarrow> (case r of Inl _ \<Rightarrow> True
     | Inr res \<Rightarrow> rr_requeueAfter res = requeueShort \<or> rr_requeueAfter res = requeueSteady)"

lemma requeues_simps [simp]:
  "requeues (Inl e)" "requeues (Inr (requeueAfter requeueShort))" "requeues (Inr (requeueAfter requeueSteady))"
  by (simp_all add: requeues_def requeueAfter_def)

lemma meets_bindE_requeues:
  "(\<And>a. meets (f a) (\<lambda>r es. requeues r)) \<Longrightarrow> meets (bindE m f) (\<lambda>r es. requeues r)"
  by (rule meets_bindE [where R = "\<lambda>r es. True"]) (simp_all add: meets_trivial)

lemma meets_andThen_requeues:
  "(\<And>a. meets (f a) (\<lambda>r es. requeues r)) \<Longrightarrow> meets (andThen m f) (\<lambda>r es. requeues r)"
  by (rule meets_andThen [where R = "\<lambda>r es. True"]) (simp_all add: meets_trivial)

lemma meets_drift_requeues:
  "(\<And>nc. meets (k nc) (\<lambda>r es. requeues r)) \<Longrightarrow> meets (checkAddressDrift rc nc prev cur k) (\<lambda>r es. requeues r)"
  by (rule meets_checkAddressDrift)

lemmas requeue_rules = meets_bindE_requeues meets_andThen_requeues meets_withCondition
  meets_drift_requeues meets_if meets_case_sum meets_case_prod meets_ret meets_liftE

lemma bootstrap_requeues: "meets (bootstrapAndReady rc nc) (\<lambda>r es. requeues r)"
  unfolding bootstrapAndReady_def noLeader_def becomeReady_def finish_def Let_def
  by (intro requeue_rules) simp_all

lemma reconcileCluster_requeues: "meets (reconcileCluster rc nc) (\<lambda>r es. requeues r)"
  unfolding reconcileCluster_def rollOut_def waitForCert_def waitForAddress_def finish_def Let_def
  by (intro requeue_rules bootstrap_requeues) simp_all

subsection \<open>Admitted specs never panic\<close>

definition built :: "error + 'a \<Rightarrow> bool" where
  "built r \<longleftrightarrow> (case r of Inl _ \<Rightarrow> False | Inr _ \<Rightarrow> True)"

lemma built_simps [simp]: "built (Inr x)" "\<not> built (Inl e)" "built (map_sum id f r) = built r"
  by (simp_all add: built_def split: sum.split)

lemma built_iff: "built r \<longleftrightarrow> (\<exists>x. r = Inr x)"
  by (cases r) simp_all

lemma rollout_total:
  assumes adm: "admittedCluster (nc_spec nc)" and size: "pq (ss_size (cs_storage (nc_spec nc))) = Some q"
  shows "list_all built (rolloutObjects uc pq nc extAddr)"
proof -
  obtain body hash where render: "renderConfig uc nc extAddr = Inr (body, hash)"
    using renderConfig_total [OF adm] by blast
  then obtain ports where "rpcAdvertisePorts nc = Inr ports"
    by (auto simp: renderConfig_def Let_def split: sum.splits)
  with render have cm: "built (buildConfigMap uc nc extAddr)" by (simp add: buildConfigMap_def)
  have ss: "built (buildStatefulSet pq nc h)" for h
    using size by (simp add: buildStatefulSet_def MustParse_def)
  have "list_all built (routeObjects nc)"
  proof (cases "ea_mode (nc_access nc) = ExternalAccessGateway")
    case True
    then show ?thesis
      using routes_total [OF adm True] by (auto simp: routeObjects_def list_all_iff)
  qed (simp add: routeObjects_def)
  with cm ss show ?thesis by (simp add: rolloutObjects_def render)
qed

subsection \<open>Claims\<close>

text \<open>
  C1: however the API server and Nomad behave, every status a pass writes follows the phase machine:
  Ready and Degraded never go back to Pending or Bootstrapping, Ready is entered only after Nomad
  named a leader and accepted the ACL bootstrap in the same pass, and Degraded only from Ready when
  no leader answered.
\<close>

theorem cluster_phase_machine: "phaseScan phaseRule [] [] (events_of (ReconcileCluster rc key w))"
proof -
  have "meets (ReconcileCluster rc key) (\<lambda>r es. phaseScan phaseRule [] [] es)"
    unfolding ReconcileCluster_def kube_calls
    by (auto intro!: wp reconcileCluster_phase split: sum.splits)
  then show ?thesis by (rule meetsD)
qed

text \<open>
  C5: no workload object (ConfigMap, Service, route, StatefulSet, disruption budget) is sent to the
  API server before, in the same pass, the gossip Secret was seen or created, the certificate
  Secret was read with all three keys non-empty, and a status with a non-empty external address was
  stored.
\<close>

theorem rollout_prerequisites:
  "guarded rollsOut (rolloutGuard nc) (events_of (reconcileCluster rc nc w))"
  unfolding guarded_def by (rule meetsD [OF reconcileCluster_guarded])

text \<open>
  Provisioning is the loop over the object list of the abstract rollout: the same objects in the
  same order, stopping at the first builder panic or failed apply.
\<close>

lemma provision_is_rollout:
  "provision rc nc extAddr = forE (rolloutObjects (tk_unicode (pf_toolkit (rc_platform rc)))
     (rc_parseQuantity rc) nc extAddr) (applyBuilt rc nc)"
  by (rule provision_refines)

text \<open>
  C29: what provisioning sends is, metadata aside, a prefix of the rollout list, and the whole list
  when it reports success; it talks to nothing but the apply endpoint.
\<close>

theorem provision_in_order:
  "rolledOut (rolloutObjects (tk_unicode (pf_toolkit (rc_platform rc))) (rc_parseQuantity rc) nc extAddr)
     (result_of (provision rc nc extAddr w)) (events_of (provision rc nc extAddr w))"
  by (rule meetsD [OF provision_spec])

text \<open>
  a pass over an existing cluster that returns no error always asks to be run again, after 15 or
  60 seconds, so lost watch events only delay the convergence.
\<close>

lemma cluster_pass_requeues: "requeues (result_of (reconcileCluster rc nc w))"
  by (rule meetsD [OF reconcileCluster_requeues])

text \<open>
  C34: for a spec the API server admits and a storage size the quantity parser accepts, every builder of
  the rollout returns an object: none of the nil dereferences and panics of the code is reachable.
\<close>

theorem admitted_rollout_total:
  assumes "admittedCluster (nc_spec nc)" and "pq (ss_size (cs_storage (nc_spec nc))) = Some q"
  shows "list_all built (rolloutObjects uc pq nc extAddr)"
  using assms by (rule rollout_total)

theorem admitted_rollout_total_witness:
  "list_all built (rolloutObjects sampleUnicode Some sampleCluster ''203.0.113.7'')"
  by (rule admitted_rollout_total [OF sampleCluster_admitted refl])

text \<open>
  C32: a Gateway passes the verification of Existing mode exactly when, for the HTTP route and for each
  RPC ordinal, the listener the route attaches to by name has the right protocol, hostname or port
  and admits the cluster's namespace.
\<close>

theorem gateway_verification_iff:
  "checkListeners gw g ns = None \<longleftrightarrow>
    servesHTTP gw g ns \<and> list_all (\<lambda>(i, p). servesRPC gw ns i p) (enumerate 0 (gs_rpcPorts g))"
  by (rule checkListeners_iff)

text \<open>
  C33: the Gateway the operator builds in Managed mode would pass the verification it applies to a
  user's Gateway, so the routes attach in both modes.
\<close>

theorem managed_gateway_accepted:
  assumes "buildManagedGateway nc = Inr gw" and "gatewayOf nc = Inr g"
  shows "checkListeners gw g (nc_namespace nc) = None"
  using assms by (rule managed_accepted)

theorem managed_gateway_accepted_witness:
  "\<exists>gw g. buildManagedGateway sampleCluster = Inr gw \<and> gatewayOf sampleCluster = Inr g \<and>
     checkListeners gw g ''nomad'' = None"
proof -
  obtain gw where gw: "buildManagedGateway sampleCluster = Inr gw"
    using routes_total(3) [OF sampleCluster_admitted] by (auto simp: sampleCluster_def)
  obtain g where g: "gatewayOf sampleCluster = Inr g"
    by (simp add: gatewayOf_def sampleCluster_def)
  have "nc_namespace sampleCluster = ''nomad''" by (simp add: sampleCluster_def newMeta_def)
  with managed_gateway_accepted [OF gw g] gw g show ?thesis by auto
qed

text \<open>
  C19: the gossip key is minted only when its Secret is missing and is never rewritten; what is
  created holds, in 44 characters of base64, the 32 bytes that this pass has drawn from the random
  source before, and has no owner, so it survives the deletion of the cluster object.
\<close>

theorem gossip_key_written_once:
  "guarded secretCreate (some_call (secretMissing (gossipKeyOf nc))) (events_of (ensureGossipKey rc nc w)) \<and>
   quiet secretUpdate (events_of (ensureGossipKey rc nc w)) \<and>
   createsOnly (goodGossipSecret nc) (events_of (ensureGossipKey rc nc w))"
  using meetsD [OF ensureGossipKey_spec, of rc nc w] by simp

text \<open>
  C18: the token step succeeds only if Nomad accepted the token or reported that it is bootstrapped
  already; it marks the Secret only after that and only when the Secret came back without the mark,
  and it mints a token (a version 4 UUID made of the 16 bytes the pass has drawn) only when the Secret is missing.
\<close>

theorem bootstrap_token_contract:
  "let r = result_of (ensureBootstrapToken rc nc ops w); es = events_of (ensureBootstrapToken rc nc ops w) in
     (case r of Inl _ \<Rightarrow> True | Inr _ \<Rightarrow> some_call bootstrapAccepted es) \<and>
     guarded secretUpdate (some_call bootstrapAccepted) es \<and>
     guarded secretUpdate (some_call unconfirmedSeen) es \<and>
     guarded secretCreate (some_call (secretMissing (tokenKeyOf nc))) es \<and>
     createsOnly (goodTokenSecret nc) es"
  using meetsD [OF ensureBootstrapToken_spec, of rc nc ops w] by (simp add: Let_def split: sum.split)

end
