(* ===== verification/Converge.thy ===== *)
theory Converge
  imports Lifecycle
begin

section \<open>Passes against a server that keeps its state\<close>

text \<open>
  A single pass is specified for every behaviour of the outside services. What a sequence of passes
  achieves depends on Nomad answering from a state of its own. That state is described from the
  outside: a relation \<open>srv s e t\<close> says that a server in state \<open>s\<close> can answer the call recorded
  in \<open>e\<close> the way it was answered, and is in state \<open>t\<close> afterwards. Answers may be lost: a
  call that reports a failure may have taken effect. The Kubernetes side stays arbitrary.
\<close>

subsection \<open>Traces of a server\<close>

lemma onChannels_none: "onChannels cs es \<Longrightarrow> (\<And>e. p e \<Longrightarrow> channelOf e \<notin> cs) \<Longrightarrow> \<not> some_call p es"
  by (auto simp: onChannels_def some_call_def list_all_iff list_ex_iff)

lemma nomad_write_channel: "isNomadWrite e \<Longrightarrow> channelOf e = ChNomad"
  by (cases e) simp_all

lemma secrets_no_write: "onChannels {ChSecret} es \<Longrightarrow> quiet isNomadWrite es"
  by (erule onChannels_quiet) (simp add: nomad_write_channel)

primrec path :: "('s \<Rightarrow> 'e \<Rightarrow> 's \<Rightarrow> bool) \<Rightarrow> 's \<Rightarrow> 'e list \<Rightarrow> 's \<Rightarrow> bool" where
  "path srv s [] s' \<longleftrightarrow> s' = s"
| "path srv s (e # es) s' \<longleftrightarrow> (\<exists>t. srv s e t \<and> path srv t es s')"

lemma path_append: "path srv s (es @ es') s' \<longleftrightarrow> (\<exists>t. path srv s es t \<and> path srv t es' s')"
  by (induction es arbitrary: s) auto

lemma path_idle:
  "(\<And>e s t. e \<in> set es \<Longrightarrow> srv s e t \<longleftrightarrow> t = s) \<Longrightarrow> path srv s es s' \<longleftrightarrow> s' = s"
  by (induction es arbitrary: s) auto

text \<open>A server that only hears the calls addressed to Nomad.\<close>

locale nomad_server =
  fixes srv :: "'s \<Rightarrow> event \<Rightarrow> 's \<Rightarrow> bool"
  assumes bystander: "\<not> isNomadCall e \<Longrightarrow> srv s e t \<longleftrightarrow> t = s"
begin

lemma secrets_idle: "onChannels {ChSecret} es \<Longrightarrow> path srv s es s' \<longleftrightarrow> s' = s"
proof (rule path_idle)
  fix e u t assume "onChannels {ChSecret} es" "e \<in> set es"
  then have "channelOf e = ChSecret" by (auto simp: onChannels_def list_all_iff)
  then show "srv u e t \<longleftrightarrow> t = u" by (cases e) (simp_all add: bystander)
qed

lemma secrets_skip: "onChannels {ChSecret} es \<Longrightarrow> path srv s (es @ es') s' \<longleftrightarrow> path srv s es' s'"
  by (auto simp: path_append secrets_idle)

lemmas walk = path_append secrets_idle secrets_skip bystander

end

subsection \<open>Sequences of passes\<close>

text \<open>
  \<open>runs srv P s es s'\<close>: some number of passes, each with a trace allowed by \<open>P\<close>, took the server
  from \<open>s\<close> to \<open>s'\<close> with the calls \<open>es\<close>. Nothing else writes to the server in between.
\<close>

inductive runs ::
    "('s \<Rightarrow> 'e \<Rightarrow> 's \<Rightarrow> bool) \<Rightarrow> ('e list \<Rightarrow> bool) \<Rightarrow> 's \<Rightarrow> 'e list \<Rightarrow> 's \<Rightarrow> bool"
  for srv P where
    start: "runs srv P s [] s"
  | pass: "runs srv P s es t \<Longrightarrow> P es' \<Longrightarrow> path srv t es' s' \<Longrightarrow> runs srv P s (es @ es') s'"

inductive_cases runs_endE: "runs srv P s es s'"

lemma runs_single: "P es \<Longrightarrow> path srv s es s' \<Longrightarrow> runs srv P s es s'"
  using runs.pass [OF runs.start, of P es srv s s'] by simp

lemma runs_path: "runs srv P s es s' \<Longrightarrow> path srv s es s'"
  by (induction rule: runs.induct) (auto simp: path_append)

lemma runs_trans:
  "runs srv P t es' s' \<Longrightarrow> runs srv P s es t \<Longrightarrow> runs srv P s (es @ es') s'"
proof (induction rule: runs.induct)
  case (start t) then show ?case by simp
next
  case (pass t es1 u es2 s')
  from runs.pass [OF pass.IH [OF pass.prems] pass.hyps(2,3)] show ?case by simp
qed

text \<open>
  Convergence of a controller towards a goal on the server's state, from three facts about one pass:
  a pass that changes the state reaches the goal, at the goal it writes nothing, and it reports
  readiness only at the goal.
\<close>

definition settles ::
    "('s \<Rightarrow> bool) \<Rightarrow> (event \<Rightarrow> bool) \<Rightarrow> 's \<Rightarrow> event list \<Rightarrow> 's \<Rightarrow> bool" where
  "settles goal ready s es s' \<longleftrightarrow>
     (s' = s \<or> goal s') \<and> (goal s \<longrightarrow> s' = s \<and> quiet isNomadWrite es) \<and> (some_call ready es \<longrightarrow> goal s')"

lemma settles_skip:
  "\<not> isNomadWrite e \<Longrightarrow> \<not> ready e \<Longrightarrow> settles goal ready s (e # es) s' \<longleftrightarrow> settles goal ready s es s'"
  "quiet isNomadWrite es \<Longrightarrow> \<not> some_call ready es \<Longrightarrow>
    settles goal ready s (es @ es') s' \<longleftrightarrow> settles goal ready s es' s'"
  by (simp_all add: settles_def trace_simps)

lemma settles_idle: "quiet isNomadWrite es \<Longrightarrow> \<not> some_call ready es \<Longrightarrow> settles goal ready s es s"
  by (simp add: settles_def)

locale converging =
  fixes srv :: "'s \<Rightarrow> event \<Rightarrow> 's \<Rightarrow> bool" and P :: "event list \<Rightarrow> bool"
    and goal :: "'s \<Rightarrow> bool" and ready :: "event \<Rightarrow> bool"
  assumes one_pass: "P es \<Longrightarrow> path srv s es s' \<Longrightarrow> settles goal ready s es s'"
begin

lemma run_settles: "runs srv P s es s' \<Longrightarrow> settles goal ready s es s'"
proof (induction rule: runs.induct)
  case (start s)
  then show ?case by (simp add: settles_def trace_simps)
next
  case (pass s es t es' s')
  from one_pass [OF pass.hyps(2,3)] pass.IH show ?case
    by (auto simp: settles_def trace_simps)
qed

text \<open>Once a pass has reported readiness, no later pass writes to Nomad.\<close>

lemma quiet_after_ready:
  assumes "runs srv P s es t" "some_call ready es" "runs srv P t es' s'"
  shows "quiet isNomadWrite es' \<and> s' = t"
  using run_settles [OF assms(1)] run_settles [OF assms(3)] assms(2) by (simp add: settles_def)

end

end
