(* ===== verification/SecretRuns.thy ===== *)
theory SecretRuns
  imports ClusterSpec Converge
begin

section \<open>Sequences of passes and the retained Secrets\<close>

text \<open>
  The gossip key and the bootstrap token must survive everything: retries, crashes between two calls,
  a stale cache. Here the API server is a store that keeps its Secrets and refuses to create one
  that exists; the operator's reads go through a cache that may miss a Secret or show an older
  version of it. Any number of passes then keeps the data of every Secret and bootstraps Nomad with
  one token only.
\<close>

subsection \<open>The Secrets of the API server\<close>

type_synonym secrets = "namespaced_name \<Rightarrow> secret option"

definition secretKeyOf :: "secret \<Rightarrow> namespaced_name" where
  "secretKeyOf x = objectKey (om_namespace (se_meta x)) (om_name (se_meta x))"

text \<open>\<open>y\<close> is \<open>x\<close> up to the metadata the API server fills in.\<close>

definition storedAs :: "secret \<Rightarrow> secret \<Rightarrow> bool" where
  "storedAs x y \<longleftrightarrow> secretKeyOf y = secretKeyOf x \<and> se_data y = se_data x"

lemma storedAs_refl [simp]: "storedAs x x"
  by (simp add: storedAs_def)

fun secretCall :: "event \<Rightarrow> bool" where
  "secretCall (EvSecret _) = True"
| "secretCall _ = False"

inductive secretServer :: "secrets \<Rightarrow> event \<Rightarrow> secrets \<Rightarrow> bool" where
  found: "s k = Some y \<Longrightarrow> secretKeyOf x = k \<Longrightarrow> se_data x = se_data y \<Longrightarrow> secretServer s (EvSecret (SGet k (Inr x))) s"
| missed: "secretServer s (EvSecret (SGet k (Inl e))) s"
| created: "s (secretKeyOf x) = None \<Longrightarrow> storedAs x y \<Longrightarrow>
    secretServer s (EvSecret (SCreate x (Inr y))) (s(secretKeyOf x \<mapsto> y))"
| create_failed: "secretServer s (EvSecret (SCreate x (Inl e))) s"
| create_lost: "s (secretKeyOf x) = None \<Longrightarrow> storedAs x y \<Longrightarrow>
    secretServer s (EvSecret (SCreate x (Inl e))) (s(secretKeyOf x \<mapsto> y))"
| updated: "s (secretKeyOf x) = Some z \<Longrightarrow> storedAs x y \<Longrightarrow>
    secretServer s (EvSecret (SUpdate x (Inr y))) (s(secretKeyOf x \<mapsto> y))"
| update_failed: "secretServer s (EvSecret (SUpdate x (Inl e))) s"
| update_lost: "s (secretKeyOf x) = Some z \<Longrightarrow> storedAs x y \<Longrightarrow>
    secretServer s (EvSecret (SUpdate x (Inl e))) (s(secretKeyOf x \<mapsto> y))"
| listed: "secretServer s (EvSecret (SList opts r)) s"
| status: "secretServer s (EvSecret (SUpdateStatus x r)) s"
| deleted: "secretServer s (EvSecret (SDelete x r)) (s(secretKeyOf x := None))"
| delete_failed: "secretServer s (EvSecret (SDelete x (Inl e))) s"
| unrelated: "\<not> secretCall e \<Longrightarrow> secretServer s e s"

inductive_simps secretServer_get: "secretServer s (EvSecret (SGet k r)) t"
inductive_simps secretServer_create: "secretServer s (EvSecret (SCreate x r)) t"
inductive_simps secretServer_list: "secretServer s (EvSecret (SList opts r)) t"
inductive_simps secretServer_update: "secretServer s (EvSecret (SUpdate x r)) t"

lemma secretServer_unrelated: "\<not> secretCall e \<Longrightarrow> secretServer s e t \<longleftrightarrow> t = s"
  by (auto elim: secretServer.cases intro: secretServer.unrelated)

subsection \<open>What a trace preserves\<close>

definition keepsSecrets :: "secrets \<Rightarrow> secrets \<Rightarrow> bool" where
  "keepsSecrets s s' \<longleftrightarrow> (\<forall>k x. s k = Some x \<longrightarrow> (\<exists>y. s' k = Some y \<and> se_data y = se_data x))"

definition holdsToken :: "namespaced_name \<Rightarrow> string \<Rightarrow> secrets \<Rightarrow> bool" where
  "holdsToken k t s \<longleftrightarrow> (case s k of None \<Rightarrow> False | Some x \<Rightarrow> mapGetOr [] (se_data x) ''token'' = t)"

fun bootstrapToken :: "event \<Rightarrow> string option" where
  "bootstrapToken (EvNomad (NACLBootstrap t _)) = Some t"
| "bootstrapToken _ = None"

definition tokensHeld :: "namespaced_name \<Rightarrow> event list \<Rightarrow> secrets \<Rightarrow> bool" where
  "tokensHeld k es s \<longleftrightarrow> list_all (\<lambda>e. case bootstrapToken e of None \<Rightarrow> True | Some t \<Rightarrow> holdsToken k t s) es"

definition retains :: "namespaced_name \<Rightarrow> secrets \<Rightarrow> event list \<Rightarrow> secrets \<Rightarrow> bool" where
  "retains k s es s' \<longleftrightarrow> keepsSecrets s s' \<and> tokensHeld k es s'"

definition safeTrace :: "namespaced_name \<Rightarrow> event list \<Rightarrow> bool" where
  "safeTrace k es \<longleftrightarrow> (\<forall>s s'. path secretServer s es s' \<longrightarrow> retains k s es s')"

lemma keepsSecrets_refl [simp]: "keepsSecrets s s"
  by (simp add: keepsSecrets_def)

lemma keepsSecrets_trans: "keepsSecrets s t \<Longrightarrow> keepsSecrets t u \<Longrightarrow> keepsSecrets s u"
  unfolding keepsSecrets_def by metis

lemma keepsSecrets_upd: "(\<And>x. s k = Some x \<Longrightarrow> se_data y = se_data x) \<Longrightarrow> keepsSecrets s (s(k \<mapsto> y))"
  by (simp add: keepsSecrets_def)

lemma holdsToken_kept: "holdsToken k t s \<Longrightarrow> keepsSecrets s s' \<Longrightarrow> holdsToken k t s'"
  unfolding holdsToken_def keepsSecrets_def by (fastforce split: option.splits)

lemma tokensHeld_kept: "tokensHeld k es s \<Longrightarrow> keepsSecrets s s' \<Longrightarrow> tokensHeld k es s'"
  unfolding tokensHeld_def list_all_iff by (auto split: option.splits dest: holdsToken_kept)

lemma tokensHeld_append [simp]: "tokensHeld k (es @ es') s \<longleftrightarrow> tokensHeld k es s \<and> tokensHeld k es' s"
  by (simp add: tokensHeld_def)

lemma tokensHeld_simps [simp]:
  "tokensHeld k [] s"
  "tokensHeld k (e # es) s \<longleftrightarrow> (case bootstrapToken e of None \<Rightarrow> True | Some t \<Rightarrow> holdsToken k t s) \<and> tokensHeld k es s"
  by (simp_all add: tokensHeld_def)

lemma retains_trans: "retains k s es t \<Longrightarrow> retains k t es' u \<Longrightarrow> retains k s (es @ es') u"
  by (auto simp: retains_def intro: keepsSecrets_trans tokensHeld_kept)

lemma safeTrace_append: "safeTrace k es \<Longrightarrow> safeTrace k es' \<Longrightarrow> safeTrace k (es @ es')"
  unfolding safeTrace_def path_append by (blast intro: retains_trans)

lemma safeTrace_Cons: "safeTrace k [e] \<Longrightarrow> safeTrace k es \<Longrightarrow> safeTrace k (e # es)"
  using safeTrace_append [of k "[e]" es] by simp

text \<open>Calls that read Secrets or go elsewhere, the ACL bootstrap excepted.\<close>

definition harmless :: "event \<Rightarrow> bool" where
  "harmless e \<longleftrightarrow> (\<forall>s t. secretServer s e t \<longrightarrow> t = s) \<and> bootstrapToken e = None"

lemma safeTrace_harmless: "list_all harmless es \<Longrightarrow> safeTrace k es"
proof (induction es)
  case Nil
  show ?case by (simp add: safeTrace_def retains_def)
next
  case (Cons e es)
  then have "t = s" if "secretServer s e t" for s t using that by (simp add: harmless_def)
  with Cons.prems have "safeTrace k [e]" by (fastforce simp: safeTrace_def retains_def harmless_def)
  with Cons show ?case by (auto intro: safeTrace_Cons)
qed

lemma harmless_simps [simp]:
  "harmless (EvCluster c)" "harmless (EvSecret (SGet k r))" "harmless (EvApply a u)" "harmless (EvRecord x1 x2 x3 x4)"
  "harmless (EvGateway g)" "harmless (EvNode n1)"
  "harmless (EvPool p)" "harmless (EvNamespace n2)" "harmless (EvJob j)" "harmless (EvService v)" "harmless (EvRand n b)"
  "harmless (EvNomad (NLeader l))" "harmless (EvNomad (NServerHealth h))"
  by (auto simp: harmless_def secretServer_get secretServer_unrelated)

lemma harmless_reads: "onChannels {ChSecret} es \<and> quiet secretWrite es \<Longrightarrow> list_all harmless es"
proof -
  have "harmless e" if "channelOf e = ChSecret" "\<not> secretWrite e" for e
  proof -
    from that(1) obtain c where e: "e = EvSecret c" by (cases e) simp_all
    with that(2) show ?thesis by (cases c) (auto simp: harmless_def secretServer_get secretServer_list)
  qed
  then show "onChannels {ChSecret} es \<and> quiet secretWrite es \<Longrightarrow> list_all harmless es"
    by (simp add: onChannels_def quiet_def list_all_iff)
qed

lemma harmless_elsewhere:
  assumes "onChannels cs es" "ChSecret \<notin> cs" "ChNomad \<notin> cs"
  shows "list_all harmless es"
proof -
  have "harmless e" if "channelOf e \<in> cs" for e
    using that assms(2,3) by (cases e) auto
  then show ?thesis using assms(1) by (simp add: onChannels_def list_all_iff)
qed

subsection \<open>The steps of a cluster pass\<close>

lemma stored_simps [simp]:
  "secretKeyOf (markBootstrapped x) = secretKeyOf x" "se_data (markBootstrapped x) = se_data x"
  "secretKeyOf (tokenSecret nc t) = tokenKeyOf nc" "secretKeyOf (gossipSecret nc buf) = gossipKeyOf nc"
  by (simp_all add: secretKeyOf_def markBootstrapped_def tokenKeyOf_def gossipKeyOf_def)

text \<open>The API server's answers are about the cluster whose token Secret is \<open>k\<close>.\<close>

fun clusterSeenAs :: "namespaced_name \<Rightarrow> event \<Rightarrow> bool" where
  "clusterSeenAs k (EvCluster (SGet _ (Inr nc))) \<longleftrightarrow> tokenKeyOf nc = k"
| "clusterSeenAs k (EvCluster (SUpdateStatus _ (Inr nc))) \<longleftrightarrow> tokenKeyOf nc = k"
| "clusterSeenAs k _ \<longleftrightarrow> True"

definition retaining :: "namespaced_name \<Rightarrow> event list \<Rightarrow> bool" where
  "retaining k es \<longleftrightarrow> (list_all (clusterSeenAs k) es \<longrightarrow> safeTrace k es)"

lemma retaining_append: "retaining k es \<Longrightarrow> retaining k es' \<Longrightarrow> retaining k (es @ es')"
  by (simp add: retaining_def safeTrace_append)

lemma retaining_harmless: "list_all harmless es \<Longrightarrow> retaining k es"
  by (simp add: retaining_def safeTrace_harmless)

lemma retaining_skip: "list_all harmless es \<Longrightarrow> retaining k es' \<Longrightarrow> retaining k (es @ es')"
  by (simp add: retaining_append retaining_harmless)

lemma retaining_Cons: "harmless e \<Longrightarrow> (clusterSeenAs k e \<Longrightarrow> retaining k es) \<Longrightarrow> retaining k (e # es)"
  using safeTrace_Cons [of k e es] safeTrace_harmless [of "[e]" k] by (auto simp: retaining_def)

lemma meets_retaining_Cons:
  "harmless e \<Longrightarrow> (clusterSeenAs k e \<Longrightarrow> meets p (\<lambda>r es. retaining k es)) \<Longrightarrow>
    meets p (\<lambda>r es. retaining k (e # es))"
  by (auto simp: meets_def intro: retaining_Cons)

lemma meets_retaining_skip:
  "list_all harmless es \<Longrightarrow> meets p (\<lambda>r es'. retaining k es') \<Longrightarrow> meets p (\<lambda>r es'. retaining k (es @ es'))"
  by (auto simp: meets_def intro: retaining_skip)

lemma meets_retaining_through:
  "list_all harmless evs \<Longrightarrow> harmless e \<Longrightarrow> (clusterSeenAs k e \<Longrightarrow> meets p (\<lambda>r es. retaining k es)) \<Longrightarrow>
    meets p (\<lambda>r es. retaining k (evs @ e # es))"
  by (auto simp: meets_def intro: retaining_skip retaining_Cons)

lemma ensureGossipKey_retains: "meets (ensureGossipKey rc nc) (\<lambda>r es. safeTrace k es)"
  unfolding ensureGossipKey_def Let_def kube_calls randRead_def
  by (auto intro!: wp keepsSecrets_upd split: sum.splits if_splits
      simp: safeTrace_def retains_def secretServer_get secretServer_create secretServer_unrelated)

lemma ensureBootstrapToken_retains:
  "meets (ensureBootstrapToken rc nc ops) (\<lambda>r es. safeTrace (tokenKeyOf nc) es)"
  unfolding ensureBootstrapToken_def obtainTokenSecret_def newBootstrapToken_def Let_def kube_calls randRead_def
  by (auto intro!: wp keepsSecrets_upd split: sum.splits if_splits
      simp: safeTrace_def retains_def secretServer_get secretServer_create secretServer_update secretServer_unrelated
        tokenKeyOf_def storedAs_def holdsToken_def)

lemma tokenKeyOf_simps [simp]:
  "tokenKeyOf (nc\<lparr>nc_status := st\<rparr>) = tokenKeyOf nc"
  "tokenKeyOf (setCondition now nc ty cst reason msg) = tokenKeyOf nc"
  "tokenKeyOf (setPhase p nc) = tokenKeyOf nc"
  "tokenKeyOf (observeMembers nc r) = tokenKeyOf nc"
  "tokenKeyOf (seedBootstrapping nc) = tokenKeyOf nc"
  by (simp_all add: tokenKeyOf_def setPhase_def observeMembers_def seedBootstrapping_def split: sum.split)

lemma retaining_simps [simp]: "retaining k []"
  by (simp add: retaining_harmless)

lemmas retaining_intros = retaining_Cons retaining_append

lemma bootstrap_retains:
  assumes "tokenKeyOf nc = k"
  shows "meets (bootstrapAndReady rc nc) (\<lambda>r es. retaining k es)"
  unfolding bootstrapAndReady_def
proof (rule meets_bindE [OF clientFor_spec])
  have boot: "meets (ensureBootstrapToken rc nc' ops) (\<lambda>r es. retaining k es)" if "tokenKeyOf nc' = k" for nc' ops
    using ensureBootstrapToken_retains [of rc nc' ops] that by (auto simp: meets_def retaining_def)
  fix ops es
  assume es: "onChannels {ChSecret} es \<and> quiet secretWrite es"
  show "meets (andThen (nomadCall NLeader (op_Leader ops)) (\<lambda>l. case l of
       Inl _ \<Rightarrow> noLeader rc nc
     | Inr leader \<Rightarrow>
         if leader = [] then noLeader rc nc
         else withCondition rc nc CondQuorumHealthy ConditionTrue ''LeaderElected'' ''quorum healthy'' (\<lambda>nc.
           let nc1 = nc\<lparr>nc_status := (nc_status nc)\<lparr>ct_leader := leader\<rparr>\<rparr> in
           andThen (nomadCall NServerHealth (op_ServerHealth ops)) (\<lambda>m.
           let nc2 = observeMembers nc1 m in
           andThen (ensureBootstrapToken rc nc2 ops) (\<lambda>b.
           case b of
             Inl err \<Rightarrow> withCondition rc nc2 CondACLBootstrapped ConditionFalse ''BootstrapFailed'' (errorText err)
                          (\<lambda>nc. finish rc nc (requeueAfter requeueShort))
           | Inr _ \<Rightarrow> becomeReady rc nc2)))))
     (\<lambda>r es'. retaining k (es @ es'))"
    using assms harmless_reads [OF es] unfolding noLeader_def becomeReady_def finish_def kube_calls Let_def
    by (auto intro!: wp meets_withCondition boot [THEN meets_mono] retaining_intros
        intro: retaining_harmless split: sum.splits)
qed (simp add: retaining_harmless harmless_reads)

lemma rollOut_retains:
  assumes "tokenKeyOf nc = k"
  shows "meets (rollOut rc nc extAddr) (\<lambda>r es. retaining k es)"
proof -
  have noted: "onChannels {ChRecord} es \<Longrightarrow> list_all harmless es" for es
    by (erule harmless_elsewhere) simp_all
  have rest: "meets (bindE (provision rc nc' extAddr) (\<lambda>_. bootstrapAndReady rc (seedBootstrapping nc'))) (\<lambda>r es. retaining k es)"
    if key: "tokenKeyOf nc' = k" for nc'
  proof (rule meets_bindE [OF provision_spec])
    fix a es
    assume "rolledOut (rolloutObjects (tk_unicode (pf_toolkit (rc_platform rc))) (rc_parseQuantity rc) nc' extAddr) (Inr a) es"
    then have "list_all harmless es" by (intro harmless_elsewhere [OF rolledOut_channels]) simp_all
    then show "meets (bootstrapAndReady rc (seedBootstrapping nc')) (\<lambda>b es'. retaining k (es @ es'))"
      by (rule meets_retaining_skip) (simp add: bootstrap_retains key)
  qed (auto intro!: retaining_harmless harmless_elsewhere [OF rolledOut_channels])
  show ?thesis
    unfolding rollOut_def Let_def kube_calls
    by (rule meets_withCondition, rule meets_checkAddressDrift, rule meets_bindE_call)
      (auto intro!: meets_retaining_through rest retaining_harmless simp: noted)
qed

lemma addressStep_harmless: "addressStep nc r es \<Longrightarrow> list_all harmless es"
  by (rule harmless_elsewhere [of "{ChApply, ChGateway, ChService}"]) (simp_all add: addressStep_def)

lemma reconcileCluster_retains:
  assumes "tokenKeyOf nc = k"
  shows "meets (reconcileCluster rc nc) (\<lambda>r es. retaining k es)"
proof -
  have wait: "meets (waitForCert rc nc1) (\<lambda>r es. retaining k es)" "meets (waitForAddress rc nc1) (\<lambda>r es. retaining k es)"
    for nc1 k
    unfolding waitForCert_def waitForAddress_def finish_def kube_calls Let_def
    by (auto intro!: wp meets_withCondition retaining_harmless split: sum.splits)
  have tail: "meets (bindE (resolveAddress rc nc1) (\<lambda>(nc, extAddr, extReady).
      if \<not> extReady then waitForAddress rc nc else rollOut rc nc extAddr)) (\<lambda>r es. retaining k es)"
    if "tokenKeyOf nc1 = k" for nc1
  proof (rule meets_bindE [OF resolveAddress_spec])
    fix a es
    assume step: "addressStep nc1 (Inr a) es"
    obtain nc2 addr ready where a: "a = (nc2, addr, ready)" by (cases a)
    have "tokenKeyOf nc2 = k" using step that by (auto simp: a addressStep_def sameCluster_def tokenKeyOf_def)
    then show "meets (case a of (nc, extAddr, extReady) \<Rightarrow>
        if \<not> extReady then waitForAddress rc nc else rollOut rc nc extAddr) (\<lambda>b es'. retaining k (es @ es'))"
      by (auto simp: a addressStep_harmless [OF step] intro!: meets_retaining_skip wait rollOut_retains)
  qed (simp add: retaining_harmless addressStep_harmless)
  have gate: "meets (bindE (certSecretReady rc nc1) (\<lambda>certReady. if \<not> certReady then waitForCert rc nc1
      else bindE (resolveAddress rc nc1) (\<lambda>(nc, extAddr, extReady).
        if \<not> extReady then waitForAddress rc nc else rollOut rc nc extAddr))) (\<lambda>r es. retaining k es)"
    if "tokenKeyOf nc1 = k" for nc1
    by (rule meets_bindE [OF certSecretReady_spec])
      (auto simp: that harmless_reads intro!: retaining_harmless meets_retaining_skip meets_if wait tail)
  have gossip: "meets (ensureGossipKey rc nc') (\<lambda>r es. retaining k es)" for nc'
    using ensureGossipKey_retains [of rc nc'] by (auto simp: meets_def retaining_def)
  have after: "retaining k es \<Longrightarrow> meets p (\<lambda>r es. retaining k es) \<Longrightarrow> meets p (\<lambda>r es'. retaining k (es @ es'))"
    for es p by (auto simp: meets_def intro: retaining_append)
  show ?thesis
    unfolding reconcileCluster_def Let_def
    by (rule meets_withCondition, rule meets_bindE [OF gossip]) (auto intro!: after gate simp: assms)
qed

lemma ReconcileCluster_retains: "meets (ReconcileCluster rc key) (\<lambda>r es. retaining k es)"
  unfolding ReconcileCluster_def kube_calls
  by (rule meets_andThen_call)
    (auto intro!: meets_ret meets_retaining_Cons reconcileCluster_retains retaining_Cons split: sum.split)

subsection \<open>Sequences of cluster passes\<close>

definition clusterPassFor :: "'w cluster_reconciler \<Rightarrow> namespaced_name \<Rightarrow> event list \<Rightarrow> bool" where
  "clusterPassFor rc k es \<longleftrightarrow>
     (\<exists>key w. es = events_of (ReconcileCluster rc key w)) \<and> list_all (clusterSeenAs k) es"

lemma run_retains: "runs secretServer (clusterPassFor rc k) s es s' \<Longrightarrow> retains k s es s'"
proof (induction rule: runs.induct)
  case (start s)
  show ?case by (simp add: retains_def)
next
  case (pass s es t es' s')
  from pass.hyps(2) obtain key w where es': "es' = events_of (ReconcileCluster rc key w)"
    and seen: "list_all (clusterSeenAs k) es'" by (auto simp: clusterPassFor_def)
  have "retaining k es'" using meetsD [OF ReconcileCluster_retains [of rc key k], of w] by (simp add: es')
  then have "retains k t es' s'" using seen pass.hyps(3) by (simp add: retaining_def safeTrace_def)
  with pass.IH show ?case by (rule retains_trans)
qed

lemma retains_tokens:
  assumes "retains k s es s'"
  shows "case s' k of None \<Rightarrow> List.map_filter bootstrapToken es = []
    | Some x \<Rightarrow> set (List.map_filter bootstrapToken es) \<subseteq> {mapGetOr [] (se_data x) ''token''}"
  using assms
  by (induction es)
    (auto simp: retains_def holdsToken_def map_filter_simps split: option.splits)

text \<open>
  C6: over any number of passes, with lost answers, stale reads and failures at every call, no Secret
  of the cluster ever changes its data (the gossip key above all), and every ACL bootstrap sent to
  Nomad carries one and the same token, the one in the retained Secret.
\<close>

theorem secrets_survive_retries:
  assumes "runs secretServer (clusterPassFor rc k) s es s'"
  shows "keepsSecrets s s' \<and> (case s' k of None \<Rightarrow> List.map_filter bootstrapToken es = []
    | Some x \<Rightarrow> set (List.map_filter bootstrapToken es) \<subseteq> {mapGetOr [] (se_data x) ''token''})"
  using run_retains [OF assms] retains_tokens [OF run_retains [OF assms]] by (simp add: retains_def)

definition sampleClusterReconciler :: "unit cluster_reconciler" where
  "sampleClusterReconciler = \<lparr>rc_platform = samplePlatform\<lparr>pf_secrets := emptyStore\<rparr>,
     rc_newNomadClient = (\<lambda>_. Inl (PlainError ''down'')), rc_recorder = True, rc_parseQuantity = Some\<rparr>"

text \<open>A pass that finds no Secret at all creates the gossip key and waits for the certificate.\<close>

theorem secrets_survive_retries_witness:
  "let es = events_of (ReconcileCluster sampleClusterReconciler (objectKey ''nomad'' ''prod'') ()) in
     some_call secretCreate es \<and>
     (\<exists>s'. path secretServer Map.empty es s' \<and> keepsSecrets Map.empty s' \<and> s' (gossipKeyOf readyCluster) \<noteq> None)"
proof -
  let ?es = "events_of (ReconcileCluster sampleClusterReconciler (objectKey ''nomad'' ''prod'') ())"
  let ?k = "tokenKeyOf readyCluster"
  note run = ReconcileCluster_def reconcileCluster_def ensureGossipKey_def randRead_def wrapped_def certSecretReady_def
    waitForCert_def finish_def withCondition_def sample_run sampleClusterReconciler_def observe_def provisionedPhase_def setPhase_def
    kubeIsNotFound_def kubeReason_def
  have "list_all (clusterSeenAs ?k) ?es" and created: "some_call secretCreate ?es"
    by (simp_all add: run tokenKeyOf_def)
  then have pass: "clusterPassFor sampleClusterReconciler ?k ?es" by (auto simp: clusterPassFor_def)
  obtain s' where path: "path secretServer Map.empty ?es s'" and held: "s' (gossipKeyOf readyCluster) \<noteq> None"
    by (simp add: run secretServer_get secretServer_create secretServer_unrelated gossipKeyOf_def)
  from secrets_survive_retries [OF runs_single [where P = "clusterPassFor sampleClusterReconciler ?k", OF pass path]]
  show ?thesis using created path held by (auto simp: Let_def)
qed

end
