(* ===== verification/Pool.thy ===== *)
theory Pool
  imports Samples
begin

section \<open>The node pool reconciler (nomadpool_controller.go)\<close>

text \<open>
  A NomadPool is upserted onto Nomad when it drifts and deleted from Nomad before its finalizer is
  dropped. The methods follow the Go code branch by branch.
\<close>

definition poolResync :: int where
  "poolResync = 60 * second"

definition nomadPoolFinalizer :: string where
  "nomadPoolFinalizer = ''nomad.operator.io/nodepool-cleanup''"

type_synonym 'w pool_reconciler = "('w, 'w NomadPoolOps) kind_reconciler"

definition poolUpdate :: "'w pool_reconciler \<Rightarrow> nomad_pool \<Rightarrow> ('w, nomad_pool) reconciler_proc" where
  "poolUpdate kr np = kUpdate EvPool (pf_pools (kr_platform kr)) np"

definition poolStatusUpdate :: "'w pool_reconciler \<Rightarrow> nomad_pool \<Rightarrow> reconcile_result \<Rightarrow> ('w, reconcile_result) reconciler_proc" where
  "poolStatusUpdate kr np res =
     bindE (kUpdateStatus EvPool (pf_pools (kr_platform kr)) np) (\<lambda>_. ret (Inr res))"

definition observePool :: "nomad_pool \<Rightarrow> nomad_pool" where
  "observePool np = np\<lparr>np_status := (np_status np)\<lparr>pt_observedGeneration := om_generation (np_meta np)\<rparr>\<rparr>"

text \<open>The shape of every refusal: Ready=False with a reason, the generation, a status write.\<close>

definition poolNotReady ::
    "'w pool_reconciler \<Rightarrow> nomad_pool \<Rightarrow> string \<Rightarrow> string \<Rightarrow> reconcile_result \<Rightarrow> ('w, reconcile_result) reconciler_proc" where
  "poolNotReady kr np reason msg res = stamped kr (\<lambda>now.
     poolStatusUpdate kr (observePool (setPoolCondition now np NomadPoolCondReady ConditionFalse reason msg)) res)"

subsection \<open>Applying the pool\<close>

definition desiredNodePool :: "node_pool option \<Rightarrow> nomad_pool \<Rightarrow> node_pool" where
  "desiredNodePool existing np =
     (let d = (case existing of
          Some e \<Rightarrow> e
        | None \<Rightarrow> \<lparr>pool_Name = [], pool_Description = [], pool_Meta = [], pool_rest = []\<rparr>)
      in d\<lparr>pool_Name := ps_poolName (np_spec np), pool_Description := ps_description (np_spec np),
           pool_Meta := ps_meta (np_spec np)\<rparr>)"

definition poolDrifted :: "node_pool option \<Rightarrow> node_pool \<Rightarrow> bool" where
  "poolDrifted existing desired = (case existing of
     None \<Rightarrow> True
   | Some e \<Rightarrow> pool_Description e \<noteq> pool_Description desired \<or> \<not> mapsEqual (pool_Meta e) (pool_Meta desired))"

definition poolClusterKey :: "nomad_pool \<Rightarrow> string" where
  "poolClusterKey np = ps_clusterRef (np_spec np) @ ''/'' @ ps_poolName (np_spec np)"

definition poolConflicts :: "nomad_pool \<Rightarrow> nomad_pool \<Rightarrow> bool" where
  "poolConflicts np item \<longleftrightarrow> om_name (np_meta item) \<noteq> om_name (np_meta np) \<and>
     om_deletionTimestamp (np_meta item) = None \<and> poolClusterKey item = poolClusterKey np"

definition hasPoolNameConflict :: "'w pool_reconciler \<Rightarrow> nomad_pool \<Rightarrow> ('w, bool) reconciler_proc" where
  "hasPoolNameConflict kr np =
     bindE (kList EvPool (pf_pools (kr_platform kr)) (inNamespace (om_namespace (np_meta np))))
       (\<lambda>items. ret (Inr (list_ex (poolConflicts np) items)))"

definition reconcilePool ::
    "'w pool_reconciler \<Rightarrow> nomad_pool \<Rightarrow> 'w NomadPoolOps \<Rightarrow> ('w, reconcile_result) reconciler_proc" where
  "reconcilePool kr np ops =
     (let poolName = ps_poolName (np_spec np) in
      if poolName = NodePoolDefault \<or> poolName = NodePoolAll
      then poolNotReady kr np ReasonBuiltinPool ''built-in pool cannot be managed'' noRequeue
      else bindE (hasPoolNameConflict kr np) (\<lambda>conflict.
        if conflict
        then stamped kr (\<lambda>now.
          let np = setPoolCondition now np NomadPoolCondReady ConditionFalse ReasonPoolNameConflict
                ''another NomadPool targets this poolName on this cluster; skipping Register'' in
          bindE (eventf kr ''Warning'' ReasonPoolNameConflict ''RegisterSkipped''
                  ''duplicate poolName on the same cluster; not registering to avoid churn'') (\<lambda>_.
          poolStatusUpdate kr (observePool np) (requeueAfter poolResync)))
        else bindE (nomadCall (NGetNodePool poolName) (op_GetNodePool ops poolName)) (\<lambda>existing.
          let desired = desiredNodePool existing np in
          bindE (if poolDrifted existing desired
                 then nomadCall (NUpsertNodePool desired) (op_UpsertNodePool ops desired)
                 else ret (Inr ())) (\<lambda>_.
          bindE (nomadCall (NCountNodePoolNodes poolName) (op_CountNodePoolNodes ops poolName)) (\<lambda>count.
          let np = np\<lparr>np_status := (np_status np)\<lparr>pt_nodeCount := count\<rparr>\<rparr> in
          stamped kr (\<lambda>now.
            poolStatusUpdate kr (observePool (setPoolCondition now np NomadPoolCondReady ConditionTrue
              ReasonRegistered ''node pool registered onto Nomad'')) (requeueAfter poolResync)))))))"

subsection \<open>Deleting the pool\<close>

definition dropFinalizer :: "'w pool_reconciler \<Rightarrow> nomad_pool \<Rightarrow> ('w, reconcile_result) reconciler_proc" where
  "dropFinalizer kr np =
     bindE (poolUpdate kr (np\<lparr>np_meta := tk_removeFinalizer (kr_toolkit kr) (np_meta np) nomadPoolFinalizer\<rparr>))
       (\<lambda>_. ret (Inr noRequeue))"

definition poolDeleteBlocked ::
    "'w pool_reconciler \<Rightarrow> nomad_pool \<Rightarrow> string \<Rightarrow> string \<Rightarrow> ('w, reconcile_result) reconciler_proc" where
  "poolDeleteBlocked kr np reason msg = stamped kr (\<lambda>now.
     poolStatusUpdate kr (setPoolCondition now np NomadPoolCondDeleteBlocked ConditionTrue reason msg)
       (requeueAfter poolResync))"

definition poolDeleteFailed ::
    "'w pool_reconciler \<Rightarrow> nomad_pool \<Rightarrow> 'w NomadPoolOps \<Rightarrow> error \<Rightarrow> ('w, reconcile_result) reconciler_proc" where
  "poolDeleteFailed kr np ops derr =
     (let poolName = ps_poolName (np_spec np);
          reason = (if IsNodePoolNotEmpty derr then ReasonPoolNotEmpty else ReasonDeleteFailed) in
      andThen (nomadCall (NCountNodePoolNodes poolName) (op_CountNodePoolNodes ops poolName)) (\<lambda>n.
      let np1 = (case n of Inl _ \<Rightarrow> np
          | Inr nodes \<Rightarrow> np\<lparr>np_status := (np_status np)\<lparr>pt_nodeCount := nodes\<rparr>\<rparr>) in
      andThen (nomadCall (NCountNodePoolJobs poolName) (op_CountNodePoolJobs ops poolName)) (\<lambda>j.
      let np2 = (case j of Inl _ \<Rightarrow> np1
          | Inr jobs \<Rightarrow> np1\<lparr>np_status := (np_status np1)\<lparr>pt_jobCount := jobs\<rparr>\<rparr>) in
      poolDeleteBlocked kr np2 reason (errorText derr))))"

definition finalizePool :: "'w pool_reconciler \<Rightarrow> nomad_pool \<Rightarrow> ('w, reconcile_result) reconciler_proc" where
  "finalizePool kr np =
     (if \<not> tk_containsFinalizer (kr_toolkit kr) (np_meta np) nomadPoolFinalizer then ret (Inr noRequeue)
      else andThen (kGet EvCluster (pf_clusters (kr_platform kr))
                     (objectKey (om_namespace (np_meta np)) (ps_clusterRef (np_spec np)))) (\<lambda>r.
        case r of
          Inl err \<Rightarrow> if kubeIsNotFound err then dropFinalizer kr np else ret (Inl err)
        | Inr nc \<Rightarrow>
            if om_deletionTimestamp (nc_meta nc) \<noteq> None then dropFinalizer kr np
            else if nc_phase nc \<noteq> PhaseReady
            then poolDeleteBlocked kr np ReasonClusterNotReady ''cluster not Ready; cannot confirm pool deletion''
            else bindE (clusterClient kr nc) (\<lambda>ops.
              let poolName = ps_poolName (np_spec np) in
              andThen (nomadCall (NDeleteNodePool poolName) (op_DeleteNodePool ops poolName)) (\<lambda>d.
              case d of
                Inl derr \<Rightarrow> if \<not> IsNotFound derr then poolDeleteFailed kr np ops derr else dropFinalizer kr np
              | Inr _ \<Rightarrow> dropFinalizer kr np))))"

subsection \<open>Reconcile\<close>

definition ensurePoolFinalizer :: "'w pool_reconciler \<Rightarrow> nomad_pool \<Rightarrow> ('w, nomad_pool) reconciler_proc" where
  "ensurePoolFinalizer kr np =
     (if \<not> tk_containsFinalizer (kr_toolkit kr) (np_meta np) nomadPoolFinalizer
      then poolUpdate kr (np\<lparr>np_meta := tk_addFinalizer (kr_toolkit kr) (np_meta np) nomadPoolFinalizer\<rparr>)
      else ret (Inr np))"

definition adoptPool :: "'w pool_reconciler \<Rightarrow> nomad_cluster \<Rightarrow> nomad_pool \<Rightarrow> ('w, nomad_pool) reconciler_proc" where
  "adoptPool kr nc np =
     bindE (liftE (tk_setControllerReference (kr_toolkit kr) (nc_meta nc) (np_meta np))) (\<lambda>m.
     let np1 = np\<lparr>np_meta := m\<rparr> in
     if \<not> tk_ownerRefsEqual (kr_toolkit kr) (om_ownerReferences (np_meta np)) (om_ownerReferences m)
     then poolUpdate kr np1 else ret (Inr np1))"

definition ReconcilePool :: "'w pool_reconciler \<Rightarrow> namespaced_name \<Rightarrow> ('w, reconcile_result) reconciler_proc" where
  "ReconcilePool kr key =
     andThen (kGet EvPool (pf_pools (kr_platform kr)) key) (\<lambda>r. case r of
       Inl err \<Rightarrow> ret (ignoreNotFound err)
     | Inr np \<Rightarrow>
       if om_deletionTimestamp (np_meta np) \<noteq> None then finalizePool kr np
       else bindE (ensurePoolFinalizer kr np) (\<lambda>np.
         andThen (kGet EvCluster (pf_clusters (kr_platform kr))
                   (objectKey (om_namespace (np_meta np)) (ps_clusterRef (np_spec np)))) (\<lambda>c.
         case c of
           Inl err \<Rightarrow>
             if kubeIsNotFound err
             then poolNotReady kr np ReasonClusterNotFound ''referenced NomadCluster does not exist'' (requeueAfter poolResync)
             else ret (Inl err)
         | Inr nc \<Rightarrow>
             if nc_phase nc \<noteq> PhaseReady
             then poolNotReady kr np ReasonClusterNotReady ''referenced NomadCluster is not Ready'' (requeueAfter poolResync)
             else bindE (adoptPool kr nc np) (\<lambda>np.
                  bindE (clusterClient kr nc) (\<lambda>ops. reconcilePool kr np ops)))))"

definition poolsForCluster ::
    "'w pool_reconciler \<Rightarrow> nomad_cluster \<Rightarrow> ('w, event, namespaced_name list) procedure" where
  "poolsForCluster kr nc =
     andThen (kList EvPool (pf_pools (kr_platform kr)) (inNamespace (nc_namespace nc))) (\<lambda>r. ret (case r of
       Inl _ \<Rightarrow> []
     | Inr items \<Rightarrow> map (\<lambda>np. objectKey (om_namespace (np_meta np)) (om_name (np_meta np)))
         (filter (\<lambda>np. ps_clusterRef (np_spec np) = nc_name nc) items)))"

subsection \<open>The pool as a managed resource\<close>

fun ownPool :: own_calls where
  "ownPool (EvPool c) = Some (map_store_call np_meta c)"
| "ownPool _ = None"

fun poolReleased :: "event \<Rightarrow> bool" where
  "poolReleased (EvNomad (NDeleteNodePool _ (Inr _))) \<longleftrightarrow> True"
| "poolReleased (EvNomad (NDeleteNodePool _ (Inl e))) \<longleftrightarrow> IsNotFound e"
| "poolReleased _ \<longleftrightarrow> False"

lemma observePool_meta [simp]: "np_meta (observePool np) = np_meta np"
  by (simp add: observePool_def)

lemmas pool_steps = poolUpdate_def poolStatusUpdate_def poolNotReady_def dropFinalizer_def
  poolDeleteBlocked_def poolDeleteFailed_def hasPoolNameConflict_def ensurePoolFinalizer_def
  adoptPool_def eventf_def

lemma pool_safe:
  assumes "toolkit_laws (kr_toolkit kr)"
  shows "meets (ReconcilePool kr key) (\<lambda>r es.
    lifecycleSafe (kr_toolkit kr) nomadPoolFinalizer ownPool poolReleased es)"
  unfolding ReconcilePool_def finalizePool_def reconcilePool_def pool_steps kube_calls Let_def lifecycleSafe_def
  by (auto intro!: kwp split: sum.splits if_splits simp: lifecycle_simps toolkit_lawsD [OF assms]
      setControllerReference_keeps [OF assms])

interpretation pool_resource: managed_resource "kr_toolkit kr" nomadPoolFinalizer ownPool poolReleased
    "ReconcilePool kr key" for kr key
  by unfold_locales (rule meetsD [OF pool_safe])

subsection \<open>Upserts\<close>

fun driftSeen :: "node_pool \<Rightarrow> event \<Rightarrow> bool" where
  "driftSeen d (EvNomad (NGetNodePool name (Inr existing))) \<longleftrightarrow> name = pool_Name d \<and> poolDrifted existing d \<and>
     (case existing of None \<Rightarrow> True | Some e \<Rightarrow> pool_rest d = pool_rest e)"
| "driftSeen d _ \<longleftrightarrow> False"

fun noPoolConflictSeen :: "nomad_pool \<Rightarrow> event \<Rightarrow> bool" where
  "noPoolConflictSeen np (EvPool (SList opts (Inr items))) \<longleftrightarrow>
     opts = inNamespace (om_namespace (np_meta np)) \<and> \<not> list_ex (poolConflicts np) items"
| "noPoolConflictSeen np _ \<longleftrightarrow> False"

text \<open>
  What Nomad is sent is the spec's name, description and meta on top of what Nomad had, for a name
  that is not built in, after the siblings were listed without a conflict, and only on drift. A
  pass of this method writes nothing else to Nomad.
\<close>

fun poolWriteRule :: "nomad_pool \<Rightarrow> event list \<Rightarrow> event \<Rightarrow> bool" where
  "poolWriteRule np past (EvNomad (NUpsertNodePool d _)) \<longleftrightarrow>
     pool_Name d = ps_poolName (np_spec np) \<and> pool_Description d = ps_description (np_spec np) \<and>
     pool_Meta d = ps_meta (np_spec np) \<and> pool_Name d \<noteq> NodePoolDefault \<and> pool_Name d \<noteq> NodePoolAll \<and>
     some_call (noPoolConflictSeen np) past \<and> some_call (driftSeen d) past"
| "poolWriteRule np past e \<longleftrightarrow> \<not> isNomadWrite e"

lemma desiredNodePool_fields [simp]:
  "pool_Name (desiredNodePool existing np) = ps_poolName (np_spec np)"
  "pool_Description (desiredNodePool existing np) = ps_description (np_spec np)"
  "pool_Meta (desiredNodePool existing np) = ps_meta (np_spec np)"
  "pool_rest (desiredNodePool (Some e) np) = pool_rest e"
  by (simp_all add: desiredNodePool_def Let_def)

lemma reconcilePool_writes: "meets (reconcilePool kr np ops) (\<lambda>r es. obeys (poolWriteRule np) es)"
  unfolding reconcilePool_def pool_steps kube_calls Let_def obeys_def
  by (auto intro!: kwp split: sum.splits simp: trace_simps split: option.splits)

subsection \<open>Claims\<close>

text \<open>
  C8: for every behaviour of the API server and of Nomad, a pass over a NomadPool calls Nomad only
  after it saw the cluster Ready and the finalizer on the object, takes the finalizer off only when
  the cluster is missing or going, or Nomad deleted the pool or had none, and never deletes the
  object itself.
\<close>

theorem pool_lifecycle:
  assumes "toolkit_laws (kr_toolkit kr)"
  shows "lifecycleSafe (kr_toolkit kr) nomadPoolFinalizer ownPool poolReleased (events_of (ReconcilePool kr key w))"
  by (rule meetsD [OF pool_safe [OF assms]])

definition samplePool :: nomad_pool where
  "samplePool = \<lparr>np_meta = deletedMeta ''gpu'' nomadPoolFinalizer,
     np_spec = \<lparr>ps_clusterRef = ''prod'', ps_poolName = ''gpu'', ps_description = [], ps_meta = []\<rparr>,
     np_status = \<lparr>pt_nodeCount = 0, pt_jobCount = 0, pt_observedGeneration = 0, pt_conditions = []\<rparr>\<rparr>"

definition samplePoolOps :: "unit NomadPoolOps" where
  "samplePoolOps = \<lparr>op_GetNodePool = (\<lambda>_ w. (Inr None, w)), op_UpsertNodePool = (\<lambda>_ w. (Inr (), w)),
     op_DeleteNodePool = (\<lambda>_ w. (Inr (), w)), op_CountNodePoolNodes = (\<lambda>_ w. (Inr 0, w)),
     op_CountNodePoolJobs = (\<lambda>_ w. (Inr 0, w))\<rparr>"

definition samplePoolReconciler :: "unit pool_reconciler" where
  "samplePoolReconciler = sampleReconciler (samplePlatform\<lparr>pf_pools := fixedStore samplePool\<rparr>) samplePoolOps"

text \<open>A pool under deletion on a Ready cluster: Nomad deletes it, then the finalizer goes.\<close>

theorem pool_lifecycle_witness:
  "let es = events_of (ReconcilePool samplePoolReconciler (objectKey ''nomad'' ''gpu'') ()) in
     lifecycleSafe sampleToolkit nomadPoolFinalizer ownPool poolReleased es \<and>
     some_call isNomadWrite es \<and> some_call (takesFinalizerOff sampleToolkit nomadPoolFinalizer ownPool) es"
proof -
  have tk: "kr_toolkit samplePoolReconciler = sampleToolkit"
    by (simp add: samplePoolReconciler_def sampleReconciler_def)
  then have "toolkit_laws (kr_toolkit samplePoolReconciler)" by (simp add: sampleToolkit_laws)
  note safe = pool_lifecycle [OF this, of "objectKey ''nomad'' ''gpu''" "()"]
  have "some_call isNomadWrite (events_of (ReconcilePool samplePoolReconciler (objectKey ''nomad'' ''gpu'') ()))
    \<and> some_call (takesFinalizerOff sampleToolkit nomadPoolFinalizer ownPool)
        (events_of (ReconcilePool samplePoolReconciler (objectKey ''nomad'' ''gpu'') ()))"
    by (simp add: ReconcilePool_def finalizePool_def pool_steps sample_run samplePoolReconciler_def samplePool_def
        samplePoolOps_def takesFinalizerOff_def)
  with safe tk show ?thesis by (simp add: Let_def)
qed

text \<open>
  The pool written to Nomad carries the managed fields of the spec and keeps every unmanaged field
  of the existing pool; it is written only on drift, for a name that is not built in, and never when
  another live NomadPool claims the same pool on the same cluster.
\<close>

lemma pool_upsert_gated: "obeys (poolWriteRule np) (events_of (reconcilePool kr np ops w))"
  by (rule meetsD [OF reconcilePool_writes])

text \<open>
  Reading back the pool that was just written, the next pass finds no drift, so a converged pool is
  never written again.
\<close>

lemma pool_upsert_converges:
  "\<not> poolDrifted (Some (desiredNodePool existing np)) (desiredNodePool (Some (desiredNodePool existing np)) np)"
  by (simp add: poolDrifted_def)

end
