(* ===== verification/PoolRuns.thy ===== *)
theory PoolRuns
  imports Pool Converge
begin

section \<open>Sequences of passes over a node pool\<close>

text \<open>
  Nomad's node pools as a server that keeps its state, and what passes over a NomadPool do to it:
  the pool converges to the spec and is then left alone, Ready is reported only while Nomad holds
  the spec, and a finalizer that goes after a delete leaves no pool behind.
\<close>

subsection \<open>Nomad's pools\<close>

type_synonym nomad_pools = "string \<Rightarrow> node_pool option"

fun poolCall :: "event \<Rightarrow> bool" where
  "poolCall (EvNomad (NGetNodePool _ _)) = True"
| "poolCall (EvNomad (NUpsertNodePool _ _)) = True"
| "poolCall (EvNomad (NDeleteNodePool _ _)) = True"
| "poolCall _ = False"

text \<open>
  A lookup answers with the stored pool. An upsert stores the pool under its name, with fields the
  operator does not manage as Nomad fills them in. A delete removes it; it reports a missing pool
  only when there is none. A call that fails may or may not have taken effect.
\<close>

inductive poolServer :: "nomad_pools \<Rightarrow> event \<Rightarrow> nomad_pools \<Rightarrow> bool" where
  get: "poolServer s (EvNomad (NGetNodePool n (Inr (s n)))) s"
| get_failed: "poolServer s (EvNomad (NGetNodePool n (Inl e))) s"
| upsert: "poolServer s (EvNomad (NUpsertNodePool d (Inr u))) (s(pool_Name d \<mapsto> d\<lparr>pool_rest := x\<rparr>))"
| upsert_failed: "poolServer s (EvNomad (NUpsertNodePool d (Inl e))) s"
| upsert_lost: "poolServer s (EvNomad (NUpsertNodePool d (Inl e))) (s(pool_Name d \<mapsto> d\<lparr>pool_rest := x\<rparr>))"
| delete: "poolServer s (EvNomad (NDeleteNodePool n (Inr u))) (s(n := None))"
| delete_missing: "s n = None \<Longrightarrow> poolServer s (EvNomad (NDeleteNodePool n (Inl e))) s"
| delete_failed: "\<not> IsNotFound e \<Longrightarrow> poolServer s (EvNomad (NDeleteNodePool n (Inl e))) s"
| delete_lost: "\<not> IsNotFound e \<Longrightarrow> poolServer s (EvNomad (NDeleteNodePool n (Inl e))) (s(n := None))"
| unrelated: "\<not> poolCall e \<Longrightarrow> poolServer s e s"

inductive_simps poolServer_get [simp]: "poolServer s (EvNomad (NGetNodePool n r)) t"
inductive_simps poolServer_upsert [simp]: "poolServer s (EvNomad (NUpsertNodePool d r)) t"
inductive_simps poolServer_delete [simp]: "poolServer s (EvNomad (NDeleteNodePool n r)) t"

lemma poolServer_unrelated: "\<not> poolCall e \<Longrightarrow> poolServer s e t \<longleftrightarrow> t = s"
  by (auto elim: poolServer.cases intro: poolServer.unrelated)

interpretation nomad_pool_server: nomad_server poolServer
proof
  fix e :: event and s t
  assume "\<not> isNomadCall e"
  then have "\<not> poolCall e" by (cases e rule: poolCall.cases) simp_all
  then show "poolServer s e t \<longleftrightarrow> t = s" by (rule poolServer_unrelated)
qed

lemmas pool_walk = nomad_pool_server.walk poolServer_unrelated

lemma own_pool_channel: "takesFinalizerOff tk fin ownPool e \<Longrightarrow> channelOf e = ChPool"
  by (cases e) (simp_all add: takesFinalizerOff_def)

subsection \<open>The goal and the reports\<close>

definition holdsPool :: "nomad_pool_spec \<Rightarrow> nomad_pools \<Rightarrow> bool" where
  "holdsPool sp s \<longleftrightarrow> (case s (ps_poolName sp) of None \<Rightarrow> False
     | Some p \<Rightarrow> pool_Description p = ps_description sp \<and> mapsEqual (pool_Meta p) (ps_meta sp))"

fun reportsPoolReady :: "event \<Rightarrow> bool" where
  "reportsPoolReady (EvPool (SUpdateStatus np _)) \<longleftrightarrow>
     map_option cn_status (findCondition NomadPoolCondReady (pt_conditions (np_status np))) = Some ConditionTrue"
| "reportsPoolReady _ \<longleftrightarrow> False"

lemma pool_report_channel: "reportsPoolReady e \<Longrightarrow> channelOf e = ChPool"
  by (cases e) simp_all

lemma pool_secrets_silent:
  assumes "onChannels {ChSecret} es"
  shows "\<not> some_call reportsPoolReady es" "\<not> some_call (takesFinalizerOff tk fin ownPool) es"
  by (rule onChannels_none [OF assms]; auto dest: pool_report_channel own_pool_channel)+

text \<open>The API server answered with a live object that asks for \<open>sp\<close>.\<close>

fun poolSeenAs :: "nomad_pool_spec \<Rightarrow> event \<Rightarrow> bool" where
  "poolSeenAs sp (EvPool (SGet _ (Inr np))) \<longleftrightarrow> np_spec np = sp \<and> om_deletionTimestamp (np_meta np) = None"
| "poolSeenAs sp (EvPool (SUpdate _ (Inr np))) \<longleftrightarrow> np_spec np = sp"
| "poolSeenAs sp _ \<longleftrightarrow> True"

definition livePoolPass :: "'w pool_reconciler \<Rightarrow> namespaced_name \<Rightarrow> nomad_pool_spec \<Rightarrow> event list \<Rightarrow> bool" where
  "livePoolPass kr key sp es \<longleftrightarrow>
     (\<exists>w. es = events_of (ReconcilePool kr key w)) \<and> list_all (poolSeenAs sp) es"

lemma poolDrifted_holds:
  "poolDrifted (s (ps_poolName (np_spec np))) (desiredNodePool (s (ps_poolName (np_spec np))) np) \<longleftrightarrow>
    \<not> holdsPool (np_spec np) s"
  by (simp add: poolDrifted_def holdsPool_def split: option.split)

lemma holdsPool_upsert:
  "holdsPool (np_spec np) (s(ps_poolName (np_spec np) \<mapsto> (desiredNodePool x np)\<lparr>pool_rest := y\<rparr>))"
  by (simp add: holdsPool_def mapsEqual_refl)

lemma poolReady_setter [simp]:
  "findCondition ty (pt_conditions (np_status (observePool np))) = findCondition ty (pt_conditions (np_status np))"
  "map_option cn_status (findCondition ty (pt_conditions (np_status (setPoolCondition now np ty st reason msg)))) = Some st"
  by (simp_all add: observePool_def pool_cond.entry)

lemma reconcilePool_settles:
  "meets (reconcilePool kr np ops) (\<lambda>r es. \<forall>s s'. path poolServer s es s' \<longrightarrow>
     settles (holdsPool (np_spec np)) reportsPoolReady s es s')"
  unfolding reconcilePool_def pool_steps kube_calls Let_def
  by (auto intro!: kwp split: sum.splits if_splits
      simp: settles_def trace_simps pool_walk poolDrifted_holds holdsPool_upsert)


lemma deleted_pool_any: "(\<And>r es. Q r es) \<Longrightarrow> meets (finalizePool kr np) Q"
  by (rule meets_trivial)

lemma ReconcilePool_settles:
  "meets (ReconcilePool kr key) (\<lambda>r es. \<forall>s s'. path poolServer s es s' \<longrightarrow> list_all (poolSeenAs sp) es \<longrightarrow>
     settles (holdsPool sp) reportsPoolReady s es s')"
  unfolding ReconcilePool_def ensurePoolFinalizer_def adoptPool_def poolUpdate_def poolNotReady_def
    poolStatusUpdate_def kube_calls Let_def
  by (auto intro!: kwp deleted_pool_any reconcilePool_settles [THEN meets_mono] split: sum.splits if_splits
      simp: settles_skip settles_idle trace_simps pool_walk secrets_no_write pool_secrets_silent)

interpretation pool_runs: converging poolServer "livePoolPass kr key sp" "holdsPool sp" reportsPoolReady
  for kr key sp
proof
  fix es s s'
  assume "livePoolPass kr key sp es" "path poolServer s es s'"
  then show "settles (holdsPool sp) reportsPoolReady s es s'"
    using meetsD [OF ReconcilePool_settles [of kr key sp]] by (auto simp: livePoolPass_def)
qed

subsection \<open>Deletion\<close>

text \<open>The API server first answered with the object \<open>np\<close>, and it is being deleted.\<close>

fun deletedPoolSeen :: "nomad_pool_spec \<Rightarrow> event list \<Rightarrow> bool" where
  "deletedPoolSeen sp (EvPool (SGet _ (Inr np)) # es) \<longleftrightarrow> np_spec np = sp \<and> om_deletionTimestamp (np_meta np) \<noteq> None"
| "deletedPoolSeen sp es \<longleftrightarrow> False"

lemma finalizePool_cleans:
  "meets (finalizePool kr np) (\<lambda>r es. \<forall>s s'. path poolServer s es s' \<longrightarrow>
     (s' = s \<or> s' = s(ps_poolName (np_spec np) := None)) \<and>
     (some_call (takesFinalizerOff (kr_toolkit kr) nomadPoolFinalizer ownPool) es \<and> quiet clusterGoneOrGoing es \<longrightarrow>
        s' (ps_poolName (np_spec np)) = None))"
  unfolding finalizePool_def dropFinalizer_def poolDeleteBlocked_def poolDeleteFailed_def poolUpdate_def
    poolStatusUpdate_def kube_calls Let_def
  by (auto intro!: kwp split: sum.splits if_splits simp: trace_simps pool_walk pool_secrets_silent takesFinalizerOff_def)


lemma deletedPool_pass:
  "meets (ReconcilePool kr key) (\<lambda>r es. \<forall>s s'. path poolServer s es s' \<longrightarrow> deletedPoolSeen sp es \<longrightarrow>
     (s' = s \<or> s' = s(ps_poolName sp := None)) \<and>
     (some_call (takesFinalizerOff (kr_toolkit kr) nomadPoolFinalizer ownPool) es \<and> quiet clusterGoneOrGoing es \<longrightarrow>
        s' (ps_poolName sp) = None))"
  unfolding ReconcilePool_def kube_calls
  by (rule meets_andThen_call)
    (auto split: sum.splits intro!: meets_ret meets_if finalizePool_cleans [THEN meets_mono] meets_trivial [where p = "bindE m f" for m f]
      simp: trace_simps pool_walk takesFinalizerOff_def)

subsection \<open>Claims\<close>

text \<open>
  Whatever the API server does, any number of passes over a live NomadPool whose spec stays the same
  and that nobody else writes to in Nomad leave Nomad's pools as they were or holding the spec; from
  the moment Nomad holds the spec no pass writes to it again; and Ready is reported only while it holds it.
\<close>

lemma pool_run_converges:
  assumes "runs poolServer (livePoolPass kr key sp) s es s'"
  shows "settles (holdsPool sp) reportsPoolReady s es s'"
  by (rule pool_runs.run_settles [OF assms])

definition livePool :: nomad_pool where
  "livePool = samplePool\<lparr>np_meta := (newMeta ''gpu'' ''nomad'' [])\<lparr>om_finalizers := [nomadPoolFinalizer]\<rparr>\<rparr>"

definition livePoolReconciler :: "unit pool_reconciler" where
  "livePoolReconciler = sampleReconciler (samplePlatform\<lparr>pf_pools := fixedStore livePool\<rparr>) samplePoolOps"

text \<open>A first pass over a pool that Nomad does not have: it is registered and reported Ready.\<close>

lemma pool_run_converges_witness:
  "let es = events_of (ReconcilePool livePoolReconciler (objectKey ''nomad'' ''gpu'') ()) in
     some_call reportsPoolReady es \<and>
     (\<exists>s'. path poolServer Map.empty es s' \<and> settles (holdsPool (np_spec livePool)) reportsPoolReady Map.empty es s' \<and>
        holdsPool (np_spec livePool) s')"
proof -
  let ?es = "events_of (ReconcilePool livePoolReconciler (objectKey ''nomad'' ''gpu'') ())"
  note run = ReconcilePool_def ensurePoolFinalizer_def adoptPool_def reconcilePool_def pool_steps sample_run
    livePoolReconciler_def livePool_def samplePool_def samplePoolOps_def
    observe_def NodePoolDefault_def NodePoolAll_def poolConflicts_def poolDrifted_def
  have seen: "list_all (poolSeenAs (np_spec livePool)) ?es" and ready: "some_call reportsPoolReady ?es"
    by (simp_all add: run)
  obtain s' where path: "path poolServer Map.empty ?es s'"
    by (simp add: run pool_walk) blast
  from seen have "livePoolPass livePoolReconciler (objectKey ''nomad'' ''gpu'') (np_spec livePool) ?es"
    by (auto simp: livePoolPass_def)
  then have "runs poolServer (livePoolPass livePoolReconciler (objectKey ''nomad'' ''gpu'') (np_spec livePool)) Map.empty ?es s'"
    using path by (rule runs_single)
  from pool_run_converges [OF this] ready path show ?thesis by (auto simp: Let_def settles_def)
qed

text \<open>
  A pass over a NomadPool under deletion removes at most that pool from Nomad, and when it takes
  the finalizer off although the cluster is there to stay, Nomad has no such pool any more.
\<close>

lemma pool_deletion_cleans:
  assumes "path poolServer s (events_of (ReconcilePool kr key w)) s'"
    and "deletedPoolSeen sp (events_of (ReconcilePool kr key w))"
  shows "(s' = s \<or> s' = s(ps_poolName sp := None)) \<and>
    (some_call (takesFinalizerOff (kr_toolkit kr) nomadPoolFinalizer ownPool) (events_of (ReconcilePool kr key w)) \<and>
     quiet clusterGoneOrGoing (events_of (ReconcilePool kr key w)) \<longrightarrow> s' (ps_poolName sp) = None)"
  using meetsD [OF deletedPool_pass [of kr key sp]] assms by blast

lemma pool_deletion_cleans_witness:
  "\<exists>s'. path poolServer [''gpu'' \<mapsto> desiredNodePool None samplePool]
      (events_of (ReconcilePool samplePoolReconciler (objectKey ''nomad'' ''gpu'') ())) s' \<and> s' ''gpu'' = None"
proof -
  let ?es = "events_of (ReconcilePool samplePoolReconciler (objectKey ''nomad'' ''gpu'') ())"
  note run = ReconcilePool_def finalizePool_def pool_steps sample_run samplePoolReconciler_def samplePool_def
    samplePoolOps_def
  obtain s' where path: "path poolServer [''gpu'' \<mapsto> desiredNodePool None samplePool] ?es s'"
    by (simp add: run pool_walk)
  have "deletedPoolSeen (np_spec samplePool) ?es" and "quiet clusterGoneOrGoing ?es"
    and "some_call (takesFinalizerOff (kr_toolkit samplePoolReconciler) nomadPoolFinalizer ownPool) ?es"
    by (simp_all add: run takesFinalizerOff_def)
  with pool_deletion_cleans [OF path] path show ?thesis by (fastforce simp: samplePool_def)
qed

end
