(* ===== verification/NamespaceCtl.thy ===== *)
theory NamespaceCtl
  imports Samples
begin

section \<open>The namespace reconciler (nomadnamespace_controller.go)\<close>

text \<open>
  A NomadNamespace is upserted onto Nomad when it drifts and deleted from Nomad before its finalizer
  is dropped. The pattern is that of the namespace reconciler; the code is a separate copy, and so is the
  model.
\<close>

definition namespaceResync :: int where
  "namespaceResync = 60 * second"

definition nomadNamespaceFinalizer :: string where
  "nomadNamespaceFinalizer = ''nomad.operator.io/nomadnamespace-cleanup''"

type_synonym 'w namespace_reconciler = "('w, 'w NomadNamespaceOps) kind_reconciler"

definition namespaceUpdate :: "'w namespace_reconciler \<Rightarrow> nomad_namespace \<Rightarrow> ('w, nomad_namespace) reconciler_proc" where
  "namespaceUpdate kr nn = kUpdate EvNamespace (pf_namespaces (kr_platform kr)) nn"

definition namespaceStatusUpdate :: "'w namespace_reconciler \<Rightarrow> nomad_namespace \<Rightarrow> reconcile_result \<Rightarrow> ('w, reconcile_result) reconciler_proc" where
  "namespaceStatusUpdate kr nn res =
     bindE (kUpdateStatus EvNamespace (pf_namespaces (kr_platform kr)) nn) (\<lambda>_. ret (Inr res))"

definition observeNamespace :: "nomad_namespace \<Rightarrow> nomad_namespace" where
  "observeNamespace nn = nn\<lparr>nns_status := (nns_status nn)\<lparr>nst_observedGeneration := om_generation (nns_meta nn)\<rparr>\<rparr>"

text \<open>The shape of every refusal: Ready=False with a reason, the generation, a status write.\<close>

definition namespaceNotReady ::
    "'w namespace_reconciler \<Rightarrow> nomad_namespace \<Rightarrow> string \<Rightarrow> string \<Rightarrow> reconcile_result \<Rightarrow> ('w, reconcile_result) reconciler_proc" where
  "namespaceNotReady kr nn reason msg res = stamped kr (\<lambda>now.
     namespaceStatusUpdate kr (observeNamespace (setNamespaceCondition now nn NomadNamespaceCondReady ConditionFalse reason msg)) res)"

subsection \<open>Applying the namespace\<close>

definition desiredNamespace :: "api_namespace option \<Rightarrow> nomad_namespace \<Rightarrow> api_namespace" where
  "desiredNamespace existing nn =
     (let d = (case existing of
          Some e \<Rightarrow> e
        | None \<Rightarrow> \<lparr>ans_Name = [], ans_Description = [], ans_Meta = [], ans_rest = []\<rparr>)
      in d\<lparr>ans_Name := ns_namespaceName (nns_spec nn), ans_Description := ns_description (nns_spec nn),
           ans_Meta := ns_meta (nns_spec nn)\<rparr>)"

definition namespaceDrifted :: "api_namespace option \<Rightarrow> api_namespace \<Rightarrow> bool" where
  "namespaceDrifted existing desired = (case existing of
     None \<Rightarrow> True
   | Some e \<Rightarrow> ans_Description e \<noteq> ans_Description desired \<or> \<not> mapsEqual (ans_Meta e) (ans_Meta desired))"

definition namespaceClusterKey :: "nomad_namespace \<Rightarrow> string" where
  "namespaceClusterKey nn = ns_clusterRef (nns_spec nn) @ ''/'' @ ns_namespaceName (nns_spec nn)"

definition namespaceConflicts :: "nomad_namespace \<Rightarrow> nomad_namespace \<Rightarrow> bool" where
  "namespaceConflicts nn item \<longleftrightarrow> om_name (nns_meta item) \<noteq> om_name (nns_meta nn) \<and>
     om_deletionTimestamp (nns_meta item) = None \<and> namespaceClusterKey item = namespaceClusterKey nn"

definition hasNamespaceNameConflict :: "'w namespace_reconciler \<Rightarrow> nomad_namespace \<Rightarrow> ('w, bool) reconciler_proc" where
  "hasNamespaceNameConflict kr nn =
     bindE (kList EvNamespace (pf_namespaces (kr_platform kr)) (inNamespace (om_namespace (nns_meta nn))))
       (\<lambda>items. ret (Inr (list_ex (namespaceConflicts nn) items)))"

definition reconcileNamespace ::
    "'w namespace_reconciler \<Rightarrow> nomad_namespace \<Rightarrow> 'w NomadNamespaceOps \<Rightarrow> ('w, reconcile_result) reconciler_proc" where
  "reconcileNamespace kr nn ops =
     (let namespaceName = ns_namespaceName (nns_spec nn) in
      if namespaceName = ''default''
      then namespaceNotReady kr nn ReasonReservedNamespace ''the default namespace is built-in and cannot be managed'' noRequeue
      else bindE (hasNamespaceNameConflict kr nn) (\<lambda>conflict.
        if conflict
        then stamped kr (\<lambda>now.
          let nn = setNamespaceCondition now nn NomadNamespaceCondReady ConditionFalse ReasonNamespaceNameConflict
                ''another NomadNamespace targets this namespaceName on this cluster; skipping Register'' in
          bindE (eventf kr ''Warning'' ReasonNamespaceNameConflict ''RegisterSkipped''
                  ''duplicate namespaceName on the same cluster; not registering to avoid churn'') (\<lambda>_.
          namespaceStatusUpdate kr (observeNamespace nn) (requeueAfter namespaceResync)))
        else bindE (nomadCall (NGetNamespace namespaceName) (op_GetNamespace ops namespaceName)) (\<lambda>existing.
          let desired = desiredNamespace existing nn in
          bindE (if namespaceDrifted existing desired
                 then nomadCall (NUpsertNamespace desired) (op_UpsertNamespace ops desired)
                 else ret (Inr ())) (\<lambda>_.
          bindE (nomadCall (NCountNamespaceJobs namespaceName) (op_CountNamespaceJobs ops namespaceName)) (\<lambda>count.
          let nn = nn\<lparr>nns_status := (nns_status nn)\<lparr>nst_jobCount := count\<rparr>\<rparr> in
          stamped kr (\<lambda>now.
            namespaceStatusUpdate kr (observeNamespace (setNamespaceCondition now nn NomadNamespaceCondReady ConditionTrue
              ReasonRegistered ''namespace registered onto Nomad'')) (requeueAfter namespaceResync)))))))"

subsection \<open>Deleting the namespace\<close>

definition dropNamespaceFinalizer :: "'w namespace_reconciler \<Rightarrow> nomad_namespace \<Rightarrow> ('w, reconcile_result) reconciler_proc" where
  "dropNamespaceFinalizer kr nn =
     bindE (namespaceUpdate kr (nn\<lparr>nns_meta := tk_removeFinalizer (kr_toolkit kr) (nns_meta nn) nomadNamespaceFinalizer\<rparr>))
       (\<lambda>_. ret (Inr noRequeue))"

definition namespaceDeleteBlocked ::
    "'w namespace_reconciler \<Rightarrow> nomad_namespace \<Rightarrow> string \<Rightarrow> string \<Rightarrow> ('w, reconcile_result) reconciler_proc" where
  "namespaceDeleteBlocked kr nn reason msg = stamped kr (\<lambda>now.
     namespaceStatusUpdate kr (setNamespaceCondition now nn NomadNamespaceCondDeleteBlocked ConditionTrue reason msg)
       (requeueAfter namespaceResync))"

definition namespaceDeleteFailed ::
    "'w namespace_reconciler \<Rightarrow> nomad_namespace \<Rightarrow> 'w NomadNamespaceOps \<Rightarrow> error \<Rightarrow> ('w, reconcile_result) reconciler_proc" where
  "namespaceDeleteFailed kr nn ops derr =
     (let namespaceName = ns_namespaceName (nns_spec nn);
          reason = (if IsNamespaceNotEmpty derr then ReasonNamespaceNotEmpty else ReasonDeleteFailed) in
      andThen (nomadCall (NCountNamespaceJobs namespaceName) (op_CountNamespaceJobs ops namespaceName)) (\<lambda>j.
      let nn1 = (case j of Inl _ \<Rightarrow> nn
          | Inr jobs \<Rightarrow> nn\<lparr>nns_status := (nns_status nn)\<lparr>nst_jobCount := jobs\<rparr>\<rparr>) in
      namespaceDeleteBlocked kr nn1 reason (errorText derr)))"

definition finalizeNamespace :: "'w namespace_reconciler \<Rightarrow> nomad_namespace \<Rightarrow> ('w, reconcile_result) reconciler_proc" where
  "finalizeNamespace kr nn =
     (if \<not> tk_containsFinalizer (kr_toolkit kr) (nns_meta nn) nomadNamespaceFinalizer then ret (Inr noRequeue)
      else andThen (kGet EvCluster (pf_clusters (kr_platform kr))
                     (objectKey (om_namespace (nns_meta nn)) (ns_clusterRef (nns_spec nn)))) (\<lambda>r.
        case r of
          Inl err \<Rightarrow> if kubeIsNotFound err then dropNamespaceFinalizer kr nn else ret (Inl err)
        | Inr nc \<Rightarrow>
            if om_deletionTimestamp (nc_meta nc) \<noteq> None then dropNamespaceFinalizer kr nn
            else if nc_phase nc \<noteq> PhaseReady
            then namespaceDeleteBlocked kr nn ReasonClusterNotReady ''cluster not Ready; cannot confirm namespace deletion''
            else bindE (clusterClient kr nc) (\<lambda>ops.
              let namespaceName = ns_namespaceName (nns_spec nn) in
              andThen (nomadCall (NDeleteNamespace namespaceName) (op_DeleteNamespace ops namespaceName)) (\<lambda>d.
              case d of
                Inl derr \<Rightarrow> if \<not> IsNotFound derr then namespaceDeleteFailed kr nn ops derr else dropNamespaceFinalizer kr nn
              | Inr _ \<Rightarrow> dropNamespaceFinalizer kr nn))))"

subsection \<open>Reconcile\<close>

definition ensureNamespaceFinalizer :: "'w namespace_reconciler \<Rightarrow> nomad_namespace \<Rightarrow> ('w, nomad_namespace) reconciler_proc" where
  "ensureNamespaceFinalizer kr nn =
     (if \<not> tk_containsFinalizer (kr_toolkit kr) (nns_meta nn) nomadNamespaceFinalizer
      then namespaceUpdate kr (nn\<lparr>nns_meta := tk_addFinalizer (kr_toolkit kr) (nns_meta nn) nomadNamespaceFinalizer\<rparr>)
      else ret (Inr nn))"

definition adoptNamespace :: "'w namespace_reconciler \<Rightarrow> nomad_cluster \<Rightarrow> nomad_namespace \<Rightarrow> ('w, nomad_namespace) reconciler_proc" where
  "adoptNamespace kr nc nn =
     bindE (liftE (tk_setControllerReference (kr_toolkit kr) (nc_meta nc) (nns_meta nn))) (\<lambda>m.
     let nn1 = nn\<lparr>nns_meta := m\<rparr> in
     if \<not> tk_ownerRefsEqual (kr_toolkit kr) (om_ownerReferences (nns_meta nn)) (om_ownerReferences m)
     then namespaceUpdate kr nn1 else ret (Inr nn1))"

definition ReconcileNamespace :: "'w namespace_reconciler \<Rightarrow> namespaced_name \<Rightarrow> ('w, reconcile_result) reconciler_proc" where
  "ReconcileNamespace kr key =
     andThen (kGet EvNamespace (pf_namespaces (kr_platform kr)) key) (\<lambda>r. case r of
       Inl err \<Rightarrow> ret (ignoreNotFound err)
     | Inr nn \<Rightarrow>
       if om_deletionTimestamp (nns_meta nn) \<noteq> None then finalizeNamespace kr nn
       else bindE (ensureNamespaceFinalizer kr nn) (\<lambda>nn.
         andThen (kGet EvCluster (pf_clusters (kr_platform kr))
                   (objectKey (om_namespace (nns_meta nn)) (ns_clusterRef (nns_spec nn)))) (\<lambda>c.
         case c of
           Inl err \<Rightarrow>
             if kubeIsNotFound err
             then namespaceNotReady kr nn ReasonClusterNotFound ''referenced NomadCluster does not exist'' (requeueAfter namespaceResync)
             else ret (Inl err)
         | Inr nc \<Rightarrow>
             if nc_phase nc \<noteq> PhaseReady
             then namespaceNotReady kr nn ReasonClusterNotReady ''referenced NomadCluster is not Ready'' (requeueAfter namespaceResync)
             else bindE (adoptNamespace kr nc nn) (\<lambda>nn.
                  bindE (clusterClient kr nc) (\<lambda>ops. reconcileNamespace kr nn ops)))))"

definition namespacesForCluster ::
    "'w namespace_reconciler \<Rightarrow> nomad_cluster \<Rightarrow> ('w, event, namespaced_name list) procedure" where
  "namespacesForCluster kr nc =
     andThen (kList EvNamespace (pf_namespaces (kr_platform kr)) (inNamespace (nc_namespace nc))) (\<lambda>r. ret (case r of
       Inl _ \<Rightarrow> []
     | Inr items \<Rightarrow> map (\<lambda>nn. objectKey (om_namespace (nns_meta nn)) (om_name (nns_meta nn)))
         (filter (\<lambda>nn. ns_clusterRef (nns_spec nn) = nc_name nc) items)))"

subsection \<open>The namespace as a managed resource\<close>

fun ownNamespace :: own_calls where
  "ownNamespace (EvNamespace c) = Some (map_store_call nns_meta c)"
| "ownNamespace _ = None"

fun namespaceReleased :: "event \<Rightarrow> bool" where
  "namespaceReleased (EvNomad (NDeleteNamespace _ (Inr _))) \<longleftrightarrow> True"
| "namespaceReleased (EvNomad (NDeleteNamespace _ (Inl e))) \<longleftrightarrow> IsNotFound e"
| "namespaceReleased _ \<longleftrightarrow> False"

lemma observeNamespace_meta [simp]: "nns_meta (observeNamespace nn) = nns_meta nn"
  by (simp add: observeNamespace_def)

lemmas namespace_steps = namespaceUpdate_def namespaceStatusUpdate_def namespaceNotReady_def dropNamespaceFinalizer_def
  namespaceDeleteBlocked_def namespaceDeleteFailed_def hasNamespaceNameConflict_def ensureNamespaceFinalizer_def
  adoptNamespace_def eventf_def

lemma namespace_safe:
  assumes "toolkit_laws (kr_toolkit kr)"
  shows "meets (ReconcileNamespace kr key) (\<lambda>r es.
    lifecycleSafe (kr_toolkit kr) nomadNamespaceFinalizer ownNamespace namespaceReleased es)"
  unfolding ReconcileNamespace_def finalizeNamespace_def reconcileNamespace_def namespace_steps kube_calls Let_def lifecycleSafe_def
  by (auto intro!: kwp split: sum.splits if_splits simp: lifecycle_simps toolkit_lawsD [OF assms]
      setControllerReference_keeps [OF assms])

interpretation namespace_resource: managed_resource "kr_toolkit kr" nomadNamespaceFinalizer ownNamespace namespaceReleased
    "ReconcileNamespace kr key" for kr key
  by unfold_locales (rule meetsD [OF namespace_safe])

subsection \<open>Upserts\<close>

fun namespaceDriftSeen :: "api_namespace \<Rightarrow> event \<Rightarrow> bool" where
  "namespaceDriftSeen d (EvNomad (NGetNamespace name (Inr existing))) \<longleftrightarrow> name = ans_Name d \<and> namespaceDrifted existing d \<and>
     (case existing of None \<Rightarrow> True | Some e \<Rightarrow> ans_rest d = ans_rest e)"
| "namespaceDriftSeen d _ \<longleftrightarrow> False"

fun noNamespaceConflictSeen :: "nomad_namespace \<Rightarrow> event \<Rightarrow> bool" where
  "noNamespaceConflictSeen nn (EvNamespace (SList opts (Inr items))) \<longleftrightarrow>
     opts = inNamespace (om_namespace (nns_meta nn)) \<and> \<not> list_ex (namespaceConflicts nn) items"
| "noNamespaceConflictSeen nn _ \<longleftrightarrow> False"

text \<open>
  What Nomad is sent is the spec's name, description and meta on top of what Nomad had, for a name
  that is not built in, after the siblings were listed without a conflict, and only on drift. A
  pass of this method writes nothing else to Nomad.
\<close>

fun namespaceWriteRule :: "nomad_namespace \<Rightarrow> event list \<Rightarrow> event \<Rightarrow> bool" where
  "namespaceWriteRule nn past (EvNomad (NUpsertNamespace d _)) \<longleftrightarrow>
     ans_Name d = ns_namespaceName (nns_spec nn) \<and> ans_Description d = ns_description (nns_spec nn) \<and>
     ans_Meta d = ns_meta (nns_spec nn) \<and> ans_Name d \<noteq> ''default'' \<and>
     some_call (noNamespaceConflictSeen nn) past \<and> some_call (namespaceDriftSeen d) past"
| "namespaceWriteRule nn past e \<longleftrightarrow> \<not> isNomadWrite e"

lemma desiredNamespace_fields [simp]:
  "ans_Name (desiredNamespace existing nn) = ns_namespaceName (nns_spec nn)"
  "ans_Description (desiredNamespace existing nn) = ns_description (nns_spec nn)"
  "ans_Meta (desiredNamespace existing nn) = ns_meta (nns_spec nn)"
  "ans_rest (desiredNamespace (Some e) nn) = ans_rest e"
  by (simp_all add: desiredNamespace_def Let_def)

lemma reconcileNamespace_writes: "meets (reconcileNamespace kr nn ops) (\<lambda>r es. obeys (namespaceWriteRule nn) es)"
  unfolding reconcileNamespace_def namespace_steps kube_calls Let_def obeys_def
  by (auto intro!: kwp split: sum.splits simp: trace_simps split: option.splits)

subsection \<open>Claims\<close>

text \<open>
  C9: for every behaviour of the API server and of Nomad, a pass over a NomadNamespace calls Nomad only
  after it saw the cluster Ready and the finalizer on the object, takes the finalizer off only when
  the cluster is missing or going, or Nomad deleted the namespace or had none, and never deletes the
  object itself.
\<close>

theorem namespace_lifecycle:
  assumes "toolkit_laws (kr_toolkit kr)"
  shows "lifecycleSafe (kr_toolkit kr) nomadNamespaceFinalizer ownNamespace namespaceReleased (events_of (ReconcileNamespace kr key w))"
  by (rule meetsD [OF namespace_safe [OF assms]])

definition sampleNamespace :: nomad_namespace where
  "sampleNamespace = \<lparr>nns_meta = deletedMeta ''team'' nomadNamespaceFinalizer,
     nns_spec = \<lparr>ns_clusterRef = ''prod'', ns_namespaceName = ''team'', ns_description = [], ns_meta = []\<rparr>,
     nns_status = \<lparr>nst_jobCount = 0, nst_observedGeneration = 0, nst_conditions = []\<rparr>\<rparr>"

definition sampleNamespaceOps :: "unit NomadNamespaceOps" where
  "sampleNamespaceOps = \<lparr>op_GetNamespace = (\<lambda>_ w. (Inr None, w)), op_UpsertNamespace = (\<lambda>_ w. (Inr (), w)),
     op_DeleteNamespace = (\<lambda>_ w. (Inr (), w)), op_CountNamespaceJobs = (\<lambda>_ w. (Inr 0, w))\<rparr>"

definition sampleNamespaceReconciler :: "unit namespace_reconciler" where
  "sampleNamespaceReconciler = sampleReconciler (samplePlatform\<lparr>pf_namespaces := fixedStore sampleNamespace\<rparr>) sampleNamespaceOps"

text \<open>A namespace under deletion on a Ready cluster: Nomad lets go of it, then the finalizer goes.\<close>

theorem namespace_lifecycle_witness:
  "let es = events_of (ReconcileNamespace sampleNamespaceReconciler (objectKey ''nomad'' ''team'') ()) in
     lifecycleSafe sampleToolkit nomadNamespaceFinalizer ownNamespace namespaceReleased es \<and>
     some_call isNomadWrite es \<and> some_call (takesFinalizerOff sampleToolkit nomadNamespaceFinalizer ownNamespace) es"
proof -
  have tk: "kr_toolkit sampleNamespaceReconciler = sampleToolkit"
    by (simp add: sampleNamespaceReconciler_def sampleReconciler_def)
  then have "toolkit_laws (kr_toolkit sampleNamespaceReconciler)" by (simp add: sampleToolkit_laws)
  note safe = namespace_lifecycle [OF this, of "objectKey ''nomad'' ''team''" "()"]
  have "some_call isNomadWrite (events_of (ReconcileNamespace sampleNamespaceReconciler (objectKey ''nomad'' ''team'') ()))
    \<and> some_call (takesFinalizerOff sampleToolkit nomadNamespaceFinalizer ownNamespace)
        (events_of (ReconcileNamespace sampleNamespaceReconciler (objectKey ''nomad'' ''team'') ()))"
    by (simp add: ReconcileNamespace_def finalizeNamespace_def namespace_steps sample_run sampleNamespaceReconciler_def sampleNamespace_def
        sampleNamespaceOps_def takesFinalizerOff_def)
  with safe tk show ?thesis by (simp add: Let_def)
qed

text \<open>
  The namespace written to Nomad carries the managed fields of the spec and keeps every unmanaged field
  of the existing namespace; it is written only on drift, for a name that is not built in, and never when
  another live NomadNamespace claims the same namespace on the same cluster.
\<close>

lemma namespace_upsert_gated: "obeys (namespaceWriteRule nn) (events_of (reconcileNamespace kr nn ops w))"
  by (rule meetsD [OF reconcileNamespace_writes])

text \<open>
  Reading back the namespace that was just written, the next pass finds no drift, so a converged namespace is
  never written again.
\<close>

lemma namespace_upsert_converges:
  "\<not> namespaceDrifted (Some (desiredNamespace existing nn)) (desiredNamespace (Some (desiredNamespace existing nn)) nn)"
  by (simp add: namespaceDrifted_def)

end
