(* ===== verification/NamespaceRuns.thy ===== *)
theory NamespaceRuns
  imports NamespaceCtl Converge
begin

section \<open>Sequences of passes over a namespace\<close>

text \<open>
  Nomad's namespaces as a server that keeps its state, and what passes over a NomadNamespace do to it:
  the namespace converges to the spec and is then left alone, Ready is reported only while Nomad holds
  the spec, and a finalizer that goes after a delete leaves no namespace behind.
\<close>

subsection \<open>Nomad's namespaces\<close>

type_synonym nomad_namespaces = "string \<Rightarrow> api_namespace option"

fun namespaceCall :: "event \<Rightarrow> bool" where
  "namespaceCall (EvNomad (NGetNamespace _ _)) = True"
| "namespaceCall (EvNomad (NUpsertNamespace _ _)) = True"
| "namespaceCall (EvNomad (NDeleteNamespace _ _)) = True"
| "namespaceCall _ = False"

text \<open>
  A lookup answers with the stored namespace. An upsert stores the namespace under its name, with fields the
  operator does not manage as Nomad fills them in. A delete removes it; it reports a missing namespace
  only when there is none. A call that fails may or may not have taken effect.
\<close>

inductive namespaceServer :: "nomad_namespaces \<Rightarrow> event \<Rightarrow> nomad_namespaces \<Rightarrow> bool" where
  get: "namespaceServer s (EvNomad (NGetNamespace n (Inr (s n)))) s"
| get_failed: "namespaceServer s (EvNomad (NGetNamespace n (Inl e))) s"
| upsert: "namespaceServer s (EvNomad (NUpsertNamespace d (Inr u))) (s(ans_Name d \<mapsto> d\<lparr>ans_rest := x\<rparr>))"
| upsert_failed: "namespaceServer s (EvNomad (NUpsertNamespace d (Inl e))) s"
| upsert_lost: "namespaceServer s (EvNomad (NUpsertNamespace d (Inl e))) (s(ans_Name d \<mapsto> d\<lparr>ans_rest := x\<rparr>))"
| delete: "namespaceServer s (EvNomad (NDeleteNamespace n (Inr u))) (s(n := None))"
| delete_missing: "s n = None \<Longrightarrow> namespaceServer s (EvNomad (NDeleteNamespace n (Inl e))) s"
| delete_failed: "\<not> IsNotFound e \<Longrightarrow> namespaceServer s (EvNomad (NDeleteNamespace n (Inl e))) s"
| delete_lost: "\<not> IsNotFound e \<Longrightarrow> namespaceServer s (EvNomad (NDeleteNamespace n (Inl e))) (s(n := None))"
| unrelated: "\<not> namespaceCall e \<Longrightarrow> namespaceServer s e s"

inductive_simps namespaceServer_get [simp]: "namespaceServer s (EvNomad (NGetNamespace n r)) t"
inductive_simps namespaceServer_upsert [simp]: "namespaceServer s (EvNomad (NUpsertNamespace d r)) t"
inductive_simps namespaceServer_delete [simp]: "namespaceServer s (EvNomad (NDeleteNamespace n r)) t"

lemma namespaceServer_unrelated: "\<not> namespaceCall e \<Longrightarrow> namespaceServer s e t \<longleftrightarrow> t = s"
  by (auto elim: namespaceServer.cases intro: namespaceServer.unrelated)

interpretation nomad_namespace_server: nomad_server namespaceServer
proof
  fix e :: event and s t
  assume "\<not> isNomadCall e"
  then have "\<not> namespaceCall e" by (cases e rule: namespaceCall.cases) simp_all
  then show "namespaceServer s e t \<longleftrightarrow> t = s" by (rule namespaceServer_unrelated)
qed

lemmas namespace_walk = nomad_namespace_server.walk namespaceServer_unrelated

lemma own_namespace_channel: "takesFinalizerOff tk fin ownNamespace e \<Longrightarrow> channelOf e = ChNamespace"
  by (cases e) (simp_all add: takesFinalizerOff_def)

subsection \<open>The goal and the reports\<close>

definition holdsNamespace :: "nomad_namespace_spec \<Rightarrow> nomad_namespaces \<Rightarrow> bool" where
  "holdsNamespace sp s \<longleftrightarrow> (case s (ns_namespaceName sp) of None \<Rightarrow> False
     | Some p \<Rightarrow> ans_Description p = ns_description sp \<and> mapsEqual (ans_Meta p) (ns_meta sp))"

fun reportsNamespaceReady :: "event \<Rightarrow> bool" where
  "reportsNamespaceReady (EvNamespace (SUpdateStatus nn _)) \<longleftrightarrow>
     map_option cn_status (findCondition NomadNamespaceCondReady (nst_conditions (nns_status nn))) = Some ConditionTrue"
| "reportsNamespaceReady _ \<longleftrightarrow> False"

lemma namespace_report_channel: "reportsNamespaceReady e \<Longrightarrow> channelOf e = ChNamespace"
  by (cases e) simp_all

lemma namespace_secrets_silent:
  assumes "onChannels {ChSecret} es"
  shows "\<not> some_call reportsNamespaceReady es" "\<not> some_call (takesFinalizerOff tk fin ownNamespace) es"
  by (rule onChannels_none [OF assms]; auto dest: namespace_report_channel own_namespace_channel)+

text \<open>The API server answered with a live object that asks for \<open>sp\<close>.\<close>

fun namespaceSeenAs :: "nomad_namespace_spec \<Rightarrow> event \<Rightarrow> bool" where
  "namespaceSeenAs sp (EvNamespace (SGet _ (Inr nn))) \<longleftrightarrow> nns_spec nn = sp \<and> om_deletionTimestamp (nns_meta nn) = None"
| "namespaceSeenAs sp (EvNamespace (SUpdate _ (Inr nn))) \<longleftrightarrow> nns_spec nn = sp"
| "namespaceSeenAs sp _ \<longleftrightarrow> True"

definition liveNamespacePass :: "'w namespace_reconciler \<Rightarrow> namespaced_name \<Rightarrow> nomad_namespace_spec \<Rightarrow> event list \<Rightarrow> bool" where
  "liveNamespacePass kr key sp es \<longleftrightarrow>
     (\<exists>w. es = events_of (ReconcileNamespace kr key w)) \<and> list_all (namespaceSeenAs sp) es"

lemma namespaceDrifted_holds:
  "namespaceDrifted (s (ns_namespaceName (nns_spec nn))) (desiredNamespace (s (ns_namespaceName (nns_spec nn))) nn) \<longleftrightarrow>
    \<not> holdsNamespace (nns_spec nn) s"
  by (simp add: namespaceDrifted_def holdsNamespace_def split: option.split)

lemma holdsNamespace_upsert:
  "holdsNamespace (nns_spec nn) (s(ns_namespaceName (nns_spec nn) \<mapsto> (desiredNamespace x nn)\<lparr>ans_rest := y\<rparr>))"
  by (simp add: holdsNamespace_def mapsEqual_refl)

lemma namespaceReady_setter [simp]:
  "findCondition ty (nst_conditions (nns_status (observeNamespace nn))) = findCondition ty (nst_conditions (nns_status nn))"
  "map_option cn_status (findCondition ty (nst_conditions (nns_status (setNamespaceCondition now nn ty st reason msg)))) = Some st"
  by (simp_all add: observeNamespace_def namespace_cond.entry)

lemma reconcileNamespace_settles:
  "meets (reconcileNamespace kr nn ops) (\<lambda>r es. \<forall>s s'. path namespaceServer s es s' \<longrightarrow>
     settles (holdsNamespace (nns_spec nn)) reportsNamespaceReady s es s')"
  unfolding reconcileNamespace_def namespace_steps kube_calls Let_def
  by (auto intro!: kwp split: sum.splits if_splits
      simp: settles_def trace_simps namespace_walk namespaceDrifted_holds holdsNamespace_upsert)


lemma deleted_namespace_any: "(\<And>r es. Q r es) \<Longrightarrow> meets (finalizeNamespace kr nn) Q"
  by (rule meets_trivial)

lemma ReconcileNamespace_settles:
  "meets (ReconcileNamespace kr key) (\<lambda>r es. \<forall>s s'. path namespaceServer s es s' \<longrightarrow> list_all (namespaceSeenAs sp) es \<longrightarrow>
     settles (holdsNamespace sp) reportsNamespaceReady s es s')"
  unfolding ReconcileNamespace_def ensureNamespaceFinalizer_def adoptNamespace_def namespaceUpdate_def namespaceNotReady_def
    namespaceStatusUpdate_def kube_calls Let_def
  by (auto intro!: kwp deleted_namespace_any reconcileNamespace_settles [THEN meets_mono] split: sum.splits if_splits
      simp: settles_skip settles_idle trace_simps namespace_walk secrets_no_write namespace_secrets_silent)

interpretation namespace_runs: converging namespaceServer "liveNamespacePass kr key sp" "holdsNamespace sp" reportsNamespaceReady
  for kr key sp
proof
  fix es s s'
  assume "liveNamespacePass kr key sp es" "path namespaceServer s es s'"
  then show "settles (holdsNamespace sp) reportsNamespaceReady s es s'"
    using meetsD [OF ReconcileNamespace_settles [of kr key sp]] by (auto simp: liveNamespacePass_def)
qed

subsection \<open>Deletion\<close>

text \<open>The API server first answered with the object \<open>nn\<close>, and it is being deleted.\<close>

fun deletedNamespaceSeen :: "nomad_namespace_spec \<Rightarrow> event list \<Rightarrow> bool" where
  "deletedNamespaceSeen sp (EvNamespace (SGet _ (Inr nn)) # es) \<longleftrightarrow> nns_spec nn = sp \<and> om_deletionTimestamp (nns_meta nn) \<noteq> None"
| "deletedNamespaceSeen sp es \<longleftrightarrow> False"

lemma finalizeNamespace_cleans:
  "meets (finalizeNamespace kr nn) (\<lambda>r es. \<forall>s s'. path namespaceServer s es s' \<longrightarrow>
     (s' = s \<or> s' = s(ns_namespaceName (nns_spec nn) := None)) \<and>
     (some_call (takesFinalizerOff (kr_toolkit kr) nomadNamespaceFinalizer ownNamespace) es \<and> quiet clusterGoneOrGoing es \<longrightarrow>
        s' (ns_namespaceName (nns_spec nn)) = None))"
  unfolding finalizeNamespace_def dropNamespaceFinalizer_def namespaceDeleteBlocked_def namespaceDeleteFailed_def namespaceUpdate_def
    namespaceStatusUpdate_def kube_calls Let_def
  by (auto intro!: kwp split: sum.splits if_splits simp: trace_simps namespace_walk namespace_secrets_silent takesFinalizerOff_def)


lemma deletedNamespace_pass:
  "meets (ReconcileNamespace kr key) (\<lambda>r es. \<forall>s s'. path namespaceServer s es s' \<longrightarrow> deletedNamespaceSeen sp es \<longrightarrow>
     (s' = s \<or> s' = s(ns_namespaceName sp := None)) \<and>
     (some_call (takesFinalizerOff (kr_toolkit kr) nomadNamespaceFinalizer ownNamespace) es \<and> quiet clusterGoneOrGoing es \<longrightarrow>
        s' (ns_namespaceName sp) = None))"
  unfolding ReconcileNamespace_def kube_calls
  by (rule meets_andThen_call)
    (auto split: sum.splits intro!: meets_ret meets_if finalizeNamespace_cleans [THEN meets_mono] meets_trivial [where p = "bindE m f" for m f]
      simp: trace_simps namespace_walk takesFinalizerOff_def)

subsection \<open>Claims\<close>

text \<open>
  Whatever the API server does, any number of passes over a live NomadNamespace whose spec stays the same
  and that nobody else writes to in Nomad leave Nomad's namespaces as they were or holding the spec; from
  the moment Nomad holds the spec no pass writes to it again; and Ready is reported only while it holds it.
\<close>

lemma namespace_run_converges:
  assumes "runs namespaceServer (liveNamespacePass kr key sp) s es s'"
  shows "settles (holdsNamespace sp) reportsNamespaceReady s es s'"
  by (rule namespace_runs.run_settles [OF assms])

definition liveNamespace :: nomad_namespace where
  "liveNamespace = sampleNamespace\<lparr>nns_meta := (newMeta ''team'' ''nomad'' [])\<lparr>om_finalizers := [nomadNamespaceFinalizer]\<rparr>\<rparr>"

definition liveNamespaceReconciler :: "unit namespace_reconciler" where
  "liveNamespaceReconciler = sampleReconciler (samplePlatform\<lparr>pf_namespaces := fixedStore liveNamespace\<rparr>) sampleNamespaceOps"

text \<open>A first pass over a namespace that Nomad does not have: it is registered and reported Ready.\<close>

lemma namespace_run_converges_witness:
  "let es = events_of (ReconcileNamespace liveNamespaceReconciler (objectKey ''nomad'' ''team'') ()) in
     some_call reportsNamespaceReady es \<and>
     (\<exists>s'. path namespaceServer Map.empty es s' \<and> settles (holdsNamespace (nns_spec liveNamespace)) reportsNamespaceReady Map.empty es s' \<and>
        holdsNamespace (nns_spec liveNamespace) s')"
proof -
  let ?es = "events_of (ReconcileNamespace liveNamespaceReconciler (objectKey ''nomad'' ''team'') ())"
  note run = ReconcileNamespace_def ensureNamespaceFinalizer_def adoptNamespace_def reconcileNamespace_def namespace_steps sample_run
    liveNamespaceReconciler_def liveNamespace_def sampleNamespace_def sampleNamespaceOps_def
    observe_def  namespaceConflicts_def namespaceDrifted_def
  have seen: "list_all (namespaceSeenAs (nns_spec liveNamespace)) ?es" and ready: "some_call reportsNamespaceReady ?es"
    by (simp_all add: run)
  obtain s' where path: "path namespaceServer Map.empty ?es s'"
    by (simp add: run namespace_walk) blast
  from seen have "liveNamespacePass liveNamespaceReconciler (objectKey ''nomad'' ''team'') (nns_spec liveNamespace) ?es"
    by (auto simp: liveNamespacePass_def)
  then have "runs namespaceServer (liveNamespacePass liveNamespaceReconciler (objectKey ''nomad'' ''team'') (nns_spec liveNamespace)) Map.empty ?es s'"
    using path by (rule runs_single)
  from namespace_run_converges [OF this] ready path show ?thesis by (auto simp: Let_def settles_def)
qed

text \<open>
  A pass over a NomadNamespace under deletion removes at most that namespace from Nomad, and when it takes
  the finalizer off although the cluster is there to stay, Nomad has no such namespace any more.
\<close>

lemma namespace_deletion_cleans:
  assumes "path namespaceServer s (events_of (ReconcileNamespace kr key w)) s'"
    and "deletedNamespaceSeen sp (events_of (ReconcileNamespace kr key w))"
  shows "(s' = s \<or> s' = s(ns_namespaceName sp := None)) \<and>
    (some_call (takesFinalizerOff (kr_toolkit kr) nomadNamespaceFinalizer ownNamespace) (events_of (ReconcileNamespace kr key w)) \<and>
     quiet clusterGoneOrGoing (events_of (ReconcileNamespace kr key w)) \<longrightarrow> s' (ns_namespaceName sp) = None)"
  using meetsD [OF deletedNamespace_pass [of kr key sp]] assms by blast

lemma namespace_deletion_cleans_witness:
  "\<exists>s'. path namespaceServer [''team'' \<mapsto> desiredNamespace None sampleNamespace]
      (events_of (ReconcileNamespace sampleNamespaceReconciler (objectKey ''nomad'' ''team'') ())) s' \<and> s' ''team'' = None"
proof -
  let ?es = "events_of (ReconcileNamespace sampleNamespaceReconciler (objectKey ''nomad'' ''team'') ())"
  note run = ReconcileNamespace_def finalizeNamespace_def namespace_steps sample_run sampleNamespaceReconciler_def sampleNamespace_def
    sampleNamespaceOps_def
  obtain s' where path: "path namespaceServer [''team'' \<mapsto> desiredNamespace None sampleNamespace] ?es s'"
    by (simp add: run namespace_walk)
  have "deletedNamespaceSeen (nns_spec sampleNamespace) ?es" and "quiet clusterGoneOrGoing ?es"
    and "some_call (takesFinalizerOff (kr_toolkit sampleNamespaceReconciler) nomadNamespaceFinalizer ownNamespace) ?es"
    by (simp_all add: run takesFinalizerOff_def)
  with namespace_deletion_cleans [OF path] path show ?thesis by (fastforce simp: sampleNamespace_def)
qed

end
