(* ===== verification/Job.thy ===== *)
theory Job
  imports Samples
begin

section \<open>The job reconciler (nomadjob_controller.go)\<close>

text \<open>
  A NomadJob carries the JSON of a Nomad job. It is decoded, its identity is taken from the spec,
  and it is registered when a plan says that something would change. The decoder of the third-party
  job type is a parameter \<open>dec\<close>; a null entry in the list of task groups decodes to a nil pointer.
\<close>

definition jobResync :: int where
  "jobResync = 60 * second"

definition nomadJobFinalizer :: string where
  "nomadJobFinalizer = ''nomad.operator.io/nomadjob-cleanup''"

definition errJobIDMismatch :: error where
  "errJobIDMismatch = Sentinel ''job.id does not match spec.jobID''"

definition errNamespaceMismatch :: error where
  "errNamespaceMismatch = Sentinel ''job.namespace does not match spec.nomadNamespace''"

type_synonym job_decoder = "string \<Rightarrow> error + api_job"

definition decodeJob :: "unicode_tables \<Rightarrow> job_decoder \<Rightarrow> nomad_job_spec \<Rightarrow> string \<Rightarrow> error + api_job" where
  "decodeJob uc dec spec region =
     (case dec (js_job spec) of
        Inl err \<Rightarrow> Inl (Wrapped ''decode spec.job: '' err [])
      | Inr job \<Rightarrow>
          if aj_ID job \<noteq> None \<and> the (aj_ID job) \<noteq> [] \<and> the (aj_ID job) \<noteq> js_jobID spec
          then Inl (Wrapped [] errJobIDMismatch ('': job.id='' @ goQuote uc (the (aj_ID job)) @
                 '' spec.jobID='' @ goQuote uc (js_jobID spec)))
          else if aj_Namespace job \<noteq> None \<and> the (aj_Namespace job) \<noteq> [] \<and>
                  the (aj_Namespace job) \<noteq> js_nomadNamespace spec
          then Inl (Wrapped [] errNamespaceMismatch ('': job.namespace='' @ goQuote uc (the (aj_Namespace job)) @
                 '' spec.nomadNamespace='' @ goQuote uc (js_nomadNamespace spec)))
          else Inr (job\<lparr>aj_ID := Some (js_jobID spec), aj_Region := Some region,
                 aj_Namespace := Some (js_nomadNamespace spec)\<rparr>))"

type_synonym 'w job_reconciler = "('w, 'w NomadJobOps) kind_reconciler"

definition jobUpdate :: "'w job_reconciler \<Rightarrow> nomad_job \<Rightarrow> ('w, nomad_job) reconciler_proc" where
  "jobUpdate kr nj = kUpdate EvJob (pf_jobs (kr_platform kr)) nj"

definition jobStatusUpdate :: "'w job_reconciler \<Rightarrow> nomad_job \<Rightarrow> ('w, reconcile_result) reconciler_proc" where
  "jobStatusUpdate kr nj =
     bindE (kUpdateStatus EvJob (pf_jobs (kr_platform kr)) nj) (\<lambda>_. ret (Inr (requeueAfter jobResync)))"

definition observeJob :: "nomad_job \<Rightarrow> nomad_job" where
  "observeJob nj = nj\<lparr>nj_status := (nj_status nj)\<lparr>jt_observedGeneration := om_generation (nj_meta nj)\<rparr>\<rparr>"

definition jobNotReady :: "'w job_reconciler \<Rightarrow> nomad_job \<Rightarrow> string \<Rightarrow> string \<Rightarrow> ('w, reconcile_result) reconciler_proc" where
  "jobNotReady kr nj reason msg = stamped kr (\<lambda>now.
     jobStatusUpdate kr (observeJob (setJobCondition now nj NomadJobCondReady ConditionFalse reason msg)))"

subsection \<open>Registering the job\<close>

definition decodeReason :: "error \<Rightarrow> string" where
  "decodeReason err =
     (let reason = ReasonInvalidJobSpec;
          reason = (if errorsIs err errJobIDMismatch then ReasonJobIDMismatch else reason)
      in if errorsIs err errNamespaceMismatch then ReasonNamespaceMismatch else reason)"

definition groupStatus ::
    "(string \<times> task_group_summary) list \<Rightarrow> string \<Rightarrow> task_group \<Rightarrow> nomad_job_group_status" where
  "groupStatus summary name g =
     \<lparr>jg_running = (case map_of summary name of Some s \<Rightarrow> tgs_Running s | None \<Rightarrow> 0),
      jg_desired = (case tg_Count g of Some n \<Rightarrow> n | None \<Rightarrow> 0)\<rparr>"

fun groupsFrom ::
    "(string \<times> task_group_summary) list \<Rightarrow> (string \<times> nomad_job_group_status) list \<Rightarrow> task_group option list \<Rightarrow>
     error + (string \<times> nomad_job_group_status) list" where
  "groupsFrom summary groups [] = Inr groups"
| "groupsFrom summary groups (None # gs) = Inl nilDereference"
| "groupsFrom summary groups (Some g # gs) =
     (let name = (case tg_Name g of Some n \<Rightarrow> n | None \<Rightarrow> []) in
      groupsFrom summary (mapPut name (groupStatus summary name g) groups) gs)"

definition observeInfo :: "nomad_job \<Rightarrow> api_job option \<Rightarrow> nomad_job" where
  "observeInfo nj info = (case info of
     None \<Rightarrow> nj
   | Some j \<Rightarrow>
       let nj1 = (case aj_Status j of None \<Rightarrow> nj
             | Some s \<Rightarrow> nj\<lparr>nj_status := (nj_status nj)\<lparr>jt_jobStatus := s\<rparr>\<rparr>)
       in (case aj_Version j of None \<Rightarrow> nj1
             | Some v \<Rightarrow> nj1\<lparr>nj_status := (nj_status nj1)\<lparr>jt_jobVersion := sint v\<rparr>\<rparr>))"

definition registerIfChanged ::
    "'w job_reconciler \<Rightarrow> 'w NomadJobOps \<Rightarrow> api_job \<Rightarrow> bool \<Rightarrow> ('w, unit) reconciler_proc" where
  "registerIfChanged kr ops desired changed =
     (if changed
      then bindE (nomadCall (NRegisterJob desired) (op_RegisterJob ops desired)) (\<lambda>warnings.
           if warnings \<noteq> [] then eventf kr ''Normal'' ''RegisterWarnings'' ''RegisterJob'' warnings
           else ret (Inr ()))
      else ret (Inr ()))"

definition reconcileJob ::
    "'w job_reconciler \<Rightarrow> job_decoder \<Rightarrow> nomad_job \<Rightarrow> 'w NomadJobOps \<Rightarrow> string \<Rightarrow> ('w, reconcile_result) reconciler_proc" where
  "reconcileJob kr dec nj ops region =
     (let ns = js_nomadNamespace (nj_spec nj); jobID = js_jobID (nj_spec nj) in
      case decodeJob (tk_unicode (kr_toolkit kr)) dec (nj_spec nj) region of
        Inl err \<Rightarrow> jobNotReady kr nj (decodeReason err) (errorText err)
      | Inr desired \<Rightarrow>
          bindE (nomadCall (NPlanJob desired) (op_PlanJob ops desired)) (\<lambda>changed.
          bindE (registerIfChanged kr ops desired changed) (\<lambda>_.
          bindE (nomadCall (NGetJob ns jobID) (op_GetJob ops ns jobID)) (\<lambda>info.
          let nj = observeInfo nj info in
          bindE (nomadCall (NJobGroupSummary ns jobID) (op_JobGroupSummary ops ns jobID)) (\<lambda>summary.
          bindE (liftE (groupsFrom summary [] (aj_TaskGroups desired))) (\<lambda>groups.
          let nj = nj\<lparr>nj_status := (nj_status nj)\<lparr>jt_groups := groups\<rparr>\<rparr> in
          stamped kr (\<lambda>now.
            jobStatusUpdate kr (observeJob (setJobCondition now nj NomadJobCondReady ConditionTrue
              ReasonRegistered ''job registered onto Nomad'')))))))))"

subsection \<open>Deregistering the job\<close>

definition dropJobFinalizer :: "'w job_reconciler \<Rightarrow> nomad_job \<Rightarrow> ('w, reconcile_result) reconciler_proc" where
  "dropJobFinalizer kr nj =
     bindE (jobUpdate kr (nj\<lparr>nj_meta := tk_removeFinalizer (kr_toolkit kr) (nj_meta nj) nomadJobFinalizer\<rparr>))
       (\<lambda>_. ret (Inr noRequeue))"

definition jobDeleteBlocked ::
    "'w job_reconciler \<Rightarrow> nomad_job \<Rightarrow> string \<Rightarrow> string \<Rightarrow> ('w, reconcile_result) reconciler_proc" where
  "jobDeleteBlocked kr nj reason msg = stamped kr (\<lambda>now.
     jobStatusUpdate kr (setJobCondition now nj NomadJobCondDeleteBlocked ConditionTrue reason msg))"

definition finalizeJob :: "'w job_reconciler \<Rightarrow> nomad_job \<Rightarrow> ('w, reconcile_result) reconciler_proc" where
  "finalizeJob kr nj =
     (if \<not> tk_containsFinalizer (kr_toolkit kr) (nj_meta nj) nomadJobFinalizer then ret (Inr noRequeue)
      else andThen (kGet EvCluster (pf_clusters (kr_platform kr))
                     (objectKey (om_namespace (nj_meta nj)) (js_clusterRef (nj_spec nj)))) (\<lambda>r.
        case r of
          Inl err \<Rightarrow> if kubeIsNotFound err then dropJobFinalizer kr nj else ret (Inl err)
        | Inr nc \<Rightarrow>
            if om_deletionTimestamp (nc_meta nc) \<noteq> None then dropJobFinalizer kr nj
            else if nc_phase nc \<noteq> PhaseReady
            then jobDeleteBlocked kr nj ReasonClusterNotReady ''cluster not Ready; cannot confirm job deregistration''
            else bindE (clusterClient kr nc) (\<lambda>ops.
              let ns = js_nomadNamespace (nj_spec nj); jobID = js_jobID (nj_spec nj) in
              andThen (nomadCall (NDeregisterJob ns jobID True) (op_DeregisterJob ops ns jobID True)) (\<lambda>d.
              case d of
                Inl derr \<Rightarrow> if \<not> IsNotFound derr
                  then jobDeleteBlocked kr nj ReasonDeregisterFailed (errorText derr) else dropJobFinalizer kr nj
              | Inr _ \<Rightarrow> dropJobFinalizer kr nj))))"

subsection \<open>Reconcile\<close>

definition ensureJobFinalizer :: "'w job_reconciler \<Rightarrow> nomad_job \<Rightarrow> ('w, nomad_job) reconciler_proc" where
  "ensureJobFinalizer kr nj =
     (if \<not> tk_containsFinalizer (kr_toolkit kr) (nj_meta nj) nomadJobFinalizer
      then jobUpdate kr (nj\<lparr>nj_meta := tk_addFinalizer (kr_toolkit kr) (nj_meta nj) nomadJobFinalizer\<rparr>)
      else ret (Inr nj))"

definition adoptJob :: "'w job_reconciler \<Rightarrow> nomad_cluster \<Rightarrow> nomad_job \<Rightarrow> ('w, nomad_job) reconciler_proc" where
  "adoptJob kr nc nj =
     bindE (liftE (tk_setControllerReference (kr_toolkit kr) (nc_meta nc) (nj_meta nj))) (\<lambda>m.
     let nj1 = nj\<lparr>nj_meta := m\<rparr> in
     if \<not> tk_ownerRefsEqual (kr_toolkit kr) (om_ownerReferences (nj_meta nj)) (om_ownerReferences m)
     then jobUpdate kr nj1 else ret (Inr nj1))"

definition ReconcileJob ::
    "'w job_reconciler \<Rightarrow> job_decoder \<Rightarrow> namespaced_name \<Rightarrow> ('w, reconcile_result) reconciler_proc" where
  "ReconcileJob kr dec key =
     andThen (kGet EvJob (pf_jobs (kr_platform kr)) key) (\<lambda>r. case r of
       Inl err \<Rightarrow> ret (ignoreNotFound err)
     | Inr nj \<Rightarrow>
       if om_deletionTimestamp (nj_meta nj) \<noteq> None then finalizeJob kr nj
       else bindE (ensureJobFinalizer kr nj) (\<lambda>nj.
         andThen (kGet EvCluster (pf_clusters (kr_platform kr))
                   (objectKey (om_namespace (nj_meta nj)) (js_clusterRef (nj_spec nj)))) (\<lambda>c.
         case c of
           Inl err \<Rightarrow>
             if kubeIsNotFound err
             then jobNotReady kr nj ReasonClusterNotFound ''referenced NomadCluster does not exist''
             else ret (Inl err)
         | Inr nc \<Rightarrow>
             if nc_phase nc \<noteq> PhaseReady
             then jobNotReady kr nj ReasonClusterNotReady ''referenced NomadCluster is not Ready''
             else bindE (adoptJob kr nc nj) (\<lambda>nj.
                  bindE (clusterClient kr nc) (\<lambda>ops. reconcileJob kr dec nj ops (cs_region (nc_spec nc)))))))"

definition jobsForCluster ::
    "'w job_reconciler \<Rightarrow> nomad_cluster \<Rightarrow> ('w, event, namespaced_name list) procedure" where
  "jobsForCluster kr nc =
     andThen (kList EvJob (pf_jobs (kr_platform kr)) (inNamespace (nc_namespace nc))) (\<lambda>r. ret (case r of
       Inl _ \<Rightarrow> []
     | Inr items \<Rightarrow> map (\<lambda>nj. objectKey (om_namespace (nj_meta nj)) (om_name (nj_meta nj)))
         (filter (\<lambda>nj. js_clusterRef (nj_spec nj) = nc_name nc) items)))"

subsection \<open>The job as a managed resource\<close>

fun ownJob :: own_calls where
  "ownJob (EvJob c) = Some (map_store_call nj_meta c)"
| "ownJob _ = None"

fun jobReleased :: "event \<Rightarrow> bool" where
  "jobReleased (EvNomad (NDeregisterJob _ _ purge (Inr _))) \<longleftrightarrow> purge"
| "jobReleased (EvNomad (NDeregisterJob _ _ _ (Inl e))) \<longleftrightarrow> IsNotFound e"
| "jobReleased _ \<longleftrightarrow> False"

lemma observeJob_meta [simp]: "nj_meta (observeJob nj) = nj_meta nj"
  by (simp add: observeJob_def)

lemma observeInfo_meta [simp]: "nj_meta (observeInfo nj info) = nj_meta nj"
  by (simp add: observeInfo_def Let_def split: option.split)

lemmas job_steps = jobUpdate_def jobStatusUpdate_def jobNotReady_def dropJobFinalizer_def
  jobDeleteBlocked_def ensureJobFinalizer_def adoptJob_def eventf_def registerIfChanged_def

lemma job_safe:
  assumes "toolkit_laws (kr_toolkit kr)"
  shows "meets (ReconcileJob kr dec key) (\<lambda>r es.
    lifecycleSafe (kr_toolkit kr) nomadJobFinalizer ownJob jobReleased es)"
  unfolding ReconcileJob_def finalizeJob_def reconcileJob_def job_steps kube_calls Let_def lifecycleSafe_def
  by (auto intro!: kwp split: sum.splits if_splits simp: lifecycle_simps toolkit_lawsD [OF assms]
      setControllerReference_keeps [OF assms])

interpretation job_resource: managed_resource "kr_toolkit kr" nomadJobFinalizer ownJob jobReleased
    "ReconcileJob kr dec key" for kr dec key
  by unfold_locales (rule meetsD [OF job_safe])

subsection \<open>Registration\<close>

fun planChanged :: "api_job \<Rightarrow> event \<Rightarrow> bool" where
  "planChanged d (EvNomad (NPlanJob d' (Inr changed))) \<longleftrightarrow> d' = d \<and> changed"
| "planChanged d _ \<longleftrightarrow> False"

fun jobWriteRule :: "unicode_tables \<Rightarrow> job_decoder \<Rightarrow> nomad_job \<Rightarrow> string \<Rightarrow> event list \<Rightarrow> event \<Rightarrow> bool" where
  "jobWriteRule uc dec nj region past (EvNomad (NRegisterJob d _)) \<longleftrightarrow>
     decodeJob uc dec (nj_spec nj) region = Inr d \<and> some_call (planChanged d) past"
| "jobWriteRule uc dec nj region past e \<longleftrightarrow> \<not> isNomadWrite e"

lemma reconcileJob_writes:
  "meets (reconcileJob kr dec nj ops region)
     (\<lambda>r es. obeys (jobWriteRule (tk_unicode (kr_toolkit kr)) dec nj region) es)"
  unfolding reconcileJob_def job_steps kube_calls Let_def obeys_def
  by (auto intro!: kwp split: sum.splits simp: trace_simps)

text \<open>What a decoded job is allowed to say about its own identity.\<close>

definition agrees :: "string option \<Rightarrow> string \<Rightarrow> bool" where
  "agrees given authoritative \<longleftrightarrow> given = None \<or> given = Some [] \<or> given = Some authoritative"

definition decodedAs :: "api_job \<Rightarrow> nomad_job_spec \<Rightarrow> string \<Rightarrow> error + api_job \<Rightarrow> bool" where
  "decodedAs job spec region r \<longleftrightarrow>
     (if \<not> agrees (aj_ID job) (js_jobID spec) then
        (case r of Inl e \<Rightarrow> decodeReason e = ReasonJobIDMismatch | Inr _ \<Rightarrow> False)
      else if \<not> agrees (aj_Namespace job) (js_nomadNamespace spec) then
        (case r of Inl e \<Rightarrow> decodeReason e = ReasonNamespaceMismatch | Inr _ \<Rightarrow> False)
      else r = Inr (job\<lparr>aj_ID := Some (js_jobID spec), aj_Region := Some region,
             aj_Namespace := Some (js_nomadNamespace spec)\<rparr>))"

lemma decodeJob_cases:
  assumes "dec (js_job spec) = Inr job"
  shows "decodedAs job spec region (decodeJob uc dec spec region)"
  using assms
  by (auto simp: decodeJob_def decodedAs_def agrees_def decodeReason_def errJobIDMismatch_def
      errNamespaceMismatch_def)

lemma groupsFrom_lookup:
  "groupsFrom summary groups gs = Inr m \<Longrightarrow>
    map_of m name = (case find (\<lambda>g. (case tg_Name g of Some n \<Rightarrow> n | None \<Rightarrow> []) = name) (rev (map the gs)) of
      Some g \<Rightarrow> Some (groupStatus summary name g) | None \<Rightarrow> map_of groups name)"
proof (induction summary groups gs rule: groupsFrom.induct)
  case (3 summary groups g gs)
  then show ?case
    by (auto simp: Let_def find_append split: option.splits)
qed simp_all

lemma sint_64:
  "sint (v :: 64 word) = (if unat v < 2 ^ 63 then int (unat v) else int (unat v) - 2 ^ 64)"
proof -
  have range: "0 \<le> uint v" "uint v < 2 ^ 64" using uint_lt2p [of v] by simp_all
  have "sint v = (uint v + 2 ^ 63) mod 2 ^ 64 - 2 ^ 63"
    by (simp add: sint_uint signed_take_bit_eq_take_bit_shift take_bit_int_def)
  also have "\<dots> = (if uint v < 2 ^ 63 then uint v else uint v - 2 ^ 64)"
  proof (cases "uint v < 2 ^ 63")
    case True
    with range have "(uint v + 2 ^ 63) mod 2 ^ 64 = uint v + 2 ^ 63" by (intro mod_pos_pos_trivial) simp_all
    with True show ?thesis by simp
  next
    case False
    have "(uint v + 2 ^ 63) mod 2 ^ 64 = (uint v - 2 ^ 63 + 2 ^ 64) mod 2 ^ 64" by (rule arg_cong [where f = "\<lambda>x. x mod 2 ^ 64"]) simp
    also have "\<dots> = (uint v - 2 ^ 63) mod 2 ^ 64" by (rule mod_add_self2)
    also have "\<dots> = uint v - 2 ^ 63" using range False by (intro mod_pos_pos_trivial) simp_all
    finally show ?thesis using False by simp
  qed
  finally have eq: "sint v = (if uint v < 2 ^ 63 then uint v else uint v - 2 ^ 64)" .
  have "unat v < 2 ^ 63 \<longleftrightarrow> int (unat v) < int (2 ^ 63)" by (simp only: of_nat_less_iff)
  then have "unat v < 2 ^ 63 \<longleftrightarrow> uint v < 2 ^ 63" by simp
  then show ?thesis unfolding eq by simp
qed

subsection \<open>Claims\<close>

text \<open>
  C10: for every behaviour of the API server and of Nomad, a pass over a NomadJob calls Nomad only after
  it saw the cluster Ready and the finalizer on the object, takes the finalizer off only when the
  cluster is missing or going, or Nomad purged the job or had none, and never deletes the object
  itself.
\<close>

theorem job_lifecycle:
  assumes "toolkit_laws (kr_toolkit kr)"
  shows "lifecycleSafe (kr_toolkit kr) nomadJobFinalizer ownJob jobReleased (events_of (ReconcileJob kr dec key w))"
  by (rule meetsD [OF job_safe [OF assms]])

definition sampleJob :: nomad_job where
  "sampleJob = \<lparr>nj_meta = deletedMeta ''web'' nomadJobFinalizer,
     nj_spec = \<lparr>js_clusterRef = ''prod'', js_jobID = ''web'', js_nomadNamespace = ''team'', js_job = ''{}''\<rparr>,
     nj_status = \<lparr>jt_jobStatus = [], jt_jobVersion = 0, jt_groups = [], jt_observedGeneration = 0, jt_conditions = []\<rparr>\<rparr>"

definition sampleJobOps :: "unit NomadJobOps" where
  "sampleJobOps = \<lparr>op_GetJob = (\<lambda>_ _ w. (Inr None, w)), op_PlanJob = (\<lambda>_ w. (Inr True, w)),
     op_RegisterJob = (\<lambda>_ w. (Inr [], w)), op_DeregisterJob = (\<lambda>_ _ _ w. (Inr (), w)),
     op_JobGroupSummary = (\<lambda>_ _ w. (Inr [], w))\<rparr>"

definition sampleJobReconciler :: "unit job_reconciler" where
  "sampleJobReconciler = sampleReconciler (samplePlatform\<lparr>pf_jobs := fixedStore sampleJob\<rparr>) sampleJobOps"

text \<open>A job under deletion on a Ready cluster: Nomad lets go of it, then the finalizer goes.\<close>

theorem job_lifecycle_witness:
  "let es = events_of (ReconcileJob sampleJobReconciler (\<lambda>_. Inl (PlainError [])) (objectKey ''nomad'' ''web'') ()) in
     lifecycleSafe sampleToolkit nomadJobFinalizer ownJob jobReleased es \<and>
     some_call isNomadWrite es \<and> some_call (takesFinalizerOff sampleToolkit nomadJobFinalizer ownJob) es"
proof -
  have tk: "kr_toolkit sampleJobReconciler = sampleToolkit"
    by (simp add: sampleJobReconciler_def sampleReconciler_def)
  then have "toolkit_laws (kr_toolkit sampleJobReconciler)" by (simp add: sampleToolkit_laws)
  note safe = job_lifecycle [OF this, of "(\<lambda>_. Inl (PlainError []))" "objectKey ''nomad'' ''web''" "()"]
  have "some_call isNomadWrite (events_of (ReconcileJob sampleJobReconciler (\<lambda>_. Inl (PlainError [])) (objectKey ''nomad'' ''web'') ()))
    \<and> some_call (takesFinalizerOff sampleToolkit nomadJobFinalizer ownJob)
        (events_of (ReconcileJob sampleJobReconciler (\<lambda>_. Inl (PlainError [])) (objectKey ''nomad'' ''web'') ()))"
    by (simp add: ReconcileJob_def finalizeJob_def job_steps sample_run sampleJobReconciler_def sampleJob_def
        sampleJobOps_def takesFinalizerOff_def)
  with safe tk show ?thesis by (simp add: Let_def)
qed

text \<open>
  A job is registered only if it is the decoded spec and a plan of that very job, in the same
  pass, reported a change; reconciling writes nothing else to Nomad.
\<close>

lemma job_register_gated:
  "obeys (jobWriteRule (tk_unicode (kr_toolkit kr)) dec nj region)
     (events_of (reconcileJob kr dec nj ops region w))"
  by (rule meetsD [OF reconcileJob_writes])

text \<open>
  Decoding is decided by the identity the JSON claims: an id that disagrees with the spec is refused
  as JobIDMismatch, then a namespace that disagrees as NamespaceMismatch; otherwise the spec's id,
  namespace and the cluster's region are injected and everything else is kept.
\<close>

lemma decodeJob_identity:
  assumes "dec (js_job spec) = Inr job"
  shows "decodedAs job spec region (decodeJob uc dec spec region)"
  using assms by (rule decodeJob_cases)

definition sampleApiJob :: api_job where
  "sampleApiJob = \<lparr>aj_ID = Some ''web'', aj_Region = None, aj_Namespace = Some ''other'', aj_TaskGroups = [],
     aj_Status = None, aj_Version = None, aj_rest = []\<rparr>"

definition sampleJobSpec :: nomad_job_spec where
  "sampleJobSpec = \<lparr>js_clusterRef = ''prod'', js_jobID = ''web'', js_nomadNamespace = ''default'', js_job = ''{}''\<rparr>"

text \<open>
  The job version of the status is Nomad's unsigned version read as a signed 64-bit number: the
  same number exactly while it is below 2 to the 63, negative from there on.
\<close>

lemma job_version_wraps:
  "jt_jobVersion (nj_status (observeInfo nj (Some (j\<lparr>aj_Version := Some v\<rparr>)))) =
    (if unat v < 2 ^ 63 then int (unat v) else int (unat v) - 2 ^ 64)"
proof -
  have "jt_jobVersion (nj_status (observeInfo nj (Some (j\<lparr>aj_Version := Some v\<rparr>)))) = sint v"
    by (simp add: observeInfo_def Let_def)
  also have "\<dots> = (if unat v < 2 ^ 63 then int (unat v) else int (unat v) - 2 ^ 64)"
    by (rule sint_64)
  finally show ?thesis .
qed

text \<open>
  The group table of the status has, under each name, the counts of the last task group of that
  name: desired from the spec, running from the summary, 0 where either is silent.
\<close>

lemma job_groups_lookup:
  assumes "groupsFrom summary [] gs = Inr m"
  shows "map_of m name = map_option (groupStatus summary name)
    (find (\<lambda>g. (case tg_Name g of Some n \<Rightarrow> n | None \<Rightarrow> []) = name) (rev (map the gs)))"
  unfolding groupsFrom_lookup [OF assms] by (simp split: option.split)

end
