(* ===== verification/JobRuns.thy ===== *)
theory JobRuns
  imports Job Converge
begin

section \<open>Sequences of passes over a job\<close>

text \<open>
  Nomad's jobs as a server that keeps the last submission of each job and plans against it, and what
  passes over a NomadJob do to it: a job is registered until a plan reports no change and is then
  left alone, Ready is reported only for a registered job, and a finalizer that goes after a
  deregistration leaves no job behind.
\<close>

subsection \<open>Nomad's jobs\<close>

type_synonym nomad_jobs = "string \<times> string \<Rightarrow> api_job option"

definition jobKeyOf :: "api_job \<Rightarrow> string \<times> string" where
  "jobKeyOf d = (case aj_Namespace d of None \<Rightarrow> [] | Some n \<Rightarrow> n, case aj_ID d of None \<Rightarrow> [] | Some i \<Rightarrow> i)"

fun jobCall :: "event \<Rightarrow> bool" where
  "jobCall (EvNomad (NPlanJob _ _)) = True"
| "jobCall (EvNomad (NRegisterJob _ _)) = True"
| "jobCall (EvNomad (NDeregisterJob _ _ _ _)) = True"
| "jobCall _ = False"

text \<open>
  \<open>same j d\<close> is Nomad's judgement that submitting \<open>d\<close> would not change the registered job \<open>j\<close>;
  submitting the registered job itself never does. A plan reports a change unless the job is
  registered that way. A purging deregistration removes the job; one that does not purge leaves it
  in a state the operator does not rely on. A call that fails may or may not have taken effect.
\<close>

definition unchanged :: "(api_job \<Rightarrow> api_job \<Rightarrow> bool) \<Rightarrow> nomad_jobs \<Rightarrow> api_job \<Rightarrow> bool" where
  "unchanged same s d \<longleftrightarrow> (case s (jobKeyOf d) of None \<Rightarrow> False | Some j \<Rightarrow> j = d \<or> same j d)"

definition onlyAt :: "'k \<Rightarrow> ('k \<Rightarrow> 'v) \<Rightarrow> ('k \<Rightarrow> 'v) \<Rightarrow> bool" where
  "onlyAt k s t \<longleftrightarrow> t = s(k := t k)"

inductive jobServer :: "(api_job \<Rightarrow> api_job \<Rightarrow> bool) \<Rightarrow> nomad_jobs \<Rightarrow> event \<Rightarrow> nomad_jobs \<Rightarrow> bool" for same where
  plan: "jobServer same s (EvNomad (NPlanJob d (Inr (\<not> unchanged same s d)))) s"
| plan_failed: "jobServer same s (EvNomad (NPlanJob d (Inl e))) s"
| register: "jobServer same s (EvNomad (NRegisterJob d (Inr warnings))) (s(jobKeyOf d \<mapsto> d))"
| register_failed: "jobServer same s (EvNomad (NRegisterJob d (Inl e))) s"
| register_lost: "jobServer same s (EvNomad (NRegisterJob d (Inl e))) (s(jobKeyOf d \<mapsto> d))"
| purge: "jobServer same s (EvNomad (NDeregisterJob ns i True (Inr u))) (s((ns, i) := None))"
| stop: "onlyAt (ns, i) s t \<Longrightarrow> jobServer same s (EvNomad (NDeregisterJob ns i False (Inr u))) t"
| missing: "s (ns, i) = None \<Longrightarrow> jobServer same s (EvNomad (NDeregisterJob ns i purge (Inl e))) s"
| deregister_failed: "\<not> IsNotFound e \<Longrightarrow> jobServer same s (EvNomad (NDeregisterJob ns i purge (Inl e))) s"
| deregister_lost: "\<not> IsNotFound e \<Longrightarrow> onlyAt (ns, i) s t \<Longrightarrow> jobServer same s (EvNomad (NDeregisterJob ns i purge (Inl e))) t"
| unrelated: "\<not> jobCall e \<Longrightarrow> jobServer same s e s"

inductive_simps jobServer_plan [simp]: "jobServer same s (EvNomad (NPlanJob d r)) t"
inductive_simps jobServer_register [simp]: "jobServer same s (EvNomad (NRegisterJob d r)) t"
inductive_simps jobServer_deregister [simp]: "jobServer same s (EvNomad (NDeregisterJob ns i purge r)) t"

lemma jobServer_unrelated: "\<not> jobCall e \<Longrightarrow> jobServer same s e t \<longleftrightarrow> t = s"
  by (auto elim: jobServer.cases intro: jobServer.unrelated)

interpretation nomad_job_server: nomad_server "jobServer same" for same
proof
  fix e :: event and s t
  assume "\<not> isNomadCall e"
  then have "\<not> jobCall e" by (cases e rule: jobCall.cases) simp_all
  then show "jobServer same s e t \<longleftrightarrow> t = s" by (rule jobServer_unrelated)
qed

lemmas job_walk = nomad_job_server.walk jobServer_unrelated

lemma own_job_channel: "takesFinalizerOff tk fin ownJob e \<Longrightarrow> channelOf e = ChJob"
  by (cases e) (simp_all add: takesFinalizerOff_def)

subsection \<open>The goal and the reports\<close>

definition holdsJob ::
    "(api_job \<Rightarrow> api_job \<Rightarrow> bool) \<Rightarrow> unicode_tables \<Rightarrow> job_decoder \<Rightarrow> nomad_job_spec \<Rightarrow> string \<Rightarrow> nomad_jobs \<Rightarrow> bool" where
  "holdsJob same uc dec sp region s \<longleftrightarrow> (case decodeJob uc dec sp region of
     Inl _ \<Rightarrow> False | Inr d \<Rightarrow> unchanged same s d)"

fun reportsJobReady :: "event \<Rightarrow> bool" where
  "reportsJobReady (EvJob (SUpdateStatus nj _)) \<longleftrightarrow>
     map_option cn_status (findCondition NomadJobCondReady (jt_conditions (nj_status nj))) = Some ConditionTrue"
| "reportsJobReady _ \<longleftrightarrow> False"

lemma job_report_channel: "reportsJobReady e \<Longrightarrow> channelOf e = ChJob"
  by (cases e) simp_all

lemma job_secrets_silent:
  assumes "onChannels {ChSecret} es"
  shows "\<not> some_call reportsJobReady es" "\<not> some_call (takesFinalizerOff tk fin ownJob) es"
  by (rule onChannels_none [OF assms]; auto dest: job_report_channel own_job_channel)+

text \<open>The API server answered with a live object that asks for \<open>sp\<close>, and with the cluster's region.\<close>

fun jobSeenAs :: "nomad_job_spec \<Rightarrow> string \<Rightarrow> event \<Rightarrow> bool" where
  "jobSeenAs sp region (EvJob (SGet _ (Inr nj))) \<longleftrightarrow> nj_spec nj = sp \<and> om_deletionTimestamp (nj_meta nj) = None"
| "jobSeenAs sp region (EvJob (SUpdate _ (Inr nj))) \<longleftrightarrow> nj_spec nj = sp"
| "jobSeenAs sp region (EvCluster (SGet _ (Inr nc))) \<longleftrightarrow> cs_region (nc_spec nc) = region"
| "jobSeenAs sp region _ \<longleftrightarrow> True"

definition liveJobPass ::
    "'w job_reconciler \<Rightarrow> job_decoder \<Rightarrow> namespaced_name \<Rightarrow> nomad_job_spec \<Rightarrow> string \<Rightarrow> event list \<Rightarrow> bool" where
  "liveJobPass kr dec key sp region es \<longleftrightarrow>
     (\<exists>w. es = events_of (ReconcileJob kr dec key w)) \<and> list_all (jobSeenAs sp region) es"

lemma decoded_key: "decodeJob uc dec sp region = Inr d \<Longrightarrow> jobKeyOf d = (js_nomadNamespace sp, js_jobID sp)"
  by (auto simp: decodeJob_def jobKeyOf_def split: sum.splits if_splits)

lemma registered_unchanged: "unchanged same (s(jobKeyOf d \<mapsto> d)) d"
  by (simp add: unchanged_def)

lemma jobReady_setter [simp]:
  "findCondition ty (jt_conditions (nj_status (observeJob nj))) = findCondition ty (jt_conditions (nj_status nj))"
  "map_option cn_status (findCondition ty (jt_conditions (nj_status (setJobCondition now nj ty st reason msg)))) = Some st"
  by (simp_all add: observeJob_def job_cond.entry)

lemma reconcileJob_settles:
  "meets (reconcileJob kr dec nj ops region) (\<lambda>r es. \<forall>s s'. path (jobServer same) s es s' \<longrightarrow>
     settles (holdsJob same (tk_unicode (kr_toolkit kr)) dec (nj_spec nj) region) reportsJobReady s es s')"
  unfolding reconcileJob_def job_steps kube_calls Let_def
  by (auto intro!: kwp split: sum.splits if_splits
      simp: settles_def trace_simps job_walk holdsJob_def registered_unchanged)

lemma deleted_job_any: "(\<And>r es. Q r es) \<Longrightarrow> meets (finalizeJob kr nj) Q"
  by (rule meets_trivial)

lemma ReconcileJob_settles:
  "meets (ReconcileJob kr dec key) (\<lambda>r es. \<forall>s s'. path (jobServer same) s es s' \<longrightarrow> list_all (jobSeenAs sp region) es \<longrightarrow>
     settles (holdsJob same (tk_unicode (kr_toolkit kr)) dec sp region) reportsJobReady s es s')"
  unfolding ReconcileJob_def ensureJobFinalizer_def adoptJob_def jobUpdate_def jobNotReady_def
    jobStatusUpdate_def kube_calls Let_def
  by (auto intro!: kwp deleted_job_any reconcileJob_settles [where same = same, THEN meets_mono] split: sum.splits if_splits
      simp: settles_skip settles_idle trace_simps job_walk secrets_no_write job_secrets_silent)

interpretation job_runs: converging "jobServer same" "liveJobPass kr dec key sp region"
    "holdsJob same (tk_unicode (kr_toolkit kr)) dec sp region" reportsJobReady
  for same kr dec key sp region
proof
  fix es s s'
  assume "liveJobPass kr dec key sp region es" "path (jobServer same) s es s'"
  then show "settles (holdsJob same (tk_unicode (kr_toolkit kr)) dec sp region) reportsJobReady s es s'"
    using meetsD [OF ReconcileJob_settles [of kr dec key same sp region]] by (auto simp: liveJobPass_def)
qed

subsection \<open>Deletion\<close>

text \<open>The API server first answered with an object for \<open>sp\<close>, and it is being deleted.\<close>

fun deletedJobSeen :: "nomad_job_spec \<Rightarrow> event list \<Rightarrow> bool" where
  "deletedJobSeen sp (EvJob (SGet _ (Inr nj)) # es) \<longleftrightarrow> nj_spec nj = sp \<and> om_deletionTimestamp (nj_meta nj) \<noteq> None"
| "deletedJobSeen sp es \<longleftrightarrow> False"

lemma onlyAt_same [simp]: "onlyAt k s s"
  by (simp add: onlyAt_def)

lemma onlyAt_upd [simp]: "onlyAt k s (s(k := x))"
  by (simp add: onlyAt_def)

lemma finalizeJob_cleans:
  "meets (finalizeJob kr nj) (\<lambda>r es. \<forall>s s'. path (jobServer same) s es s' \<longrightarrow>
     onlyAt (js_nomadNamespace (nj_spec nj), js_jobID (nj_spec nj)) s s' \<and>
     (some_call (takesFinalizerOff (kr_toolkit kr) nomadJobFinalizer ownJob) es \<and> quiet clusterGoneOrGoing es \<longrightarrow>
        s' (js_nomadNamespace (nj_spec nj), js_jobID (nj_spec nj)) = None))"
  unfolding finalizeJob_def dropJobFinalizer_def jobDeleteBlocked_def jobUpdate_def
    jobStatusUpdate_def kube_calls Let_def
  by (auto intro!: kwp split: sum.splits if_splits
      simp: trace_simps job_walk job_secrets_silent takesFinalizerOff_def)

lemma deletedJob_pass:
  "meets (ReconcileJob kr dec key) (\<lambda>r es. \<forall>s s'. path (jobServer same) s es s' \<longrightarrow> deletedJobSeen sp es \<longrightarrow>
     onlyAt (js_nomadNamespace sp, js_jobID sp) s s' \<and>
     (some_call (takesFinalizerOff (kr_toolkit kr) nomadJobFinalizer ownJob) es \<and> quiet clusterGoneOrGoing es \<longrightarrow>
        s' (js_nomadNamespace sp, js_jobID sp) = None))"
  unfolding ReconcileJob_def kube_calls
  by (rule meets_andThen_call)
    (auto split: sum.splits intro!: meets_ret meets_if finalizeJob_cleans [where same = same, THEN meets_mono] meets_trivial [where p = "bindE m f" for m f]
      simp: trace_simps job_walk takesFinalizerOff_def)

subsection \<open>Claims\<close>

text \<open>
  Whatever the API server does, any number of passes over a live NomadJob whose spec and region stay
  the same leave Nomad's jobs as they were or holding the decoded job; from the moment Nomad would plan
  it without a change no pass writes to Nomad; and Ready is reported only for a job registered that way.
\<close>

lemma job_run_converges:
  assumes "runs (jobServer same) (liveJobPass kr dec key sp region) s es s'"
  shows "settles (holdsJob same (tk_unicode (kr_toolkit kr)) dec sp region) reportsJobReady s es s'"
  by (rule job_runs.run_settles [OF assms])

definition liveJob :: nomad_job where
  "liveJob = sampleJob\<lparr>nj_meta := (newMeta ''web'' ''nomad'' [])\<lparr>om_finalizers := [nomadJobFinalizer]\<rparr>\<rparr>"

definition liveJobReconciler :: "unit job_reconciler" where
  "liveJobReconciler = sampleReconciler (samplePlatform\<lparr>pf_jobs := fixedStore liveJob\<rparr>) sampleJobOps"

definition liveDecoder :: job_decoder where
  "liveDecoder _ = Inr (sampleApiJob\<lparr>aj_Namespace := None\<rparr>)"

text \<open>A first pass over a job that Nomad does not have: it is registered and reported Ready.\<close>

lemma job_run_converges_witness:
  "let es = events_of (ReconcileJob liveJobReconciler liveDecoder (objectKey ''nomad'' ''web'') ());
       held = holdsJob (\<lambda>_ _. False) (tk_unicode sampleToolkit) liveDecoder (nj_spec liveJob) ''eu'' in
     some_call reportsJobReady es \<and>
     (\<exists>s'. path (jobServer (\<lambda>_ _. False)) Map.empty es s' \<and> settles held reportsJobReady Map.empty es s' \<and> held s')"
proof -
  let ?es = "events_of (ReconcileJob liveJobReconciler liveDecoder (objectKey ''nomad'' ''web'') ())"
  have tk: "kr_toolkit liveJobReconciler = sampleToolkit"
    by (simp add: liveJobReconciler_def sampleReconciler_def)
  note run = ReconcileJob_def ensureJobFinalizer_def adoptJob_def reconcileJob_def job_steps sample_run
    liveJobReconciler_def liveJob_def sampleJob_def sampleJobOps_def liveDecoder_def sampleApiJob_def decodeJob_def
    observe_def observeInfo_def
  have seen: "list_all (jobSeenAs (nj_spec liveJob) ''eu'') ?es" and ready: "some_call reportsJobReady ?es"
    by (simp_all add: run)
  obtain s' where path: "path (jobServer (\<lambda>_ _. False)) Map.empty ?es s'"
    by (simp add: run job_walk unchanged_def)
  from seen have "liveJobPass liveJobReconciler liveDecoder (objectKey ''nomad'' ''web'') (nj_spec liveJob) ''eu'' ?es"
    by (auto simp: liveJobPass_def)
  then have "runs (jobServer (\<lambda>_ _. False))
      (liveJobPass liveJobReconciler liveDecoder (objectKey ''nomad'' ''web'') (nj_spec liveJob) ''eu'') Map.empty ?es s'"
    using path by (rule runs_single)
  from job_run_converges [OF this] ready path tk show ?thesis by (auto simp: Let_def settles_def)
qed

text \<open>
  A pass over a NomadJob under deletion touches at most that job in Nomad, and when it takes the
  finalizer off although the cluster is there to stay, Nomad has no such job any more.
\<close>

lemma job_deletion_cleans:
  assumes "path (jobServer same) s (events_of (ReconcileJob kr dec key w)) s'"
    and "deletedJobSeen sp (events_of (ReconcileJob kr dec key w))"
  shows "onlyAt (js_nomadNamespace sp, js_jobID sp) s s' \<and>
    (some_call (takesFinalizerOff (kr_toolkit kr) nomadJobFinalizer ownJob) (events_of (ReconcileJob kr dec key w)) \<and>
     quiet clusterGoneOrGoing (events_of (ReconcileJob kr dec key w)) \<longrightarrow>
     s' (js_nomadNamespace sp, js_jobID sp) = None)"
  using meetsD [OF deletedJob_pass [of kr dec key same sp]] assms by blast

lemma job_deletion_cleans_witness:
  "\<exists>s'. path (jobServer (\<lambda>_ _. False)) [(''team'', ''web'') \<mapsto> sampleApiJob]
      (events_of (ReconcileJob sampleJobReconciler liveDecoder (objectKey ''nomad'' ''web'') ())) s' \<and>
    s' (''team'', ''web'') = None"
proof -
  let ?es = "events_of (ReconcileJob sampleJobReconciler liveDecoder (objectKey ''nomad'' ''web'') ())"
  note run = ReconcileJob_def finalizeJob_def job_steps sample_run sampleJobReconciler_def sampleJob_def
    sampleJobOps_def
  obtain s' where path: "path (jobServer (\<lambda>_ _. False)) [(''team'', ''web'') \<mapsto> sampleApiJob] ?es s'"
    by (simp add: run job_walk)
  have "deletedJobSeen (nj_spec sampleJob) ?es" and "quiet clusterGoneOrGoing ?es"
    and "some_call (takesFinalizerOff (kr_toolkit sampleJobReconciler) nomadJobFinalizer ownJob) ?es"
    by (simp_all add: run takesFinalizerOff_def)
  with job_deletion_cleans [OF path] path show ?thesis by (fastforce simp: sampleJob_def)
qed

end
