(* ===== verification/Verdicts.thy ===== *)
theory Verdicts
  imports PoolRuns NamespaceRuns JobRuns
begin

section \<open>Every successful pass ends with a verdict\<close>

text \<open>
  A user reads the outcome of a pass from the status. A pass over a live pool, namespace or job that
  returns without an error has, as its very last call, stored a status whose Ready condition and
  observed generation are those of the object's generation: no branch ends silently.
\<close>

definition endsWith :: "('e \<Rightarrow> bool) \<Rightarrow> 'e list \<Rightarrow> bool" where
  "endsWith p es \<longleftrightarrow> es \<noteq> [] \<and> p (last es)"

lemma endsWith_simps [simp]:
  "\<not> endsWith p []"
  "endsWith p (e # es) \<longleftrightarrow> (if es = [] then p e else endsWith p es)"
  "endsWith p (es @ es') \<longleftrightarrow> (if es' = [] then endsWith p es else endsWith p es')"
  by (simp_all add: endsWith_def)

text \<open>A decided Ready condition for the generation, in a list of conditions.\<close>

definition decided :: "string \<Rightarrow> int \<Rightarrow> condition list \<Rightarrow> bool" where
  "decided ty g cs \<longleftrightarrow> (case findCondition ty cs of
     None \<Rightarrow> False | Some c \<Rightarrow> cn_status c \<noteq> ConditionUnknown \<and> cn_observedGeneration c = g)"

context condition_setter
begin

lemma setter_decides:
  "decided ty g (conditions (setter now x ty st reason msg)) \<longleftrightarrow> st \<noteq> ConditionUnknown \<and> generation x = g"
  by (simp add: decided_def entry newCondition_def)

end

subsection \<open>The three kinds\<close>

fun poolVerdict :: "event \<Rightarrow> bool" where
  "poolVerdict (EvPool (SUpdateStatus np (Inr _))) \<longleftrightarrow>
     pt_observedGeneration (np_status np) = om_generation (np_meta np) \<and>
     decided NomadPoolCondReady (om_generation (np_meta np)) (pt_conditions (np_status np))"
| "poolVerdict _ \<longleftrightarrow> False"

fun namespaceVerdict :: "event \<Rightarrow> bool" where
  "namespaceVerdict (EvNamespace (SUpdateStatus nn (Inr _))) \<longleftrightarrow>
     nst_observedGeneration (nns_status nn) = om_generation (nns_meta nn) \<and>
     decided NomadNamespaceCondReady (om_generation (nns_meta nn)) (nst_conditions (nns_status nn))"
| "namespaceVerdict _ \<longleftrightarrow> False"

fun jobVerdict :: "event \<Rightarrow> bool" where
  "jobVerdict (EvJob (SUpdateStatus nj (Inr _))) \<longleftrightarrow>
     jt_observedGeneration (nj_status nj) = om_generation (nj_meta nj) \<and>
     decided NomadJobCondReady (om_generation (nj_meta nj)) (jt_conditions (nj_status nj))"
| "jobVerdict _ \<longleftrightarrow> False"

text \<open>The first read finds the object, and it is not being deleted.\<close>

fun poolLive :: "event \<Rightarrow> bool" where
  "poolLive (EvPool (SGet _ r)) \<longleftrightarrow> (case r of Inl _ \<Rightarrow> False | Inr np \<Rightarrow> om_deletionTimestamp (np_meta np) = None)"
| "poolLive _ \<longleftrightarrow> True"

fun namespaceLive :: "event \<Rightarrow> bool" where
  "namespaceLive (EvNamespace (SGet _ r)) \<longleftrightarrow> (case r of Inl _ \<Rightarrow> False | Inr nn \<Rightarrow> om_deletionTimestamp (nns_meta nn) = None)"
| "namespaceLive _ \<longleftrightarrow> True"

fun jobLive :: "event \<Rightarrow> bool" where
  "jobLive (EvJob (SGet _ r)) \<longleftrightarrow> (case r of Inl _ \<Rightarrow> False | Inr nj \<Rightarrow> om_deletionTimestamp (nj_meta nj) = None)"
| "jobLive _ \<longleftrightarrow> True"

definition successEndsWith :: "(event \<Rightarrow> bool) \<Rightarrow> error + 'a \<Rightarrow> event list \<Rightarrow> bool" where
  "successEndsWith p r es \<longleftrightarrow> (case r of Inl _ \<Rightarrow> True | Inr _ \<Rightarrow> endsWith p es)"

lemma successEndsWith_simps [simp]:
  "successEndsWith p (Inl e) es" "successEndsWith p (Inr a) es \<longleftrightarrow> endsWith p es"
  by (simp_all add: successEndsWith_def)

lemmas setter_decides = pool_cond.setter_decides namespace_cond.setter_decides job_cond.setter_decides

lemma observed [simp]:
  "pt_observedGeneration (np_status (observePool np)) = om_generation (np_meta np)"
  "pt_conditions (np_status (observePool np)) = pt_conditions (np_status np)"
  "nst_observedGeneration (nns_status (observeNamespace nn)) = om_generation (nns_meta nn)"
  "nst_conditions (nns_status (observeNamespace nn)) = nst_conditions (nns_status nn)"
  "jt_observedGeneration (nj_status (observeJob nj)) = om_generation (nj_meta nj)"
  "jt_conditions (nj_status (observeJob nj)) = jt_conditions (nj_status nj)"
  by (simp_all add: observePool_def observeNamespace_def observeJob_def)

lemma pool_pass_verdict:
  "meets (ReconcilePool kr key) (\<lambda>r es. list_all poolLive es \<longrightarrow> successEndsWith poolVerdict r es)"
  unfolding ReconcilePool_def reconcilePool_def pool_steps kube_calls Let_def
  by (auto intro!: kwp meets_trivial [where p = "finalizePool kr np" for np] split: sum.splits if_splits simp: setter_decides)

lemma namespace_pass_verdict:
  "meets (ReconcileNamespace kr key) (\<lambda>r es. list_all namespaceLive es \<longrightarrow> successEndsWith namespaceVerdict r es)"
  unfolding ReconcileNamespace_def reconcileNamespace_def namespace_steps kube_calls Let_def
  by (auto intro!: kwp meets_trivial [where p = "finalizeNamespace kr nn" for nn] split: sum.splits if_splits simp: setter_decides)

lemma job_pass_verdict:
  "meets (ReconcileJob kr dec key) (\<lambda>r es. list_all jobLive es \<longrightarrow> successEndsWith jobVerdict r es)"
  unfolding ReconcileJob_def reconcileJob_def job_steps kube_calls Let_def
  by (auto intro!: kwp meets_trivial [where p = "finalizeJob kr nj" for nj] split: sum.splits if_splits simp: setter_decides)

text \<open>
  C23: a pass over a live pool, namespace or job that returns without an error ends with a stored status
  that gives a verdict for the object's current generation: Ready is decided, for that generation, and
  the observed generation is current. Refusals (missing or unready cluster, name conflict, built-in
  name, bad job spec) included.
\<close>

theorem passes_end_with_verdict:
  "(list_all poolLive (events_of (ReconcilePool pr key w)) \<longrightarrow>
     successEndsWith poolVerdict (result_of (ReconcilePool pr key w)) (events_of (ReconcilePool pr key w))) \<and>
   (list_all namespaceLive (events_of (ReconcileNamespace nr key w)) \<longrightarrow>
     successEndsWith namespaceVerdict (result_of (ReconcileNamespace nr key w)) (events_of (ReconcileNamespace nr key w))) \<and>
   (list_all jobLive (events_of (ReconcileJob jr dec key w)) \<longrightarrow>
     successEndsWith jobVerdict (result_of (ReconcileJob jr dec key w)) (events_of (ReconcileJob jr dec key w)))"
  by (intro conjI meetsD [OF pool_pass_verdict] meetsD [OF namespace_pass_verdict] meetsD [OF job_pass_verdict])

lemma passes_end_with_verdict_witness:
  "endsWith poolVerdict (events_of (ReconcilePool livePoolReconciler (objectKey ''nomad'' ''gpu'') ()))"
proof -
  note run = ReconcilePool_def reconcilePool_def pool_steps sample_run livePoolReconciler_def livePool_def samplePool_def
    samplePoolOps_def observe_def NodePoolDefault_def NodePoolAll_def poolConflicts_def poolDrifted_def
  have "list_all poolLive (events_of (ReconcilePool livePoolReconciler (objectKey ''nomad'' ''gpu'') ()))"
    and "\<exists>x. result_of (ReconcilePool livePoolReconciler (objectKey ''nomad'' ''gpu'') ()) = Inr x"
    by (simp_all add: run)
  with passes_end_with_verdict [where pr = livePoolReconciler and key = "objectKey ''nomad'' ''gpu''" and w = "()"]
  show ?thesis by auto
qed

end
