(* ===== verification/Watches.thy ===== *)
theory Watches
  imports PoolRuns NamespaceRuns JobRuns
begin

section \<open>Cluster events reach the resources that wait for the cluster\<close>

text \<open>
  A pool, namespace or job that finds its cluster missing or not ready gives up until the cluster
  changes. The controllers watch NomadClusters and map an event to the resources to run again:
  these must be all whose pass reads that cluster.
\<close>

fun readsOnly :: "namespaced_name \<Rightarrow> event \<Rightarrow> bool" where
  "readsOnly k (EvCluster (SGet k' _)) \<longleftrightarrow> k' = k"
| "readsOnly k _ \<longleftrightarrow> True"

fun readsCluster :: "namespaced_name \<Rightarrow> event \<Rightarrow> bool" where
  "readsCluster k (EvCluster (SGet k' _)) \<longleftrightarrow> k' = k"
| "readsCluster k _ \<longleftrightarrow> False"

lemma readsOnly_reads:
  "list_all (readsOnly k) es \<Longrightarrow> some_call (readsCluster k') es \<Longrightarrow> k' = k"
proof (induction es)
  case Nil
  then show ?case by (simp add: trace_simps)
next
  case (Cons e es)
  then show ?case
    by (cases "(k, e)" rule: readsOnly.cases) (auto simp: trace_simps)
qed

lemma secrets_readsOnly: "onChannels {ChSecret} es \<Longrightarrow> list_all (readsOnly k) es"
proof (induction es)
  case (Cons e es)
  then show ?case
    by (cases "(k, e)" rule: readsOnly.cases) (auto simp: onChannels_def)
qed simp

text \<open>The API server shows the object with the namespace and the spec it has in the list.\<close>

fun showsPool :: "nomad_pool \<Rightarrow> event \<Rightarrow> bool" where
  "showsPool np (EvPool (SGet _ (Inr x))) \<longleftrightarrow> np_spec x = np_spec np \<and> om_namespace (np_meta x) = om_namespace (np_meta np)"
| "showsPool np (EvPool (SUpdate _ (Inr x))) \<longleftrightarrow> np_spec x = np_spec np \<and> om_namespace (np_meta x) = om_namespace (np_meta np)"
| "showsPool np _ \<longleftrightarrow> True"

fun showsNamespace :: "nomad_namespace \<Rightarrow> event \<Rightarrow> bool" where
  "showsNamespace nn (EvNamespace (SGet _ (Inr x))) \<longleftrightarrow> nns_spec x = nns_spec nn \<and> om_namespace (nns_meta x) = om_namespace (nns_meta nn)"
| "showsNamespace nn (EvNamespace (SUpdate _ (Inr x))) \<longleftrightarrow> nns_spec x = nns_spec nn \<and> om_namespace (nns_meta x) = om_namespace (nns_meta nn)"
| "showsNamespace nn _ \<longleftrightarrow> True"

fun showsJob :: "nomad_job \<Rightarrow> event \<Rightarrow> bool" where
  "showsJob nj (EvJob (SGet _ (Inr x))) \<longleftrightarrow> nj_spec x = nj_spec nj \<and> om_namespace (nj_meta x) = om_namespace (nj_meta nj)"
| "showsJob nj (EvJob (SUpdate _ (Inr x))) \<longleftrightarrow> nj_spec x = nj_spec nj \<and> om_namespace (nj_meta x) = om_namespace (nj_meta nj)"
| "showsJob nj _ \<longleftrightarrow> True"

lemma pool_reads:
  "meets (ReconcilePool kr key) (\<lambda>r es. list_all (showsPool np) es \<longrightarrow>
     list_all (readsOnly (objectKey (om_namespace (np_meta np)) (ps_clusterRef (np_spec np)))) es)"
  unfolding ReconcilePool_def finalizePool_def reconcilePool_def pool_steps kube_calls Let_def
  by (auto intro!: kwp split: sum.splits if_splits simp: secrets_readsOnly)

lemma namespace_reads:
  "meets (ReconcileNamespace kr key) (\<lambda>r es. list_all (showsNamespace nn) es \<longrightarrow>
     list_all (readsOnly (objectKey (om_namespace (nns_meta nn)) (ns_clusterRef (nns_spec nn)))) es)"
  unfolding ReconcileNamespace_def finalizeNamespace_def reconcileNamespace_def namespace_steps kube_calls Let_def
  by (auto intro!: kwp split: sum.splits if_splits simp: secrets_readsOnly)

lemma job_reads:
  "meets (ReconcileJob kr dec key) (\<lambda>r es. list_all (showsJob nj) es \<longrightarrow>
     list_all (readsOnly (objectKey (om_namespace (nj_meta nj)) (js_clusterRef (nj_spec nj)))) es)"
  unfolding ReconcileJob_def finalizeJob_def reconcileJob_def job_steps kube_calls Let_def
  by (auto intro!: kwp split: sum.splits if_splits simp: secrets_readsOnly)

text \<open>A listing that is not restricted to another namespace holds the object.\<close>

definition lists :: "list_options \<Rightarrow> string \<Rightarrow> 'o \<Rightarrow> 'o list \<Rightarrow> bool" where
  "lists opts ns obj items \<longleftrightarrow>
     (lo_namespace opts \<in> {None, Some ns} \<and> lo_labels opts = [] \<longrightarrow> obj \<in> set items)"

text \<open>An event on the cluster wakes the resource if its pass reads the cluster.\<close>

definition wakes :: "nomad_cluster \<Rightarrow> object_meta \<Rightarrow> event list \<Rightarrow> namespaced_name list \<Rightarrow> bool" where
  "wakes nc m es woken \<longleftrightarrow>
     (some_call (readsCluster (objectKey (nc_namespace nc) (nc_name nc))) es \<longrightarrow>
      objectKey (om_namespace m) (om_name m) \<in> set woken)"

lemma pools_wake:
  assumes "events_of (poolsForCluster mr nc v) = [EvPool (SList opts (Inr items))]"
    and "lists opts (om_namespace (np_meta np)) np items"
    and "list_all (showsPool np) (events_of (ReconcilePool kr key w))"
  shows "wakes nc (np_meta np) (events_of (ReconcilePool kr key w)) (result_of (poolsForCluster mr nc v))"
  using assms meetsD [OF pool_reads [where kr = kr and key = key and np = np], of w]
  by (auto simp: wakes_def lists_def poolsForCluster_def inNamespace_def kube_calls andThen_def call_run ret_run
      split: prod.splits sum.splits dest!: readsOnly_reads)

lemma namespaces_wake:
  assumes "events_of (namespacesForCluster mr nc v) = [EvNamespace (SList opts (Inr items))]"
    and "lists opts (om_namespace (nns_meta nn)) nn items"
    and "list_all (showsNamespace nn) (events_of (ReconcileNamespace kr key w))"
  shows "wakes nc (nns_meta nn) (events_of (ReconcileNamespace kr key w)) (result_of (namespacesForCluster mr nc v))"
  using assms meetsD [OF namespace_reads [where kr = kr and key = key and nn = nn], of w]
  by (auto simp: wakes_def lists_def namespacesForCluster_def inNamespace_def kube_calls andThen_def call_run ret_run
      split: prod.splits sum.splits dest!: readsOnly_reads)

lemma jobs_wake:
  assumes "events_of (jobsForCluster mr nc v) = [EvJob (SList opts (Inr items))]"
    and "lists opts (om_namespace (nj_meta nj)) nj items"
    and "list_all (showsJob nj) (events_of (ReconcileJob kr dec key w))"
  shows "wakes nc (nj_meta nj) (events_of (ReconcileJob kr dec key w)) (result_of (jobsForCluster mr nc v))"
  using assms meetsD [OF job_reads [where kr = kr and key = key and nj = nj and dec = dec], of w]
  by (auto simp: wakes_def lists_def jobsForCluster_def inNamespace_def kube_calls andThen_def call_run ret_run
      split: prod.splits sum.splits dest!: readsOnly_reads)

text \<open>
  C26: a change of a NomadCluster runs again every pool, namespace and job whose own pass reads that
  cluster, so that no resource that waits for its cluster to appear or to become ready is forgotten: the
  functions that map a cluster event to requests return its key. This holds when the API server shows
  the object alike in the listing and in the pass and when the listing, which the functions restrict to the
  namespace of the cluster, is answered and complete.
\<close>

theorem cluster_reads_are_watched:
  assumes "events_of (poolsForCluster mp nc v1) = [EvPool (SList o1 (Inr pools))]"
    and "lists o1 (om_namespace (np_meta np)) np pools"
    and "list_all (showsPool np) (events_of (ReconcilePool pr key1 w1))"
    and "events_of (namespacesForCluster mn nc v2) = [EvNamespace (SList o2 (Inr namespaces))]"
    and "lists o2 (om_namespace (nns_meta nn)) nn namespaces"
    and "list_all (showsNamespace nn) (events_of (ReconcileNamespace nr key2 w2))"
    and "events_of (jobsForCluster mj nc v3) = [EvJob (SList o3 (Inr jobs))]"
    and "lists o3 (om_namespace (nj_meta nj)) nj jobs"
    and "list_all (showsJob nj) (events_of (ReconcileJob jr dec key3 w3))"
  shows "wakes nc (np_meta np) (events_of (ReconcilePool pr key1 w1)) (result_of (poolsForCluster mp nc v1)) \<and>
    wakes nc (nns_meta nn) (events_of (ReconcileNamespace nr key2 w2)) (result_of (namespacesForCluster mn nc v2)) \<and>
    wakes nc (nj_meta nj) (events_of (ReconcileJob jr dec key3 w3)) (result_of (jobsForCluster mj nc v3))"
  using assms by (intro conjI pools_wake namespaces_wake jobs_wake)

theorem cluster_reads_are_watched_witness:
  "wakes sampleCluster (np_meta livePool)
      (events_of (ReconcilePool livePoolReconciler (objectKey ''nomad'' ''gpu'') ()))
      (result_of (poolsForCluster livePoolReconciler sampleCluster ())) \<and>
    some_call (readsCluster (objectKey ''nomad'' ''prod''))
      (events_of (ReconcilePool livePoolReconciler (objectKey ''nomad'' ''gpu'') ()))"
proof -
  note run = sample_run livePoolReconciler_def livePool_def samplePool_def liveNamespaceReconciler_def
    liveNamespace_def sampleNamespace_def sampleJobReconciler_def sampleJob_def samplePoolOps_def
    sampleNamespaceOps_def sampleJobOps_def observe_def
  have maps: "events_of (poolsForCluster livePoolReconciler sampleCluster ()) =
      [EvPool (SList (inNamespace ''nomad'') (Inr [livePool]))]"
    "events_of (namespacesForCluster liveNamespaceReconciler sampleCluster ()) =
      [EvNamespace (SList (inNamespace ''nomad'') (Inr [liveNamespace]))]"
    "events_of (jobsForCluster sampleJobReconciler sampleCluster ()) =
      [EvJob (SList (inNamespace ''nomad'') (Inr [sampleJob]))]"
    by (simp_all add: poolsForCluster_def namespacesForCluster_def jobsForCluster_def run)
  have lists: "lists (inNamespace ''nomad'') (om_namespace (np_meta livePool)) livePool [livePool]"
    "lists (inNamespace ''nomad'') (om_namespace (nns_meta liveNamespace)) liveNamespace [liveNamespace]"
    "lists (inNamespace ''nomad'') (om_namespace (nj_meta sampleJob)) sampleJob [sampleJob]"
    by (simp_all add: lists_def)
  have pool: "list_all (showsPool livePool) (events_of (ReconcilePool livePoolReconciler (objectKey ''nomad'' ''gpu'') ()))"
    and reads: "some_call (readsCluster (objectKey ''nomad'' ''prod''))
      (events_of (ReconcilePool livePoolReconciler (objectKey ''nomad'' ''gpu'') ()))"
    by (simp_all add: ReconcilePool_def reconcilePool_def pool_steps NodePoolDefault_def NodePoolAll_def
        poolConflicts_def poolDrifted_def run)
  have ns: "list_all (showsNamespace liveNamespace)
      (events_of (ReconcileNamespace liveNamespaceReconciler (objectKey ''nomad'' ''team'') ()))"
    by (simp add: ReconcileNamespace_def reconcileNamespace_def namespace_steps namespaceConflicts_def namespaceDrifted_def run)
  have job: "list_all (showsJob sampleJob)
      (events_of (ReconcileJob sampleJobReconciler (\<lambda>_. Inl (PlainError [])) (objectKey ''nomad'' ''web'') ()))"
    by (simp add: ReconcileJob_def finalizeJob_def job_steps run)
  show ?thesis
    using cluster_reads_are_watched [OF maps(1) lists(1) pool maps(2) lists(2) ns maps(3) lists(3) job] reads
    by (rule conjI [OF conjunct1])
qed

end
