(* ===== verification/Node.thy ===== *)
theory Node
  imports Lifecycle
begin

section \<open>The node reflector (nomadnode_controller.go)\<close>

text \<open>
  One pass reflects all nodes of a cluster into NomadNode objects and drives eligibility and drains.
  Go maps are association lists with distinct keys; where the code ranges over a map, the order is
  given by \<open>range_order\<close>, an arbitrary function from the number of the range loop (in the order the
  pass runs them) and the keys, so nothing proved depends on it.
\<close>

definition nodeResync :: int where
  "nodeResync = 30 * second"

type_synonym 'w node_reconciler = "('w, 'w NomadNodeOps) kind_reconciler"

type_synonym range_order = "nat \<Rightarrow> string list \<Rightarrow> string list"

definition rangeMap :: "(string list \<Rightarrow> string list) \<Rightarrow> (string \<times> 'a) list \<Rightarrow> (string \<times> 'a) list" where
  "rangeMap ord m = List.map_filter (\<lambda>k. map_option (Pair k) (map_of m k)) (ord (map fst m))"

definition rangeKeys :: "(string list \<Rightarrow> string list) \<Rightarrow> string list \<Rightarrow> string list" where
  "rangeKeys ord ks = filter (\<lambda>k. k \<in> set ks) (ord ks)"

subsection \<open>Which stub stands for a name\<close>

definition freshest :: "node_stub \<Rightarrow> node_stub list \<Rightarrow> node_stub" where
  "freshest best grp =
     foldl (\<lambda>best s. if stub_CreateIndex s > stub_CreateIndex best then s else best) best grp"

definition bindGroup :: "node_stub list \<Rightarrow> node_stub option" where
  "bindGroup grp =
     (let live = filter (\<lambda>s. stub_Status s \<noteq> NodeStatusDown) grp in
      case live of
        [] \<Rightarrow> Some (freshest (hd grp) grp)
      | [s] \<Rightarrow> Some s
      | _ \<Rightarrow> None)"

definition namedStubs :: "node_stub list \<Rightarrow> string \<Rightarrow> node_stub list" where
  "namedStubs stubs name = filter (\<lambda>s. stub_Name s = name) stubs"

definition bindNodes :: "node_stub list \<Rightarrow> (string \<times> node_stub) list \<times> string list" where
  "bindNodes stubs =
     (let byName = remdups (map stub_Name stubs) in
      (List.map_filter (\<lambda>name. map_option (Pair name) (bindGroup (namedStubs stubs name))) byName,
       filter (\<lambda>name. bindGroup (namedStubs stubs name) = None) byName))"

definition resolveCollisionOwners :: "unicode_tables \<Rightarrow> (string \<times> node_stub) list \<Rightarrow> (string \<times> string) list" where
  "resolveCollisionOwners uc bound =
     map (\<lambda>(obj, stub). (obj, stub_Name stub))
       (foldl (\<lambda>best (_, stub).
          let obj = sanitizeNodeName uc (stub_Name stub) in
          case map_of best obj of
            None \<Rightarrow> mapPut obj stub best
          | Some cur \<Rightarrow>
              if stub_CreateIndex stub < stub_CreateIndex cur \<or>
                 (stub_CreateIndex stub = stub_CreateIndex cur \<and> stub_Name stub < stub_Name cur)
              then mapPut obj stub best else best) [] bound)"

subsection \<open>Driving desired state\<close>

definition nodeStatusUpdate :: "'w node_reconciler \<Rightarrow> nomad_node \<Rightarrow> ('w, nomad_node) reconciler_proc" where
  "nodeStatusUpdate kr nn = kUpdateStatus EvNode (pf_nodes (kr_platform kr)) nn"

definition seedDrain :: "string \<Rightarrow> 'w NomadNodeOps \<Rightarrow> ('w, event, node_drain_spec) procedure" where
  "seedDrain i ops = andThen (nomadCall (NNodeInfo i) (op_NodeInfo ops i)) (\<lambda>r. ret (
     let presence = \<lparr>nd_deadline = None, nd_ignoreSystemJobs = False\<rparr> in
     case r of
       Inl _ \<Rightarrow> presence
     | Inr None \<Rightarrow> presence
     | Inr (Some node) \<Rightarrow> (case an_DrainStrategy node of
         None \<Rightarrow> presence
       | Some ds \<Rightarrow> \<lparr>nd_deadline = Some (ds_deadline ds), nd_ignoreSystemJobs = ds_ignoreSystemJobs ds\<rparr>)))"

definition defaultDrainDeadline :: int where
  "defaultDrainDeadline = hour"

definition desiredDrain :: "node_drain_spec \<Rightarrow> drain_spec" where
  "desiredDrain d = \<lparr>ds_deadline = (case nd_deadline d of None \<Rightarrow> defaultDrainDeadline | Some t \<Rightarrow> t),
     ds_ignoreSystemJobs = nd_ignoreSystemJobs d\<rparr>"

definition drainSpecDiverged :: "node_drain_spec \<Rightarrow> api_node option \<Rightarrow> bool" where
  "drainSpecDiverged d live = (case live of
     None \<Rightarrow> False
   | Some node \<Rightarrow> (case an_DrainStrategy node of
       None \<Rightarrow> False
     | Some ds \<Rightarrow>
         (case nd_deadline d of None \<Rightarrow> defaultDrainDeadline | Some t \<Rightarrow> t) \<noteq> ds_deadline ds \<or>
         nd_ignoreSystemJobs d \<noteq> ds_ignoreSystemJobs ds))"

definition drainHandledThisGeneration :: "nomad_node \<Rightarrow> node_stub \<Rightarrow> bool" where
  "drainHandledThisGeneration nn stub \<longleftrightarrow>
     (if nt_drainObservedGeneration (no_status nn) \<noteq> no_generation nn then False
      else
        let inProgress = stub_Drain stub;
            complete = \<not> stub_Drain stub \<and>
              stub_SchedulingEligibility stub = NodeSchedulingIneligible \<and>
              (case stub_LastDrain stub of None \<Rightarrow> False | Some ld \<Rightarrow> dm_status ld = DrainStatusComplete)
        in inProgress \<or> complete)"

definition handleGeneration :: "nomad_node \<Rightarrow> nomad_node" where
  "handleGeneration nn = nn\<lparr>no_status := (no_status nn)\<lparr>nt_drainObservedGeneration := no_generation nn\<rparr>\<rparr>"

definition adoptDrain ::
    "'w node_reconciler \<Rightarrow> nomad_node \<Rightarrow> node_drain_spec \<Rightarrow> node_stub \<Rightarrow> 'w NomadNodeOps \<Rightarrow> ('w, nomad_node) reconciler_proc" where
  "adoptDrain kr nn d stub ops =
     andThen (nomadCall (NNodeInfo (stub_ID stub)) (op_NodeInfo ops (stub_ID stub))) (\<lambda>r.
     let live = (case r of Inl _ \<Rightarrow> None | Inr node \<Rightarrow> node) in
     stamped kr (\<lambda>now.
       nodeStatusUpdate kr (handleGeneration
         (if drainSpecDiverged d live
          then setNodeCondition now nn NomadNodeCondDrainSpecPendingRestart ConditionTrue ReasonDrainSpecEdited
                 ''drain spec edited mid-drain; the change takes effect on the next re-issued drain, not the in-flight one''
          else setNodeCondition now nn NomadNodeCondDrainSpecPendingRestart ConditionFalse ReasonDrainSpecInSync
                 ''desired drain spec matches the in-flight drain''))))"

definition driveDesired ::
    "'w node_reconciler \<Rightarrow> nomad_node \<Rightarrow> node_stub \<Rightarrow> 'w NomadNodeOps \<Rightarrow> ('w, nomad_node) reconciler_proc" where
  "driveDesired kr nn stub ops =
     (case no_drain (no_spec nn) of
        Some d \<Rightarrow>
          if drainHandledThisGeneration nn stub then ret (Inr nn)
          else if stub_Drain stub then adoptDrain kr nn d stub ops
          else bindE (nomadCall (NUpdateDrain (stub_ID stub) (Some (desiredDrain d)) False)
                       (op_UpdateDrain ops (stub_ID stub) (Some (desiredDrain d)) False)) (\<lambda>_.
               nodeStatusUpdate kr (handleGeneration nn))
      | None \<Rightarrow>
          let eligible = no_eligible (no_spec nn) in
          if stub_Drain stub
          then bindE (nomadCall (NUpdateDrain (stub_ID stub) None eligible)
                       (op_UpdateDrain ops (stub_ID stub) None eligible)) (\<lambda>_. ret (Inr nn))
          else
            let want = (if \<not> eligible then NodeSchedulingIneligible else NodeSchedulingEligible) in
            if stub_SchedulingEligibility stub \<noteq> want
            then bindE (nomadCall (NSetEligibility (stub_ID stub) eligible)
                         (op_SetEligibility ops (stub_ID stub) eligible)) (\<lambda>_. ret (Inr nn))
            else ret (Inr nn))"

definition mirrored :: "nomad_node \<Rightarrow> node_stub \<Rightarrow> nomad_node" where
  "mirrored nn stub = nn\<lparr>no_status := (no_status nn)\<lparr>
     nt_nodeID := stub_ID stub, nt_status := stub_Status stub,
     nt_schedulingEligibility := stub_SchedulingEligibility stub, nt_draining := stub_Drain stub,
     nt_nodeClass := stub_NodeClass stub, nt_nodePool := stub_NodePool stub,
     nt_datacenter := stub_Datacenter stub, nt_observedGeneration := no_generation nn,
     nt_lastDrain := (case stub_LastDrain stub of
         None \<Rightarrow> nt_lastDrain (no_status nn)
       | Some ld \<Rightarrow> Some \<lparr>ld_status = dm_status ld, ld_startedAt = dm_startedAt ld, ld_updatedAt = dm_updatedAt ld\<rparr>)\<rparr>\<rparr>"

definition mirrorStatus ::
    "'w node_reconciler \<Rightarrow> nomad_node \<Rightarrow> node_stub \<Rightarrow> ('w, unit) reconciler_proc" where
  "mirrorStatus kr nn stub = stamped kr (\<lambda>now.
     bindE (nodeStatusUpdate kr (setNodeCondition now (mirrored nn stub) NomadNodeCondReconciled ConditionTrue
       ReasonReconciled ''reflected'')) (\<lambda>_. ret (Inr ())))"

definition driveAndMirror ::
    "'w node_reconciler \<Rightarrow> nomad_node \<Rightarrow> node_stub \<Rightarrow> 'w NomadNodeOps \<Rightarrow> ('w, unit) reconciler_proc" where
  "driveAndMirror kr nn stub ops = bindE (driveDesired kr nn stub ops) (\<lambda>nn. mirrorStatus kr nn stub)"

subsection \<open>One node\<close>

definition nodeKey :: "nomad_cluster \<Rightarrow> string \<Rightarrow> namespaced_name" where
  "nodeKey nc objName = objectKey (nc_namespace nc) objName"

definition newNode :: "nomad_cluster \<Rightarrow> string \<Rightarrow> nomad_node_spec \<Rightarrow> nomad_node" where
  "newNode nc objName spec = \<lparr>no_meta = newMeta objName (nc_namespace nc) (Labels (names nc)),
     no_spec = spec, no_status = emptyNodeStatus\<rparr>"

text \<open>\<^verbatim>\<open>SetControllerReference\<close>, \<^verbatim>\<open>Create\<close>, and the re-read after a lost race: the same text twice.\<close>

definition mintNode :: "'w node_reconciler \<Rightarrow> nomad_cluster \<Rightarrow> nomad_node \<Rightarrow> ('w, nomad_node) reconciler_proc" where
  "mintNode kr nc nn =
     bindE (liftE (tk_setControllerReference (kr_toolkit kr) (nc_meta nc) (no_meta nn))) (\<lambda>m.
     andThen (kCreate EvNode (pf_nodes (kr_platform kr)) (nn\<lparr>no_meta := m\<rparr>)) (\<lambda>r.
     case r of
       Inr created \<Rightarrow> ret (Inr created)
     | Inl err \<Rightarrow>
         if \<not> kubeIsAlreadyExists err then ret (Inl err)
         else kGet EvNode (pf_nodes (kr_platform kr)) (nodeKey nc (om_name (no_meta nn)))))"

text \<open>The spec is seeded once, from what Nomad reports of the node.\<close>

definition seededSpec :: "nomad_cluster \<Rightarrow> node_stub \<Rightarrow> node_drain_spec option \<Rightarrow> nomad_node_spec" where
  "seededSpec nc stub drain = \<lparr>no_clusterRef = nc_name nc, no_nodeName = stub_Name stub,
     no_eligible = (stub_SchedulingEligibility stub \<noteq> NodeSchedulingIneligible), no_drain = drain\<rparr>"

definition mintOwned ::
    "'w node_reconciler \<Rightarrow> nomad_cluster \<Rightarrow> node_stub \<Rightarrow> (string \<times> string) list \<Rightarrow> 'w NomadNodeOps \<Rightarrow> ('w, unit) reconciler_proc" where
  "mintOwned kr nc stub owners ops =
     (let objName = sanitizeNodeName (tk_unicode (kr_toolkit kr)) (stub_Name stub) in
      if mapGetOr [] owners objName \<noteq> stub_Name stub then ret (Inr ())
      else
        andThen (if stub_Drain stub then andThen (seedDrain (stub_ID stub) ops) (\<lambda>d. ret (Some d)) else ret None) (\<lambda>drain.
        bindE (mintNode kr nc (newNode nc objName (seededSpec nc stub drain))) (\<lambda>nn.
        driveAndMirror kr nn stub ops)))"

definition upsertNode ::
    "'w node_reconciler \<Rightarrow> nomad_cluster \<Rightarrow> node_stub \<Rightarrow> (string \<times> node_stub) list \<Rightarrow> (string \<times> string) list \<Rightarrow>
     'w NomadNodeOps \<Rightarrow> ('w, unit) reconciler_proc" where
  "upsertNode kr nc stub bound owners ops =
     (let objName = sanitizeNodeName (tk_unicode (kr_toolkit kr)) (stub_Name stub) in
      andThen (kGet EvNode (pf_nodes (kr_platform kr)) (nodeKey nc objName)) (\<lambda>r.
      case r of
        Inl err \<Rightarrow> if \<not> kubeIsNotFound err then ret (Inl err) else mintOwned kr nc stub owners ops
      | Inr nn \<Rightarrow>
          if no_nodeName (no_spec nn) = stub_Name stub then driveAndMirror kr nn stub ops
          else if map_of bound (no_nodeName (no_spec nn)) \<noteq> None \<or> mapGetOr [] owners objName \<noteq> stub_Name stub
          then ret (Inr ())
          else andThen (kDelete EvNode (pf_nodes (kr_platform kr)) nn) (\<lambda>d.
            case d of
              Inl err \<Rightarrow> if \<not> kubeIsNotFound err then ret (Inl err) else mintOwned kr nc stub owners ops
            | Inr _ \<Rightarrow> mintOwned kr nc stub owners ops)))"

subsection \<open>All nodes of a cluster\<close>

definition clusterNodes :: "'w node_reconciler \<Rightarrow> nomad_cluster \<Rightarrow> ('w, nomad_node list) reconciler_proc" where
  "clusterNodes kr nc =
     kList EvNode (pf_nodes (kr_platform kr)) (inNamespaceMatching (nc_namespace nc) (Labels (names nc)))"

definition markClusterNotReady :: "'w node_reconciler \<Rightarrow> nomad_cluster \<Rightarrow> ('w, unit) reconciler_proc" where
  "markClusterNotReady kr nc =
     bindE (clusterNodes kr nc) (\<lambda>items.
     forE items (\<lambda>nn.
       if no_clusterRef (no_spec nn) \<noteq> nc_name nc then ret (Inr ())
       else stamped kr (\<lambda>now.
         bindE (nodeStatusUpdate kr (setNodeCondition now nn NomadNodeCondReconciled ConditionFalse
           ReasonClusterNotReady ''referenced NomadCluster is not Ready'')) (\<lambda>_. ret (Inr ())))))"

definition duplicateNode :: "unicode_tables \<Rightarrow> nomad_cluster \<Rightarrow> string \<Rightarrow> nomad_node" where
  "duplicateNode uc nc name = newNode nc (sanitizeNodeName uc name)
     \<lparr>no_clusterRef = nc_name nc, no_nodeName = name, no_eligible = False, no_drain = None\<rparr>"

definition markDuplicate :: "'w node_reconciler \<Rightarrow> nomad_cluster \<Rightarrow> string \<Rightarrow> ('w, unit) reconciler_proc" where
  "markDuplicate kr nc name =
     (let uc = tk_unicode (kr_toolkit kr) in
      bindE (andThen (kGet EvNode (pf_nodes (kr_platform kr)) (nodeKey nc (sanitizeNodeName uc name))) (\<lambda>r.
        case r of
          Inl err \<Rightarrow> if kubeIsNotFound err then mintNode kr nc (duplicateNode uc nc name) else ret (Inl err)
        | Inr nn \<Rightarrow> ret (Inr nn))) (\<lambda>nn.
      stamped kr (\<lambda>now.
        bindE (nodeStatusUpdate kr (setNodeCondition now nn NomadNodeCondReconciled ConditionFalse
          ReasonDuplicateNodeName ''two or more non-down nodes share this Name'')) (\<lambda>_. ret (Inr ())))))"

definition markDuplicates :: "'w node_reconciler \<Rightarrow> nomad_cluster \<Rightarrow> string list \<Rightarrow> ('w, unit) reconciler_proc" where
  "markDuplicates kr nc dupes = forE dupes (markDuplicate kr nc)"

definition presentNames :: "unicode_tables \<Rightarrow> (string \<times> node_stub) list \<Rightarrow> string list \<Rightarrow> string list" where
  "presentNames uc bound dupes =
     map (\<lambda>(name, _). sanitizeNodeName uc name) bound @ map (sanitizeNodeName uc) dupes"

definition pruneAbsent ::
    "'w node_reconciler \<Rightarrow> nomad_cluster \<Rightarrow> (string \<times> node_stub) list \<Rightarrow> string list \<Rightarrow> ('w, unit) reconciler_proc" where
  "pruneAbsent kr nc bound dupes =
     (let present = presentNames (tk_unicode (kr_toolkit kr)) bound dupes in
      bindE (clusterNodes kr nc) (\<lambda>items.
      if present = [] \<and> length items > 0 then ret (Inr ())
      else forE items (\<lambda>nn.
        if no_clusterRef (no_spec nn) \<noteq> nc_name nc then ret (Inr ())
        else if om_name (no_meta nn) \<notin> set present
        then andThen (kDelete EvNode (pf_nodes (kr_platform kr)) nn) (\<lambda>d. ret (case d of
               Inl err \<Rightarrow> if \<not> kubeIsNotFound err then Inl err else Inr ()
             | Inr _ \<Rightarrow> Inr ()))
        else ret (Inr ()))))"

definition reflectNodes ::
    "'w node_reconciler \<Rightarrow> range_order \<Rightarrow> nomad_cluster \<Rightarrow> 'w NomadNodeOps \<Rightarrow> node_stub list \<Rightarrow> ('w, reconcile_result) reconciler_proc" where
  "reflectNodes kr ord nc ops stubs =
     (let (bound, dupes) = bindNodes stubs;
          owners = resolveCollisionOwners (tk_unicode (kr_toolkit kr)) (rangeMap (ord 0) bound) in
      andThen (forCollect (rangeMap (ord 1) bound)
                (\<lambda>(_, stub). andThen (upsertNode kr nc stub bound owners ops) (\<lambda>r. ret (errOpt r)))) (\<lambda>errs.
      andThen (markDuplicates kr nc (rangeKeys (ord 2) dupes)) (\<lambda>m.
      let errs1 = (case m of Inl err \<Rightarrow> errs @ [err] | Inr _ \<Rightarrow> errs) in
      andThen (pruneAbsent kr nc bound dupes) (\<lambda>p.
      let errs2 = (case p of Inl err \<Rightarrow> errs1 @ [err] | Inr _ \<Rightarrow> errs1) in
      ret (case errorsJoin errs2 of Some err \<Rightarrow> Inl err | None \<Rightarrow> Inr (requeueAfter nodeResync))))))"

definition notListable :: "'w node_reconciler \<Rightarrow> nomad_cluster \<Rightarrow> ('w, reconcile_result) reconciler_proc" where
  "notListable kr nc = bindE (markClusterNotReady kr nc) (\<lambda>_. ret (Inr (requeueAfter nodeResync)))"

definition ReconcileNodes ::
    "'w node_reconciler \<Rightarrow> range_order \<Rightarrow> namespaced_name \<Rightarrow> ('w, reconcile_result) reconciler_proc" where
  "ReconcileNodes kr ord key =
     andThen (kGet EvCluster (pf_clusters (kr_platform kr)) key) (\<lambda>r. case r of
       Inl err \<Rightarrow> ret (ignoreNotFound err)
     | Inr nc \<Rightarrow>
         if nc_phase nc \<noteq> PhaseReady then notListable kr nc
         else bindE (clusterClient kr nc) (\<lambda>ops.
           andThen (nomadCall NListNodes (op_ListNodes ops)) (\<lambda>l. case l of
             Inl _ \<Rightarrow> notListable kr nc
           | Inr stubs \<Rightarrow> reflectNodes kr ord nc ops stubs)))"

definition clusterForNode :: "nomad_node \<Rightarrow> namespaced_name list" where
  "clusterForNode nn = [objectKey (om_namespace (no_meta nn)) (no_clusterRef (no_spec nn))]"

end
