(* ===== verification/Footprint.thy ===== *)
theory Footprint
  imports Cluster Node Pool NamespaceCtl Job
begin

section \<open>What each reconciler may touch\<close>

text \<open>
  The footprint of a call is the service it goes to and what it does there, without its arguments and
  its answer. Every procedure is confined to a set of footprints whatever it is answered, so the sets
  are found by following the code without a case distinction; the permissions of the operator and
  the independence of its reconcilers rest on them.
\<close>

datatype store_verb = VGet | VList | VCreate | VUpdate | VUpdateStatus | VDelete

fun verbOf :: "'o store_call \<Rightarrow> store_verb" where
  "verbOf (SGet _ _) = VGet"
| "verbOf (SList _ _) = VList"
| "verbOf (SCreate _ _) = VCreate"
| "verbOf (SUpdate _ _) = VUpdate"
| "verbOf (SUpdateStatus _ _) = VUpdateStatus"
| "verbOf (SDelete _ _) = VDelete"

text \<open>The parts of Nomad's API.\<close>

datatype nomad_area = AreaNodes | AreaPools | AreaNamespaces | AreaJobs | AreaServers

fun areaOf :: "nomad_call \<Rightarrow> nomad_area" where
  "areaOf (NListNodes _) = AreaNodes"
| "areaOf (NNodeInfo _ _) = AreaNodes"
| "areaOf (NSetEligibility _ _ _) = AreaNodes"
| "areaOf (NUpdateDrain _ _ _ _) = AreaNodes"
| "areaOf (NGetNodePool _ _) = AreaPools"
| "areaOf (NUpsertNodePool _ _) = AreaPools"
| "areaOf (NDeleteNodePool _ _) = AreaPools"
| "areaOf (NCountNodePoolNodes _ _) = AreaPools"
| "areaOf (NCountNodePoolJobs _ _) = AreaPools"
| "areaOf (NGetNamespace _ _) = AreaNamespaces"
| "areaOf (NUpsertNamespace _ _) = AreaNamespaces"
| "areaOf (NDeleteNamespace _ _) = AreaNamespaces"
| "areaOf (NCountNamespaceJobs _ _) = AreaNamespaces"
| "areaOf (NGetJob _ _ _) = AreaJobs"
| "areaOf (NPlanJob _ _) = AreaJobs"
| "areaOf (NRegisterJob _ _) = AreaJobs"
| "areaOf (NDeregisterJob _ _ _ _) = AreaJobs"
| "areaOf (NJobGroupSummary _ _ _) = AreaJobs"
| "areaOf (NLeader _) = AreaServers"
| "areaOf (NACLBootstrap _ _) = AreaServers"
| "areaOf (NServerHealth _) = AreaServers"

datatype footprint = FStore channel store_verb | FApply | FRand | FRecord | FNomad nomad_area

fun footprintOf :: "event \<Rightarrow> footprint" where
  "footprintOf (EvCluster c) = FStore ChCluster (verbOf c)"
| "footprintOf (EvNode c) = FStore ChNode (verbOf c)"
| "footprintOf (EvPool c) = FStore ChPool (verbOf c)"
| "footprintOf (EvNamespace c) = FStore ChNamespace (verbOf c)"
| "footprintOf (EvJob c) = FStore ChJob (verbOf c)"
| "footprintOf (EvSecret c) = FStore ChSecret (verbOf c)"
| "footprintOf (EvGateway c) = FStore ChGateway (verbOf c)"
| "footprintOf (EvService c) = FStore ChService (verbOf c)"
| "footprintOf (EvApply _ _) = FApply"
| "footprintOf (EvRand _ _) = FRand"
| "footprintOf (EvRecord _ _ _ _) = FRecord"
| "footprintOf (EvNomad c) = FNomad (areaOf c)"

subsection \<open>Confinement\<close>

text \<open>\<open>every q p\<close>: whatever \<open>p\<close> is answered, each of its calls satisfies \<open>q\<close>.\<close>

definition every :: "('e \<Rightarrow> bool) \<Rightarrow> ('w, 'e, 'a) procedure \<Rightarrow> bool" where
  "every q p \<longleftrightarrow> meets p (\<lambda>_. list_all q)"

abbreviation confined :: "footprint set \<Rightarrow> ('w, event, 'a) procedure \<Rightarrow> bool" where
  "confined F \<equiv> every (\<lambda>e. footprintOf e \<in> F)"

named_theorems confinement \<open>how a property of all calls follows the structure of a procedure\<close>

lemma everyD: "every q p \<Longrightarrow> list_all q (events_of (p w))"
  unfolding every_def by (rule meetsD)

lemma confinedD: "confined F p \<Longrightarrow> e \<in> set (events_of (p w)) \<Longrightarrow> footprintOf e \<in> F"
  using everyD [of "\<lambda>e. footprintOf e \<in> F" p w] by (simp add: list_all_iff)

lemma every_mono: "every q p \<Longrightarrow> (\<And>e. q e \<Longrightarrow> q' e) \<Longrightarrow> every q' p"
  unfolding every_def by (erule meets_mono) (auto simp: list_all_iff)

lemma every_ret [confinement]: "every q (ret a)"
  by (simp add: every_def meets_ret)

lemma every_liftE [confinement]: "every q (liftE r)"
  by (simp add: every_def meets_liftE)

lemma every_observe [confinement]: "every q (observe f)"
  by (simp add: every_def meets_observe)

lemma every_call [confinement]: "(\<And>r. q (ev r)) \<Longrightarrow> every q (call ev f)"
  by (simp add: every_def meets_call)

lemma every_emit [confinement]: "q e \<Longrightarrow> every q (emit e)"
  by (simp add: every_def meets_emit)

lemma every_andThen [confinement]: "every q m \<Longrightarrow> (\<And>a. every q (f a)) \<Longrightarrow> every q (andThen m f)"
  unfolding every_def by (rule meets_andThen_wp) (auto elim!: meets_mono)

lemma every_bindE [confinement]: "every q m \<Longrightarrow> (\<And>a. every q (f a)) \<Longrightarrow> every q (bindE m f)"
  unfolding every_def by (rule meets_bindE_wp) (auto elim!: meets_mono split: sum.split)

lemma every_if [confinement]: "every q p \<Longrightarrow> every q p' \<Longrightarrow> every q (if b then p else p')"
  by simp

lemma every_case [confinement]:
  "(\<And>e. every q (f e)) \<Longrightarrow> (\<And>a. every q (g a)) \<Longrightarrow> every q (case r of Inl e \<Rightarrow> f e | Inr a \<Rightarrow> g a)"
  "every q p \<Longrightarrow> (\<And>a. every q (h a)) \<Longrightarrow> every q (case o' of None \<Rightarrow> p | Some a \<Rightarrow> h a)"
  "(\<And>a b. every q (k a b)) \<Longrightarrow> every q (case ab of (a, b) \<Rightarrow> k a b)"
  by (auto split: sum.split option.split prod.split)

lemma every_forE [confinement]: "(\<And>x. every q (f x)) \<Longrightarrow> every q (forE xs f)"
  by (induction xs) (auto intro: confinement)

lemma every_forCollect [confinement]: "(\<And>x. every q (f x)) \<Longrightarrow> every q (forCollect xs f)"
  by (induction xs) (auto intro!: confinement)

lemma every_stamped [confinement]: "(\<And>now. every q (k now)) \<Longrightarrow> every q (stamped kr k)"
  unfolding stamped_def by (intro confinement)

lemma every_wrapped [confinement]: "every q p \<Longrightarrow> every q (wrapped pre p)"
  unfolding wrapped_def by (intro confinement)

lemma every_record [confinement]: "q (EvRecord kind reason act note) \<Longrightarrow> every q (recordEvent kind reason act note)"
  unfolding recordEvent_def by (rule every_emit)

lemma every_eventf [confinement]: "q (EvRecord kind reason act note) \<Longrightarrow> every q (eventf kr kind reason act note)"
  unfolding eventf_def by (intro confinement)

lemma every_config [confinement]:
  "(\<And>key r. q (EvSecret (SGet key r))) \<Longrightarrow> every q (clusterNomadConfig pf nc)"
  unfolding clusterNomadConfig_def kube_calls Let_def by (intro confinement)

lemma every_client [confinement]: "(\<And>key r. q (EvSecret (SGet key r))) \<Longrightarrow> every q (clusterClient kr nc)"
  unfolding clusterClient_def by (intro confinement)

subsection \<open>The cluster reconciler\<close>

definition secretFootprint :: "footprint set" where
  "secretFootprint = FStore ChSecret ` {VGet, VCreate, VUpdate} \<union> {FRand, FNomad AreaServers}"

definition clusterFootprint :: "footprint set" where
  "clusterFootprint = secretFootprint \<union> FStore ChCluster ` {VGet, VUpdateStatus} \<union>
     {FStore ChGateway VGet, FStore ChService VGet, FApply, FRecord}"

lemma every_withCondition [confinement]:
  "(\<And>nc. every q (k nc)) \<Longrightarrow> every q (withCondition rc nc ty status reason msg k)"
  unfolding withCondition_def by (intro confinement)

lemma confined_applyObject [confinement]: "FApply \<in> F \<Longrightarrow> confined F (applyObject rc nc obj)"
  unfolding applyObject_def Let_def by (intro confinement) simp

lemma confined_applyBuilt [confinement]: "FApply \<in> F \<Longrightarrow> confined F (applyBuilt rc nc obj)"
  unfolding applyBuilt_def by (intro confinement)

lemma confined_finish [confinement]: "FStore ChCluster VUpdateStatus \<in> F \<Longrightarrow> confined F (finish rc nc res)"
  unfolding finish_def kube_calls by (intro confinement) simp

lemma confined_gossip [confinement]: "secretFootprint \<subseteq> F \<Longrightarrow> confined F (ensureGossipKey rc nc)"
  unfolding ensureGossipKey_def randRead_def kube_calls Let_def secretFootprint_def by (intro confinement) auto

lemma confined_token [confinement]: "secretFootprint \<subseteq> F \<Longrightarrow> confined F (ensureBootstrapToken rc nc ops)"
  unfolding ensureBootstrapToken_def obtainTokenSecret_def newBootstrapToken_def randRead_def kube_calls Let_def
    secretFootprint_def
  by (intro confinement) auto

lemma confined_cert [confinement]: "secretFootprint \<subseteq> F \<Longrightarrow> confined F (certSecretReady rc nc)"
  unfolding certSecretReady_def kube_calls secretFootprint_def by (intro confinement) auto

lemma confined_address [confinement]: "confined clusterFootprint (resolveAddress rc nc)"
  unfolding resolveAddress_def ensureLoadBalancer_def ensureGateway_def ensureExistingGateway_def
    ensureManagedGateway_def setNotReady_def kube_calls Let_def
  by (intro confinement) (auto simp: clusterFootprint_def)

lemma confined_provision [confinement]: "FApply \<in> F \<Longrightarrow> confined F (provision rc nc extAddr)"
  unfolding provision_refines by (intro confinement)

lemma confined_drift [confinement]:
  "FRecord \<in> F \<Longrightarrow> (\<And>nc. confined F (k nc)) \<Longrightarrow> confined F (checkAddressDrift rc nc prev cur k)"
  unfolding checkAddressDrift_def Let_def by (intro confinement) simp_all

lemma confined_bootstrap [confinement]: "confined clusterFootprint (bootstrapAndReady rc nc)"
  unfolding bootstrapAndReady_def clientFor_def noLeader_def becomeReady_def kube_calls Let_def
  by (intro confinement) (auto simp: clusterFootprint_def secretFootprint_def)

lemma confined_cluster_pass: "confined clusterFootprint (ReconcileCluster rc key)"
  unfolding ReconcileCluster_def reconcileCluster_def waitForCert_def waitForAddress_def rollOut_def kube_calls Let_def
  by (intro confinement) (auto simp: clusterFootprint_def secretFootprint_def)

subsection \<open>The node reflector\<close>

definition nodeFootprint :: "footprint set" where
  "nodeFootprint = {FStore ChCluster VGet, FStore ChSecret VGet, FNomad AreaNodes} \<union>
     FStore ChNode ` {VGet, VList, VCreate, VUpdateStatus, VDelete}"

lemma confined_drive [confinement]: "confined nodeFootprint (driveAndMirror kr nn stub ops)"
  unfolding driveAndMirror_def driveDesired_def adoptDrain_def mirrorStatus_def nodeStatusUpdate_def kube_calls Let_def
  by (intro confinement) (auto simp: nodeFootprint_def)

lemma confined_mint [confinement]: "confined nodeFootprint (mintNode kr nc nn)"
  unfolding mintNode_def kube_calls by (intro confinement) (auto simp: nodeFootprint_def)

lemma confined_upsert [confinement]: "confined nodeFootprint (upsertNode kr nc stub bound owners ops)"
  unfolding upsertNode_def mintOwned_def seedDrain_def kube_calls Let_def
  by (intro confinement) (auto simp: nodeFootprint_def)

lemma confined_node_pass: "confined nodeFootprint (ReconcileNodes kr ord key)"
  unfolding ReconcileNodes_def notListable_def markClusterNotReady_def reflectNodes_def markDuplicates_def
    markDuplicate_def pruneAbsent_def clusterNodes_def nodeStatusUpdate_def kube_calls Let_def
  by (intro confinement) (auto simp: nodeFootprint_def)

subsection \<open>Pools, namespaces and jobs\<close>

definition kindFootprint :: "channel \<Rightarrow> nomad_area \<Rightarrow> footprint set" where
  "kindFootprint ch area = {FStore ChCluster VGet, FStore ChSecret VGet, FRecord, FNomad area} \<union>
     FStore ch ` {VGet, VUpdate, VUpdateStatus}"

definition poolFootprint :: "footprint set" where
  "poolFootprint = insert (FStore ChPool VList) (kindFootprint ChPool AreaPools)"

definition namespaceFootprint :: "footprint set" where
  "namespaceFootprint = insert (FStore ChNamespace VList) (kindFootprint ChNamespace AreaNamespaces)"

definition jobFootprint :: "footprint set" where
  "jobFootprint = kindFootprint ChJob AreaJobs"

lemmas kind_footprints = poolFootprint_def namespaceFootprint_def jobFootprint_def kindFootprint_def

lemma confined_pool_pass: "confined poolFootprint (ReconcilePool kr key)"
  unfolding ReconcilePool_def finalizePool_def reconcilePool_def pool_steps kube_calls Let_def
  by (intro confinement) (auto simp: kind_footprints)

lemma confined_namespace_pass: "confined namespaceFootprint (ReconcileNamespace kr key)"
  unfolding ReconcileNamespace_def finalizeNamespace_def reconcileNamespace_def namespace_steps kube_calls Let_def
  by (intro confinement) (auto simp: kind_footprints)

lemma confined_job_pass: "confined jobFootprint (ReconcileJob kr dec key)"
  unfolding ReconcileJob_def finalizeJob_def reconcileJob_def job_steps kube_calls Let_def
  by (intro confinement) (auto simp: kind_footprints)

subsection \<open>The operator as a set of workers\<close>

text \<open>
  A worker is a reconciler with the object it is run for: the node reflector is run per cluster. The
  operator is the five reconcilers as the manager builds them.
\<close>

datatype worker = ClusterWorker namespaced_name | NodeWorker namespaced_name | PoolWorker namespaced_name
  | NamespaceWorker namespaced_name | JobWorker namespaced_name

record 'w operator =
  oc_cluster :: "'w cluster_reconciler"
  oc_node :: "'w node_reconciler"
  oc_order :: range_order
  oc_pool :: "'w pool_reconciler"
  oc_namespace :: "'w namespace_reconciler"
  oc_job :: "'w job_reconciler"
  oc_decoder :: job_decoder

fun passOf :: "'w operator \<Rightarrow> worker \<Rightarrow> ('w, reconcile_result) reconciler_proc" where
  "passOf op (ClusterWorker key) = ReconcileCluster (oc_cluster op) key"
| "passOf op (NodeWorker key) = ReconcileNodes (oc_node op) (oc_order op) key"
| "passOf op (PoolWorker key) = ReconcilePool (oc_pool op) key"
| "passOf op (NamespaceWorker key) = ReconcileNamespace (oc_namespace op) key"
| "passOf op (JobWorker key) = ReconcileJob (oc_job op) (oc_decoder op) key"

fun footprintFor :: "worker \<Rightarrow> footprint set" where
  "footprintFor (ClusterWorker key) = clusterFootprint"
| "footprintFor (NodeWorker key) = nodeFootprint"
| "footprintFor (PoolWorker key) = poolFootprint"
| "footprintFor (NamespaceWorker key) = namespaceFootprint"
| "footprintFor (JobWorker key) = jobFootprint"

lemma confined_pass: "confined (footprintFor i) (passOf op i)"
  by (cases i) (simp_all add: confined_cluster_pass confined_node_pass confined_pool_pass
      confined_namespace_pass confined_job_pass)

lemmas pass_footprint = confinedD [OF confined_pass]

end
