(* ===== verification/Interference.thy ===== *)
theory Interference
  imports PoolRuns NamespaceRuns JobRuns Footprint
begin

section \<open>Reconcilers that run at the same time\<close>

text \<open>
  The manager runs the five controllers in parallel, so the calls of passes over different objects
  interleave. A schedule is the sequence of all calls, each with the worker that made it; what one
  worker did is a subsequence, made of whole passes. A pool, namespace or job converges in every
  schedule in which no other object claims the same name: what the others do to Nomad leaves its
  entry alone.
\<close>

subsection \<open>Schedules\<close>

type_synonym schedule = "(worker \<times> event) list"

definition callsOf :: "'i \<Rightarrow> ('i \<times> 'e) list \<Rightarrow> 'e list" where
  "callsOf i tr = map snd (filter (\<lambda>(j, _). j = i) tr)"

lemma callsOf_simps [simp]:
  "callsOf i [] = []"
  "callsOf i ((j, e) # tr) = (if j = i then e # callsOf i tr else callsOf i tr)"
  "callsOf i (tr @ tr') = callsOf i tr @ callsOf i tr'"
  by (simp_all add: callsOf_def)

lemma set_callsOf: "e \<in> set (callsOf i tr) \<longleftrightarrow> (i, e) \<in> set tr"
  by (force simp: callsOf_def)

text \<open>The worker's calls are those of some whole passes of its reconciler, one after the other.\<close>

definition wholePasses :: "('e list \<Rightarrow> bool) \<Rightarrow> 'e list \<Rightarrow> bool" where
  "wholePasses P es \<longleftrightarrow> (\<exists>ess. es = concat ess \<and> list_all P ess)"

definition passBy :: "'w operator \<Rightarrow> worker \<Rightarrow> event list \<Rightarrow> bool" where
  "passBy op i es \<longleftrightarrow> (\<exists>w. es = events_of (passOf op i w))"

definition worksOff :: "'w operator \<Rightarrow> schedule \<Rightarrow> bool" where
  "worksOff op tr \<longleftrightarrow> (\<forall>i. wholePasses (passBy op i) (callsOf i tr))"

lemma wholePasses_single: "P es \<Longrightarrow> wholePasses P es"
  unfolding wholePasses_def by (rule exI [of _ "[es]"]) simp

lemma wholePasses_none: "wholePasses P []"
  unfolding wholePasses_def by (rule exI [of _ "[]"]) simp

lemma wholePasses_strengthen:
  assumes "wholePasses P es" "list_all q es" "\<And>es. P es \<Longrightarrow> list_all q es \<Longrightarrow> R es"
  shows "wholePasses R es"
proof -
  obtain ess where ess: "es = concat ess" "list_all P ess" using assms(1) by (auto simp: wholePasses_def)
  moreover have "list_all R ess" using ess assms(2,3) by (auto simp: list_all_iff)
  ultimately show ?thesis by (auto simp: wholePasses_def)
qed

lemma wholePasses_all:
  assumes "wholePasses P es" "\<And>es. P es \<Longrightarrow> list_all q es"
  shows "list_all q es"
  using assms unfolding wholePasses_def list_all_iff by fastforce

lemma wholePasses_each:
  assumes "wholePasses P es" "list_all q es" "\<And>es. P es \<Longrightarrow> list_all q es \<Longrightarrow> list_all r es"
  shows "list_all r es"
  by (rule wholePasses_all [OF wholePasses_strengthen [where R = "list_all r", OF assms]]) assumption+

lemma wholePasses_runs: "wholePasses P es \<Longrightarrow> path srv s es s' \<Longrightarrow> runs srv P s es s'"
proof -
  have "list_all P ess \<Longrightarrow> path srv s (concat ess) s' \<Longrightarrow> runs srv P s (concat ess) s'" for ess
    by (induction ess arbitrary: s' rule: rev_induct) (auto simp: path_append intro: runs.intros)
  then show "wholePasses P es \<Longrightarrow> path srv s es s' \<Longrightarrow> runs srv P s es s'"
    by (auto simp: wholePasses_def)
qed

subsection \<open>Servers with entries\<close>

text \<open>
  A server that keeps entries by key: a call changes only entries it touches, and how it is answered
  depends on nothing else.
\<close>

locale keyed_server = nomad_server srv
  for srv :: "('k \<Rightarrow> 'v option) \<Rightarrow> event \<Rightarrow> ('k \<Rightarrow> 'v option) \<Rightarrow> bool" +
  fixes touches :: "event \<Rightarrow> 'k set"
  assumes frame: "srv s e t \<Longrightarrow> k \<notin> touches e \<Longrightarrow> t k = s k"
    and local: "srv s e t \<Longrightarrow> touches e \<subseteq> {k} \<Longrightarrow> u k = s k \<Longrightarrow> srv u e (u(k := t k))"
begin

text \<open>
  What one worker saw and did, it could have seen and done alone, if it touches one entry and the
  others leave that entry alone.
\<close>

lemma alone:
  assumes "path srv s (map snd tr) s'"
    and "\<And>e. (i, e) \<in> set tr \<Longrightarrow> touches e \<subseteq> {k}"
    and "\<And>j e. (j, e) \<in> set tr \<Longrightarrow> j \<noteq> i \<Longrightarrow> k \<notin> touches e"
    and "u k = s k"
  shows "path srv u (callsOf i tr) (u(k := s' k))"
  using assms
proof (induction tr arbitrary: s u)
  case Nil
  then show ?case by (simp add: fun_eq_iff)
next
  case (Cons x tr)
  obtain j e where x: "x = (j, e)" by fastforce
  obtain t where t: "srv s e t" "path srv t (map snd tr) s'" using Cons.prems(1) x by auto
  show ?case
  proof (cases "j = i")
    case True
    have "srv u e (u(k := t k))"
      using t(1) Cons.prems(2) [of e] Cons.prems(4) x True by (intro local) auto
    moreover have "path srv (u(k := t k)) (callsOf i tr) (u(k := t k, k := s' k))"
      using t(2) Cons.prems(2,3) by (intro Cons.IH) auto
    ultimately show ?thesis using x True by (simp del: fun_upd_apply) blast
  next
    case False
    then have "t k = s k" using frame [OF t(1)] Cons.prems(3) [of j e] x by auto
    then have "path srv u (callsOf i tr) (u(k := s' k))"
      using t(2) Cons.prems(2-4) by (intro Cons.IH [of t u]) auto
    then show ?thesis using x False by (simp del: fun_upd_apply)
  qed
qed

text \<open>
  Conversely, runs of two workers that touch different entries can be interleaved in any way; here
  in turns.
\<close>

lemma merged:
  assumes "path srv s xs p" "path srv t ys q"
    and "list_all (\<lambda>e. touches e \<subseteq> {k}) xs" "list_all (\<lambda>e. touches e \<subseteq> {l}) ys"
    and "k \<noteq> l" "u k = s k" "u l = t l"
  shows "\<exists>u'. path srv u (splice xs ys) u' \<and> u' k = p k \<and> u' l = q l"
  using assms
proof (induction xs ys arbitrary: s t u k l p q rule: splice.induct)
  case (1 ys)
  have "path srv t ys q \<Longrightarrow> list_all (\<lambda>e. touches e \<subseteq> {l}) ys \<Longrightarrow> u l = t l \<Longrightarrow> path srv u ys (u(l := q l))"
    for t u and ys :: "event list"
  proof (induction ys arbitrary: t u)
    case (Cons e ys)
    from Cons.prems obtain v where v: "srv t e v" "path srv v ys q" "touches e \<subseteq> {l}" by auto
    have "srv u e (u(l := v l))" using v Cons.prems by (intro local) auto
    moreover have "path srv (u(l := v l)) ys (u(l := v l, l := q l))" using v Cons.prems by (intro Cons.IH) auto
    ultimately show ?case by (simp del: fun_upd_apply) blast
  qed (simp add: fun_eq_iff)
  from this [of t ys u] 1 have "path srv u (splice [] ys) (u(l := q l))" unfolding splice.simps by blast
  moreover have "(u(l := q l)) k = p k \<and> (u(l := q l)) l = q l" using 1 by simp
  ultimately show ?case by blast
next
  case (2 e xs ys)
  from 2(2) obtain v where v: "srv s e v" "path srv v xs p" by auto
  have "srv u e (u(k := v k))" using v 2 by (intro local) auto
  moreover have "\<exists>u'. path srv (u(k := v k)) (splice ys xs) u' \<and> u' l = q l \<and> u' k = p k"
    by (rule 2(1) [where s = t and p = q and t = v and q = p and k = l and l = k]) (use 2(3-) v in auto)
  ultimately show ?case by auto
qed

lemma untouched:
  "path srv s es s' \<Longrightarrow> (\<And>e. e \<in> set es \<Longrightarrow> k \<notin> touches e) \<Longrightarrow> s' k = s k"
proof (induction es arbitrary: s)
  case (Cons e es)
  from Cons.prems(1) obtain t where "srv s e t" "path srv t es s'" by auto
  then show ?case using Cons.IH [of t] Cons.prems(2) frame [of s e t k] by auto
qed simp

text \<open>A worker whose passes touch only the entries its object asks for.\<close>

lemma asked_entries:
  assumes "wholePasses Q (callsOf j tr)"
    and "\<And>es. Q es \<Longrightarrow> list_all q es \<Longrightarrow> list_all (\<lambda>e. touches e \<subseteq> A) es"
    and "list_all q (callsOf j tr)" and "(j, e) \<in> set tr"
  shows "touches e \<subseteq> A"
proof -
  have "list_all (\<lambda>e. touches e \<subseteq> A) (callsOf j tr)" by (rule wholePasses_each [OF assms(1,3,2)])
  then show ?thesis using assms(4) by (simp add: list_all_iff set_callsOf)
qed

lemma alone_in_schedule:
  assumes path: "path srv s (map snd tr) s'"
    and works: "\<And>j. wholePasses (Q j) (callsOf j tr)"
    and entries: "\<And>j p es. Q j es \<Longrightarrow> list_all (asks p) es \<Longrightarrow> list_all (\<lambda>e. touches e \<subseteq> Collect p) es"
    and own: "list_all (\<lambda>e. touches e \<subseteq> {k}) (callsOf i tr)"
    and others: "\<And>j e. (j, e) \<in> set tr \<Longrightarrow> j \<noteq> i \<Longrightarrow> asks (\<lambda>n. n \<noteq> k) e"
  shows "path srv s (callsOf i tr) (s(k := s' k))"
proof (rule alone [OF path])
  show "touches e \<subseteq> {k}" if "(i, e) \<in> set tr" for e
    using own that by (simp add: list_all_iff set_callsOf)
next
  fix j e
  assume call: "(j, e) \<in> set tr" "j \<noteq> i"
  then have "list_all (asks (\<lambda>n. n \<noteq> k)) (callsOf j tr)" using others by (auto simp: list_all_iff set_callsOf)
  then have "touches e \<subseteq> {n. n \<noteq> k}"
    using asked_entries [OF works [of j], where A = "{n. n \<noteq> k}", OF _ _ call(1)] entries [of j _ "\<lambda>n. n \<noteq> k"] by blast
  then show "k \<notin> touches e" by auto
qed simp

end

text \<open>What \<open>settles\<close> says, read at one entry.\<close>

definition settlesAt ::
    "'k \<Rightarrow> (('k \<Rightarrow> 'v option) \<Rightarrow> bool) \<Rightarrow> (event \<Rightarrow> bool) \<Rightarrow> ('k \<Rightarrow> 'v option) \<Rightarrow> event list \<Rightarrow> ('k \<Rightarrow> 'v option) \<Rightarrow> bool" where
  "settlesAt k goal ready s es s' \<longleftrightarrow>
     (s' k = s k \<or> goal s') \<and> (goal s \<longrightarrow> s' k = s k \<and> quiet isNomadWrite es) \<and> (some_call ready es \<longrightarrow> goal s')"

locale keyed_converging = keyed_server srv touches + converging srv P goal ready
  for srv :: "('k \<Rightarrow> 'v option) \<Rightarrow> event \<Rightarrow> ('k \<Rightarrow> 'v option) \<Rightarrow> bool" and touches and P and goal and ready +
  fixes k :: 'k
  assumes goal_local: "s k = t k \<Longrightarrow> goal s \<longleftrightarrow> goal t"
begin

text \<open>
  In a schedule of workers that touch only the entries their objects ask for, an entry that one
  object asks for settles.
\<close>

lemma settles_in_schedule:
  assumes path: "path srv s (map snd tr) s'" and passes: "wholePasses P (callsOf i tr)"
    and works: "\<And>j. wholePasses (Q j) (callsOf j tr)"
    and entries: "\<And>j p es. Q j es \<Longrightarrow> list_all (asks p) es \<Longrightarrow> list_all (\<lambda>e. touches e \<subseteq> Collect p) es"
    and own: "list_all (asks (\<lambda>n. n = k)) (callsOf i tr)"
    and others: "\<And>j e. (j, e) \<in> set tr \<Longrightarrow> j \<noteq> i \<Longrightarrow> asks (\<lambda>n. n \<noteq> k) e"
  shows "settlesAt k goal ready s (callsOf i tr) s'"
proof -
  have "list_all (\<lambda>e. touches e \<subseteq> {n. n = k}) (callsOf i tr)"
    using wholePasses_each [OF works [of i] own] entries [of i _ "\<lambda>n. n = k"] by blast
  then have own_k: "list_all (\<lambda>e. touches e \<subseteq> {k}) (callsOf i tr)" by simp
  have "path srv s (callsOf i tr) (s(k := s' k))"
    by (rule alone_in_schedule [where Q = Q and asks = asks, OF path works]) (fact entries own_k others)+
  then have "settles goal ready s (callsOf i tr) (s(k := s' k))"
    by (rule run_settles [OF wholePasses_runs [OF passes]])
  moreover have "goal (s(k := s' k)) \<longleftrightarrow> goal s'" by (rule goal_local) simp
  ultimately show ?thesis unfolding settles_def settlesAt_def by (metis fun_upd_same)
qed

end

lemma entries_mono:
  "list_all (\<lambda>e. entry e \<subseteq> {n}) es \<Longrightarrow> p n \<Longrightarrow> list_all (\<lambda>e. entry e \<subseteq> Collect p) es"
  by (auto simp: list_all_iff)

subsection \<open>Pools\<close>

fun poolEntry :: "event \<Rightarrow> string set" where
  "poolEntry (EvNomad (NGetNodePool n _)) = {n}"
| "poolEntry (EvNomad (NUpsertNodePool d _)) = {pool_Name d}"
| "poolEntry (EvNomad (NDeleteNodePool n _)) = {n}"
| "poolEntry _ = {}"

lemma poolEntry_elsewhere: "footprintOf e \<noteq> FNomad AreaPools \<Longrightarrow> poolEntry e = {}"
  by (cases e rule: poolEntry.cases) simp_all

interpretation pool_entries: keyed_server poolServer poolEntry
proof
  fix s e t k
  assume "poolServer s e t" "k \<notin> poolEntry e"
  then show "t k = s k" by (cases rule: poolServer.cases) auto
next
  fix s e t k u
  assume "poolServer s e t" "poolEntry e \<subseteq> {k}" "u k = s k"
  then show "poolServer u e (u(k := t k))"
    by (cases rule: poolServer.cases) (auto simp: poolServer_unrelated fun_upd_idem)
qed

text \<open>Every answer that shows the worker's object shows one whose pool satisfies \<open>p\<close>.\<close>

fun poolAsks :: "(string \<Rightarrow> bool) \<Rightarrow> event \<Rightarrow> bool" where
  "poolAsks p (EvPool (SGet _ (Inr np))) \<longleftrightarrow> p (ps_poolName (np_spec np))"
| "poolAsks p (EvPool (SUpdate _ (Inr np))) \<longleftrightarrow> p (ps_poolName (np_spec np))"
| "poolAsks p _ \<longleftrightarrow> True"

lemma reconcilePool_entries:
  "every (\<lambda>e. poolEntry e \<subseteq> {ps_poolName (np_spec np)}) (reconcilePool kr np ops)"
  "every (\<lambda>e. poolEntry e \<subseteq> {ps_poolName (np_spec np)}) (finalizePool kr np)"
  unfolding reconcilePool_def finalizePool_def pool_steps kube_calls Let_def by (intro confinement; simp)+

lemmas pool_part_entries = reconcilePool_entries [unfolded every_def, THEN meets_mono]
  every_client [of "\<lambda>e. poolEntry e \<subseteq> A" for A, simplified, unfolded every_def, THEN meets_mono]

lemma pool_pass_entries:
  "meets (ReconcilePool kr key) (\<lambda>r es. list_all (poolAsks p) es \<longrightarrow> list_all (\<lambda>e. poolEntry e \<subseteq> Collect p) es)"
  unfolding ReconcilePool_def ensurePoolFinalizer_def adoptPool_def poolUpdate_def poolNotReady_def poolStatusUpdate_def
    kube_calls Let_def
  by (auto intro!: meets_ret meets_liftE meets_call meets_andThen_wp meets_bindE_wp meets_if meets_case_sum meets_stamped
      pool_part_entries split: sum.splits if_splits elim!: entries_mono)

lemma deletedPool_entries:
  "meets (ReconcilePool kr key) (\<lambda>r es. deletedPoolSeen sp es \<longrightarrow> list_all (\<lambda>e. poolEntry e \<subseteq> {ps_poolName sp}) es)"
  unfolding ReconcilePool_def kube_calls
  by (rule meets_andThen_call)
    (auto split: sum.splits intro!: meets_ret meets_if reconcilePool_entries(2) [unfolded every_def, THEN meets_mono] meets_trivial [where p = "bindE m f" for m f])

interpretation pools_among: keyed_converging poolServer poolEntry "livePoolPass kr key sp" "holdsPool sp" reportsPoolReady
    "ps_poolName sp" for kr key sp
  by unfold_locales (simp add: holdsPool_def)

lemma pass_asks_pool:
  assumes "passBy op j es" "list_all (poolAsks p) es"
  shows "list_all (\<lambda>e. poolEntry e \<subseteq> Collect p) es"
proof (cases "\<exists>key. j = PoolWorker key")
  case True
  then show ?thesis using assms meetsD [OF pool_pass_entries [of "oc_pool op" _ p]] by (auto simp: passBy_def)
next
  case False
  then have "FNomad AreaPools \<notin> footprintFor j"
    by (cases j) (auto simp: clusterFootprint_def secretFootprint_def nodeFootprint_def kind_footprints)
  then have "poolEntry e = {}" if "e \<in> set es" for e
    using that assms(1) pass_footprint [of e op j] by (auto simp: passBy_def intro!: poolEntry_elsewhere)
  then show ?thesis by (simp add: list_all_iff)
qed

lemma poolSeenAs_asks: "poolSeenAs sp e \<Longrightarrow> poolAsks (\<lambda>n. n = ps_poolName sp) e"
  by (induction sp e rule: poolSeenAs.induct) simp_all

subsection \<open>Namespaces\<close>

fun namespaceEntry :: "event \<Rightarrow> string set" where
  "namespaceEntry (EvNomad (NGetNamespace n _)) = {n}"
| "namespaceEntry (EvNomad (NUpsertNamespace d _)) = {ans_Name d}"
| "namespaceEntry (EvNomad (NDeleteNamespace n _)) = {n}"
| "namespaceEntry _ = {}"

lemma namespaceEntry_elsewhere: "footprintOf e \<noteq> FNomad AreaNamespaces \<Longrightarrow> namespaceEntry e = {}"
  by (cases e rule: namespaceEntry.cases) simp_all

interpretation namespace_entries: keyed_server namespaceServer namespaceEntry
proof
  fix s e t k
  assume "namespaceServer s e t" "k \<notin> namespaceEntry e"
  then show "t k = s k" by (cases rule: namespaceServer.cases) auto
next
  fix s e t k u
  assume "namespaceServer s e t" "namespaceEntry e \<subseteq> {k}" "u k = s k"
  then show "namespaceServer u e (u(k := t k))"
    by (cases rule: namespaceServer.cases) (auto simp: namespaceServer_unrelated fun_upd_idem)
qed

text \<open>Every answer that shows the worker's object shows one whose namespace satisfies \<open>p\<close>.\<close>

fun namespaceAsks :: "(string \<Rightarrow> bool) \<Rightarrow> event \<Rightarrow> bool" where
  "namespaceAsks p (EvNamespace (SGet _ (Inr nn))) \<longleftrightarrow> p (ns_namespaceName (nns_spec nn))"
| "namespaceAsks p (EvNamespace (SUpdate _ (Inr nn))) \<longleftrightarrow> p (ns_namespaceName (nns_spec nn))"
| "namespaceAsks p _ \<longleftrightarrow> True"

lemma reconcileNamespace_entries:
  "every (\<lambda>e. namespaceEntry e \<subseteq> {ns_namespaceName (nns_spec nn)}) (reconcileNamespace kr nn ops)"
  "every (\<lambda>e. namespaceEntry e \<subseteq> {ns_namespaceName (nns_spec nn)}) (finalizeNamespace kr nn)"
  unfolding reconcileNamespace_def finalizeNamespace_def namespace_steps kube_calls Let_def by (intro confinement; simp)+

lemmas namespace_part_entries = reconcileNamespace_entries [unfolded every_def, THEN meets_mono]
  every_client [of "\<lambda>e. namespaceEntry e \<subseteq> A" for A, simplified, unfolded every_def, THEN meets_mono]

lemma namespace_pass_entries:
  "meets (ReconcileNamespace kr key) (\<lambda>r es. list_all (namespaceAsks p) es \<longrightarrow> list_all (\<lambda>e. namespaceEntry e \<subseteq> Collect p) es)"
  unfolding ReconcileNamespace_def ensureNamespaceFinalizer_def adoptNamespace_def namespaceUpdate_def namespaceNotReady_def namespaceStatusUpdate_def
    kube_calls Let_def
  by (auto intro!: meets_ret meets_liftE meets_call meets_andThen_wp meets_bindE_wp meets_if meets_case_sum meets_stamped
      namespace_part_entries split: sum.splits if_splits elim!: entries_mono)

lemma deletedNamespace_entries:
  "meets (ReconcileNamespace kr key) (\<lambda>r es. deletedNamespaceSeen sp es \<longrightarrow> list_all (\<lambda>e. namespaceEntry e \<subseteq> {ns_namespaceName sp}) es)"
  unfolding ReconcileNamespace_def kube_calls
  by (rule meets_andThen_call)
    (auto split: sum.splits intro!: meets_ret meets_if reconcileNamespace_entries(2) [unfolded every_def, THEN meets_mono] meets_trivial [where p = "bindE m f" for m f])

interpretation namespaces_among: keyed_converging namespaceServer namespaceEntry "liveNamespacePass kr key sp" "holdsNamespace sp" reportsNamespaceReady
    "ns_namespaceName sp" for kr key sp
  by unfold_locales (simp add: holdsNamespace_def)

lemma pass_asks_namespace:
  assumes "passBy op j es" "list_all (namespaceAsks p) es"
  shows "list_all (\<lambda>e. namespaceEntry e \<subseteq> Collect p) es"
proof (cases "\<exists>key. j = NamespaceWorker key")
  case True
  then show ?thesis using assms meetsD [OF namespace_pass_entries [of "oc_namespace op" _ p]] by (auto simp: passBy_def)
next
  case False
  then have "FNomad AreaNamespaces \<notin> footprintFor j"
    by (cases j) (auto simp: clusterFootprint_def secretFootprint_def nodeFootprint_def kind_footprints)
  then have "namespaceEntry e = {}" if "e \<in> set es" for e
    using that assms(1) pass_footprint [of e op j] by (auto simp: passBy_def intro!: namespaceEntry_elsewhere)
  then show ?thesis by (simp add: list_all_iff)
qed

lemma namespaceSeenAs_asks: "namespaceSeenAs sp e \<Longrightarrow> namespaceAsks (\<lambda>n. n = ns_namespaceName sp) e"
  by (induction sp e rule: namespaceSeenAs.induct) simp_all

subsection \<open>Jobs\<close>

fun jobEntry :: "event \<Rightarrow> (string \<times> string) set" where
  "jobEntry (EvNomad (NPlanJob d _)) = {jobKeyOf d}"
| "jobEntry (EvNomad (NRegisterJob d _)) = {jobKeyOf d}"
| "jobEntry (EvNomad (NDeregisterJob ns i _ _)) = {(ns, i)}"
| "jobEntry _ = {}"

lemma jobEntry_elsewhere: "footprintOf e \<noteq> FNomad AreaJobs \<Longrightarrow> jobEntry e = {}"
  by (cases e rule: jobEntry.cases) simp_all

lemma onlyAt_other: "onlyAt k s t \<Longrightarrow> j \<noteq> k \<Longrightarrow> t j = s j"
  unfolding onlyAt_def by (metis fun_upd_other)

interpretation job_entries: keyed_server "jobServer same" jobEntry for same
proof
  fix s e t k
  assume "jobServer same s e t" "k \<notin> jobEntry e"
  then show "t k = s k" by (cases rule: jobServer.cases) (auto dest: onlyAt_other)
next
  fix s e t k u
  assume "jobServer same s e t" "jobEntry e \<subseteq> {k}" "u k = s k"
  then show "jobServer same u e (u(k := t k))"
    by (cases rule: jobServer.cases) (auto simp: jobServer_unrelated fun_upd_idem unchanged_def)
qed

fun jobAsks :: "(string \<times> string \<Rightarrow> bool) \<Rightarrow> event \<Rightarrow> bool" where
  "jobAsks p (EvJob (SGet _ (Inr nj))) \<longleftrightarrow> p (js_nomadNamespace (nj_spec nj), js_jobID (nj_spec nj))"
| "jobAsks p (EvJob (SUpdate _ (Inr nj))) \<longleftrightarrow> p (js_nomadNamespace (nj_spec nj), js_jobID (nj_spec nj))"
| "jobAsks p _ \<longleftrightarrow> True"

lemma reconcileJob_entries:
  "every (\<lambda>e. jobEntry e \<subseteq> {(js_nomadNamespace (nj_spec nj), js_jobID (nj_spec nj))}) (reconcileJob kr dec nj ops region)"
proof (cases "decodeJob (tk_unicode (kr_toolkit kr)) dec (nj_spec nj) region")
  case (Inl err)
  then show ?thesis unfolding reconcileJob_def job_steps kube_calls Let_def by (simp, intro confinement, simp)
next
  case (Inr d)
  from decoded_key [OF Inr] show ?thesis
    unfolding reconcileJob_def job_steps kube_calls Let_def Inr sum.case by (intro confinement; simp)
qed

lemma finalizeJob_entries:
  "every (\<lambda>e. jobEntry e \<subseteq> {(js_nomadNamespace (nj_spec nj), js_jobID (nj_spec nj))}) (finalizeJob kr nj)"
  unfolding finalizeJob_def job_steps kube_calls Let_def by (intro confinement; simp)

lemmas job_part_entries = reconcileJob_entries [unfolded every_def, THEN meets_mono]
  finalizeJob_entries [unfolded every_def, THEN meets_mono]
  every_client [of "\<lambda>e. jobEntry e \<subseteq> A" for A, simplified, unfolded every_def, THEN meets_mono]

lemma job_pass_entries:
  "meets (ReconcileJob kr dec key) (\<lambda>r es. list_all (jobAsks p) es \<longrightarrow> list_all (\<lambda>e. jobEntry e \<subseteq> Collect p) es)"
  unfolding ReconcileJob_def ensureJobFinalizer_def adoptJob_def jobUpdate_def jobNotReady_def jobStatusUpdate_def
    kube_calls Let_def
  by (auto intro!: meets_ret meets_liftE meets_call meets_andThen_wp meets_bindE_wp meets_if meets_case_sum meets_stamped
      job_part_entries split: sum.splits if_splits elim!: entries_mono)

lemma deletedJob_entries:
  "meets (ReconcileJob kr dec key) (\<lambda>r es. deletedJobSeen sp es \<longrightarrow>
     list_all (\<lambda>e. jobEntry e \<subseteq> {(js_nomadNamespace sp, js_jobID sp)}) es)"
  unfolding ReconcileJob_def kube_calls
  by (rule meets_andThen_call)
    (auto split: sum.splits intro!: meets_ret meets_if finalizeJob_entries [unfolded every_def, THEN meets_mono] meets_trivial [where p = "bindE m f" for m f])

interpretation jobs_among: keyed_converging "jobServer same" jobEntry "liveJobPass kr dec key sp region"
    "holdsJob same (tk_unicode (kr_toolkit kr)) dec sp region" reportsJobReady "(js_nomadNamespace sp, js_jobID sp)"
  for same kr dec key sp region
  by unfold_locales (auto simp: holdsJob_def unchanged_def decoded_key split: sum.splits)

lemma pass_asks_job:
  assumes "passBy op j es" "list_all (jobAsks p) es"
  shows "list_all (\<lambda>e. jobEntry e \<subseteq> Collect p) es"
proof (cases "\<exists>key. j = JobWorker key")
  case True
  then show ?thesis using assms meetsD [OF job_pass_entries [of "oc_job op" "oc_decoder op" _ p]] by (auto simp: passBy_def)
next
  case False
  then have "FNomad AreaJobs \<notin> footprintFor j"
    by (cases j) (auto simp: clusterFootprint_def secretFootprint_def nodeFootprint_def kind_footprints)
  then have "jobEntry e = {}" if "e \<in> set es" for e
    using that assms(1) pass_footprint [of e op j] by (auto simp: passBy_def intro!: jobEntry_elsewhere)
  then show ?thesis by (simp add: list_all_iff)
qed

lemma jobSeenAs_asks: "jobSeenAs sp region e \<Longrightarrow> jobAsks (\<lambda>n. n = (js_nomadNamespace sp, js_jobID sp)) e"
  by (induction sp region e rule: jobSeenAs.induct) simp_all

end
