(* ===== verification/Together.thy ===== *)
theory Together
  imports Interference
begin

section \<open>Convergence in every schedule\<close>

text \<open>
  The theorems about sequences of passes over one object, for the operator as a whole: passes over
  other objects run in between and at the same time, call by call.
\<close>

lemma callsOf_pairs: "callsOf c (map (Pair b) es) = (if c = b then es else [])"
  by (induction es) auto

lemma callsOf_splice:
  "a \<noteq> b \<Longrightarrow> callsOf c (splice (map (Pair a) xs) (map (Pair b) ys)) = (if c = a then xs else if c = b then ys else [])"
  by (induction xs ys arbitrary: a b rule: splice.induct) (auto simp: callsOf_pairs)

lemma snd_splice: "map snd (splice (map (Pair a) xs) (map (Pair b) ys)) = splice xs ys"
  by (induction xs ys arbitrary: a b rule: splice.induct) (simp_all add: comp_def)

lemma set_splice: "set (splice xs ys) = set xs \<union> set ys"
  by (induction xs ys rule: splice.induct) auto

lemma set_splice_pairs:
  "(c, e) \<in> set (splice (map (Pair a) xs) (map (Pair b) ys)) \<longleftrightarrow> c = a \<and> e \<in> set xs \<or> c = b \<and> e \<in> set ys"
  by (auto simp: set_splice)

text \<open>Two workers in turns, each with one pass.\<close>

definition inTurns :: "'w operator \<Rightarrow> worker \<Rightarrow> worker \<Rightarrow> 'w \<Rightarrow> schedule" where
  "inTurns op a b w = splice (map (Pair a) (events_of (passOf op a w))) (map (Pair b) (events_of (passOf op b w)))"

lemma passBy_pass: "passBy op i (events_of (passOf op i w))"
  by (auto simp: passBy_def)

lemma inTurns_works: "a \<noteq> b \<Longrightarrow> worksOff op (inTurns op a b w)"
  unfolding worksOff_def inTurns_def
  by (auto simp: callsOf_splice intro: wholePasses_none wholePasses_single passBy_pass)

lemma inTurns_calls:
  "a \<noteq> b \<Longrightarrow> callsOf a (inTurns op a b w) = events_of (passOf op a w)"
  "map snd (inTurns op a b w) = splice (events_of (passOf op a w)) (events_of (passOf op b w))"
  "(c, e) \<in> set (inTurns op a b w) \<longleftrightarrow>
     c = a \<and> e \<in> set (events_of (passOf op a w)) \<or> c = b \<and> e \<in> set (events_of (passOf op b w))"
  by (simp_all add: inTurns_def callsOf_splice snd_splice set_splice_pairs)

lemma passBy_live:
  assumes "worksOff op tr" "list_all q (callsOf i tr)"
    and "\<And>w. list_all q (events_of (passOf op i w)) \<Longrightarrow> P (events_of (passOf op i w))"
  shows "wholePasses P (callsOf i tr)"
proof (rule wholePasses_strengthen [OF _ assms(2)])
  show "wholePasses (passBy op i) (callsOf i tr)" using assms(1) by (simp add: worksOff_def)
qed (auto simp: passBy_def intro: assms(3))

subsection \<open>A sample operator\<close>

text \<open>
  The key \<^verbatim>\<open>old\<close> holds an object under deletion, every other key a live object that asks for a pool,
  namespace or job of the key's name. Each run is evaluated once, to its list of calls.
\<close>

definition keyedStore :: "(string \<Rightarrow> 'o) \<Rightarrow> (unit, 'o) store" where
  "keyedStore obj = emptyStore\<lparr>st_get := (\<lambda>key w. (Inr (obj (nn_name key)), w))\<rparr>"

definition fleetPool :: "string \<Rightarrow> nomad_pool" where
  "fleetPool name = (if name = ''old'' then samplePool else livePool\<lparr>np_meta := (np_meta livePool)\<lparr>om_name := name\<rparr>,
     np_spec := (np_spec livePool)\<lparr>ps_poolName := name\<rparr>\<rparr>)"

definition fleetNamespace :: "string \<Rightarrow> nomad_namespace" where
  "fleetNamespace name = (if name = ''old'' then sampleNamespace else
     liveNamespace\<lparr>nns_meta := (nns_meta liveNamespace)\<lparr>om_name := name\<rparr>,
       nns_spec := (nns_spec liveNamespace)\<lparr>ns_namespaceName := name\<rparr>\<rparr>)"

definition fleetJob :: "string \<Rightarrow> nomad_job" where
  "fleetJob name = (if name = ''old'' then sampleJob else liveJob\<lparr>nj_meta := (nj_meta liveJob)\<lparr>om_name := name\<rparr>,
     nj_spec := (nj_spec liveJob)\<lparr>js_jobID := name\<rparr>\<rparr>)"

definition fleetDecoder :: job_decoder where
  "fleetDecoder _ = Inr (sampleApiJob\<lparr>aj_Namespace := None, aj_ID := None\<rparr>)"

definition sampleOperator :: "unit operator" where
  "sampleOperator =
     \<lparr>oc_cluster = \<lparr>rc_platform = samplePlatform, rc_newNomadClient = (\<lambda>_. Inl nilDereference), rc_recorder = True,
        rc_parseQuantity = (\<lambda>_. None)\<rparr>,
      oc_node = \<lparr>kr_platform = samplePlatform, kr_newNomadClient = (\<lambda>_. Inl nilDereference), kr_recorder = True\<rparr>,
      oc_order = (\<lambda>_ ks. ks),
      oc_pool = sampleReconciler (samplePlatform\<lparr>pf_pools := keyedStore fleetPool\<rparr>) samplePoolOps,
      oc_namespace = sampleReconciler (samplePlatform\<lparr>pf_namespaces := keyedStore fleetNamespace\<rparr>) sampleNamespaceOps,
      oc_job = sampleReconciler (samplePlatform\<lparr>pf_jobs := keyedStore fleetJob\<rparr>) sampleJobOps,
      oc_decoder = fleetDecoder\<rparr>"

abbreviation poolWorker :: "string \<Rightarrow> worker" where "poolWorker name \<equiv> PoolWorker (objectKey ''nomad'' name)"
abbreviation namespaceWorker :: "string \<Rightarrow> worker" where "namespaceWorker name \<equiv> NamespaceWorker (objectKey ''nomad'' name)"
abbreviation jobWorker :: "string \<Rightarrow> worker" where "jobWorker name \<equiv> JobWorker (objectKey ''nomad'' name)"

lemmas fleet_defs = sampleOperator_def keyedStore_def fleetPool_def fleetNamespace_def fleetJob_def objectKey_def
  livePool_def samplePool_def liveNamespace_def sampleNamespace_def liveJob_def sampleJob_def
  samplePoolOps_def sampleNamespaceOps_def sampleJobOps_def observe_def

lemmas fleet_pool_run = ReconcilePool_def finalizePool_def ensurePoolFinalizer_def adoptPool_def reconcilePool_def
  pool_steps sample_run fleet_defs NodePoolDefault_def NodePoolAll_def poolConflicts_def poolClusterKey_def poolDrifted_def

lemmas fleet_namespace_run = ReconcileNamespace_def finalizeNamespace_def ensureNamespaceFinalizer_def
  adoptNamespace_def reconcileNamespace_def namespace_steps sample_run fleet_defs namespaceConflicts_def
  namespaceClusterKey_def namespaceDrifted_def

lemmas fleet_job_run = ReconcileJob_def finalizeJob_def ensureJobFinalizer_def adoptJob_def reconcileJob_def job_steps
  sample_run fleet_defs fleetDecoder_def sampleApiJob_def decodeJob_def observeInfo_def

lemma objectKey_inject [simp]: "objectKey ns a = objectKey ns b \<longleftrightarrow> a = b"
  by (simp add: objectKey_def)

lemma sample_operator [simp]:
  "kr_toolkit (oc_pool sampleOperator) = sampleToolkit" "kr_toolkit (oc_namespace sampleOperator) = sampleToolkit"
  "kr_toolkit (oc_job sampleOperator) = sampleToolkit" "oc_decoder sampleOperator = fleetDecoder"
  by (simp_all add: sampleOperator_def sampleReconciler_def)

lemma live_pool_pass:
  assumes "name \<notin> {''old'', ''default'', ''all''}"
  shows "\<exists>es. events_of (passOf sampleOperator (poolWorker name) ()) = es \<and>
    list_all (poolSeenAs (np_spec (fleetPool name))) es \<and> some_call reportsPoolReady es \<and>
    (\<forall>n. n \<noteq> name \<longrightarrow> list_all (poolAsks (\<lambda>m. m \<noteq> n)) es) \<and> list_all (\<lambda>e. poolEntry e \<subseteq> {name}) es \<and>
    (\<exists>s'. path poolServer Map.empty es s')"
  apply (rule exI, intro conjI)
  using assms apply (simp add: fleet_pool_run)
  using assms apply (simp add: fleet_defs)
     apply (simp add: trace_simps)
    apply auto [1]
   apply (simp add: jobKeyOf_def)
  apply (simp add: pool_walk)
  apply blast
  done

lemma old_pool_pass:
  "\<exists>es. events_of (passOf sampleOperator (poolWorker ''old'') ()) = es \<and>
    deletedPoolSeen (np_spec samplePool) es \<and> quiet clusterGoneOrGoing es \<and>
    some_call (takesFinalizerOff sampleToolkit nomadPoolFinalizer ownPool) es \<and>
    list_all (\<lambda>e. poolEntry e \<subseteq> {''gpu''}) es \<and> (\<exists>s'. path poolServer [''gpu'' \<mapsto> desiredNodePool None samplePool] es s')"
  apply (rule exI, intro conjI)
       apply (simp add: fleet_pool_run)
      apply (simp add: fleet_defs)
     apply (simp add: trace_simps)
    apply (simp add: trace_simps takesFinalizerOff_def sampleToolkit_def)
   apply simp
  apply (simp add: pool_walk)
  done

lemma live_namespace_pass:
  assumes "name \<notin> {''old'', ''default''}"
  shows "\<exists>es. events_of (passOf sampleOperator (namespaceWorker name) ()) = es \<and>
    list_all (namespaceSeenAs (nns_spec (fleetNamespace name))) es \<and> some_call reportsNamespaceReady es \<and>
    (\<forall>n. n \<noteq> name \<longrightarrow> list_all (namespaceAsks (\<lambda>m. m \<noteq> n)) es) \<and> list_all (\<lambda>e. namespaceEntry e \<subseteq> {name}) es \<and>
    (\<exists>s'. path namespaceServer Map.empty es s')"
  apply (rule exI, intro conjI)
  using assms apply (simp add: fleet_namespace_run)
  using assms apply (simp add: fleet_defs)
     apply (simp add: trace_simps)
    apply auto [1]
   apply (simp add: jobKeyOf_def)
  apply (simp add: namespace_walk)
  apply blast
  done

lemma old_namespace_pass:
  "\<exists>es. events_of (passOf sampleOperator (namespaceWorker ''old'') ()) = es \<and>
    deletedNamespaceSeen (nns_spec sampleNamespace) es \<and> quiet clusterGoneOrGoing es \<and>
    some_call (takesFinalizerOff sampleToolkit nomadNamespaceFinalizer ownNamespace) es \<and>
    list_all (\<lambda>e. namespaceEntry e \<subseteq> {''team''}) es \<and> (\<exists>s'. path namespaceServer [''team'' \<mapsto> desiredNamespace None sampleNamespace] es s')"
  apply (rule exI, intro conjI)
       apply (simp add: fleet_namespace_run)
      apply (simp add: fleet_defs)
     apply (simp add: trace_simps)
    apply (simp add: trace_simps takesFinalizerOff_def sampleToolkit_def)
   apply simp
  apply (simp add: namespace_walk)
  done

lemma live_job_pass:
  assumes "name \<noteq> ''old''"
  shows "\<exists>es. events_of (passOf sampleOperator (jobWorker name) ()) = es \<and>
    list_all (jobSeenAs (nj_spec (fleetJob name)) ''eu'') es \<and> some_call reportsJobReady es \<and>
    (\<forall>n. n \<noteq> (''team'', name) \<longrightarrow> list_all (jobAsks (\<lambda>m. m \<noteq> n)) es) \<and> list_all (\<lambda>e. jobEntry e \<subseteq> {(''team'', name)}) es \<and>
    (\<exists>s'. path (jobServer (\<lambda>_ _. False)) Map.empty es s')"
  apply (rule exI, intro conjI)
  using assms apply (simp add: fleet_job_run)
  using assms apply (simp add: fleet_defs)
     apply (simp add: trace_simps)
    apply auto [1]
   apply (simp add: jobKeyOf_def)
  apply (simp add: job_walk unchanged_def jobKeyOf_def)
  done

lemma old_job_pass:
  "\<exists>es. events_of (passOf sampleOperator (jobWorker ''old'') ()) = es \<and>
    deletedJobSeen (nj_spec sampleJob) es \<and> quiet clusterGoneOrGoing es \<and>
    some_call (takesFinalizerOff sampleToolkit nomadJobFinalizer ownJob) es \<and>
    list_all (\<lambda>e. jobEntry e \<subseteq> {(''team'', ''web'')}) es \<and> (\<exists>s'. path (jobServer (\<lambda>_ _. False)) [(''team'', ''web'') \<mapsto> sampleApiJob] es s')"
  apply (rule exI, intro conjI)
       apply (simp add: fleet_job_run)
      apply (simp add: fleet_defs)
     apply (simp add: trace_simps)
    apply (simp add: trace_simps takesFinalizerOff_def sampleToolkit_def)
   apply simp
  apply (simp add: job_walk unchanged_def jobKeyOf_def)
  done

subsection \<open>Claims\<close>

text \<open>
  C11: in every interleaving of the calls of whole passes of the five controllers, a live NomadPool whose
  spec stays the same, and whose pool no other NomadPool names, settles: Nomad's pool of that name is
  as it was or holds the spec; from the moment it holds it no pass over the object writes to Nomad;
  and Ready is reported only while it does.
\<close>

theorem pools_converge_together:
  assumes "worksOff op tr" and "path poolServer s (map snd tr) s'"
    and live: "list_all (poolSeenAs sp) (callsOf (PoolWorker key) tr)"
    and others: "\<forall>(j, e) \<in> set tr. j \<noteq> PoolWorker key \<longrightarrow> poolAsks (\<lambda>n. n \<noteq> ps_poolName sp) e"
  shows "settlesAt (ps_poolName sp) (holdsPool sp) reportsPoolReady s (callsOf (PoolWorker key) tr) s'"
proof (rule pools_among.settles_in_schedule [where Q = "passBy op" and asks = poolAsks])
  show "path poolServer s (map snd tr) s'" by fact
  show "wholePasses (livePoolPass (oc_pool op) key sp) (callsOf (PoolWorker key) tr)"
    using assms(1) live by (rule passBy_live) (auto simp: livePoolPass_def)
  show "wholePasses (passBy op j) (callsOf j tr)" for j using assms(1) by (simp add: worksOff_def)
  show "list_all (poolAsks (\<lambda>n. n = ps_poolName sp)) (callsOf (PoolWorker key) tr)"
    using live by (auto simp: list_all_iff intro: poolSeenAs_asks)
qed (use others in \<open>auto intro: pass_asks_pool\<close>)

text \<open>Passes over two pools that Nomad does not have, call by call in turns: both are registered.\<close>

theorem pools_converge_together_witness:
  "let tr = inTurns sampleOperator (poolWorker ''gpu'') (poolWorker ''cpu'') () in
     some_call reportsPoolReady (callsOf (poolWorker ''gpu'') tr) \<and>
     (\<exists>s'. path poolServer Map.empty (map snd tr) s' \<and> holdsPool (np_spec (fleetPool ''gpu'')) s')"
proof -
  let ?a = "poolWorker ''gpu''" and ?b = "poolWorker ''cpu''" and ?sp = "np_spec (fleetPool ''gpu'')"
  let ?tr = "inTurns sampleOperator ?a ?b ()"
  have apart: "?a \<noteq> ?b" by simp
  obtain es where es: "events_of (passOf sampleOperator ?a ()) = es" "list_all (poolSeenAs (np_spec (fleetPool ''gpu''))) es"
      "some_call reportsPoolReady es" "list_all (\<lambda>e. poolEntry e \<subseteq> {''gpu''}) es" "\<exists>s'. path poolServer Map.empty es s'"
    using live_pool_pass [of "''gpu''"] by auto
  obtain es' where es': "events_of (passOf sampleOperator ?b ()) = es'" "list_all (poolAsks (\<lambda>m. m \<noteq> ''gpu'')) es'"
      "list_all (\<lambda>e. poolEntry e \<subseteq> {''cpu''}) es'" "\<exists>s'. path poolServer Map.empty es' s'"
    using live_pool_pass [of "''cpu''"] by auto
  have own: "callsOf ?a ?tr = es" by (simp only: inTurns_calls(1) [OF apart] es(1))
  obtain p q where alone: "path poolServer Map.empty es p" "path poolServer Map.empty es' q" using es(5) es'(4) by blast
  have "\<exists>s'. path poolServer Map.empty (splice es es') s' \<and> s' ''gpu'' = p ''gpu'' \<and> s' ''cpu'' = q ''cpu''"
    by (rule pool_entries.merged [OF alone es(4) es'(3)]) simp_all
  then obtain s' where "path poolServer Map.empty (splice es es') s'" by blast
  then have path: "path poolServer Map.empty (map snd ?tr) s'" by (simp only: inTurns_calls(2) es(1) es'(1))
  have others: "\<forall>(j, e) \<in> set ?tr. j \<noteq> ?a \<longrightarrow> poolAsks (\<lambda>n. n \<noteq> ps_poolName ?sp) e"
    using es'(1,2) by (auto simp: inTurns_calls list_all_iff fleetPool_def)
  have seen: "list_all (poolSeenAs ?sp) (callsOf ?a ?tr)" using es(2) own by simp
  from pools_converge_together [OF inTurns_works [OF apart] path seen others] es(3) own path
  show ?thesis by (auto simp: Let_def settlesAt_def)
qed

text \<open>
  C12: in every interleaving of the calls of whole passes of the five controllers, a live NomadNamespace whose
  spec stays the same, and whose namespace no other NomadNamespace names, settles: Nomad's namespace of that name is
  as it was or holds the spec; from the moment it holds it no pass over the object writes to Nomad;
  and Ready is reported only while it does.
\<close>

theorem namespaces_converge_together:
  assumes "worksOff op tr" and "path namespaceServer s (map snd tr) s'"
    and live: "list_all (namespaceSeenAs sp) (callsOf (NamespaceWorker key) tr)"
    and others: "\<forall>(j, e) \<in> set tr. j \<noteq> NamespaceWorker key \<longrightarrow> namespaceAsks (\<lambda>n. n \<noteq> ns_namespaceName sp) e"
  shows "settlesAt (ns_namespaceName sp) (holdsNamespace sp) reportsNamespaceReady s (callsOf (NamespaceWorker key) tr) s'"
proof (rule namespaces_among.settles_in_schedule [where Q = "passBy op" and asks = namespaceAsks])
  show "path namespaceServer s (map snd tr) s'" by fact
  show "wholePasses (liveNamespacePass (oc_namespace op) key sp) (callsOf (NamespaceWorker key) tr)"
    using assms(1) live by (rule passBy_live) (auto simp: liveNamespacePass_def)
  show "wholePasses (passBy op j) (callsOf j tr)" for j using assms(1) by (simp add: worksOff_def)
  show "list_all (namespaceAsks (\<lambda>n. n = ns_namespaceName sp)) (callsOf (NamespaceWorker key) tr)"
    using live by (auto simp: list_all_iff intro: namespaceSeenAs_asks)
qed (use others in \<open>auto intro: pass_asks_namespace\<close>)

text \<open>Passes over two namespaces that Nomad does not have, call by call in turns: both are registered.\<close>

theorem namespaces_converge_together_witness:
  "let tr = inTurns sampleOperator (namespaceWorker ''team'') (namespaceWorker ''ops'') () in
     some_call reportsNamespaceReady (callsOf (namespaceWorker ''team'') tr) \<and>
     (\<exists>s'. path namespaceServer Map.empty (map snd tr) s' \<and> holdsNamespace (nns_spec (fleetNamespace ''team'')) s')"
proof -
  let ?a = "namespaceWorker ''team''" and ?b = "namespaceWorker ''ops''" and ?sp = "nns_spec (fleetNamespace ''team'')"
  let ?tr = "inTurns sampleOperator ?a ?b ()"
  have apart: "?a \<noteq> ?b" by simp
  obtain es where es: "events_of (passOf sampleOperator ?a ()) = es" "list_all (namespaceSeenAs (nns_spec (fleetNamespace ''team''))) es"
      "some_call reportsNamespaceReady es" "list_all (\<lambda>e. namespaceEntry e \<subseteq> {''team''}) es" "\<exists>s'. path namespaceServer Map.empty es s'"
    using live_namespace_pass [of "''team''"] by auto
  obtain es' where es': "events_of (passOf sampleOperator ?b ()) = es'" "list_all (namespaceAsks (\<lambda>m. m \<noteq> ''team'')) es'"
      "list_all (\<lambda>e. namespaceEntry e \<subseteq> {''ops''}) es'" "\<exists>s'. path namespaceServer Map.empty es' s'"
    using live_namespace_pass [of "''ops''"] by auto
  have own: "callsOf ?a ?tr = es" by (simp only: inTurns_calls(1) [OF apart] es(1))
  obtain p q where alone: "path namespaceServer Map.empty es p" "path namespaceServer Map.empty es' q" using es(5) es'(4) by blast
  have "\<exists>s'. path namespaceServer Map.empty (splice es es') s' \<and> s' ''team'' = p ''team'' \<and> s' ''ops'' = q ''ops''"
    by (rule namespace_entries.merged [OF alone es(4) es'(3)]) simp_all
  then obtain s' where "path namespaceServer Map.empty (splice es es') s'" by blast
  then have path: "path namespaceServer Map.empty (map snd ?tr) s'" by (simp only: inTurns_calls(2) es(1) es'(1))
  have others: "\<forall>(j, e) \<in> set ?tr. j \<noteq> ?a \<longrightarrow> namespaceAsks (\<lambda>n. n \<noteq> ns_namespaceName ?sp) e"
    using es'(1,2) by (auto simp: inTurns_calls list_all_iff fleetNamespace_def)
  have seen: "list_all (namespaceSeenAs ?sp) (callsOf ?a ?tr)" using es(2) own by simp
  from namespaces_converge_together [OF inTurns_works [OF apart] path seen others] es(3) own path
  show ?thesis by (auto simp: Let_def settlesAt_def)
qed

text \<open>
  C13: in every interleaving of the calls of whole passes of the five controllers, a live NomadJob whose
  spec and region stay the same, and whose namespace and job ID no other NomadJob names, settles:
  Nomad's job of that ID is as it was or the decoded one; from the moment Nomad would plan it without
  a change no pass over the object writes to Nomad; and Ready is reported only while that is so.
\<close>

theorem jobs_converge_together:
  assumes "worksOff op tr" and "path (jobServer same) s (map snd tr) s'"
    and live: "list_all (jobSeenAs sp region) (callsOf (JobWorker key) tr)"
    and others: "\<forall>(j, e) \<in> set tr. j \<noteq> JobWorker key \<longrightarrow> jobAsks (\<lambda>n. n \<noteq> (js_nomadNamespace sp, js_jobID sp)) e"
  shows "settlesAt (js_nomadNamespace sp, js_jobID sp)
    (holdsJob same (tk_unicode (kr_toolkit (oc_job op))) (oc_decoder op) sp region) reportsJobReady
    s (callsOf (JobWorker key) tr) s'"
proof (rule jobs_among.settles_in_schedule [where Q = "passBy op" and asks = jobAsks])
  show "path (jobServer same) s (map snd tr) s'" by fact
  show "wholePasses (liveJobPass (oc_job op) (oc_decoder op) key sp region) (callsOf (JobWorker key) tr)"
    using assms(1) live by (rule passBy_live) (auto simp: liveJobPass_def)
  show "wholePasses (passBy op j) (callsOf j tr)" for j using assms(1) by (simp add: worksOff_def)
  show "list_all (jobAsks (\<lambda>n. n = (js_nomadNamespace sp, js_jobID sp))) (callsOf (JobWorker key) tr)"
    using live by (auto simp: list_all_iff intro: jobSeenAs_asks)
qed (use others in \<open>auto intro: pass_asks_job\<close>)

text \<open>Passes over two jobs that Nomad does not have, call by call in turns: both are registered.\<close>

theorem jobs_converge_together_witness:
  "let tr = inTurns sampleOperator (jobWorker ''web'') (jobWorker ''api'') () in
     some_call reportsJobReady (callsOf (jobWorker ''web'') tr) \<and>
     (\<exists>s'. path (jobServer (\<lambda>_ _. False)) Map.empty (map snd tr) s' \<and> holdsJob (\<lambda>_ _. False) (tk_unicode sampleToolkit) fleetDecoder (nj_spec (fleetJob ''web'')) ''eu'' s')"
proof -
  let ?a = "jobWorker ''web''" and ?b = "jobWorker ''api''" and ?sp = "nj_spec (fleetJob ''web'')"
  let ?tr = "inTurns sampleOperator ?a ?b ()"
  have apart: "?a \<noteq> ?b" by simp
  obtain es where es: "events_of (passOf sampleOperator ?a ()) = es" "list_all (jobSeenAs (nj_spec (fleetJob ''web'')) ''eu'') es"
      "some_call reportsJobReady es" "list_all (\<lambda>e. jobEntry e \<subseteq> {(''team'', ''web'')}) es" "\<exists>s'. path (jobServer (\<lambda>_ _. False)) Map.empty es s'"
    using live_job_pass [of "''web''"] by auto
  obtain es' where es': "events_of (passOf sampleOperator ?b ()) = es'" "list_all (jobAsks (\<lambda>m. m \<noteq> (''team'', ''web''))) es'"
      "list_all (\<lambda>e. jobEntry e \<subseteq> {(''team'', ''api'')}) es'" "\<exists>s'. path (jobServer (\<lambda>_ _. False)) Map.empty es' s'"
    using live_job_pass [of "''api''"] by auto
  have own: "callsOf ?a ?tr = es" by (simp only: inTurns_calls(1) [OF apart] es(1))
  obtain p q where alone: "path (jobServer (\<lambda>_ _. False)) Map.empty es p" "path (jobServer (\<lambda>_ _. False)) Map.empty es' q" using es(5) es'(4) by blast
  have "\<exists>s'. path (jobServer (\<lambda>_ _. False)) Map.empty (splice es es') s' \<and> s' (''team'', ''web'') = p (''team'', ''web'') \<and> s' (''team'', ''api'') = q (''team'', ''api'')"
    by (rule job_entries.merged [OF alone es(4) es'(3)]) simp_all
  then obtain s' where "path (jobServer (\<lambda>_ _. False)) Map.empty (splice es es') s'" by blast
  then have path: "path (jobServer (\<lambda>_ _. False)) Map.empty (map snd ?tr) s'" by (simp only: inTurns_calls(2) es(1) es'(1))
  have others: "\<forall>(j, e) \<in> set ?tr. j \<noteq> ?a \<longrightarrow> jobAsks (\<lambda>n. n \<noteq> (js_nomadNamespace ?sp, js_jobID ?sp)) e"
    using es'(1,2) by (auto simp: inTurns_calls list_all_iff fleetJob_def liveJob_def sampleJob_def)
  have seen: "list_all (jobSeenAs ?sp ''eu'') (callsOf ?a ?tr)" using es(2) own by simp
  from jobs_converge_together [OF inTurns_works [OF apart] path seen others] es(3) own path
  show ?thesis by (auto simp: Let_def settlesAt_def)
qed

subsection \<open>Deletion\<close>

text \<open>
  C14: a pass over a NomadPool under deletion, its calls interleaved with those of whole passes of the
  five controllers over objects that name no such pool, touches only that pool in Nomad, leaves it
  as it was or removed, and when it takes the finalizer off although the cluster is there to stay,
  Nomad has no such pool any more.
\<close>

theorem pool_deleted_among_others:
  assumes "worksOff op tr" and "path poolServer s (map snd tr) s'"
    and pass: "callsOf (PoolWorker key) tr = events_of (ReconcilePool (oc_pool op) key w)"
    and deleted: "deletedPoolSeen sp (callsOf (PoolWorker key) tr)"
    and others: "\<forall>(j, e) \<in> set tr. j \<noteq> PoolWorker key \<longrightarrow> poolAsks (\<lambda>n. n \<noteq> ps_poolName sp) e"
  shows "list_all (\<lambda>e. poolEntry e \<subseteq> {ps_poolName sp}) (callsOf (PoolWorker key) tr) \<and>
    s' (ps_poolName sp) \<in> {s (ps_poolName sp), None} \<and>
    (some_call (takesFinalizerOff (kr_toolkit (oc_pool op)) nomadPoolFinalizer ownPool) (callsOf (PoolWorker key) tr) \<and>
     quiet clusterGoneOrGoing (callsOf (PoolWorker key) tr) \<longrightarrow> s' (ps_poolName sp) = None)"
proof -
  let ?n = "ps_poolName sp" and ?es = "callsOf (PoolWorker key) tr"
  have own: "list_all (\<lambda>e. poolEntry e \<subseteq> {?n}) ?es"
    using meetsD [OF deletedPool_entries [of "oc_pool op" key sp], of w] pass deleted by simp
  have "path poolServer s ?es (s(?n := s' ?n))"
    by (rule pool_entries.alone_in_schedule [where Q = "passBy op" and asks = poolAsks, OF assms(2)])
      (use assms(1) own others in \<open>auto simp: worksOff_def intro: pass_asks_pool\<close>)
  with meetsD [OF deletedPool_pass [of "oc_pool op" key sp], of w] pass deleted
  have "(s(?n := s' ?n) = s \<or> s(?n := s' ?n) = s(?n := None)) \<and>
      (some_call (takesFinalizerOff (kr_toolkit (oc_pool op)) nomadPoolFinalizer ownPool) ?es \<and>
       quiet clusterGoneOrGoing ?es \<longrightarrow> (s(?n := s' ?n)) ?n = None)" by metis
  moreover from this have "s' ?n \<in> {s ?n, None}" by (metis fun_upd_same insertCI)
  ultimately show ?thesis using own unfolding fun_upd_same by (elim conjE) (intro conjI; assumption)
qed

text \<open>
  C15: a pass over a NomadNamespace under deletion, its calls interleaved with those of whole passes of the
  five controllers over objects that name no such namespace, touches only that namespace in Nomad, leaves it
  as it was or removed, and when it takes the finalizer off although the cluster is there to stay,
  Nomad has no such namespace any more.
\<close>

theorem namespace_deleted_among_others:
  assumes "worksOff op tr" and "path namespaceServer s (map snd tr) s'"
    and pass: "callsOf (NamespaceWorker key) tr = events_of (ReconcileNamespace (oc_namespace op) key w)"
    and deleted: "deletedNamespaceSeen sp (callsOf (NamespaceWorker key) tr)"
    and others: "\<forall>(j, e) \<in> set tr. j \<noteq> NamespaceWorker key \<longrightarrow> namespaceAsks (\<lambda>n. n \<noteq> ns_namespaceName sp) e"
  shows "list_all (\<lambda>e. namespaceEntry e \<subseteq> {ns_namespaceName sp}) (callsOf (NamespaceWorker key) tr) \<and>
    s' (ns_namespaceName sp) \<in> {s (ns_namespaceName sp), None} \<and>
    (some_call (takesFinalizerOff (kr_toolkit (oc_namespace op)) nomadNamespaceFinalizer ownNamespace) (callsOf (NamespaceWorker key) tr) \<and>
     quiet clusterGoneOrGoing (callsOf (NamespaceWorker key) tr) \<longrightarrow> s' (ns_namespaceName sp) = None)"
proof -
  let ?n = "ns_namespaceName sp" and ?es = "callsOf (NamespaceWorker key) tr"
  have own: "list_all (\<lambda>e. namespaceEntry e \<subseteq> {?n}) ?es"
    using meetsD [OF deletedNamespace_entries [of "oc_namespace op" key sp], of w] pass deleted by simp
  have "path namespaceServer s ?es (s(?n := s' ?n))"
    by (rule namespace_entries.alone_in_schedule [where Q = "passBy op" and asks = namespaceAsks, OF assms(2)])
      (use assms(1) own others in \<open>auto simp: worksOff_def intro: pass_asks_namespace\<close>)
  with meetsD [OF deletedNamespace_pass [of "oc_namespace op" key sp], of w] pass deleted
  have "(s(?n := s' ?n) = s \<or> s(?n := s' ?n) = s(?n := None)) \<and>
      (some_call (takesFinalizerOff (kr_toolkit (oc_namespace op)) nomadNamespaceFinalizer ownNamespace) ?es \<and>
       quiet clusterGoneOrGoing ?es \<longrightarrow> (s(?n := s' ?n)) ?n = None)" by metis
  moreover from this have "s' ?n \<in> {s ?n, None}" by (metis fun_upd_same insertCI)
  ultimately show ?thesis using own unfolding fun_upd_same by (elim conjE) (intro conjI; assumption)
qed

text \<open>
  C16: a pass over a NomadJob under deletion, its calls interleaved with those of whole passes of the
  five controllers over objects that name no such job, touches only that job in Nomad, and when it
  takes the finalizer off although the cluster is there to stay, Nomad has no such job any more.
\<close>

theorem job_deleted_among_others:
  assumes "worksOff op tr" and "path (jobServer same) s (map snd tr) s'"
    and pass: "callsOf (JobWorker key) tr = events_of (ReconcileJob (oc_job op) (oc_decoder op) key w)"
    and deleted: "deletedJobSeen sp (callsOf (JobWorker key) tr)"
    and others: "\<forall>(j, e) \<in> set tr. j \<noteq> JobWorker key \<longrightarrow> jobAsks (\<lambda>n. n \<noteq> (js_nomadNamespace sp, js_jobID sp)) e"
  shows "list_all (\<lambda>e. jobEntry e \<subseteq> {(js_nomadNamespace sp, js_jobID sp)}) (callsOf (JobWorker key) tr) \<and>
    (some_call (takesFinalizerOff (kr_toolkit (oc_job op)) nomadJobFinalizer ownJob) (callsOf (JobWorker key) tr) \<and>
     quiet clusterGoneOrGoing (callsOf (JobWorker key) tr) \<longrightarrow> s' (js_nomadNamespace sp, js_jobID sp) = None)"
proof -
  let ?n = "(js_nomadNamespace sp, js_jobID sp)" and ?es = "callsOf (JobWorker key) tr"
  have own: "list_all (\<lambda>e. jobEntry e \<subseteq> {?n}) ?es"
    using meetsD [OF deletedJob_entries [of "oc_job op" "oc_decoder op" key sp], of w] pass deleted by simp
  have "path (jobServer same) s ?es (s(?n := s' ?n))"
    by (rule job_entries.alone_in_schedule [where Q = "passBy op" and asks = jobAsks, OF assms(2)])
      (use assms(1) own others in \<open>auto simp: worksOff_def intro: pass_asks_job\<close>)
  with meetsD [OF deletedJob_pass [of "oc_job op" "oc_decoder op" key same sp], of w] pass deleted
  have "some_call (takesFinalizerOff (kr_toolkit (oc_job op)) nomadJobFinalizer ownJob) ?es \<and>
      quiet clusterGoneOrGoing ?es \<longrightarrow> (s(?n := s' ?n)) ?n = None" by metis
  with own show ?thesis by simp
qed

theorem pool_deleted_among_others_witness:
  "let tr = inTurns sampleOperator (poolWorker ''old'') (poolWorker ''cpu'') () in
     \<exists>s'. path poolServer [''gpu'' \<mapsto> desiredNodePool None samplePool] (map snd tr) s' \<and> s' ''gpu'' = None"
proof -
  let ?a = "poolWorker ''old''" and ?b = "poolWorker ''cpu''" and ?sp = "np_spec samplePool" and ?s = "[''gpu'' \<mapsto> desiredNodePool None samplePool]"
  let ?tr = "inTurns sampleOperator ?a ?b ()"
  have apart: "?a \<noteq> ?b" by simp
  obtain es where es: "events_of (passOf sampleOperator ?a ()) = es" "deletedPoolSeen ?sp es" "quiet clusterGoneOrGoing es"
      "some_call (takesFinalizerOff sampleToolkit nomadPoolFinalizer ownPool) es"
      "list_all (\<lambda>e. poolEntry e \<subseteq> {''gpu''}) es" "\<exists>s'. path poolServer ?s es s'"
    using old_pool_pass by auto
  obtain es' where es': "events_of (passOf sampleOperator ?b ()) = es'" "list_all (poolAsks (\<lambda>m. m \<noteq> ''gpu'')) es'"
      "list_all (\<lambda>e. poolEntry e \<subseteq> {''cpu''}) es'" "\<exists>s'. path poolServer Map.empty es' s'"
    using live_pool_pass [of "''cpu''"] by auto
  have own: "callsOf ?a ?tr = es" by (simp only: inTurns_calls(1) [OF apart] es(1))
  have pass: "callsOf ?a ?tr = events_of (ReconcilePool (oc_pool sampleOperator) (objectKey ''nomad'' ''old'') ())"
    using own es(1) by simp
  have deleted: "deletedPoolSeen ?sp (callsOf ?a ?tr)" using es(2) own by simp
  obtain p q where alone: "path poolServer ?s es p" "path poolServer Map.empty es' q" using es(6) es'(4) by blast
  have "\<exists>s'. path poolServer ?s (splice es es') s' \<and> s' ''gpu'' = p ''gpu'' \<and> s' ''cpu'' = q ''cpu''"
    by (rule pool_entries.merged [OF alone es(5) es'(3)]) simp_all
  then obtain s' where "path poolServer ?s (splice es es') s'" by blast
  then have path: "path poolServer ?s (map snd ?tr) s'" by (simp only: inTurns_calls(2) es(1) es'(1))
  have others: "\<forall>(j, e) \<in> set ?tr. j \<noteq> ?a \<longrightarrow> poolAsks (\<lambda>n. n \<noteq> ps_poolName ?sp) e"
    using es'(1,2) by (auto simp: inTurns_calls list_all_iff samplePool_def)
  from pool_deleted_among_others [OF inTurns_works [OF apart] path pass deleted others] es(3,4) own path
  show ?thesis by (auto simp: Let_def sample_operator samplePool_def)
qed

theorem namespace_deleted_among_others_witness:
  "let tr = inTurns sampleOperator (namespaceWorker ''old'') (namespaceWorker ''ops'') () in
     \<exists>s'. path namespaceServer [''team'' \<mapsto> desiredNamespace None sampleNamespace] (map snd tr) s' \<and> s' ''team'' = None"
proof -
  let ?a = "namespaceWorker ''old''" and ?b = "namespaceWorker ''ops''" and ?sp = "nns_spec sampleNamespace" and ?s = "[''team'' \<mapsto> desiredNamespace None sampleNamespace]"
  let ?tr = "inTurns sampleOperator ?a ?b ()"
  have apart: "?a \<noteq> ?b" by simp
  obtain es where es: "events_of (passOf sampleOperator ?a ()) = es" "deletedNamespaceSeen ?sp es" "quiet clusterGoneOrGoing es"
      "some_call (takesFinalizerOff sampleToolkit nomadNamespaceFinalizer ownNamespace) es"
      "list_all (\<lambda>e. namespaceEntry e \<subseteq> {''team''}) es" "\<exists>s'. path namespaceServer ?s es s'"
    using old_namespace_pass by auto
  obtain es' where es': "events_of (passOf sampleOperator ?b ()) = es'" "list_all (namespaceAsks (\<lambda>m. m \<noteq> ''team'')) es'"
      "list_all (\<lambda>e. namespaceEntry e \<subseteq> {''ops''}) es'" "\<exists>s'. path namespaceServer Map.empty es' s'"
    using live_namespace_pass [of "''ops''"] by auto
  have own: "callsOf ?a ?tr = es" by (simp only: inTurns_calls(1) [OF apart] es(1))
  have pass: "callsOf ?a ?tr = events_of (ReconcileNamespace (oc_namespace sampleOperator) (objectKey ''nomad'' ''old'') ())"
    using own es(1) by simp
  have deleted: "deletedNamespaceSeen ?sp (callsOf ?a ?tr)" using es(2) own by simp
  obtain p q where alone: "path namespaceServer ?s es p" "path namespaceServer Map.empty es' q" using es(6) es'(4) by blast
  have "\<exists>s'. path namespaceServer ?s (splice es es') s' \<and> s' ''team'' = p ''team'' \<and> s' ''ops'' = q ''ops''"
    by (rule namespace_entries.merged [OF alone es(5) es'(3)]) simp_all
  then obtain s' where "path namespaceServer ?s (splice es es') s'" by blast
  then have path: "path namespaceServer ?s (map snd ?tr) s'" by (simp only: inTurns_calls(2) es(1) es'(1))
  have others: "\<forall>(j, e) \<in> set ?tr. j \<noteq> ?a \<longrightarrow> namespaceAsks (\<lambda>n. n \<noteq> ns_namespaceName ?sp) e"
    using es'(1,2) by (auto simp: inTurns_calls list_all_iff sampleNamespace_def)
  from namespace_deleted_among_others [OF inTurns_works [OF apart] path pass deleted others] es(3,4) own path
  show ?thesis by (auto simp: Let_def sample_operator sampleNamespace_def)
qed

theorem job_deleted_among_others_witness:
  "let tr = inTurns sampleOperator (jobWorker ''old'') (jobWorker ''api'') () in
     \<exists>s'. path (jobServer (\<lambda>_ _. False)) [(''team'', ''web'') \<mapsto> sampleApiJob] (map snd tr) s' \<and> s' (''team'', ''web'') = None"
proof -
  let ?a = "jobWorker ''old''" and ?b = "jobWorker ''api''" and ?sp = "nj_spec sampleJob" and ?s = "[(''team'', ''web'') \<mapsto> sampleApiJob]"
  let ?tr = "inTurns sampleOperator ?a ?b ()"
  have apart: "?a \<noteq> ?b" by simp
  obtain es where es: "events_of (passOf sampleOperator ?a ()) = es" "deletedJobSeen ?sp es" "quiet clusterGoneOrGoing es"
      "some_call (takesFinalizerOff sampleToolkit nomadJobFinalizer ownJob) es"
      "list_all (\<lambda>e. jobEntry e \<subseteq> {(''team'', ''web'')}) es" "\<exists>s'. path (jobServer (\<lambda>_ _. False)) ?s es s'"
    using old_job_pass by auto
  obtain es' where es': "events_of (passOf sampleOperator ?b ()) = es'" "list_all (jobAsks (\<lambda>m. m \<noteq> (''team'', ''web''))) es'"
      "list_all (\<lambda>e. jobEntry e \<subseteq> {(''team'', ''api'')}) es'" "\<exists>s'. path (jobServer (\<lambda>_ _. False)) Map.empty es' s'"
    using live_job_pass [of "''api''"] by auto
  have own: "callsOf ?a ?tr = es" by (simp only: inTurns_calls(1) [OF apart] es(1))
  have pass: "callsOf ?a ?tr = events_of (ReconcileJob (oc_job sampleOperator) (oc_decoder sampleOperator) (objectKey ''nomad'' ''old'') ())"
    using own es(1) by simp
  have deleted: "deletedJobSeen ?sp (callsOf ?a ?tr)" using es(2) own by simp
  obtain p q where alone: "path (jobServer (\<lambda>_ _. False)) ?s es p" "path (jobServer (\<lambda>_ _. False)) Map.empty es' q" using es(6) es'(4) by blast
  have "\<exists>s'. path (jobServer (\<lambda>_ _. False)) ?s (splice es es') s' \<and> s' (''team'', ''web'') = p (''team'', ''web'') \<and> s' (''team'', ''api'') = q (''team'', ''api'')"
    by (rule job_entries.merged [OF alone es(5) es'(3)]) simp_all
  then obtain s' where "path (jobServer (\<lambda>_ _. False)) ?s (splice es es') s'" by blast
  then have path: "path (jobServer (\<lambda>_ _. False)) ?s (map snd ?tr) s'" by (simp only: inTurns_calls(2) es(1) es'(1))
  have others: "\<forall>(j, e) \<in> set ?tr. j \<noteq> ?a \<longrightarrow> jobAsks (\<lambda>n. n \<noteq> (js_nomadNamespace ?sp, js_jobID ?sp)) e"
    using es'(1,2) by (auto simp: inTurns_calls list_all_iff sampleJob_def)
  from job_deleted_among_others [OF inTurns_works [OF apart] path pass deleted others] es(3,4) own path
  show ?thesis by (auto simp: Let_def sample_operator sampleJob_def)
qed

end
