(* ===== verification/Rivals.thy ===== *)
theory Rivals
  imports Together
begin

section \<open>Objects that claim the same name\<close>

text \<open>
  Two live NomadPools, or two NomadNamespaces, that ask for the same entry on the same cluster stand
  down: each finds the other in its listing and neither calls Nomad. The guard covers registration
  only. A deletion consults no listing, so deleting one of the two takes away the entry both claim;
  and a NomadJob lists nothing, so two of them overwrite each other.
\<close>

subsection \<open>Standing down\<close>

text \<open>No call to Nomad, and no report of readiness.\<close>

definition standsDown :: "(event \<Rightarrow> bool) \<Rightarrow> event list \<Rightarrow> bool" where
  "standsDown ready es \<longleftrightarrow> quiet isNomadCall es \<and> \<not> some_call ready es"

lemma standsDown_simps [simp]:
  "standsDown ready []"
  "standsDown ready (e # es) \<longleftrightarrow> \<not> isNomadCall e \<and> \<not> ready e \<and> standsDown ready es"
  "standsDown ready (es @ es') \<longleftrightarrow> standsDown ready es \<and> standsDown ready es'"
  by (auto simp: standsDown_def trace_simps)

lemma standsDown_concat: "standsDown ready (concat ess) \<longleftrightarrow> list_all (standsDown ready) ess"
  by (induction ess) simp_all

lemma secrets_standDown:
  assumes "onChannels {ChSecret} es" "\<And>e. ready e \<Longrightarrow> channelOf e \<noteq> ChSecret"
  shows "standsDown ready es"
proof -
  have "channelOf e = ChSecret \<Longrightarrow> \<not> isNomadCall e \<and> \<not> ready e" for e
    using assms(2) [of e] by (cases e) auto
  then show ?thesis using assms(1) by (auto simp: standsDown_def onChannels_def quiet_def some_call_def list_all_iff list_ex_iff)
qed

text \<open>A store with the two objects \<open>a\<close> and \<open>b\<close>.\<close>

definition rivalStore :: "(string \<Rightarrow> 'o) \<Rightarrow> (unit, 'o) store" where
  "rivalStore obj = (keyedStore obj)\<lparr>st_list := (\<lambda>_ w. (Inr [obj ''a'', obj ''b''], w))\<rparr>"

subsection \<open>Pools\<close>

text \<open>
  \<open>np\<close> is the object \<open>a\<close>, at some time of its life; the answers show \<open>a\<close>, alive; every listing shows
  the objects of \<open>A\<close>, alive.
\<close>

definition samePool :: "nomad_pool \<Rightarrow> nomad_pool \<Rightarrow> bool" where
  "samePool a np \<longleftrightarrow> om_name (np_meta np) = om_name (np_meta a) \<and> np_spec np = np_spec a"

fun poolIs :: "nomad_pool \<Rightarrow> event \<Rightarrow> bool" where
  "poolIs a (EvPool (SGet _ (Inr np))) \<longleftrightarrow> samePool a np \<and> om_deletionTimestamp (np_meta np) = None"
| "poolIs a (EvPool (SUpdate _ (Inr np))) \<longleftrightarrow> samePool a np"
| "poolIs a _ \<longleftrightarrow> True"

definition listsPools :: "nomad_pool set \<Rightarrow> nomad_pool list \<Rightarrow> bool" where
  "listsPools A items \<longleftrightarrow> (\<forall>a \<in> A. \<exists>np \<in> set items. samePool a np \<and> om_deletionTimestamp (np_meta np) = None)"

fun poolsListed :: "nomad_pool set \<Rightarrow> event \<Rightarrow> bool" where
  "poolsListed A (EvPool (SList _ (Inr items))) \<longleftrightarrow> listsPools A items"
| "poolsListed A _ \<longleftrightarrow> True"

definition poolRivals :: "nomad_pool \<Rightarrow> nomad_pool \<Rightarrow> bool" where
  "poolRivals a b \<longleftrightarrow> poolConflicts a b \<and> poolConflicts b a"

lemma pool_secrets_standDown: "onChannels {ChSecret} es \<Longrightarrow> standsDown reportsPoolReady es"
  by (erule secrets_standDown) (auto dest: pool_report_channel)

lemma pool_rival_listed:
  assumes "poolConflicts a b" "b \<in> A" and "samePool a np" "listsPools A items"
  shows "list_ex (poolConflicts np) items"
proof -
  obtain item where "item \<in> set items" "samePool b item" "om_deletionTimestamp (np_meta item) = None"
    using assms(2,4) by (auto simp: listsPools_def)
  then have "item \<in> set items \<and> poolConflicts np item"
    using assms(1,3) by (auto simp: poolConflicts_def poolClusterKey_def samePool_def)
  then show ?thesis by (auto simp: list_ex_iff)
qed

lemma samePool_meta: "om_name m = om_name (np_meta np) \<Longrightarrow> samePool a (np\<lparr>np_meta := m\<rparr>) \<longleftrightarrow> samePool a np"
  by (simp add: samePool_def)

lemma rival_pool_pass:
  assumes "toolkit_laws (kr_toolkit kr)" "poolConflicts a b" "b \<in> A"
  shows "meets (ReconcilePool kr key) (\<lambda>r es. list_all (poolIs a) es \<longrightarrow> list_all (poolsListed A) es \<longrightarrow>
    standsDown reportsPoolReady es)"
  unfolding ReconcilePool_def reconcilePool_def pool_steps kube_calls Let_def
  by (auto intro!: kwp meets_trivial [where p = "finalizePool kr np" for np] split: sum.splits if_splits
      simp: pool_secrets_standDown pool_rival_listed [OF assms(2,3)]
        samePool_meta setControllerReference_keeps [OF assms(1)])

lemma live_pool_spec: "poolIs a e \<Longrightarrow> poolAsks (\<lambda>n. n = ps_poolName (np_spec a)) e"
  by (induction a e rule: poolIs.induct) (simp_all add: samePool_def)

lemma rival_pool_worker:
  assumes "toolkit_laws (kr_toolkit (oc_pool op))" "worksOff op tr" "poolConflicts a b" "b \<in> A"
    and "list_all (poolIs a) (callsOf (PoolWorker k) tr)" "list_all (poolsListed A) (callsOf (PoolWorker k) tr)"
  shows "standsDown reportsPoolReady (callsOf (PoolWorker k) tr)"
proof -
  have "wholePasses (standsDown reportsPoolReady) (callsOf (PoolWorker k) tr)"
  proof (rule passBy_live [OF assms(2), of "\<lambda>e. poolIs a e \<and> poolsListed A e"])
    show "list_all (\<lambda>e. poolIs a e \<and> poolsListed A e) (callsOf (PoolWorker k) tr)"
      using assms(5,6) by (simp add: list_all_iff)
  next
    fix w
    assume "list_all (\<lambda>e. poolIs a e \<and> poolsListed A e) (events_of (passOf op (PoolWorker k) w))"
    then show "standsDown reportsPoolReady (events_of (passOf op (PoolWorker k) w))"
      using meetsD [OF rival_pool_pass [OF assms(1,3,4)], where w = w] by (auto simp: list_all_iff)
  qed
  then show ?thesis by (auto simp: wholePasses_def standsDown_concat)
qed

text \<open>
  C17: while two live NomadPools claim the same pool of the same cluster and every listing shows both, no
  pass over either of them, in any interleaving with each other and with all other workers, calls
  Nomad or reports Ready: Nomad's pool stays as it was last written, instead of going back and forth.
\<close>

theorem colliding_pools_stand_down:
  assumes "toolkit_laws (kr_toolkit (oc_pool op))"
    and works: "worksOff op tr" and path: "path poolServer s (map snd tr) s'"
    and rivals: "poolRivals a b"
    and seen: "list_all (poolIs a) (callsOf (PoolWorker ka) tr)" "list_all (poolIs b) (callsOf (PoolWorker kb) tr)"
    and listed: "list_all (poolsListed {a, b}) (callsOf (PoolWorker ka) tr @ callsOf (PoolWorker kb) tr)"
    and others: "\<forall>(j, e) \<in> set tr. j \<notin> {PoolWorker ka, PoolWorker kb} \<longrightarrow> poolAsks (\<lambda>n. n \<noteq> ps_poolName (np_spec a)) e"
  shows "standsDown reportsPoolReady (callsOf (PoolWorker ka) tr) \<and> standsDown reportsPoolReady (callsOf (PoolWorker kb) tr) \<and>
    s' (ps_poolName (np_spec a)) = s (ps_poolName (np_spec a))"
proof -
  let ?n = "ps_poolName (np_spec a)"
  have a: "standsDown reportsPoolReady (callsOf (PoolWorker ka) tr)"
    and b: "standsDown reportsPoolReady (callsOf (PoolWorker kb) tr)"
    using rivals listed seen
    by (auto simp: poolRivals_def intro: rival_pool_worker [OF assms(1) works, of a b "{a, b}"]
        rival_pool_worker [OF assms(1) works, of b a "{a, b}"])
  have "?n \<notin> poolEntry e" if call: "(j, e) \<in> set tr" for j e
  proof (cases "j \<in> {PoolWorker ka, PoolWorker kb}")
    case True
    then have "\<not> isNomadCall e" using a b call by (auto simp: standsDown_def quiet_def list_all_iff set_callsOf)
    then show ?thesis by (cases e rule: poolEntry.cases) simp_all
  next
    case False
    then have asks: "list_all (poolAsks (\<lambda>n. n \<noteq> ?n)) (callsOf j tr)" using others by (auto simp: list_all_iff set_callsOf)
    have "wholePasses (passBy op j) (callsOf j tr)" using works by (simp add: worksOff_def)
    then show ?thesis
      using pool_entries.asked_entries [where A = "{n. n \<noteq> ?n}", OF _ _ asks call] pass_asks_pool by blast
  qed
  then have "s' ?n = s ?n" by (intro pool_entries.untouched [OF path]) auto
  with a b show ?thesis by simp
qed

definition rivalPool :: "string \<Rightarrow> nomad_pool" where
  "rivalPool name = livePool\<lparr>np_meta := (np_meta livePool)\<lparr>om_name := name\<rparr>\<rparr>"

definition rivalOperator :: "unit operator" where
  "rivalOperator = sampleOperator\<lparr>oc_pool := sampleReconciler (samplePlatform\<lparr>pf_pools := rivalStore rivalPool\<rparr>) samplePoolOps\<rparr>"

lemma rival_pass:
  assumes "name = ''a'' \<or> name = ''b''"
  shows "\<exists>es. events_of (passOf rivalOperator (poolWorker name) ()) = es \<and>
    list_all (poolIs (rivalPool name)) es \<and> list_all (poolsListed {rivalPool ''a'', rivalPool ''b''}) es \<and>
    es \<noteq> [] \<and> list_all (\<lambda>e. poolEntry e \<subseteq> {name}) es \<and> (\<exists>s'. path poolServer Map.empty es s')"
  using assms
  apply (elim disjE)
  subgoal
    apply (hypsubst, rule exI, intro conjI)
    apply (simp add: fleet_pool_run rivalOperator_def rivalStore_def rivalPool_def emit_def)
    apply (simp add: samePool_def rivalPool_def fleet_defs)
    apply (simp add: samePool_def rivalPool_def listsPools_def fleet_defs)
    apply simp
    apply simp
    apply (simp add: pool_walk)
    done
  subgoal
    apply (hypsubst, rule exI, intro conjI)
    apply (simp add: fleet_pool_run rivalOperator_def rivalStore_def rivalPool_def emit_def)
    apply (simp add: samePool_def rivalPool_def fleet_defs)
    apply (simp add: samePool_def rivalPool_def listsPools_def fleet_defs)
    apply simp
    apply simp
    apply (simp add: pool_walk)
    done
  done

text \<open>Passes over two such pools, call by call in turns: neither is registered.\<close>

theorem colliding_pools_stand_down_witness:
  "let tr = inTurns rivalOperator (poolWorker ''a'') (poolWorker ''b'') () in
     standsDown reportsPoolReady (callsOf (poolWorker ''a'') tr) \<and> callsOf (poolWorker ''a'') tr \<noteq> [] \<and>
     (\<exists>s'. path poolServer Map.empty (map snd tr) s' \<and> s' ''gpu'' = None)"
proof -
  let ?a = "poolWorker ''a''" and ?b = "poolWorker ''b''"
  let ?tr = "inTurns rivalOperator ?a ?b ()"
  have apart: "?a \<noteq> ?b" "?b \<noteq> ?a" by simp_all
  obtain es where es: "events_of (passOf rivalOperator ?a ()) = es" "list_all (poolIs (rivalPool ''a'')) es"
      "list_all (poolsListed {rivalPool ''a'', rivalPool ''b''}) es" "es \<noteq> []"
      "list_all (\<lambda>e. poolEntry e \<subseteq> {''a''}) es" "\<exists>s'. path poolServer Map.empty es s'"
    using rival_pass [of "''a''"] by auto
  obtain es' where es': "events_of (passOf rivalOperator ?b ()) = es'" "list_all (poolIs (rivalPool ''b'')) es'"
      "list_all (poolsListed {rivalPool ''a'', rivalPool ''b''}) es'"
      "list_all (\<lambda>e. poolEntry e \<subseteq> {''b''}) es'" "\<exists>s'. path poolServer Map.empty es' s'"
    using rival_pass [of "''b''"] by auto
  have own: "callsOf ?a ?tr = es" "callsOf ?b ?tr = es'"
    using apart es(1) es'(1) by (simp_all add: inTurns_def callsOf_splice del: passOf.simps)
  have laws: "toolkit_laws (kr_toolkit (oc_pool rivalOperator))"
    by (simp add: rivalOperator_def sampleReconciler_laws)
  have rivals: "poolRivals (rivalPool ''a'') (rivalPool ''b'')" and gpu: "ps_poolName (np_spec (rivalPool ''a'')) = ''gpu''"
    by (simp_all add: poolRivals_def poolConflicts_def poolClusterKey_def rivalPool_def livePool_def samplePool_def newMeta_def)
  have seen: "list_all (poolIs (rivalPool ''a'')) (callsOf ?a ?tr)" "list_all (poolIs (rivalPool ''b'')) (callsOf ?b ?tr)"
    and listed: "list_all (poolsListed {rivalPool ''a'', rivalPool ''b''}) (callsOf ?a ?tr @ callsOf ?b ?tr)"
    using own es(2,3) es'(2,3) by simp_all
  have others: "\<forall>(j, e) \<in> set ?tr. j \<notin> {?a, ?b} \<longrightarrow> poolAsks (\<lambda>n. n \<noteq> ps_poolName (np_spec (rivalPool ''a''))) e"
    by (auto simp: apart inTurns_calls)
  obtain p q where alone: "path poolServer Map.empty es p" "path poolServer Map.empty es' q" using es(6) es'(5) by blast
  have "\<exists>s'. path poolServer Map.empty (splice es es') s' \<and> s' ''a'' = p ''a'' \<and> s' ''b'' = q ''b''"
    by (rule pool_entries.merged [OF alone es(5) es'(4)]) simp_all
  then obtain s' where "path poolServer Map.empty (splice es es') s'" by blast
  then have path: "path poolServer Map.empty (map snd ?tr) s'" by (simp only: inTurns_calls(2) es(1) es'(1))
  from colliding_pools_stand_down [OF laws inTurns_works [OF apart(1)] path rivals seen listed others] own es(4) path gpu
  show ?thesis by (auto simp: Let_def)
qed

subsection \<open>Namespaces\<close>

text \<open>
  \<open>nn\<close> is the object \<open>a\<close>, at some time of its life; the answers show \<open>a\<close>, alive; every listing shows
  the objects of \<open>A\<close>, alive.
\<close>

definition sameNamespace :: "nomad_namespace \<Rightarrow> nomad_namespace \<Rightarrow> bool" where
  "sameNamespace a nn \<longleftrightarrow> om_name (nns_meta nn) = om_name (nns_meta a) \<and> nns_spec nn = nns_spec a"

fun namespaceIs :: "nomad_namespace \<Rightarrow> event \<Rightarrow> bool" where
  "namespaceIs a (EvNamespace (SGet _ (Inr nn))) \<longleftrightarrow> sameNamespace a nn \<and> om_deletionTimestamp (nns_meta nn) = None"
| "namespaceIs a (EvNamespace (SUpdate _ (Inr nn))) \<longleftrightarrow> sameNamespace a nn"
| "namespaceIs a _ \<longleftrightarrow> True"

definition listsNamespaces :: "nomad_namespace set \<Rightarrow> nomad_namespace list \<Rightarrow> bool" where
  "listsNamespaces A items \<longleftrightarrow> (\<forall>a \<in> A. \<exists>nn \<in> set items. sameNamespace a nn \<and> om_deletionTimestamp (nns_meta nn) = None)"

fun namespacesListed :: "nomad_namespace set \<Rightarrow> event \<Rightarrow> bool" where
  "namespacesListed A (EvNamespace (SList _ (Inr items))) \<longleftrightarrow> listsNamespaces A items"
| "namespacesListed A _ \<longleftrightarrow> True"

definition namespaceRivals :: "nomad_namespace \<Rightarrow> nomad_namespace \<Rightarrow> bool" where
  "namespaceRivals a b \<longleftrightarrow> namespaceConflicts a b \<and> namespaceConflicts b a"

lemma namespace_secrets_standDown: "onChannels {ChSecret} es \<Longrightarrow> standsDown reportsNamespaceReady es"
  by (erule secrets_standDown) (auto dest: namespace_report_channel)

lemma namespace_rival_listed:
  assumes "namespaceConflicts a b" "b \<in> A" and "sameNamespace a nn" "listsNamespaces A items"
  shows "list_ex (namespaceConflicts nn) items"
proof -
  obtain item where "item \<in> set items" "sameNamespace b item" "om_deletionTimestamp (nns_meta item) = None"
    using assms(2,4) by (auto simp: listsNamespaces_def)
  then have "item \<in> set items \<and> namespaceConflicts nn item"
    using assms(1,3) by (auto simp: namespaceConflicts_def namespaceClusterKey_def sameNamespace_def)
  then show ?thesis by (auto simp: list_ex_iff)
qed

lemma sameNamespace_meta: "om_name m = om_name (nns_meta nn) \<Longrightarrow> sameNamespace a (nn\<lparr>nns_meta := m\<rparr>) \<longleftrightarrow> sameNamespace a nn"
  by (simp add: sameNamespace_def)

lemma rival_namespace_pass:
  assumes "toolkit_laws (kr_toolkit kr)" "namespaceConflicts a b" "b \<in> A"
  shows "meets (ReconcileNamespace kr key) (\<lambda>r es. list_all (namespaceIs a) es \<longrightarrow> list_all (namespacesListed A) es \<longrightarrow>
    standsDown reportsNamespaceReady es)"
  unfolding ReconcileNamespace_def reconcileNamespace_def namespace_steps kube_calls Let_def
  by (auto intro!: kwp meets_trivial [where p = "finalizeNamespace kr nn" for nn] split: sum.splits if_splits
      simp: namespace_secrets_standDown namespace_rival_listed [OF assms(2,3)]
        sameNamespace_meta setControllerReference_keeps [OF assms(1)])

lemma live_namespace_spec: "namespaceIs a e \<Longrightarrow> namespaceAsks (\<lambda>n. n = ns_namespaceName (nns_spec a)) e"
  by (induction a e rule: namespaceIs.induct) (simp_all add: sameNamespace_def)

lemma rival_namespace_worker:
  assumes "toolkit_laws (kr_toolkit (oc_namespace op))" "worksOff op tr" "namespaceConflicts a b" "b \<in> A"
    and "list_all (namespaceIs a) (callsOf (NamespaceWorker k) tr)" "list_all (namespacesListed A) (callsOf (NamespaceWorker k) tr)"
  shows "standsDown reportsNamespaceReady (callsOf (NamespaceWorker k) tr)"
proof -
  have "wholePasses (standsDown reportsNamespaceReady) (callsOf (NamespaceWorker k) tr)"
  proof (rule passBy_live [OF assms(2), of "\<lambda>e. namespaceIs a e \<and> namespacesListed A e"])
    show "list_all (\<lambda>e. namespaceIs a e \<and> namespacesListed A e) (callsOf (NamespaceWorker k) tr)"
      using assms(5,6) by (simp add: list_all_iff)
  next
    fix w
    assume "list_all (\<lambda>e. namespaceIs a e \<and> namespacesListed A e) (events_of (passOf op (NamespaceWorker k) w))"
    then show "standsDown reportsNamespaceReady (events_of (passOf op (NamespaceWorker k) w))"
      using meetsD [OF rival_namespace_pass [OF assms(1,3,4)], where w = w] by (auto simp: list_all_iff)
  qed
  then show ?thesis by (auto simp: wholePasses_def standsDown_concat)
qed

text \<open>
  While two live NomadNamespaces claim the same namespace of the same cluster and every listing shows both, no
  pass over either of them, in any interleaving with each other and with all other workers, calls
  Nomad or reports Ready: Nomad's namespace stays as it was last written, instead of going back and forth.
\<close>

lemma colliding_namespaces_stand_down:
  assumes "toolkit_laws (kr_toolkit (oc_namespace op))"
    and works: "worksOff op tr" and path: "path namespaceServer s (map snd tr) s'"
    and rivals: "namespaceRivals a b"
    and seen: "list_all (namespaceIs a) (callsOf (NamespaceWorker ka) tr)" "list_all (namespaceIs b) (callsOf (NamespaceWorker kb) tr)"
    and listed: "list_all (namespacesListed {a, b}) (callsOf (NamespaceWorker ka) tr @ callsOf (NamespaceWorker kb) tr)"
    and others: "\<forall>(j, e) \<in> set tr. j \<notin> {NamespaceWorker ka, NamespaceWorker kb} \<longrightarrow> namespaceAsks (\<lambda>n. n \<noteq> ns_namespaceName (nns_spec a)) e"
  shows "standsDown reportsNamespaceReady (callsOf (NamespaceWorker ka) tr) \<and> standsDown reportsNamespaceReady (callsOf (NamespaceWorker kb) tr) \<and>
    s' (ns_namespaceName (nns_spec a)) = s (ns_namespaceName (nns_spec a))"
proof -
  let ?n = "ns_namespaceName (nns_spec a)"
  have a: "standsDown reportsNamespaceReady (callsOf (NamespaceWorker ka) tr)"
    and b: "standsDown reportsNamespaceReady (callsOf (NamespaceWorker kb) tr)"
    using rivals listed seen
    by (auto simp: namespaceRivals_def intro: rival_namespace_worker [OF assms(1) works, of a b "{a, b}"]
        rival_namespace_worker [OF assms(1) works, of b a "{a, b}"])
  have "?n \<notin> namespaceEntry e" if call: "(j, e) \<in> set tr" for j e
  proof (cases "j \<in> {NamespaceWorker ka, NamespaceWorker kb}")
    case True
    then have "\<not> isNomadCall e" using a b call by (auto simp: standsDown_def quiet_def list_all_iff set_callsOf)
    then show ?thesis by (cases e rule: namespaceEntry.cases) simp_all
  next
    case False
    then have asks: "list_all (namespaceAsks (\<lambda>n. n \<noteq> ?n)) (callsOf j tr)" using others by (auto simp: list_all_iff set_callsOf)
    have "wholePasses (passBy op j) (callsOf j tr)" using works by (simp add: worksOff_def)
    then show ?thesis
      using namespace_entries.asked_entries [where A = "{n. n \<noteq> ?n}", OF _ _ asks call] pass_asks_namespace by blast
  qed
  then have "s' ?n = s ?n" by (intro namespace_entries.untouched [OF path]) auto
  with a b show ?thesis by simp
qed

subsection \<open>Deleting one of two rivals\<close>

text \<open>
  The way out the runbooks name, deleting one of the two, takes the entry away from both: the
  finalizer's branch lists nothing, so it does not see the other claim. The object \<open>b\<close> below was
  never registered; its deletion removes the pool that \<open>a\<close> had registered before \<open>b\<close> appeared.
\<close>

lemma deletion_lists_nothing:
  "confined (poolFootprint - {FStore ChPool VList}) (finalizePool kr np)"
  "confined (namespaceFootprint - {FStore ChNamespace VList}) (finalizeNamespace kn nn)"
  unfolding finalizePool_def finalizeNamespace_def pool_steps namespace_steps kube_calls Let_def
  by ((intro confinement); auto simp: kind_footprints)+

definition goingReconciler :: "unit pool_reconciler" where
  "goingReconciler = sampleReconciler (samplePlatform\<lparr>pf_pools :=
     (rivalStore rivalPool)\<lparr>st_get := (\<lambda>_ w. (Inr ((rivalPool ''b'')\<lparr>np_meta := deletedMeta ''b'' nomadPoolFinalizer\<rparr>), w))\<rparr>\<rparr>)
     samplePoolOps"

lemma deleted_rival_takes_the_pool:
  "\<exists>s'. path poolServer [''gpu'' \<mapsto> desiredNodePool None (rivalPool ''a'')]
     (events_of (ReconcilePool goingReconciler (objectKey ''nomad'' ''b'') ())) s' \<and> s' ''gpu'' = None"
  by (simp add: goingReconciler_def rivalStore_def rivalPool_def finalizePool_def fleet_pool_run pool_walk)

subsection \<open>Jobs\<close>

text \<open>
  Two NomadJobs with one job ID and different jobs: each pass finds a change, registers its own and
  reports Ready, and the next pass over the other takes it back.
\<close>

definition rivalJob :: "string \<Rightarrow> nomad_job" where
  "rivalJob name = liveJob\<lparr>nj_meta := (nj_meta liveJob)\<lparr>om_name := name\<rparr>,
     nj_spec := (nj_spec liveJob)\<lparr>js_job := name\<rparr>\<rparr>"

definition rivalDecoder :: job_decoder where
  "rivalDecoder raw = Inr (sampleApiJob\<lparr>aj_ID := None, aj_Namespace := None, aj_rest := raw\<rparr>)"

definition rivalJobReconciler :: "unit job_reconciler" where
  "rivalJobReconciler = sampleReconciler (samplePlatform\<lparr>pf_jobs := rivalStore rivalJob\<rparr>) sampleJobOps"

definition rivalApiJob :: "string \<Rightarrow> api_job" where
  "rivalApiJob name = sampleApiJob\<lparr>aj_ID := Some ''web'', aj_Namespace := Some ''team'', aj_Region := Some ''eu'', aj_rest := name\<rparr>"

lemma rival_jobs_overwrite:
  assumes "(x, y) \<in> {(''a'', ''b''), (''b'', ''a'')}"
  shows "let es = events_of (ReconcileJob rivalJobReconciler rivalDecoder (objectKey ''nomad'' y) ()) in
    path (jobServer (\<lambda>_ _. False)) [(''team'', ''web'') \<mapsto> rivalApiJob x] es [(''team'', ''web'') \<mapsto> rivalApiJob y] \<and>
    some_call isNomadWrite es \<and> some_call reportsJobReady es"
  using assms by (auto simp: fleet_job_run rivalJobReconciler_def rivalStore_def rivalJob_def rivalDecoder_def rivalApiJob_def
      job_walk unchanged_def jobKeyOf_def objectKey_def)

end
