(* ===== verification/NameBounds.thy ===== *)
theory NameBounds
  imports ExternalAccess Samples
begin

section \<open>Which cluster names work\<close>

text \<open>
  The API server takes any RFC 1123 subdomain of up to 253 characters as the name of a NomadCluster;
  the name of a Service must be a DNS label that starts with a letter and has at most 63. Service
  names are the cluster's name with a suffix, so not every cluster that is admitted can be rolled out.
\<close>

definition lowerLetter :: "char \<Rightarrow> bool" where
  "lowerLetter c \<longleftrightarrow> CHR ''a'' \<le> c \<and> c \<le> CHR ''z''"

definition serviceNameOK :: "string \<Rightarrow> bool" where
  "serviceNameOK s \<longleftrightarrow> validLabel s \<and> lowerLetter (hd s)"

definition usableClusterName :: "string \<Rightarrow> bool" where
  "usableClusterName s \<longleftrightarrow> s \<noteq> [] \<and> lowerLetter (hd s) \<and> labelChars s \<and> length s \<le> 47"

lemma letter_alnum: "lowerLetter c \<Longrightarrow> alnum c"
  by (simp add: lowerLetter_def alnum_def less_eq_char_def)

lemma not_letter_dash [simp]: "\<not> lowerLetter CHR ''-''"
  by (simp add: lowerLetter_def less_eq_char_def)

lemma suffixed_name:
  assumes "suf \<noteq> []" "hd suf = CHR ''-''" "labelChars suf" "alnum (last suf)"
  shows "serviceNameOK (s @ suf) \<longleftrightarrow> s \<noteq> [] \<and> lowerLetter (hd s) \<and> labelChars s \<and> length s + length suf \<le> 63"
proof (cases s)
  case Nil
  then show ?thesis using assms by (simp add: serviceNameOK_def lowerLetter_def less_eq_char_def)
next
  case (Cons c cs)
  then show ?thesis using assms by (auto simp: serviceNameOK_def validLabel_def labelChars_def letter_alnum)
qed

lemma digit_alnum: "i < 10 \<Longrightarrow> alnum (digitChar i)"
  by (simp add: alnum_def of_char_digitChar)

lemma fixed_suffixes:
  "serviceNameOK (s @ ''-server-headless'') \<longleftrightarrow> usableClusterName s"
  "usableClusterName s \<Longrightarrow> serviceNameOK (s @ ''-nomad'')"
  "usableClusterName s \<Longrightarrow> serviceNameOK (s @ ''-lb'')"
  by (auto simp: suffixed_name usableClusterName_def labelChars_def alnum_def)

lemma pod_suffix:
  assumes "usableClusterName s" "i < 10"
  shows "serviceNameOK (s @ ''-server'' @ ''-'' @ natDigits i @ ''-rpc'')"
proof -
  have "labelChars (''-server-'' @ natDigits i @ ''-rpc'')" "length (natDigits i) = 1"
    using assms(2) digit_alnum [of i] by (simp_all add: natDigits.simps [of i] labelChars_def alnum_def)
  then show ?thesis
    using assms(1) suffixed_name [of "''-server-'' @ natDigits i @ ''-rpc''" s] by (auto simp: usableClusterName_def alnum_def)
qed

lemma lb_name: "om_name (sv_meta (buildLoadBalancerService nc)) = nc_name nc @ ''-lb''"
  by (simp add: buildLoadBalancerService_def newMeta_def Let_def split: option.split)

text \<open>
  C38: the Services the builders make for an admitted cluster all have names Kubernetes accepts for a
  Service exactly when the cluster's name starts with a lower-case letter, is made of lower-case
  letters, digits and dashes, and has at most 47 characters.
\<close>

theorem service_names_bound:
  assumes "admittedCluster (nc_spec nc)"
  shows "usableClusterName (nc_name nc) \<longleftrightarrow>
    list_all (\<lambda>svc. serviceNameOK (om_name (sv_meta svc)))
      ([buildHeadlessService nc, buildAPIService nc, buildLoadBalancerService nc] @
       map (buildPodService nc) [0..<nat (nc_servers nc)])"
proof -
  have servers: "nat (nc_servers nc) < 10" using assms by (auto simp: admittedCluster_def)
  have pods: "usableClusterName (nc_name nc) \<Longrightarrow> i < nat (nc_servers nc) \<Longrightarrow>
      serviceNameOK (om_name (sv_meta (buildPodService nc i)))" for i
    using pod_suffix [of "nc_name nc" i] servers by (simp add: buildPodService_def newMeta_def PodSvc_def)
  have headless: "om_name (sv_meta (buildHeadlessService nc)) = nc_name nc @ ''-server-headless''"
    and api: "om_name (sv_meta (buildAPIService nc)) = nc_name nc @ ''-nomad''"
    by (simp_all add: buildHeadlessService_def buildAPIService_def newMeta_def)
  show ?thesis unfolding list_all_append using pods
    by (auto simp: headless api lb_name fixed_suffixes list_all_iff simp del: upt_Suc)
qed

theorem service_names_bound_witness:
  "list_all (\<lambda>svc. serviceNameOK (om_name (sv_meta svc)))
     ([buildHeadlessService sampleCluster, buildAPIService sampleCluster, buildLoadBalancerService sampleCluster] @
      map (buildPodService sampleCluster) [0..<3])"
proof -
  have name: "nc_name sampleCluster = ''prod''" and three: "nat (nc_servers sampleCluster) = 3"
    by (simp_all add: sampleCluster_def newMeta_def)
  have "usableClusterName (nc_name sampleCluster)"
    by (simp add: name usableClusterName_def lowerLetter_def labelChars_def alnum_def less_eq_char_def)
  then show ?thesis using service_names_bound [OF sampleCluster_admitted] unfolding three by blast
qed

text \<open>A name the API server admits and no Service can be named after.\<close>

lemma admitted_name_unusable: "validSubdomain ''nomad.prod'' \<and> \<not> usableClusterName ''nomad.prod''"
  by (simp add: validSubdomain_def validLabel_def usableClusterName_def labelChars_def alnum_def)

end
