(* ===== verification/NodeSpec.thy ===== *)
theory NodeSpec
  imports Node Samples
begin

section \<open>What the node reflector guarantees\<close>

text \<open>
  Which node stands for a name and who owns an object name, when Nomad is told to drain a node or to change
  its eligibility, which objects a pass may delete, and what a pass does when the cluster cannot be listed.
\<close>

subsection \<open>Binding names to nodes\<close>

definition liveStubs :: "node_stub list \<Rightarrow> string \<Rightarrow> node_stub list" where
  "liveStubs stubs name = filter (\<lambda>s. stub_Status s \<noteq> NodeStatusDown) (namedStubs stubs name)"

lemma freshest_greatest:
  "freshest best grp \<in> set (best # grp) \<and> (\<forall>s \<in> set (best # grp). stub_CreateIndex s \<le> stub_CreateIndex (freshest best grp))"
  unfolding freshest_def
proof (induction grp arbitrary: best)
  case Nil
  then show ?case by simp
next
  case (Cons s grp)
  show ?case
    using Cons.IH [of best] Cons.IH [of s] by (auto split: if_splits)
qed

lemma bindGroup_Some:
  assumes "bindGroup (namedStubs stubs name) = Some s" "namedStubs stubs name \<noteq> []"
  shows "s \<in> set (namedStubs stubs name)"
    "liveStubs stubs name = [s] \<or> liveStubs stubs name = [] \<and>
      list_all (\<lambda>t. stub_CreateIndex t \<le> stub_CreateIndex s) (namedStubs stubs name)"
proof -
  let ?grp = "namedStubs stubs name"
  have live: "liveStubs stubs name = [s] \<or> liveStubs stubs name = [] \<and> s = freshest (hd ?grp) ?grp"
    using assms(1) by (auto simp: bindGroup_def liveStubs_def Let_def split: list.splits)
  have best: "freshest (hd ?grp) ?grp \<in> set ?grp"
    "list_all (\<lambda>t. stub_CreateIndex t \<le> stub_CreateIndex (freshest (hd ?grp) ?grp)) ?grp"
    using freshest_greatest [of "hd ?grp" ?grp] assms(2) by (auto simp: list_all_iff)
  have "set (liveStubs stubs name) \<subseteq> set ?grp" by (auto simp: liveStubs_def)
  then have "liveStubs stubs name = [s] \<Longrightarrow> s \<in> set ?grp" by auto
  then show "s \<in> set ?grp" using live best(1) by auto
  show "liveStubs stubs name = [s] \<or> liveStubs stubs name = [] \<and>
      list_all (\<lambda>t. stub_CreateIndex t \<le> stub_CreateIndex s) ?grp"
    using live best(2) by auto
qed

lemma bindGroup_None: "bindGroup (namedStubs stubs name) = None \<longleftrightarrow> 2 \<le> length (liveStubs stubs name)"
  by (auto simp: bindGroup_def liveStubs_def Let_def split: list.splits)

lemma namedStubs_empty: "namedStubs stubs name = [] \<longleftrightarrow> name \<notin> stub_Name ` set stubs"
  by (auto simp: namedStubs_def filter_empty_conv)

lemma map_of_map_filter_keys:
  assumes "distinct ks"
  shows "map_of (List.map_filter (\<lambda>k. map_option (Pair k) (f k)) ks) k = (if k \<in> set ks then f k else None)"
  using assms by (induction ks) (auto simp: map_filter_simps split: option.splits)

lemma set_map_filter_keys:
  "set (List.map_filter (\<lambda>k. map_option (Pair k) (f k)) ks) = {(k, v). k \<in> set ks \<and> f k = Some v}"
  by (induction ks) (auto simp: map_filter_simps split: option.splits)

lemma bound_lookup:
  "map_of (fst (bindNodes stubs)) name =
    (if name \<in> stub_Name ` set stubs then bindGroup (namedStubs stubs name) else None)"
  unfolding bindNodes_def Let_def fst_conv by (simp add: map_of_map_filter_keys)

lemma bound_set:
  "(name, s) \<in> set (fst (bindNodes stubs)) \<longleftrightarrow>
    name \<in> stub_Name ` set stubs \<and> bindGroup (namedStubs stubs name) = Some s"
  unfolding bindNodes_def Let_def fst_conv by (auto simp: set_map_filter_keys)

lemma bound_name: "(name, s) \<in> set (fst (bindNodes stubs)) \<Longrightarrow> stub_Name s = name \<and> s \<in> set stubs"
  using bindGroup_Some(1) [of stubs name s] by (auto simp: bound_set namedStubs_def filter_empty_conv)

lemma dupes_set:
  "name \<in> set (snd (bindNodes stubs)) \<longleftrightarrow> 2 \<le> length (liveStubs stubs name)"
proof -
  have "2 \<le> length (liveStubs stubs name) \<Longrightarrow> name \<in> stub_Name ` set stubs"
    using namedStubs_empty [of stubs name] by (auto simp: liveStubs_def)
  then show ?thesis unfolding bindNodes_def Let_def snd_conv by (auto simp: bindGroup_None)
qed

lemma bound_or_dupe:
  "name \<in> fst ` set (fst (bindNodes stubs)) \<or> name \<in> set (snd (bindNodes stubs)) \<longleftrightarrow> name \<in> stub_Name ` set stubs"
proof -
  have "name \<in> fst ` set (fst (bindNodes stubs)) \<longleftrightarrow> map_of (fst (bindNodes stubs)) name \<noteq> None"
    by (simp add: map_of_eq_None_iff)
  moreover have "2 \<le> length (liveStubs stubs name) \<Longrightarrow> name \<in> stub_Name ` set stubs"
    using namedStubs_empty [of stubs name] by (auto simp: liveStubs_def)
  ultimately show ?thesis
    using bindGroup_None [of stubs name] by (auto simp add: bound_lookup dupes_set split: if_splits)
qed

lemma presentNames_all:
  "set (presentNames uc (fst (bindNodes stubs)) (snd (bindNodes stubs))) =
    sanitizeNodeName uc ` stub_Name ` set stubs"
proof -
  have "fst ` set (fst (bindNodes stubs)) \<union> set (snd (bindNodes stubs)) = stub_Name ` set stubs"
    using bound_or_dupe [of _ stubs] by blast
  moreover have "set (presentNames uc bound dupes) = sanitizeNodeName uc ` (fst ` set bound \<union> set dupes)"
    for bound :: "(string \<times> node_stub) list" and dupes
    by (simp add: presentNames_def image_Un image_image case_prod_unfold)
  ultimately show ?thesis by simp
qed

lemma presentNames_empty:
  "presentNames uc (fst (bindNodes stubs)) (snd (bindNodes stubs)) = [] \<longleftrightarrow> stubs = []"
  using presentNames_all [of uc stubs] by (metis image_is_empty set_empty)

text \<open>
  C31: a name is bound to its single node that is not down, to the node with the highest CreateIndex
  when all are down, and to none when two or more are not down; exactly these last names are
  reported as duplicates. The doc comment of bindNodes says otherwise of several nodes that are not
  down, that the highest CreateIndex decides between them; the code's default case refuses to guess, as
  the rest of that comment says.
\<close>

theorem bindNodes_classifies:
  "(case map_of (fst (bindNodes stubs)) name of
      Some s \<Rightarrow> s \<in> set (namedStubs stubs name) \<and>
        (liveStubs stubs name = [s] \<or> liveStubs stubs name = [] \<and>
           list_all (\<lambda>t. stub_CreateIndex t \<le> stub_CreateIndex s) (namedStubs stubs name))
    | None \<Rightarrow> namedStubs stubs name = [] \<or> 2 \<le> length (liveStubs stubs name)) \<and>
   (name \<in> set (snd (bindNodes stubs)) \<longleftrightarrow> 2 \<le> length (liveStubs stubs name))"
  using bindGroup_Some [of stubs name] bindGroup_None [of stubs name] namedStubs_empty [of stubs name]
  by (auto simp: bound_lookup dupes_set split: option.splits)


subsection \<open>Who owns an object name\<close>

definition precedes :: "node_stub \<Rightarrow> node_stub \<Rightarrow> bool" where
  "precedes s t \<longleftrightarrow> stub_CreateIndex s < stub_CreateIndex t \<or>
     (stub_CreateIndex s = stub_CreateIndex t \<and> stub_Name s < stub_Name t)"

definition contend :: "unicode_tables \<Rightarrow> (string \<times> node_stub) list \<Rightarrow> string \<times> node_stub \<Rightarrow> (string \<times> node_stub) list" where
  "contend uc best x =
     (let obj = sanitizeNodeName uc (stub_Name (snd x)) in
      case map_of best obj of
        None \<Rightarrow> mapPut obj (snd x) best
      | Some cur \<Rightarrow> if precedes (snd x) cur then mapPut obj (snd x) best else best)"

lemma resolveCollisionOwners_contend:
  "resolveCollisionOwners uc bound = map (\<lambda>(obj, stub). (obj, stub_Name stub)) (foldl (contend uc) [] bound)"
  unfolding resolveCollisionOwners_def contend_def precedes_def
  by (simp add: case_prod_unfold Let_def)

text \<open>\<open>contenders\<close>: the stubs that want \<open>obj\<close>, with the one that holds it already.\<close>

definition contenders :: "unicode_tables \<Rightarrow> (string \<times> node_stub) list \<Rightarrow> (string \<times> node_stub) list \<Rightarrow> string \<Rightarrow> node_stub set" where
  "contenders uc best bound obj =
     set_option (map_of best obj) \<union> {s \<in> snd ` set bound. sanitizeNodeName uc (stub_Name s) = obj}"

lemma precedes_trans: "precedes s t \<Longrightarrow> precedes t u \<Longrightarrow> precedes s u"
  by (auto simp: precedes_def)

lemma precedes_linear: "stub_Name s \<noteq> stub_Name t \<Longrightarrow> precedes s t \<or> precedes t s"
  by (auto simp: precedes_def)

lemma precedes_irrefl [simp]: "\<not> precedes s s"
  by (simp add: precedes_def)

lemma precedes_asym: "precedes s t \<Longrightarrow> \<not> precedes t s"
  by (auto simp: precedes_def)

lemma precedes_neg_trans: "\<not> precedes s t \<Longrightarrow> \<not> precedes t u \<Longrightarrow> \<not> precedes s u"
  by (auto simp: precedes_def)

lemma contend_lookup:
  "map_of (contend uc best x) obj =
    (if sanitizeNodeName uc (stub_Name (snd x)) = obj
     then (case map_of best obj of None \<Rightarrow> Some (snd x)
           | Some cur \<Rightarrow> if precedes (snd x) cur then Some (snd x) else Some cur)
     else map_of best obj)"
  by (auto simp: contend_def Let_def split: option.splits)

lemma contest_winner:
  "case map_of (foldl (contend uc) best bound) obj of
     None \<Rightarrow> contenders uc best bound obj = {}
   | Some s \<Rightarrow> s \<in> contenders uc best bound obj \<and> (\<forall>t \<in> contenders uc best bound obj. \<not> precedes t s)"
proof (induction bound arbitrary: best)
  case Nil
  then show ?case by (auto simp: contenders_def split: option.splits)
next
  case (Cons x bound)
  show ?case
    using Cons.IH [of "contend uc best x"]
    by (auto simp: contenders_def contend_lookup split: option.splits if_splits
        dest: precedes_neg_trans precedes_asym intro: precedes_trans)
qed

lemma bound_lookup_iff: "map_of (fst (bindNodes stubs)) name = Some s \<longleftrightarrow> (name, s) \<in> set (fst (bindNodes stubs))"
  by (simp add: bound_lookup bound_set)

lemma rangeMap_set:
  assumes "set (f (map fst m)) = fst ` set m"
  shows "(k, v) \<in> set (rangeMap f m) \<longleftrightarrow> map_of m k = Some v"
  using assms by (force simp: rangeMap_def set_map_filter_keys dest: map_of_SomeD)

text \<open>\<open>ownsName\<close>: \<open>s\<close> is bound, its name sanitises to \<open>obj\<close>, and it precedes every other such node.\<close>

definition ownsName :: "unicode_tables \<Rightarrow> (string \<times> node_stub) list \<Rightarrow> string \<Rightarrow> node_stub \<Rightarrow> bool" where
  "ownsName uc bound obj s \<longleftrightarrow> map_of bound (stub_Name s) = Some s \<and> sanitizeNodeName uc (stub_Name s) = obj \<and>
     list_all (\<lambda>(m, t). sanitizeNodeName uc m = obj \<longrightarrow> m = stub_Name s \<or> precedes s t) bound"

lemma ownsName_unique:
  assumes "ownsName uc bound obj s" "ownsName uc bound obj w"
  shows "s = w"
proof -
  have "(stub_Name s, s) \<in> set bound" "(stub_Name w, w) \<in> set bound"
    using assms by (auto simp: ownsName_def dest: map_of_SomeD)
  then have "stub_Name w = stub_Name s \<or> precedes s w" "stub_Name s = stub_Name w \<or> precedes w s"
    using assms by (auto simp: ownsName_def list_all_iff)
  then have "stub_Name w = stub_Name s" by (auto dest: precedes_asym)
  then show ?thesis using assms by (simp add: ownsName_def)
qed

lemma contenders_bound:
  assumes "set (ord (map fst (fst (bindNodes stubs)))) = fst ` set (fst (bindNodes stubs))"
  shows "contenders uc [] (rangeMap ord (fst (bindNodes stubs))) obj =
    {s. (stub_Name s, s) \<in> set (fst (bindNodes stubs)) \<and> sanitizeNodeName uc (stub_Name s) = obj}"
proof -
  have "s \<in> snd ` set (rangeMap ord (fst (bindNodes stubs))) \<longleftrightarrow> (\<exists>m. (m, s) \<in> set (fst (bindNodes stubs)))" for s
    using rangeMap_set [of ord "fst (bindNodes stubs)", OF assms] by (force simp: bound_lookup_iff)
  moreover have "(\<exists>m. (m, s) \<in> set (fst (bindNodes stubs))) \<longleftrightarrow> (stub_Name s, s) \<in> set (fst (bindNodes stubs))" for s
    using bound_name [of _ s stubs] by blast
  ultimately show ?thesis by (simp add: contenders_def)
qed

lemma winner_owns:
  assumes "set (ord (map fst (fst (bindNodes stubs)))) = fst ` set (fst (bindNodes stubs))"
    and "map_of (foldl (contend uc) [] (rangeMap ord (fst (bindNodes stubs)))) obj = Some w"
  shows "ownsName uc (fst (bindNodes stubs)) obj w"
proof -
  let ?bound = "fst (bindNodes stubs)"
  have w: "(stub_Name w, w) \<in> set ?bound" "sanitizeNodeName uc (stub_Name w) = obj"
    and least: "\<And>t. (stub_Name t, t) \<in> set ?bound \<Longrightarrow> sanitizeNodeName uc (stub_Name t) = obj \<Longrightarrow> \<not> precedes t w"
    using contest_winner [of uc "[]" "rangeMap ord ?bound" obj] assms(2)
    by (auto simp: contenders_bound [of ord, OF assms(1)])
  have "m = stub_Name w \<or> precedes w t" if "(m, t) \<in> set ?bound" "sanitizeNodeName uc m = obj" for m t
    using least [of t] precedes_linear [of w t] bound_name [of m t stubs] that
    by (cases "stub_Name w = stub_Name t") auto
  then show ?thesis using w by (auto simp: ownsName_def bound_lookup_iff list_all_iff)
qed

text \<open>
  C30: whatever the iteration order of the map, an object name several bound nodes sanitise to is owned
  by exactly one of them: the one with the lowest CreateIndex, ties broken by the lowest Name.
\<close>

theorem owner_is_least:
  assumes "set (ord (map fst (fst (bindNodes stubs)))) = fst ` set (fst (bindNodes stubs))"
  shows "map_of (resolveCollisionOwners uc (rangeMap ord (fst (bindNodes stubs)))) obj = Some n \<longleftrightarrow>
    (\<exists>s. stub_Name s = n \<and> ownsName uc (fst (bindNodes stubs)) obj s)"
proof -
  let ?winner = "map_of (foldl (contend uc) [] (rangeMap ord (fst (bindNodes stubs)))) obj"
  have "?winner = None \<Longrightarrow> \<not> ownsName uc (fst (bindNodes stubs)) obj s" for s
    using contest_winner [of uc "[]" "rangeMap ord (fst (bindNodes stubs))" obj]
    by (auto simp: contenders_bound [of ord, OF assms] ownsName_def bound_lookup_iff)
  then have "?winner = Some s \<longleftrightarrow> ownsName uc (fst (bindNodes stubs)) obj s" for s
    using winner_owns [of ord stubs uc obj, OF assms] ownsName_unique [of uc "fst (bindNodes stubs)" obj]
    by (cases ?winner) auto
  then show ?thesis by (auto simp: resolveCollisionOwners_contend map_of_map)
qed


definition sampleStub :: "string \<Rightarrow> string \<Rightarrow> nat \<Rightarrow> node_stub" where
  "sampleStub i name idx = \<lparr>stub_ID = i, stub_Name = name, stub_Status = ''ready'', stub_CreateIndex = idx,
     stub_SchedulingEligibility = NodeSchedulingEligible, stub_Drain = False, stub_LastDrain = None,
     stub_NodeClass = [], stub_NodePool = ''default'', stub_Datacenter = ''dc1''\<rparr>"

text \<open>Two nodes whose names sanitise alike: the older one owns the object name.\<close>

definition sampleStubs :: "node_stub list" where
  "sampleStubs = [sampleStub ''n1'' ''web-1'' 9, sampleStub ''n2'' ''web_1'' 7]"

definition sampleNodeOps :: "unit NomadNodeOps" where
  "sampleNodeOps = \<lparr>op_ListNodes = (\<lambda>w. (Inr sampleStubs, w)), op_NodeInfo = (\<lambda>_ w. (Inr None, w)),
     op_SetEligibility = (\<lambda>_ _ w. (Inl (PlainError ''refused''), w)), op_UpdateDrain = (\<lambda>_ _ _ w. (Inr (), w))\<rparr>"

theorem owner_is_least_witness:
  "map_of (resolveCollisionOwners sampleUnicode (rangeMap rev (fst (bindNodes sampleStubs)))) ''web-1'' = Some ''web_1'' \<and>
   (\<exists>s. stub_Name s = ''web_1'' \<and> ownsName sampleUnicode (fst (bindNodes sampleStubs)) ''web-1'' s)"
proof -
  have "set (rev (map fst (fst (bindNodes sampleStubs)))) = fst ` set (fst (bindNodes sampleStubs))" by simp
  note iff = owner_is_least [of rev, OF this, of sampleUnicode "''web-1''" "''web_1''"]
  have "map_of (resolveCollisionOwners sampleUnicode (rangeMap rev (fst (bindNodes sampleStubs)))) ''web-1'' = Some ''web_1''"
    by code_simp
  with iff show ?thesis by simp
qed

subsection \<open>Driving eligibility and drains\<close>

definition drainComplete :: "node_stub \<Rightarrow> bool" where
  "drainComplete stub \<longleftrightarrow> stub_SchedulingEligibility stub = NodeSchedulingIneligible \<and>
     (case stub_LastDrain stub of None \<Rightarrow> False | Some ld \<Rightarrow> dm_status ld = DrainStatusComplete)"

definition wantedEligibility :: "nomad_node \<Rightarrow> string" where
  "wantedEligibility nn = (if no_eligible (no_spec nn) then NodeSchedulingEligible else NodeSchedulingIneligible)"

fun drainAccepted :: "string \<Rightarrow> event \<Rightarrow> bool" where
  "drainAccepted i (EvNomad (NUpdateDrain j (Some _) _ (Inr _))) \<longleftrightarrow> i = j"
| "drainAccepted i _ \<longleftrightarrow> False"

text \<open>
  A drain is issued with the spec's values only for a node that is not draining and whose generation is
  not handled; it is cancelled, or eligibility is set, only when the spec has no drain; the generation is
  recorded only for a drain Nomad accepted or is running.
\<close>

fun driveRule :: "nomad_node \<Rightarrow> node_stub \<Rightarrow> event list \<Rightarrow> event \<Rightarrow> bool" where
  "driveRule nn stub past (EvNomad (NUpdateDrain i (Some d) mark _)) \<longleftrightarrow>
     i = stub_ID stub \<and> \<not> mark \<and> map_option desiredDrain (no_drain (no_spec nn)) = Some d \<and>
     \<not> stub_Drain stub \<and> \<not> (nt_drainObservedGeneration (no_status nn) = no_generation nn \<and> drainComplete stub)"
| "driveRule nn stub past (EvNomad (NUpdateDrain i None mark _)) \<longleftrightarrow>
     i = stub_ID stub \<and> no_drain (no_spec nn) = None \<and> stub_Drain stub \<and> mark = no_eligible (no_spec nn)"
| "driveRule nn stub past (EvNomad (NSetEligibility i b _)) \<longleftrightarrow>
     i = stub_ID stub \<and> no_drain (no_spec nn) = None \<and> \<not> stub_Drain stub \<and> b = no_eligible (no_spec nn) \<and>
     stub_SchedulingEligibility stub \<noteq> wantedEligibility nn"
| "driveRule nn stub past (EvNode (SUpdateStatus n _)) \<longleftrightarrow>
     nt_drainObservedGeneration (no_status n) = no_generation nn \<and> no_spec n = no_spec nn \<and> no_drain (no_spec nn) \<noteq> None \<and>
     (stub_Drain stub \<or> some_call (drainAccepted (stub_ID stub)) past)"
| "driveRule nn stub past (EvNomad (NNodeInfo i _)) \<longleftrightarrow> i = stub_ID stub \<and> stub_Drain stub"
| "driveRule nn stub past e \<longleftrightarrow> False"

lemma obeys_from:
  "obeys rule es \<longleftrightarrow> scan (\<lambda>_. None) (\<lambda>(_ :: unit). rule) () [] es"
  by (simp add: obeys_def)

lemma adoptDrain_obeys:
  assumes "no_drain (no_spec nn) = Some d" "stub_Drain stub"
  shows "meets (adoptDrain kr nn d stub ops) (\<lambda>r es. obeys (driveRule nn stub) es)"
  unfolding adoptDrain_def nodeStatusUpdate_def handleGeneration_def kube_calls Let_def obeys_from
  by (rule kwp | simp add: assms)+

lemma driveDesired_obeys: "meets (driveDesired kr nn stub ops) (\<lambda>r es. obeys (driveRule nn stub) es)"
proof (cases "no_drain (no_spec nn)")
  case None
  then show ?thesis
    unfolding driveDesired_def nodeStatusUpdate_def kube_calls Let_def obeys_from
    by (auto intro!: kwp split: sum.splits simp: wantedEligibility_def)
next
  case (Some d)
  then show ?thesis
    unfolding driveDesired_def nodeStatusUpdate_def handleGeneration_def
      drainHandledThisGeneration_def kube_calls Let_def
    by (auto intro!: kwp adoptDrain_obeys [unfolded obeys_from] split: sum.splits simp: obeys_from drainComplete_def trace_simps split: if_splits)
qed

text \<open>
  driving one node calls Nomad for that node only, with the values of its spec; a running or completed
  drain of the handled generation is never issued again, eligibility is written only without a desired or
  running drain and only when it differs, and the generation is recorded as handled only after Nomad
  accepted the drain or was already draining the node.
\<close>

lemma drive_rules: "obeys (driveRule nn stub) (events_of (driveDesired kr nn stub ops w))"
  by (rule meetsD [OF driveDesired_obeys])

text \<open>
  Once a drain's generation is recorded, the drain is issued again exactly when Nomad shows it neither
  running nor complete, that is when it was cancelled out of band.
\<close>

lemma drain_reissued_iff_cancelled:
  "quiet isNomadWrite (events_of (driveDesired kr (handleGeneration (nn\<lparr>no_spec := (no_spec nn)\<lparr>no_drain := Some d\<rparr>\<rparr>)) stub ops w)) \<longleftrightarrow>
    stub_Drain stub \<or> drainComplete stub"
  by (auto simp: driveDesired_def handleGeneration_def drainHandledThisGeneration_def drainComplete_def Let_def
      ret_run bindE_def andThen_def kube_calls call_run trace_simps split: sum.splits prod.splits)

lemma drive_without_drain:
  assumes "no_drain (no_spec nn) = None"
  shows "events_of (driveDesired kr nn stub ops w) =
    (if stub_Drain stub
     then [EvNomad (NUpdateDrain (stub_ID stub) None (no_eligible (no_spec nn))
             (fst (op_UpdateDrain ops (stub_ID stub) None (no_eligible (no_spec nn)) w)))]
     else if stub_SchedulingEligibility stub = wantedEligibility nn then []
     else [EvNomad (NSetEligibility (stub_ID stub) (no_eligible (no_spec nn))
             (fst (op_SetEligibility ops (stub_ID stub) (no_eligible (no_spec nn)) w)))])"
  using assms
  by (auto simp: driveDesired_def wantedEligibility_def Let_def ret_run bindE_def andThen_def kube_calls call_run
      split: sum.splits prod.splits)

text \<open>
  Without a desired drain, a pass leaves Nomad alone exactly when the node is not draining and its
  eligibility is the wanted one; otherwise it makes one call, cancelling the drain or setting eligibility.
\<close>

lemma eligibility_compare_before_write:
  "events_of (driveDesired kr (nn\<lparr>no_spec := (no_spec nn)\<lparr>no_drain := None\<rparr>\<rparr>) stub ops w) =
    (if stub_Drain stub
     then [EvNomad (NUpdateDrain (stub_ID stub) None (no_eligible (no_spec nn))
             (fst (op_UpdateDrain ops (stub_ID stub) None (no_eligible (no_spec nn)) w)))]
     else if stub_SchedulingEligibility stub = wantedEligibility nn then []
     else [EvNomad (NSetEligibility (stub_ID stub) (no_eligible (no_spec nn))
             (fst (op_SetEligibility ops (stub_ID stub) (no_eligible (no_spec nn)) w)))])"
  by (subst drive_without_drain) (simp_all add: wantedEligibility_def)

lemma adoptDrain_quiet: "meets (adoptDrain kr nn d stub ops) (\<lambda>r es. quiet isNomadWrite es)"
  unfolding adoptDrain_def nodeStatusUpdate_def kube_calls Let_def
  by (auto intro!: kwp simp: trace_simps)

lemma drive_draining_quiet:
  assumes "no_drain (no_spec nn) = Some d" "stub_Drain stub"
  shows "quiet isNomadWrite (events_of (driveDesired kr nn stub ops w))"
  using assms meetsD [OF adoptDrain_quiet]
  by (auto simp: driveDesired_def ret_run trace_simps)

text \<open>
  A CR freshly minted for a node asks for what the node already does: driving it in the same pass
  writes nothing to Nomad.
\<close>

lemma minted_spec_is_quiet:
  assumes "stub_SchedulingEligibility stub = NodeSchedulingEligible \<or> stub_SchedulingEligibility stub = NodeSchedulingIneligible"
    and "no_spec nn = seededSpec nc stub (if stub_Drain stub then Some d else None)"
  shows "quiet isNomadWrite (events_of (driveDesired kr nn stub ops w))"
proof (cases "stub_Drain stub")
  case True
  then show ?thesis using assms(2) by (auto intro: drive_draining_quiet simp: seededSpec_def)
next
  case False
  then have "no_drain (no_spec nn) = None" and "wantedEligibility nn = stub_SchedulingEligibility stub"
    using assms by (auto simp: seededSpec_def wantedEligibility_def)
  then show ?thesis using False by (simp add: drive_without_drain trace_simps)
qed

text \<open>
  the CR minted for an ambiguous name asks for an ineligible node, whatever Nomad reports: when the
  ambiguity is gone and the surviving eligible node is bound to it, driving it makes the node ineligible.
\<close>

lemma duplicate_mint_cordons:
  "events_of (driveDesired kr (duplicateNode uc nc name)
      (stub\<lparr>stub_Drain := False, stub_SchedulingEligibility := NodeSchedulingEligible\<rparr>) ops w) =
    [EvNomad (NSetEligibility (stub_ID stub) False (fst (op_SetEligibility ops (stub_ID stub) False w)))]"
  by (subst drive_without_drain)
    (simp_all add: duplicateNode_def newNode_def wantedEligibility_def NodeSchedulingEligible_def NodeSchedulingIneligible_def)


subsection \<open>Marking an ambiguous name\<close>

fun marksDuplicate :: "nomad_node \<Rightarrow> event \<Rightarrow> bool" where
  "marksDuplicate nn (EvNode (SUpdateStatus x _)) \<longleftrightarrow> no_meta x = no_meta nn \<and> no_spec x = no_spec nn \<and>
     (case findCondition NomadNodeCondReconciled (nt_conditions (no_status x)) of
        Some c \<Rightarrow> cn_status c = ConditionFalse \<and> cn_reason c = ReasonDuplicateNodeName
      | None \<Rightarrow> False)"
| "marksDuplicate nn _ \<longleftrightarrow> False"

text \<open>
  An ambiguous name marks whatever object its sanitised name leads to, also the CR of another,
  unambiguous node whose name sanitises to the same object name.
\<close>

lemma duplicate_mark_ignores_owner:
  "case fst (st_get (pf_nodes (kr_platform kr)) (nodeKey nc (sanitizeNodeName (tk_unicode (kr_toolkit kr)) name)) w) of
     Inr nn \<Rightarrow> some_call (marksDuplicate nn) (events_of (markDuplicate kr nc name w))
   | Inl _ \<Rightarrow> True"
  by (auto simp: markDuplicate_def Let_def stamped_def nodeStatusUpdate_def kube_calls bindE_def andThen_def call_run
      observe_def ret_run trace_simps node_cond.entry split: sum.splits prod.splits)

subsection \<open>A whole pass\<close>

fun listed :: "event \<Rightarrow> node_stub list option" where
  "listed (EvNomad (NListNodes (Inr stubs))) = Some stubs"
| "listed _ = None"

definition listedIn :: "event list \<Rightarrow> node_stub list option" where
  "listedIn es = (case List.map_filter listed es of [] \<Rightarrow> None | stubs # _ \<Rightarrow> Some stubs)"

fun startedWith :: "event list \<Rightarrow> nomad_cluster option" where
  "startedWith (EvCluster (SGet _ (Inr nc)) # _) = Some nc"
| "startedWith _ = None"

text \<open>
  After the nodes were listed: Nomad is called for bound nodes only, objects are created for listed names
  and owned by the minting name, and deleted only when no listed name stands for them or when the bound
  node of another name takes over an object whose recorded owner is bound no more; a spec is never updated.
\<close>

definition mayDelete :: "unicode_tables \<Rightarrow> nomad_cluster \<Rightarrow> node_stub list \<Rightarrow> nomad_node \<Rightarrow> bool" where
  "mayDelete uc nc stubs nn \<longleftrightarrow>
     (stubs \<noteq> [] \<and> no_clusterRef (no_spec nn) = nc_name nc \<and>
      om_name (no_meta nn) \<notin> sanitizeNodeName uc ` stub_Name ` set stubs) \<or>
     (map_of (fst (bindNodes stubs)) (no_nodeName (no_spec nn)) = None \<and> fst (bindNodes stubs) \<noteq> [])"

definition mayCreate :: "unicode_tables \<Rightarrow> (string \<times> string) list \<Rightarrow> nomad_cluster \<Rightarrow> node_stub list \<Rightarrow> nomad_node \<Rightarrow> bool" where
  "mayCreate uc owners nc stubs nn \<longleftrightarrow>
     no_clusterRef (no_spec nn) = nc_name nc \<and>
     (case map_of (fst (bindNodes stubs)) (no_nodeName (no_spec nn)) of
        Some s \<Rightarrow> no_spec nn = seededSpec nc s (no_drain (no_spec nn)) \<and>
          (stub_Drain s \<longleftrightarrow> no_drain (no_spec nn) \<noteq> None) \<and>
          mapGetOr [] owners (sanitizeNodeName uc (stub_Name s)) = stub_Name s
      | None \<Rightarrow> no_nodeName (no_spec nn) \<in> set (snd (bindNodes stubs)))"

fun reflectRule :: "unicode_tables \<Rightarrow> (string \<times> string) list \<Rightarrow> nomad_cluster \<Rightarrow> node_stub list \<Rightarrow> event \<Rightarrow> bool" where
  "reflectRule uc owners nc stubs (EvNomad (NSetEligibility i _ _)) \<longleftrightarrow> i \<in> stub_ID ` snd ` set (fst (bindNodes stubs))"
| "reflectRule uc owners nc stubs (EvNomad (NUpdateDrain i _ _ _)) \<longleftrightarrow> i \<in> stub_ID ` snd ` set (fst (bindNodes stubs))"
| "reflectRule uc owners nc stubs (EvNomad (NNodeInfo i _)) \<longleftrightarrow> i \<in> stub_ID ` snd ` set (fst (bindNodes stubs))"
| "reflectRule uc owners nc stubs (EvNode (SGet key _)) \<longleftrightarrow> nn_namespace key = nc_namespace nc"
| "reflectRule uc owners nc stubs (EvNode (SList opts _)) \<longleftrightarrow> opts = inNamespaceMatching (nc_namespace nc) (Labels (names nc))"
| "reflectRule uc owners nc stubs (EvNode (SCreate nn _)) \<longleftrightarrow> mayCreate uc owners nc stubs nn"
| "reflectRule uc owners nc stubs (EvNode (SDelete nn _)) \<longleftrightarrow> mayDelete uc nc stubs nn"
| "reflectRule uc owners nc stubs (EvNode (SUpdateStatus nn _)) \<longleftrightarrow> True"
| "reflectRule uc owners nc stubs e \<longleftrightarrow> False"

text \<open>Without a list: reads, and status writes that say the cluster is not Ready.\<close>

fun staleRule :: "event \<Rightarrow> bool" where
  "staleRule (EvNode (SUpdateStatus nn _)) \<longleftrightarrow>
     (case findCondition NomadNodeCondReconciled (nt_conditions (no_status nn)) of
        Some c \<Rightarrow> cn_status c = ConditionFalse \<and> cn_reason c = ReasonClusterNotReady
      | None \<Rightarrow> False)"
| "staleRule (EvNode (SList _ _)) \<longleftrightarrow> True"
| "staleRule (EvCluster (SGet _ _)) \<longleftrightarrow> True"
| "staleRule (EvNomad (NListNodes _)) \<longleftrightarrow> True"
| "staleRule (EvSecret c) \<longleftrightarrow> \<not> isWrite c"
| "staleRule _ \<longleftrightarrow> False"

definition nodePassRule :: "unicode_tables \<Rightarrow> range_order \<Rightarrow> event list \<Rightarrow> event \<Rightarrow> bool" where
  "nodePassRule uc ord past e \<longleftrightarrow>
     (case (startedWith past, listedIn past) of
        (Some nc, Some stubs) \<Rightarrow> nc_phase nc = PhaseReady \<and>
          reflectRule uc (resolveCollisionOwners uc (rangeMap (ord 0) (fst (bindNodes stubs)))) nc stubs e
      | _ \<Rightarrow> staleRule e)"


lemma nodeKey_namespace [simp]: "nn_namespace (nodeKey nc obj) = nc_namespace nc"
  by (simp add: nodeKey_def objectKey_def)

lemma drive_reflects:
  assumes "stub_ID stub \<in> stub_ID ` snd ` set (fst (bindNodes stubs))"
  shows "meets (driveAndMirror kr nn stub ops) (\<lambda>r es. list_all (reflectRule uc owners nc stubs) es)"
  unfolding driveAndMirror_def driveDesired_def adoptDrain_def mirrorStatus_def nodeStatusUpdate_def kube_calls Let_def
  by (auto intro!: kwp split: option.splits sum.splits simp: assms trace_simps)

lemma mayCreate_meta [simp]: "mayCreate uc owners nc stubs (nn\<lparr>no_meta := m\<rparr>) = mayCreate uc owners nc stubs nn"
  by (simp add: mayCreate_def cong: option.case_cong)

lemma mint_reflects:
  assumes "mayCreate uc owners nc stubs nn"
  shows "meets (mintNode kr nc nn) (\<lambda>r es. list_all (reflectRule uc owners nc stubs) es)"
  unfolding mintNode_def kube_calls
  by (auto intro!: kwp split: sum.splits simp: assms)

text \<open>One bound stub.\<close>

lemma mintOwned_reflects:
  assumes stub: "(name, stub) \<in> set (fst (bindNodes stubs))"
  shows "meets (mintOwned kr nc stub owners ops)
    (\<lambda>r es. list_all (reflectRule (tk_unicode (kr_toolkit kr)) owners nc stubs) es)"
proof -
  let ?ok = "\<lambda>r es. list_all (reflectRule (tk_unicode (kr_toolkit kr)) owners nc stubs) es"
  have known: "stub_ID stub \<in> stub_ID ` snd ` set (fst (bindNodes stubs))" using stub by force
  have bound: "map_of (fst (bindNodes stubs)) (stub_Name stub) = Some stub"
    using stub bound_name [OF stub] by (auto simp: bound_lookup_iff)
  have drive: "meets (bindE (mintNode kr nc (newNode nc obj (seededSpec nc stub d)))
      (\<lambda>nn. driveAndMirror kr nn stub ops)) ?ok"
    if "mapGetOr [] owners (sanitizeNodeName (tk_unicode (kr_toolkit kr)) (stub_Name stub)) = stub_Name stub"
      "stub_Drain stub \<longleftrightarrow> d \<noteq> None" for d obj
    by (rule meets_bindE [OF mint_reflects])
      (auto simp: that bound mayCreate_def newNode_def seededSpec_def intro: drive_reflects [OF known, THEN meets_mono])
  have seed: "meets (if stub_Drain stub then andThen (seedDrain (stub_ID stub) ops) (\<lambda>d. ret (Some d)) else ret None)
      (\<lambda>d es. list_all (reflectRule (tk_unicode (kr_toolkit kr)) owners nc stubs) es \<and> (stub_Drain stub \<longleftrightarrow> d \<noteq> None))"
    unfolding seedDrain_def kube_calls Let_def by (auto intro!: kwp simp: known)
  show ?thesis
    unfolding mintOwned_def Let_def
    by (rule meets_if, rule meets_ret, simp, rule meets_andThen [OF seed]) (auto intro!: drive [THEN meets_mono])
qed

lemma upsertNode_reflects:
  assumes stub: "(name, stub) \<in> set (fst (bindNodes stubs))"
  shows "meets (upsertNode kr nc stub (fst (bindNodes stubs)) owners ops)
    (\<lambda>r es. list_all (reflectRule (tk_unicode (kr_toolkit kr)) owners nc stubs) es)"
proof -
  have known: "stub_ID stub \<in> stub_ID ` snd ` set (fst (bindNodes stubs))" using stub by force
  have "fst (bindNodes stubs) \<noteq> []" using stub by auto
  then show ?thesis
    unfolding upsertNode_def kube_calls Let_def
    by (auto intro!: kwp mintOwned_reflects [OF stub, THEN meets_mono] drive_reflects [OF known, THEN meets_mono]
        split: if_splits simp: mayDelete_def)
qed

lemma markDuplicate_reflects:
  assumes "name \<in> set (snd (bindNodes stubs))"
  shows "meets (markDuplicate kr nc name) (\<lambda>r es. list_all (reflectRule uc owners nc stubs) es)"
proof -
  have "map_of (fst (bindNodes stubs)) name = None"
    using assms bindGroup_None [of stubs name] by (simp add: bound_lookup dupes_set)
  then have "mayCreate uc owners nc stubs (duplicateNode uc' nc name)" for uc'
    using assms by (simp add: mayCreate_def duplicateNode_def newNode_def)
  then show ?thesis
    unfolding markDuplicate_def nodeStatusUpdate_def kube_calls Let_def
    by (auto intro!: kwp mint_reflects [THEN meets_mono] split: sum.splits)
qed

lemma pruneAbsent_reflects:
  "meets (pruneAbsent kr nc (fst (bindNodes stubs)) (snd (bindNodes stubs)))
    (\<lambda>r es. list_all (reflectRule (tk_unicode (kr_toolkit kr)) owners nc stubs) es)"
proof -
  have delete: "meets (andThen (call (\<lambda>r. EvNode (SDelete nn r)) f) (\<lambda>d. ret (case d of
      Inl err \<Rightarrow> if \<not> kubeIsNotFound err then Inl err else Inr () | Inr _ \<Rightarrow> Inr ())))
      (\<lambda>r es. list_all (reflectRule uc owners nc stubs) es)" if "mayDelete uc nc stubs nn" for nn uc f
    by (auto intro!: kwp simp: that)
  show ?thesis
    unfolding pruneAbsent_def clusterNodes_def kube_calls Let_def presentNames_all
    by (auto intro!: meets_bindE_call meets_if meets_ret meets_forE delete
        simp: mayDelete_def presentNames_empty)
qed


lemma reflectNodes_reflects:
  assumes "owners = resolveCollisionOwners (tk_unicode (kr_toolkit kr)) (rangeMap (ord 0) (fst (bindNodes stubs)))"
  shows "meets (reflectNodes kr ord nc ops stubs)
    (\<lambda>r es. list_all (reflectRule (tk_unicode (kr_toolkit kr)) owners nc stubs) es)"
proof -
  let ?ok = "\<lambda>r es. list_all (reflectRule (tk_unicode (kr_toolkit kr)) owners nc stubs) es"
  have upserts: "meets (forCollect (rangeMap (ord 1) (fst (bindNodes stubs)))
      (\<lambda>(_, stub). andThen (upsertNode kr nc stub (fst (bindNodes stubs)) owners ops) (\<lambda>r. ret (errOpt r)))) ?ok"
    by (rule meets_forCollect)
      (auto simp: rangeMap_def set_map_filter_keys bound_lookup_iff
        intro!: meets_andThen [OF upsertNode_reflects] meets_ret)
  have dupes: "meets (markDuplicates kr nc (rangeKeys (ord 2) (snd (bindNodes stubs)))) ?ok"
    unfolding markDuplicates_def
    by (rule meets_forE) (auto simp: rangeKeys_def intro!: markDuplicate_reflects)
  show ?thesis
    unfolding reflectNodes_def Let_def case_prod_unfold assms [symmetric]
    by (rule meets_andThen [OF upserts [unfolded case_prod_unfold]],
        rule meets_andThen [OF dupes [THEN meets_mono]],
        assumption, rule meets_andThen [OF pruneAbsent_reflects [THEN meets_mono]])
      (auto intro!: meets_ret split: option.splits)
qed

text \<open>From the answers to the pass.\<close>

lemma listedIn_append:
  "listedIn (past @ es) = (case listedIn past of Some stubs \<Rightarrow> Some stubs | None \<Rightarrow> listedIn es)"
  by (simp add: listedIn_def List.map_filter_def split: list.splits)

lemma startedWith_append: "startedWith past = Some nc \<Longrightarrow> startedWith (past @ es) = Some nc"
  by (cases past rule: startedWith.cases) auto

definition idle :: "event \<Rightarrow> bool" where
  "idle e \<longleftrightarrow> listed e = None \<and> staleRule e"

abbreviation passScan :: "unicode_tables \<Rightarrow> range_order \<Rightarrow> event list \<Rightarrow> event list \<Rightarrow> bool" where
  "passScan uc ord past es \<equiv> scan (\<lambda>_. None) (\<lambda>(_ :: unit). nodePassRule uc ord) () past es"

lemma passScan_idle:
  "list_all idle es \<Longrightarrow> listedIn past = None \<Longrightarrow> passScan uc ord past (es @ es') \<longleftrightarrow> passScan uc ord (past @ es) es'"
proof (induction es arbitrary: past)
  case Nil
  then show ?case by simp
next
  case (Cons e es)
  then have "listedIn (past @ [e]) = None" "nodePassRule uc ord past e"
    by (auto simp: idle_def listedIn_append nodePassRule_def listedIn_def [of "[_]"] map_filter_simps split: option.splits)
  then show ?case using Cons by simp
qed

lemma passScan_idle_end: "list_all idle es \<Longrightarrow> listedIn past = None \<Longrightarrow> passScan uc ord past es"
  using passScan_idle [of es past uc ord "[]"] by simp

lemma passScan_reflect:
  assumes "list_all (reflectRule uc (resolveCollisionOwners uc (rangeMap (ord 0) (fst (bindNodes stubs)))) nc stubs) es"
    and "startedWith past = Some nc" "listedIn past = Some stubs" "nc_phase nc = PhaseReady"
  shows "passScan uc ord past es"
  using assms by (induction es arbitrary: past) (simp_all add: nodePassRule_def startedWith_append listedIn_append)

lemma notListable_idle: "meets (notListable kr nc) (\<lambda>r es. list_all idle es)"
proof -
  have "idle (EvNode (SUpdateStatus (setNodeCondition now nn NomadNodeCondReconciled ConditionFalse ReasonClusterNotReady msg) r))"
    for now nn msg r
    by (auto simp: idle_def node_cond.entry newCondition_simps split: option.splits)
  then have "meets (if no_clusterRef (no_spec nn) \<noteq> nc_name nc then ret (Inr ())
       else stamped kr (\<lambda>now. bindE (nodeStatusUpdate kr (setNodeCondition now nn NomadNodeCondReconciled ConditionFalse
           ReasonClusterNotReady msg)) (\<lambda>_. ret (Inr ())))) (\<lambda>r es. list_all idle es)" for nn msg
    unfolding nodeStatusUpdate_def kube_calls by (auto intro!: kwp split: sum.splits)
  then have mark: "meets (markClusterNotReady kr nc) (\<lambda>r es. list_all idle es)"
    unfolding markClusterNotReady_def clusterNodes_def kube_calls
    by (auto intro!: meets_bindE_call meets_forE [where P = "list_all idle", THEN meets_mono] simp: idle_def)
  show ?thesis
    unfolding notListable_def by (rule meets_bindE [OF mark]) (auto intro: meets_ret)
qed

lemma clusterClient_idle: "meets (clusterClient kr nc) (\<lambda>r es. list_all idle es)"
proof (rule meets_mono [OF clusterClient_spec])
  fix es assume es: "onChannels {ChSecret} es \<and> quiet secretWrite es"
  have "channelOf e = ChSecret \<Longrightarrow> \<not> secretWrite e \<Longrightarrow> idle e" for e
    by (cases e) (auto simp: idle_def)
  then show "list_all idle es" using es by (auto simp: onChannels_def quiet_def list_all_iff)
qed

lemma listedIn_idle: "list_all idle es \<Longrightarrow> listedIn es = None"
  by (induction es) (auto simp: listedIn_def map_filter_simps idle_def)

lemma passScan_listed:
  assumes "list_all idle es" "nc_phase nc = PhaseReady"
    and "list_all (reflectRule uc (resolveCollisionOwners uc (rangeMap (ord 0) (fst (bindNodes stubs)))) nc stubs) es'"
  shows "passScan uc ord [] (EvCluster (SGet key (Inr nc)) # es @ EvNomad (NListNodes (Inr stubs)) # es')"
proof -
  let ?past = "EvCluster (SGet key (Inr nc)) # es"
  have idle: "list_all idle ?past" using assms(1) by (simp add: idle_def)
  have step: "nodePassRule uc ord ?past (EvNomad (NListNodes (Inr stubs)))"
    by (simp add: nodePassRule_def listedIn_idle [OF idle])
  have seen: "listedIn (?past @ [EvNomad (NListNodes (Inr stubs))]) = Some stubs"
    by (simp only: listedIn_append listedIn_idle [OF idle]) (simp add: listedIn_def map_filter_simps)
  have "passScan uc ord (?past @ [EvNomad (NListNodes (Inr stubs))]) es'"
    by (rule passScan_reflect [where ord = ord, OF assms(3) _ seen assms(2)]) simp
  then have "passScan uc ord [] (?past @ (EvNomad (NListNodes (Inr stubs)) # es'))"
    using step by (subst passScan_idle [OF idle]) (simp_all add: listedIn_def map_filter_simps)
  then show ?thesis by simp
qed

lemma list_nodes_obeys:
  assumes "nc_phase nc = PhaseReady"
  shows "meets (bindE (clusterClient kr nc) (\<lambda>ops. andThen (nomadCall NListNodes (op_ListNodes ops)) (\<lambda>l. case l of
             Inl _ \<Rightarrow> notListable kr nc
           | Inr stubs \<Rightarrow> reflectNodes kr ord nc ops stubs)))
     (\<lambda>r es. passScan (tk_unicode (kr_toolkit kr)) ord [] (EvCluster (SGet key (Inr nc)) # es))"
proof (rule meets_bindE [OF clusterClient_idle])
  fix e es assume "list_all idle es"
  then show "passScan (tk_unicode (kr_toolkit kr)) ord [] (EvCluster (SGet key (Inr nc)) # es)"
    by (intro passScan_idle_end) (simp_all add: idle_def listedIn_idle)
next
  fix ops es assume es: "list_all idle es"
  show "meets (andThen (nomadCall NListNodes (op_ListNodes ops)) (\<lambda>l. case l of
       Inl _ \<Rightarrow> notListable kr nc | Inr stubs \<Rightarrow> reflectNodes kr ord nc ops stubs))
     (\<lambda>r es'. passScan (tk_unicode (kr_toolkit kr)) ord [] (EvCluster (SGet key (Inr nc)) # es @ es'))"
    unfolding nomadCall_def
  proof (rule meets_andThen_call, rule meets_case_sum)
    fix l :: "error + node_stub list" and e assume "l = Inl e"
    then show "meets (notListable kr nc) (\<lambda>b es'. passScan (tk_unicode (kr_toolkit kr)) ord []
        (EvCluster (SGet key (Inr nc)) # es @ EvNomad (NListNodes l) # es'))"
      using es by (intro meets_mono [OF notListable_idle] passScan_idle_end) (simp_all add: idle_def listedIn_idle)
  next
    fix l :: "error + node_stub list" and stubs assume "l = Inr stubs"
    then show "meets (reflectNodes kr ord nc ops stubs) (\<lambda>b es'. passScan (tk_unicode (kr_toolkit kr)) ord []
        (EvCluster (SGet key (Inr nc)) # es @ EvNomad (NListNodes l) # es'))"
      using passScan_listed [where ord = ord, OF es assms] by (auto intro: meets_mono [OF reflectNodes_reflects])
  qed
qed

lemma ReconcileNodes_obeys:
  "meets (ReconcileNodes kr ord key) (\<lambda>r es. obeys (nodePassRule (tk_unicode (kr_toolkit kr)) ord) es)"
  unfolding ReconcileNodes_def kGet_def obeys_from
proof (intro meets_andThen_call meets_case_sum meets_if)
  fix r :: "error + nomad_cluster" and e assume "r = Inl e"
  then show "meets (ret (ignoreNotFound e)) (\<lambda>b es. passScan (tk_unicode (kr_toolkit kr)) ord [] (EvCluster (SGet key r) # es))"
    by (auto intro!: meets_ret simp: nodePassRule_def)
next
  fix r :: "error + nomad_cluster" and nc assume "r = Inr nc" "nc_phase nc \<noteq> PhaseReady"
  then show "meets (notListable kr nc) (\<lambda>b es. passScan (tk_unicode (kr_toolkit kr)) ord [] (EvCluster (SGet key r) # es))"
    by (intro meets_mono [OF notListable_idle] passScan_idle_end) (simp_all add: idle_def listedIn_idle)
next
  fix r :: "error + nomad_cluster" and nc assume "r = Inr nc" "\<not> nc_phase nc \<noteq> PhaseReady"
  then show "meets (bindE (clusterClient kr nc) (\<lambda>ops. andThen (nomadCall NListNodes (op_ListNodes ops)) (\<lambda>l. case l of
             Inl _ \<Rightarrow> notListable kr nc
           | Inr stubs \<Rightarrow> reflectNodes kr ord nc ops stubs)))
      (\<lambda>b es. passScan (tk_unicode (kr_toolkit kr)) ord [] (EvCluster (SGet key r) # es))"
    using list_nodes_obeys by simp
qed

text \<open>
  C7: for every behaviour of the API server and of Nomad, a pass of the node reflector that has no node
  list (cluster not Ready, or Nomad unreachable) only reads and marks nodes as not Ready; after a list it
  calls Nomad for bound nodes only, mints a CR only for a listed name (seeded from the stub, by its
  owner, or for an ambiguous name), never updates a spec, and deletes a CR only when the list was not
  empty and no listed name stands for it, or when the node its spec names is bound no more.
\<close>

theorem node_pass_rules:
  "obeys (nodePassRule (tk_unicode (kr_toolkit kr)) ord) (events_of (ReconcileNodes kr ord key w))"
  by (rule meetsD [OF ReconcileNodes_obeys])


subsection \<open>Failures stay with their node\<close>

fun readsNode :: "namespaced_name \<Rightarrow> event \<Rightarrow> bool" where
  "readsNode key (EvNode (SGet k _)) \<longleftrightarrow> k = key"
| "readsNode key _ \<longleftrightarrow> False"

fun listsNodes :: "event \<Rightarrow> bool" where
  "listsNodes (EvNode (SList _ _)) \<longleftrightarrow> True"
| "listsNodes _ \<longleftrightarrow> False"

lemma forCollect_reaches:
  assumes "i \<in> set is" "meets (body i) (\<lambda>r es. some_call p es)"
  shows "meets (forCollect is body) (\<lambda>r es. some_call p es)"
  using assms(1)
proof (induction "is")
  case Nil
  then show ?case by simp
next
  case (Cons j "is")
  show ?case
  proof (cases "i = j")
    case True
    then show ?thesis
      using meets_andThen [OF assms(2), of _ "\<lambda>r es. some_call p es"] by (simp add: trace_simps meets_trivial)
  next
    case False
    then have "meets (forCollect is body) (\<lambda>r es. some_call p es)" using Cons by simp
    then show ?thesis
      by (auto simp: trace_simps intro!: meets_andThen [OF meets_trivial [where Q = "\<lambda>_ _. True"]]
          meets_andThen [of "forCollect is body"] meets_ret)
  qed
qed

lemma upsertNode_reads:
  "meets (upsertNode kr nc stub bound owners ops)
    (\<lambda>r es. some_call (readsNode (nodeKey nc (sanitizeNodeName (tk_unicode (kr_toolkit kr)) (stub_Name stub)))) es)"
  unfolding upsertNode_def kGet_def Let_def
  by (intro meets_andThen_call meets_trivial) (simp add: trace_simps)

lemma pruneAbsent_lists: "meets (pruneAbsent kr nc bound dupes) (\<lambda>r es. some_call listsNodes es)"
  unfolding pruneAbsent_def clusterNodes_def kList_def Let_def
  by (intro meets_bindE_call meets_trivial) (simp_all add: trace_simps)

lemma reflectNodes_reaches:
  assumes "set (ord 1 (map fst (fst (bindNodes stubs)))) = fst ` set (fst (bindNodes stubs))"
    and "map_of (fst (bindNodes stubs)) name = Some stub"
  shows "meets (reflectNodes kr ord nc ops stubs) (\<lambda>r es.
    some_call (readsNode (nodeKey nc (sanitizeNodeName (tk_unicode (kr_toolkit kr)) name))) es \<and> some_call listsNodes es)"
proof -
  have listed: "(name, stub) \<in> set (rangeMap (ord 1) (fst (bindNodes stubs)))"
    using rangeMap_set [of "ord 1", OF assms(1)] assms(2) by simp
  have name: "stub_Name stub = name"
    using bound_name [of name stub stubs] assms(2) by (simp add: bound_lookup_iff)
  have upserts: "meets (forCollect (rangeMap (ord 1) (fst (bindNodes stubs)))
      (\<lambda>(_, stub). andThen (upsertNode kr nc stub (fst (bindNodes stubs)) owners ops) (\<lambda>r. ret (errOpt r))))
      (\<lambda>r es. some_call (readsNode (nodeKey nc (sanitizeNodeName (tk_unicode (kr_toolkit kr)) name))) es)" for owners
    by (rule forCollect_reaches [OF listed]) (auto intro!: meets_andThen [OF upsertNode_reads] meets_ret simp: name)
  have prune: "meets (andThen (pruneAbsent kr nc bound dupes) f) (\<lambda>r es. some_call listsNodes es)"
    for f :: "error + unit \<Rightarrow> ('a, event, error + reconcile_result) procedure" and bound dupes
    by (rule meets_andThen [OF pruneAbsent_lists]) (auto intro: meets_trivial simp: trace_simps)
  show ?thesis
    unfolding reflectNodes_def Let_def case_prod_unfold
    by (rule meets_andThen [OF upserts [unfolded case_prod_unfold]],
        rule meets_andThen [OF meets_trivial [where Q = "\<lambda>_ _. True"]], simp,
        rule meets_mono [OF prune]) (simp add: trace_simps)
qed

text \<open>
  C37: one node's failure does not stall the others: whatever fails, the pass reads the CR of every bound
  node and goes on to list the CRs for pruning.
\<close>

theorem node_failures_isolated:
  assumes "set (ord 1 (map fst (fst (bindNodes stubs)))) = fst ` set (fst (bindNodes stubs))"
    and "map_of (fst (bindNodes stubs)) name = Some stub"
  shows "some_call (readsNode (nodeKey nc (sanitizeNodeName (tk_unicode (kr_toolkit kr)) name)))
      (events_of (reflectNodes kr ord nc ops stubs w)) \<and>
    some_call listsNodes (events_of (reflectNodes kr ord nc ops stubs w))"
  by (rule meetsD [OF reflectNodes_reaches [of ord, OF assms]])


theorem node_failures_isolated_witness:
  "some_call (readsNode (nodeKey sampleCluster (sanitizeNodeName (tk_unicode sampleToolkit) ''web-1'')))
      (events_of (reflectNodes (sampleReconciler samplePlatform sampleNodeOps) (\<lambda>_. rev) sampleCluster sampleNodeOps sampleStubs ())) \<and>
    some_call listsNodes
      (events_of (reflectNodes (sampleReconciler samplePlatform sampleNodeOps) (\<lambda>_. rev) sampleCluster sampleNodeOps sampleStubs ()))"
proof -
  have "map_of (fst (bindNodes sampleStubs)) ''web-1'' = Some (sampleStub ''n1'' ''web-1'' 9)" by code_simp
  then show ?thesis
    using node_failures_isolated [where ord = "\<lambda>_. rev" and stubs = sampleStubs and name = "''web-1''"
        and kr = "sampleReconciler samplePlatform sampleNodeOps"]
    by (simp add: sampleReconciler_def)
qed

end
