(* ===== verification/NodeRuns.thy ===== *)
theory NodeRuns
  imports NodeSpec Converge
begin

section \<open>Sequences of passes over one node\<close>

text \<open>
  What repeated passes do to a node when Nomad and the API server answer from a state of their
  own: whether the node is draining, whether it is eligible, how many drains Nomad has started on
  it, and the drain generation the status of its NomadNode records. Calls may fail, and a call that
  fails may have taken effect; the drain completes at any time; nobody else changes the node or the spec.
\<close>

subsection \<open>A node and its record\<close>

text \<open>
  A node serves, eligible or not; or it drains; or its last drain is complete and it has not been
  made eligible since. A node that drains or has drained is ineligible.
\<close>

datatype node_phase = Serving bool | DrainRunning | DrainDone

record node_state =
  nw_phase :: node_phase
  nw_recorded :: int
  nw_started :: nat

fun toggled :: "bool \<Rightarrow> node_phase \<Rightarrow> node_phase" where
  "toggled b (Serving _) = Serving b"
| "toggled b DrainRunning = DrainRunning"
| "toggled b DrainDone = (if b then Serving True else DrainDone)"

fun takesEffect :: "string \<Rightarrow> event \<Rightarrow> node_state \<Rightarrow> node_state" where
  "takesEffect i (EvNomad (NUpdateDrain j (Some d) mark r)) s =
     (if j = i then s\<lparr>nw_phase := DrainRunning, nw_started := Suc (nw_started s)\<rparr> else s)"
| "takesEffect i (EvNomad (NUpdateDrain j None mark r)) s =
     (if j = i then s\<lparr>nw_phase := Serving mark\<rparr> else s)"
| "takesEffect i (EvNomad (NSetEligibility j b r)) s =
     (if j = i then s\<lparr>nw_phase := toggled b (nw_phase s)\<rparr> else s)"
| "takesEffect i (EvNode (SUpdateStatus nn r)) s =
     s\<lparr>nw_recorded := nt_drainObservedGeneration (no_status nn)\<rparr>"
| "takesEffect i e s = s"

fun refused :: "event \<Rightarrow> bool" where
  "refused (EvNomad (NUpdateDrain _ _ _ (Inl _))) = True"
| "refused (EvNomad (NSetEligibility _ _ (Inl _))) = True"
| "refused (EvNode (SUpdateStatus _ (Inl _))) = True"
| "refused _ = False"

text \<open>A status write is answered with the object it stored.\<close>

fun storesStatus :: "event \<Rightarrow> bool" where
  "storesStatus (EvNode (SUpdateStatus nn (Inr nn'))) \<longleftrightarrow> no_status nn' = no_status nn"
| "storesStatus _ \<longleftrightarrow> True"

definition nodeServer :: "string \<Rightarrow> node_state \<Rightarrow> event \<Rightarrow> node_state \<Rightarrow> bool" where
  "nodeServer i s e t \<longleftrightarrow> storesStatus e \<and> (t = takesEffect i e s \<or> refused e \<and> t = s)"

lemma nodeServer_simps [simp]:
  "nodeServer i s (EvNomad (NNodeInfo j r)) t \<longleftrightarrow> t = s"
  "nodeServer i s (EvNode (SUpdateStatus nn (Inr nn'))) t \<longleftrightarrow> no_status nn' = no_status nn \<and>
     t = s\<lparr>nw_recorded := nt_drainObservedGeneration (no_status nn)\<rparr>"
  "nodeServer i s (EvNode (SUpdateStatus nn (Inl e))) t \<longleftrightarrow>
     t = s\<lparr>nw_recorded := nt_drainObservedGeneration (no_status nn)\<rparr> \<or> t = s"
  "nodeServer i s (EvNomad (NUpdateDrain i (Some d) mark (Inr u))) t \<longleftrightarrow>
     t = s\<lparr>nw_phase := DrainRunning, nw_started := Suc (nw_started s)\<rparr>"
  "nodeServer i s (EvNomad (NUpdateDrain i (Some d) mark (Inl e))) t \<longleftrightarrow>
     t = s\<lparr>nw_phase := DrainRunning, nw_started := Suc (nw_started s)\<rparr> \<or> t = s"
  "nodeServer i s (EvNomad (NUpdateDrain i None mark (Inr u))) t \<longleftrightarrow>
     t = s\<lparr>nw_phase := Serving mark\<rparr>"
  "nodeServer i s (EvNomad (NUpdateDrain i None mark (Inl e))) t \<longleftrightarrow>
     t = s\<lparr>nw_phase := Serving mark\<rparr> \<or> t = s"
  "nodeServer i s (EvNomad (NSetEligibility i b (Inr u))) t \<longleftrightarrow> t = s\<lparr>nw_phase := toggled b (nw_phase s)\<rparr>"
  "nodeServer i s (EvNomad (NSetEligibility i b (Inl e))) t \<longleftrightarrow> t = s\<lparr>nw_phase := toggled b (nw_phase s)\<rparr> \<or> t = s"
  by (auto simp: nodeServer_def)

text \<open>A stub of the node list that shows the state, and an object that holds its record.\<close>

definition stubShows :: "string \<Rightarrow> node_state \<Rightarrow> node_stub \<Rightarrow> bool" where
  "stubShows i s stub \<longleftrightarrow> stub_ID stub = i \<and>
     (stub_Drain stub \<longleftrightarrow> nw_phase s = DrainRunning) \<and>
     stub_SchedulingEligibility stub =
       (if nw_phase s = Serving True then NodeSchedulingEligible else NodeSchedulingIneligible) \<and>
     (drainComplete stub \<longleftrightarrow> nw_phase s = DrainDone)"

definition nodeSeenAs :: "int \<Rightarrow> nomad_node_spec \<Rightarrow> node_state \<Rightarrow> nomad_node \<Rightarrow> bool" where
  "nodeSeenAs g sp s nn \<longleftrightarrow> no_generation nn = g \<and> no_spec nn = sp \<and>
     nt_drainObservedGeneration (no_status nn) = nw_recorded s"

inductive nodeRun :: "'w node_reconciler \<Rightarrow> 'w NomadNodeOps \<Rightarrow> string \<Rightarrow> int \<Rightarrow> nomad_node_spec \<Rightarrow>
    node_state \<Rightarrow> event list \<Rightarrow> node_state \<Rightarrow> bool"
  for kr ops i g sp where
    start: "nodeRun kr ops i g sp s [] s"
  | pass: "nodeRun kr ops i g sp s es t \<Longrightarrow> stubShows i t stub \<Longrightarrow> nodeSeenAs g sp t nn \<Longrightarrow>
      path (nodeServer i) t (events_of (driveAndMirror kr nn stub ops w)) s' \<Longrightarrow>
      nodeRun kr ops i g sp s (es @ events_of (driveAndMirror kr nn stub ops w)) s'"
  | completes: "nodeRun kr ops i g sp s es t \<Longrightarrow> nw_phase t = DrainRunning \<Longrightarrow>
      nodeRun kr ops i g sp s es (t\<lparr>nw_phase := DrainDone\<rparr>)"

subsection \<open>The goal and the reports\<close>

text \<open>
  With a drain in the spec: the drain of this generation runs or is done, and the record says so.
  Without: the node is not draining and its eligibility is that of the spec.
\<close>

definition nodeGoal :: "int \<Rightarrow> nomad_node_spec \<Rightarrow> node_state \<Rightarrow> bool" where
  "nodeGoal g sp s \<longleftrightarrow> (case no_drain sp of
     Some _ \<Rightarrow> nw_recorded s = g \<and> nw_phase s \<in> {DrainRunning, DrainDone}
   | None \<Rightarrow> nw_phase s = Serving (no_eligible sp) \<or> nw_phase s = DrainDone \<and> \<not> no_eligible sp)"

fun reportsReconciled :: "event \<Rightarrow> bool" where
  "reportsReconciled (EvNode (SUpdateStatus nn (Inr _))) \<longleftrightarrow>
     nt_observedGeneration (no_status nn) = no_generation nn \<and>
     map_option cn_status (findCondition NomadNodeCondReconciled (nt_conditions (no_status nn))) = Some ConditionTrue"
| "reportsReconciled _ \<longleftrightarrow> False"

text \<open>
  The drains Nomad acknowledged, and the calls whose effect the operator cannot know: a drain or a
  status write that came back with an error, refused or carried out.
\<close>

definition drainsAcknowledged :: "string \<Rightarrow> event list \<Rightarrow> nat" where
  "drainsAcknowledged i es = length (filter (drainAccepted i) es)"

fun unconfirmed :: "event \<Rightarrow> bool" where
  "unconfirmed (EvNomad (NUpdateDrain _ (Some _) _ (Inl _))) = True"
| "unconfirmed (EvNode (SUpdateStatus _ (Inl _))) = True"
| "unconfirmed _ = False"

definition unconfirmedCalls :: "event list \<Rightarrow> nat" where
  "unconfirmedCalls es = length (filter unconfirmed es)"

lemma drain_counts [simp]:
  "drainsAcknowledged i [] = 0" "unconfirmedCalls [] = 0"
  "drainsAcknowledged i (e # es) = (if drainAccepted i e then Suc (drainsAcknowledged i es) else drainsAcknowledged i es)"
  "unconfirmedCalls (e # es) = (if unconfirmed e then Suc (unconfirmedCalls es) else unconfirmedCalls es)"
  "drainsAcknowledged i (es @ es') = drainsAcknowledged i es + drainsAcknowledged i es'"
  "unconfirmedCalls (es @ es') = unconfirmedCalls es + unconfirmedCalls es'"
  by (simp_all add: drainsAcknowledged_def unconfirmedCalls_def)

text \<open>
  A stretch of calls keeps the goal, reports it only there, and starts no more drains than it has
  unconfirmed calls, but for the one that brings the node to its goal.
\<close>

definition drivesNode :: "string \<Rightarrow> int \<Rightarrow> nomad_node_spec \<Rightarrow> node_state \<Rightarrow> event list \<Rightarrow> node_state \<Rightarrow> bool" where
  "drivesNode i g sp s es s' \<longleftrightarrow>
     (nodeGoal g sp s \<longrightarrow> nodeGoal g sp s' \<and> quiet isNomadWrite es) \<and>
     (some_call reportsReconciled es \<longrightarrow> nodeGoal g sp s') \<and>
     nw_started s' \<le> nw_started s + unconfirmedCalls es + (if \<not> nodeGoal g sp s \<and> nodeGoal g sp s' then 1 else 0)"

lemma recorded_mirror [simp]:
  "nt_drainObservedGeneration (no_status (mirrored nn stub)) = nt_drainObservedGeneration (no_status nn)"
  by (simp add: mirrored_def)

lemma recorded_setter [simp]:
  "nt_drainObservedGeneration (no_status (setNodeCondition now nn ty st reason msg)) =
    nt_drainObservedGeneration (no_status nn)"
  by (simp add: setNodeCondition_def)

lemma mirrorStatus_drives:
  "meets (mirrorStatus kr nn stub) (\<lambda>r es. \<forall>s s'. path (nodeServer i) s es s' \<longrightarrow>
     nt_drainObservedGeneration (no_status nn) = nw_recorded s \<longrightarrow> s' = s \<and> quiet isNomadWrite es)"
  unfolding mirrorStatus_def nodeStatusUpdate_def kube_calls Let_def
  by (auto intro!: kwp split: sum.splits simp: trace_simps)

text \<open>What driving the desired state does, before the status is mirrored.\<close>

definition drivenTo :: "string \<Rightarrow> int \<Rightarrow> nomad_node_spec \<Rightarrow> node_state \<Rightarrow> event list \<Rightarrow> node_state \<Rightarrow>
    error + nomad_node \<Rightarrow> bool" where
  "drivenTo i g sp s es t r \<longleftrightarrow> drivesNode i g sp s es t \<and>
     (case r of Inl _ \<Rightarrow> True
      | Inr nn \<Rightarrow> nodeGoal g sp t \<and> nt_drainObservedGeneration (no_status nn) = nw_recorded t)"

lemmas node_run_defs = drivenTo_def drivesNode_def nodeGoal_def nodeSeenAs_def stubShows_def

lemma driven_recorded:
  assumes "no_drain sp = Some d" "nw_phase s \<in> {DrainRunning, DrainDone}"
    and "nt_drainObservedGeneration (no_status nn) = g" "nodeServer i s (EvNode (SUpdateStatus nn r)) t"
    and "es = [] \<or> es = [EvNomad (NNodeInfo i x)]"
  shows "drivenTo i g sp s (es @ [EvNode (SUpdateStatus nn r)]) t r"
  using assms by (cases r) (auto simp: node_run_defs trace_simps)

lemma adoptDrain_driven:
  assumes "no_drain (no_spec nn) = Some d" "stub_Drain stub"
  shows "meets (adoptDrain kr nn d stub ops) (\<lambda>r es. \<forall>s t. path (nodeServer (stub_ID stub)) s es t \<longrightarrow>
     stubShows (stub_ID stub) s stub \<longrightarrow> nodeSeenAs g sp s nn \<longrightarrow> drivenTo (stub_ID stub) g sp s es t r)"
  using assms unfolding adoptDrain_def nodeStatusUpdate_def handleGeneration_def kube_calls Let_def
  by (auto intro!: kwp driven_recorded [where es = "[_]", simplified] split: sum.splits
      simp: nodeSeenAs_def stubShows_def)

lemma driven_handled:
  assumes "nodeSeenAs g sp s nn" "nodeGoal g sp s"
  shows "drivenTo i g sp s [] s (Inr nn)"
  using assms by (auto simp: node_run_defs trace_simps)

lemma driven_issued:
  assumes "no_drain sp = Some d" "\<not> nodeGoal g sp s"
    and "nodeServer i s (EvNomad (NUpdateDrain i (Some x) m r)) t"
  shows "(\<exists>e. r = Inl e \<and> drivenTo i g sp s [EvNomad (NUpdateDrain i (Some x) m r)] t (Inl e)) \<or>
    (\<exists>u. r = Inr u \<and> nw_phase t = DrainRunning \<and> (\<forall>nn q t'. nt_drainObservedGeneration (no_status nn) = g \<longrightarrow>
       nodeServer i t (EvNode (SUpdateStatus nn q)) t' \<longrightarrow>
       drivenTo i g sp s [EvNomad (NUpdateDrain i (Some x) m r), EvNode (SUpdateStatus nn q)] t' q))"
proof (cases r)
  case (Inl e)
  then show ?thesis using assms by (auto simp: node_run_defs trace_simps)
next
  case (Inr u)
  have "drivenTo i g sp s [EvNomad (NUpdateDrain i (Some x) m r), EvNode (SUpdateStatus nn q)] t' q"
    if "nt_drainObservedGeneration (no_status nn) = g" "nodeServer i t (EvNode (SUpdateStatus nn q)) t'" for nn q t'
    using assms that Inr by (cases q) (auto simp: node_run_defs trace_simps)
  then show ?thesis using assms(3) Inr by simp
qed

lemma driven_cancelled:
  assumes "no_drain sp = None" "nw_phase s = DrainRunning" "nodeSeenAs g sp s nn"
    and "nodeServer i s (EvNomad (NUpdateDrain i None (no_eligible sp) r)) t"
  shows "drivenTo i g sp s [EvNomad (NUpdateDrain i None (no_eligible sp) r)] t (map_sum id (\<lambda>_. nn) r)"
  using assms by (cases r) (auto simp: node_run_defs trace_simps)

lemma driven_toggled:
  assumes "no_drain sp = None" "nw_phase s \<noteq> DrainRunning" "\<not> nodeGoal g sp s" "nodeSeenAs g sp s nn"
    and "nodeServer i s (EvNomad (NSetEligibility i (no_eligible sp) r)) t"
  shows "drivenTo i g sp s [EvNomad (NSetEligibility i (no_eligible sp) r)] t (map_sum id (\<lambda>_. nn) r)"
  using assms by (cases r; cases "nw_phase s") (auto simp: node_run_defs trace_simps)

lemma shown_goal:
  assumes "stubShows i s stub" "nodeSeenAs g sp s nn"
  shows "no_drain sp = Some d \<Longrightarrow> nodeGoal g sp s \<longleftrightarrow> drainHandledThisGeneration nn stub"
    "no_drain sp = None \<Longrightarrow> nodeGoal g sp s \<longleftrightarrow> \<not> stub_Drain stub \<and>
       stub_SchedulingEligibility stub = (if \<not> no_eligible sp then NodeSchedulingIneligible else NodeSchedulingEligible)"
  using assms
  by (cases "nw_phase s"; auto simp: nodeGoal_def stubShows_def nodeSeenAs_def drainHandledThisGeneration_def drainComplete_def)+

lemma meets_one_call:
  assumes "\<And>r. Q (map_sum id (\<lambda>_. b) r) [ev r]"
  shows "meets (bindE (call ev f) (\<lambda>_. ret (Inr b))) Q"
  using assms [of "Inl _"] assms [of "Inr _"]
  by (auto intro!: kwp split: sum.splits)

lemma meets_two_calls:
  assumes "\<And>e. Q (Inl e) [ev (Inl e)]" "\<And>u q. Q q [ev (Inr u), ev' q]"
  shows "meets (bindE (call ev f) (\<lambda>_. call ev' f')) Q"
  using assms by (auto intro!: kwp split: sum.splits)

abbreviation driven_post :: "node_stub \<Rightarrow> nomad_node \<Rightarrow> int \<Rightarrow> nomad_node_spec \<Rightarrow> error + nomad_node \<Rightarrow> event list \<Rightarrow> bool" where
  "driven_post stub nn g sp r es \<equiv> \<forall>s t. path (nodeServer (stub_ID stub)) s es t \<longrightarrow>
     stubShows (stub_ID stub) s stub \<longrightarrow> nodeSeenAs g sp s nn \<longrightarrow> drivenTo (stub_ID stub) g sp s es t r"

lemma driveDesired_eligibility:
  assumes none: "no_drain (no_spec nn) = None"
  shows "meets (driveDesired kr nn stub ops) (driven_post stub nn g sp)"
proof -
  let ?i = "stub_ID stub" and ?el = "no_eligible (no_spec nn)"
  let ?want = "if \<not> ?el then NodeSchedulingIneligible else NodeSchedulingEligible"
  have sp: "sp = no_spec nn" if "nodeSeenAs g sp s nn" for s
    using that by (simp add: nodeSeenAs_def)
  consider (cancel) "stub_Drain stub"
    | (toggle) "\<not> stub_Drain stub" "stub_SchedulingEligibility stub \<noteq> ?want"
    | (rest) "\<not> stub_Drain stub" "stub_SchedulingEligibility stub = ?want" by blast
  then show ?thesis
  proof cases
    case cancel
    have "driven_post stub nn g sp (map_sum id (\<lambda>_. nn) r) [EvNomad (NUpdateDrain ?i None ?el r)]" for r
      using driven_cancelled [of sp _ g nn ?i r] cancel none sp by (auto simp: stubShows_def)
    then show ?thesis
      using cancel none by (simp add: driveDesired_def nomadCall_def Let_def meets_one_call)
  next
    case toggle
    have "driven_post stub nn g sp (map_sum id (\<lambda>_. nn) r) [EvNomad (NSetEligibility ?i ?el r)]" for r
      using driven_toggled [of sp _ g nn ?i r] shown_goal(2) [of ?i _ stub g sp nn] toggle none sp
      by (auto simp: stubShows_def)
    then show ?thesis
      using toggle none by (simp add: driveDesired_def nomadCall_def Let_def meets_one_call)
  next
    case rest
    have "driven_post stub nn g sp (Inr nn) []"
      using driven_handled [of g sp _ nn ?i] shown_goal(2) [of ?i _ stub g sp nn] rest none sp by auto
    then show ?thesis
      using rest none by (simp add: driveDesired_def meets_ret)
  qed
qed

lemma driveDesired_drain:
  assumes some: "no_drain (no_spec nn) = Some d"
  shows "meets (driveDesired kr nn stub ops) (driven_post stub nn g sp)"
proof -
  let ?i = "stub_ID stub"
  have sp: "sp = no_spec nn" if "nodeSeenAs g sp s nn" for s
    using that by (simp add: nodeSeenAs_def)
  consider (handled) "drainHandledThisGeneration nn stub"
    | (adopt) "\<not> drainHandledThisGeneration nn stub" "stub_Drain stub"
    | (issue) "\<not> drainHandledThisGeneration nn stub" "\<not> stub_Drain stub" by blast
  then show ?thesis
  proof cases
    case handled
    have "driven_post stub nn g sp (Inr nn) []"
      using driven_handled [of g sp _ nn ?i] shown_goal(1) [of ?i _ stub g sp nn d] handled some sp by auto
    then show ?thesis
      using handled some by (simp add: driveDesired_def meets_ret)
  next
    case adopt
    then show ?thesis
      using some adoptDrain_driven [OF some adopt(2), of kr ops g sp] by (simp add: driveDesired_def)
  next
    case issue
    have failed: "driven_post stub nn g sp (Inl e) [EvNomad (NUpdateDrain ?i (Some x) False (Inl e))]" for x e
      using driven_issued [of sp d g _ ?i x False "Inl e"] shown_goal(1) [of ?i _ stub g sp nn d] issue some sp by auto
    have issued: "drivenTo ?i g sp s [EvNomad (NUpdateDrain ?i (Some x) False (Inr u)),
        EvNode (SUpdateStatus (handleGeneration nn) q)] t' q"
      if "nodeServer ?i s (EvNomad (NUpdateDrain ?i (Some x) False (Inr u))) t" "stubShows ?i s stub" "nodeSeenAs g sp s nn"
        "nodeServer ?i t (EvNode (SUpdateStatus (handleGeneration nn) q)) t'" for x u q s t t'
    proof -
      have "\<not> nodeGoal g sp s" "no_drain sp = Some d"
        using shown_goal(1) [OF that(2,3), of d] issue some sp [OF that(3)] by auto
      moreover have "nt_drainObservedGeneration (no_status (handleGeneration nn)) = g"
        using that(3) by (simp add: handleGeneration_def nodeSeenAs_def)
      ultimately show ?thesis
        using driven_issued [of sp d g s ?i x False "Inr u" t] that(1,4) by blast
    qed
    have post: "driven_post stub nn g sp q [EvNomad (NUpdateDrain ?i (Some x) False (Inr u)),
        EvNode (SUpdateStatus (handleGeneration nn) q)]" for x u q
      unfolding path.simps by (blast intro: issued)
    show ?thesis
      using issue some
      unfolding driveDesired_def nodeStatusUpdate_def kube_calls
      by (simp del: path.simps add: meets_two_calls [OF failed post])
  qed
qed

lemma driveDesired_driven: "meets (driveDesired kr nn stub ops) (driven_post stub nn g sp)"
  using driveDesired_eligibility driveDesired_drain by (cases "no_drain (no_spec nn)") blast+

lemma driveAndMirror_drives:
  "meets (driveAndMirror kr nn stub ops) (\<lambda>r es. \<forall>s s'. path (nodeServer (stub_ID stub)) s es s' \<longrightarrow>
     stubShows (stub_ID stub) s stub \<longrightarrow> nodeSeenAs g sp s nn \<longrightarrow> drivesNode (stub_ID stub) g sp s es s')"
proof -
  have mirrored: "drivesNode i g sp s (es @ es') t'"
    if "drivenTo i g sp s es t (Inr nn')"
      "\<forall>s s'. path (nodeServer i) s es' s' \<longrightarrow> nt_drainObservedGeneration (no_status nn') = nw_recorded s \<longrightarrow>
        s' = s \<and> quiet isNomadWrite es'"
      "path (nodeServer i) t es' t'" for i s es t nn' es' t'
    using that by (fastforce simp: drivenTo_def drivesNode_def trace_simps)
  have failed: "drivesNode i g sp s es t" if "drivenTo i g sp s es t (Inl e)" for i s es t e
    using that by (simp add: drivenTo_def)
  show ?thesis
    unfolding driveAndMirror_def
  proof (rule meets_bindE [OF driveDesired_driven [of kr nn stub ops g sp]], goal_cases)
    case (1 e es)
    then show ?case by (auto intro: failed)
  next
    case (2 nn' es)
    show ?case
    proof (rule meets_mono [OF mirrorStatus_drives [of kr nn' stub "stub_ID stub"]], intro allI impI, goal_cases)
      case (1 r es' s s')
      from 1(2) obtain t where t: "path (nodeServer (stub_ID stub)) s es t" "path (nodeServer (stub_ID stub)) t es' s'"
        by (auto simp: path_append)
      from 2 t(1) 1(3,4) have "drivenTo (stub_ID stub) g sp s es t (Inr nn')" by blast
      from mirrored [OF this 1(1) t(2)] show ?case .
    qed
  qed
qed

subsection \<open>Runs\<close>

lemma nodeGoal_completes: "nodeGoal g sp t \<Longrightarrow> nw_phase t = DrainRunning \<Longrightarrow> nodeGoal g sp (t\<lparr>nw_phase := DrainDone\<rparr>)"
  by (auto simp: nodeGoal_def split: option.splits)

definition runReached :: "string \<Rightarrow> int \<Rightarrow> nomad_node_spec \<Rightarrow> node_state \<Rightarrow> event list \<Rightarrow> node_state \<Rightarrow> bool" where
  "runReached i g sp s es s' \<longleftrightarrow>
     (nodeGoal g sp s \<longrightarrow> nodeGoal g sp s' \<and> quiet isNomadWrite es) \<and>
     (some_call reportsReconciled es \<longrightarrow> nodeGoal g sp s') \<and>
     nw_started s + drainsAcknowledged i es \<le> nw_started s' \<and>
     nw_started s' \<le> nw_started s + unconfirmedCalls es + (if nodeGoal g sp s' then 1 else 0)"

text \<open>What Nomad acknowledged has started.\<close>

lemma acknowledged_started:
  assumes "nodeServer i s e t"
  shows "nw_started s + (if drainAccepted i e then 1 else 0) \<le> nw_started t"
proof (cases "drainAccepted i e")
  case True
  then obtain d m u where "e = EvNomad (NUpdateDrain i (Some d) m (Inr u))"
    by (cases "(i, e)" rule: drainAccepted.cases) auto
  with assms show ?thesis by simp
next
  case False
  with assms show ?thesis by (cases "(i, e, s)" rule: takesEffect.cases) (auto simp: nodeServer_def)
qed

lemma path_started: "path (nodeServer i) s es t \<Longrightarrow> nw_started s + drainsAcknowledged i es \<le> nw_started t"
proof (induction es arbitrary: s)
  case (Cons e es)
  then show ?case by (fastforce dest: acknowledged_started split: if_splits)
qed simp

lemma drivesNode_pass: "stubShows i t stub \<Longrightarrow> nodeSeenAs g sp t nn \<Longrightarrow>
    path (nodeServer i) t (events_of (driveAndMirror kr nn stub ops w)) s' \<Longrightarrow>
    drivesNode i g sp t (events_of (driveAndMirror kr nn stub ops w)) s'"
  using meetsD [OF driveAndMirror_drives [of kr nn stub ops g sp], of w]
  by (auto simp: stubShows_def)

lemma nodeRun_reached: "nodeRun kr ops i g sp s es s' \<Longrightarrow> runReached i g sp s es s'"
proof (induction rule: nodeRun.induct)
  case (start s)
  then show ?case by (simp add: runReached_def trace_simps)
next
  case (pass s es t stub nn w s')
  have d: "drivesNode i g sp t (events_of (driveAndMirror kr nn stub ops w)) s'"
    by (rule drivesNode_pass [OF pass.hyps(2-4)])
  from d pass.IH show ?case
    using path_started [OF pass.hyps(4)]
    unfolding runReached_def drivesNode_def
    by (auto simp: trace_simps split: if_splits)
next
  case (completes s es t)
  then show ?case
    using nodeGoal_completes [of g sp t] by (auto simp: runReached_def split: if_splits)
qed

lemma driveAndMirror_succeeds:
  "meets (driveAndMirror kr nn stub ops) (\<lambda>r es. \<forall>s s'. path (nodeServer (stub_ID stub)) s es s' \<longrightarrow>
     stubShows (stub_ID stub) s stub \<longrightarrow> nodeSeenAs g sp s nn \<longrightarrow> r = Inr u \<longrightarrow> nodeGoal g sp s')"
  unfolding driveAndMirror_def
proof (rule meets_bindE [OF driveDesired_driven [of kr nn stub ops g sp]], goal_cases)
  case (1 e es)
  then show ?case by simp
next
  case (2 nn' es)
  show ?case
  proof (rule meets_mono [OF mirrorStatus_drives [of kr nn' stub "stub_ID stub"]], intro allI impI, goal_cases)
    case (1 r es' s s')
    from 1(2) obtain t where t: "path (nodeServer (stub_ID stub)) s es t" "path (nodeServer (stub_ID stub)) t es' s'"
      by (auto simp: path_append)
    from 2 t(1) 1(3,4) have "drivenTo (stub_ID stub) g sp s es t (Inr nn')" by blast
    with 1(1) t(2) show ?case by (auto simp: drivenTo_def)
  qed
qed

text \<open>
  C21: over any sequence of passes, with failing and lost calls, a pass over a node that returns
  without an error leaves the node at the goal of its spec: without a drain, not draining and with the
  asked eligibility; with a drain, draining or drained and recorded for this generation. At the
  goal no pass writes to Nomad again, and a status that says Reconciled is stored only at the goal.
\<close>

theorem node_run_converges:
  assumes "nodeRun kr ops i g sp s es t" "stubShows i t stub" "nodeSeenAs g sp t nn"
    and "path (nodeServer i) t (events_of (driveAndMirror kr nn stub ops w)) s'"
  shows "(result_of (driveAndMirror kr nn stub ops w) = Inr () \<longrightarrow> nodeGoal g sp s') \<and>
    (nodeGoal g sp s \<longrightarrow> quiet isNomadWrite (es @ events_of (driveAndMirror kr nn stub ops w)) \<and> nodeGoal g sp s') \<and>
    (some_call reportsReconciled (es @ events_of (driveAndMirror kr nn stub ops w)) \<longrightarrow> nodeGoal g sp s')"
proof -
  have "runReached i g sp s (es @ events_of (driveAndMirror kr nn stub ops w)) s'"
    by (rule nodeRun_reached [OF nodeRun.pass [OF assms]])
  moreover have "result_of (driveAndMirror kr nn stub ops w) = Inr () \<longrightarrow> nodeGoal g sp s'"
    using meetsD [OF driveAndMirror_succeeds [of kr nn stub ops g sp "()"], of w] assms(2-4)
    by (auto simp: stubShows_def)
  ultimately show ?thesis by (simp add: runReached_def)
qed

definition drainedNode :: nomad_node where
  "drainedNode = \<lparr>no_meta = (newMeta ''web-1'' ''nomad'' [])\<lparr>om_generation := 2\<rparr>,
     no_spec = \<lparr>no_clusterRef = ''prod'', no_nodeName = ''web-1'', no_eligible = True,
       no_drain = Some \<lparr>nd_deadline = None, nd_ignoreSystemJobs = False\<rparr>\<rparr>,
     no_status = emptyNodeStatus\<rparr>"

definition servingNode :: node_state where
  "servingNode = \<lparr>nw_phase = Serving True, nw_recorded = 0, nw_started = 0\<rparr>"

definition drainPass :: "event list" where
  "drainPass = events_of (driveAndMirror (sampleReconciler samplePlatform sampleNodeOps) drainedNode
     (sampleStub ''n1'' ''web-1'' 9) sampleNodeOps ())"

lemma drainPass_path:
  "path (nodeServer ''n1'') servingNode drainPass \<lparr>nw_phase = DrainRunning, nw_recorded = 2, nw_started = 1\<rparr>"
  "result_of (driveAndMirror (sampleReconciler samplePlatform sampleNodeOps) drainedNode
     (sampleStub ''n1'' ''web-1'' 9) sampleNodeOps ()) = Inr ()"
  "unconfirmedCalls drainPass = 0" "drainsAcknowledged ''n1'' drainPass = 1"
  by (simp_all add: drainPass_def servingNode_def driveAndMirror_def driveDesired_def mirrorStatus_def nodeStatusUpdate_def
      drainHandledThisGeneration_def handleGeneration_def drainedNode_def sampleStub_def sampleNodeOps_def emptyNodeStatus_def
      sample_run observe_def)

lemma drainPass_shown:
  "stubShows ''n1'' servingNode (sampleStub ''n1'' ''web-1'' 9)" "nodeSeenAs 2 (no_spec drainedNode) servingNode drainedNode"
  by (simp_all add: stubShows_def nodeSeenAs_def servingNode_def sampleStub_def drainComplete_def drainedNode_def
      emptyNodeStatus_def newMeta_def)

lemma node_run_converges_witness:
  "nodeGoal 2 (no_spec drainedNode) \<lparr>nw_phase = DrainRunning, nw_recorded = 2, nw_started = 1\<rparr>"
  using node_run_converges [OF nodeRun.start drainPass_shown drainPass_path(1) [unfolded drainPass_def]] drainPass_path(2)
  by simp

text \<open>
  C22: a drain is started once: over any sequence of passes, with failing and lost calls, the drains
  that Nomad starts on the node, those whose answer was lost included, are at most one more than the
  drain calls and status writes that came back with an error, however often the node is seen draining
  or drained. So when every such call is answered there is at most one. A drain that Nomad
  acknowledged is one of those it started.
\<close>

theorem drain_issued_once:
  assumes "nodeRun kr ops i g sp s es s'"
  shows "nw_started s + drainsAcknowledged i es \<le> nw_started s' \<and>
    nw_started s' \<le> nw_started s + 1 + unconfirmedCalls es"
  using nodeRun_reached [OF assms] by (auto simp: runReached_def split: if_splits)

lemma drain_issued_once_witness:
  "\<exists>es s'. nodeRun (sampleReconciler samplePlatform sampleNodeOps) sampleNodeOps ''n1'' 2 (no_spec drainedNode)
     servingNode es s' \<and> unconfirmedCalls es = 0 \<and> drainsAcknowledged ''n1'' es = 1 \<and> nw_started s' = 1"
proof -
  note run = nodeRun.pass [OF nodeRun.start drainPass_shown drainPass_path(1) [unfolded drainPass_def]]
  from drain_issued_once [OF run] run drainPass_path(3,4) show ?thesis
    unfolding drainPass_def [symmetric] by (fastforce simp: servingNode_def)
qed

text \<open>
  Every error is needed in the bound. When the status write that records the generation is refused, or
  the answer to the drain call is lost after Nomad has started the drain, and the drain completes before
  the next pass, that pass finds a drained node without a record and drains it again.
\<close>

definition conflictedPlatform :: "unit platform" where
  "conflictedPlatform = samplePlatform\<lparr>pf_nodes := emptyStore\<lparr>st_updateStatus := (\<lambda>_ w. (Inl (PlainError ''conflict''), w))\<rparr>\<rparr>"

definition deafNodeOps :: "unit NomadNodeOps" where
  "deafNodeOps = sampleNodeOps\<lparr>op_UpdateDrain := (\<lambda>_ _ _ w. (Inl (PlainError ''timeout''), w))\<rparr>"

definition drainedStub :: node_stub where
  "drainedStub = (sampleStub ''n1'' ''web-1'' 9)\<lparr>stub_SchedulingEligibility := NodeSchedulingIneligible,
     stub_LastDrain := Some \<lparr>dm_status = DrainStatusComplete, dm_startedAt = 0, dm_updatedAt = 0\<rparr>\<rparr>"

lemma drained_unrecorded:
  "stubShows ''n1'' \<lparr>nw_phase = DrainDone, nw_recorded = 0, nw_started = n\<rparr> drainedStub"
  "nodeSeenAs 2 (no_spec drainedNode) \<lparr>nw_phase = DrainDone, nw_recorded = 0, nw_started = n\<rparr> drainedNode"
  by (simp_all add: stubShows_def nodeSeenAs_def drainedStub_def sampleStub_def drainComplete_def drainedNode_def
      emptyNodeStatus_def newMeta_def)

lemma drained_twice:
  assumes "path (nodeServer ''n1'') servingNode (events_of (driveAndMirror kr drainedNode (sampleStub ''n1'' ''web-1'' 9) ops ()))
      \<lparr>nw_phase = DrainRunning, nw_recorded = 0, nw_started = 1\<rparr>"
    and "path (nodeServer ''n1'') \<lparr>nw_phase = DrainDone, nw_recorded = 0, nw_started = 1\<rparr>
      (events_of (driveAndMirror kr drainedNode drainedStub ops ())) s'"
  shows "\<exists>es. nodeRun kr ops ''n1'' 2 (no_spec drainedNode) servingNode es s'"
proof -
  have "nodeRun kr ops ''n1'' 2 (no_spec drainedNode) servingNode
      (events_of (driveAndMirror kr drainedNode (sampleStub ''n1'' ''web-1'' 9) ops ()))
      \<lparr>nw_phase = DrainDone, nw_recorded = 0, nw_started = 1\<rparr>"
    using nodeRun.completes [OF nodeRun.pass [OF nodeRun.start drainPass_shown assms(1)]] by simp
  from nodeRun.pass [OF this drained_unrecorded assms(2)] show ?thesis by blast
qed

lemmas drain_run = driveAndMirror_def driveDesired_def mirrorStatus_def nodeStatusUpdate_def conflictedPlatform_def
  deafNodeOps_def drainHandledThisGeneration_def handleGeneration_def drainedNode_def drainedStub_def sampleStub_def
  sampleNodeOps_def emptyNodeStatus_def servingNode_def sample_run observe_def

lemma drain_issued_again:
  "\<exists>es s'. nodeRun (sampleReconciler conflictedPlatform sampleNodeOps) sampleNodeOps ''n1'' 2 (no_spec drainedNode)
     servingNode es s' \<and> nw_started s' = 2"
proof -
  have "\<exists>es. nodeRun (sampleReconciler conflictedPlatform sampleNodeOps) sampleNodeOps ''n1'' 2 (no_spec drainedNode)
     servingNode es \<lparr>nw_phase = DrainRunning, nw_recorded = 0, nw_started = 2\<rparr>"
    by (rule drained_twice) (auto simp: drain_run)
  then show ?thesis by force
qed

lemma drain_issued_again_unanswered:
  "\<exists>es s'. nodeRun (sampleReconciler samplePlatform deafNodeOps) deafNodeOps ''n1'' 2 (no_spec drainedNode)
     servingNode es s' \<and> nw_started s' = 2"
proof -
  have "\<exists>es. nodeRun (sampleReconciler samplePlatform deafNodeOps) deafNodeOps ''n1'' 2 (no_spec drainedNode)
     servingNode es \<lparr>nw_phase = DrainRunning, nw_recorded = 0, nw_started = 2\<rparr>"
    by (rule drained_twice) (auto simp: drain_run)
  then show ?thesis by force
qed

end
