(* ===== verification/ClusterReady.thy ===== *)
theory ClusterReady
  imports ClusterSpec
begin

section \<open>A pass in a favourable environment makes the cluster Ready\<close>

text \<open>
  The phase machine says what a pass may not do. This theory shows that it makes progress: when the services
  answer as a healthy installation does, the pass goes through the certificate gate, the address, the
  rollout, the quorum and the ACL bootstrap, and stores a status that reports Ready, from any phase.
\<close>

subsection \<open>The environment\<close>

text \<open>What a read or a write leaves of a cluster that nobody edits.\<close>

definition alike :: "nomad_cluster \<Rightarrow> nomad_cluster \<Rightarrow> bool" where
  "alike x y \<longleftrightarrow> nc_spec y = nc_spec x \<and> nc_name y = nc_name x \<and> nc_namespace y = nc_namespace x \<and>
     om_generation (nc_meta y) = om_generation (nc_meta x)"

definition certKeyOf :: "nomad_cluster \<Rightarrow> namespaced_name" where
  "certKeyOf nc = objectKey (nc_namespace nc) (ts_certSecretRef (cs_tls (nc_spec nc)))"

definition servesAddress :: "nomad_cluster \<Rightarrow> gateway \<Rightarrow> bool" where
  "servesAddress nc gw \<longleftrightarrow> snd (firstAddress (gw_addresses gw)) \<and>
     (case gatewayOf nc of
        Inl _ \<Rightarrow> True
      | Inr g \<Rightarrow> gs_mode g = GatewayModeExisting \<longrightarrow> checkListeners gw g (nc_namespace nc) = None)"

text \<open>
  The answers of a healthy installation. Reads of Secrets other than the certificate may find nothing, the
  bootstrap may have been done already, and the health of the servers may fail to be read.
\<close>

fun favourable :: "nomad_cluster \<Rightarrow> event \<Rightarrow> bool" where
  "favourable nc (EvCluster (SUpdateStatus x r)) \<longleftrightarrow>
     (case r of Inl _ \<Rightarrow> False | Inr y \<Rightarrow> alike x y \<and> nc_status y = nc_status x)"
| "favourable nc (EvSecret (SGet k r)) \<longleftrightarrow>
     (case r of Inl e \<Rightarrow> k \<noteq> certKeyOf nc \<and> kubeIsNotFound e
      | Inr s \<Rightarrow> k = certKeyOf nc \<longrightarrow> list_all (\<lambda>k. length (mapGetOr [] (se_data s) k) \<noteq> 0) certKeys)"
| "favourable nc (EvSecret (SCreate _ r)) \<longleftrightarrow> built r"
| "favourable nc (EvSecret (SUpdate _ r)) \<longleftrightarrow> built r"
| "favourable nc (EvRand _ r) \<longleftrightarrow> built r"
| "favourable nc (EvApply _ r) \<longleftrightarrow> built r"
| "favourable nc (EvService (SGet _ r)) \<longleftrightarrow> (case r of Inl _ \<Rightarrow> False | Inr s \<Rightarrow> snd (firstIngress (sv_ingress s)))"
| "favourable nc (EvGateway (SGet _ r)) \<longleftrightarrow> (case r of Inl _ \<Rightarrow> False | Inr gw \<Rightarrow> servesAddress nc gw)"
| "favourable nc (EvNomad (NLeader r)) \<longleftrightarrow> (case r of Inl _ \<Rightarrow> False | Inr l \<Rightarrow> l \<noteq> [])"
| "favourable nc (EvNomad (NACLBootstrap _ r)) \<longleftrightarrow> (case r of Inl e \<Rightarrow> IsACLAlreadyBootstrapped e | Inr _ \<Rightarrow> True)"
| "favourable nc _ \<longleftrightarrow> True"

text \<open>
  What is asked of the parameters: the quantity parser accepts the storage size, the client factory any
  valid configuration with TLS, and an object with no owner can be given one in its own namespace.
\<close>

definition ownable :: "nomad_cluster \<Rightarrow> object_meta \<Rightarrow> bool" where
  "ownable nc m \<longleftrightarrow> om_ownerReferences m = [] \<and> om_namespace m = nc_namespace nc"

definition usableConfig :: "config \<Rightarrow> bool" where
  "usableConfig cfg \<longleftrightarrow> Validate cfg = None \<and> hasTLSMaterial cfg \<and> \<not> tls_Insecure (cfg_TLS cfg) \<and>
     prefix ''https://'' (cfg_Address cfg) \<and> cfg_TLSServerName cfg = ''server.'' @ cfg_Region cfg @ ''.nomad''"

definition workable :: "'w cluster_reconciler \<Rightarrow> nomad_cluster_spec \<Rightarrow> bool" where
  "workable rc s \<longleftrightarrow> admittedCluster s \<and> rc_parseQuantity rc (ss_size (cs_storage s)) \<noteq> None \<and>
     (\<forall>cfg. usableConfig cfg \<longrightarrow> built (rc_newNomadClient rc cfg)) \<and>
     (\<forall>nc m. ownable nc m \<longrightarrow> built (tk_setControllerReference (pf_toolkit (rc_platform rc)) (nc_meta nc) m)) \<and>
     (\<forall>obj. built (pf_gvkForObject (rc_platform rc) obj))"

subsection \<open>Procedures that succeed in an environment\<close>

definition succeeds ::
    "(event \<Rightarrow> bool) \<Rightarrow> ('w, 'a) reconciler_proc \<Rightarrow> ('a \<Rightarrow> bool) \<Rightarrow> bool" where
  "succeeds F p R \<longleftrightarrow> meets p (\<lambda>r es. list_all F es \<longrightarrow> (\<exists>a. r = Inr a \<and> R a))"

definition endsIn ::
    "(event \<Rightarrow> bool) \<Rightarrow> ('w, 'a) reconciler_proc \<Rightarrow> ('a \<Rightarrow> event \<Rightarrow> bool) \<Rightarrow> bool" where
  "endsIn F p L \<longleftrightarrow> meets p (\<lambda>r es. list_all F es \<longrightarrow> (\<exists>a. r = Inr a \<and> es \<noteq> [] \<and> L a (last es)))"

lemma succeeds_bindE:
  assumes "succeeds F m R" and "\<And>a. R a \<Longrightarrow> succeeds F (f a) S"
  shows "succeeds F (bindE m f) S"
  unfolding succeeds_def
  by (rule meets_bindE [OF assms(1) [unfolded succeeds_def]])
    (auto intro: meets_trivial meets_mono [OF assms(2) [unfolded succeeds_def]])

lemma endsIn_bindE:
  assumes "succeeds F m R" and "\<And>a. R a \<Longrightarrow> endsIn F (f a) L"
  shows "endsIn F (bindE m f) L"
  unfolding endsIn_def
  by (rule meets_bindE [OF assms(1) [unfolded succeeds_def]])
    (auto intro: meets_trivial meets_mono [OF assms(2) [unfolded endsIn_def]])

lemma succeeds_call: "(\<And>r. F (ev r) \<Longrightarrow> \<exists>a. r = Inr a \<and> R a) \<Longrightarrow> succeeds F (call ev f) R"
  unfolding succeeds_def by (auto intro!: wp)

lemma succeeds_liftE: "r = Inr a \<Longrightarrow> R a \<Longrightarrow> succeeds F (liftE r) R"
  unfolding succeeds_def by (auto intro!: wp)

lemma succeeds_ret: "R a \<Longrightarrow> succeeds F (ret (Inr a)) R"
  unfolding succeeds_def by (auto intro!: wp)

lemma succeeds_andThen_call: "(\<And>r. F (ev r) \<Longrightarrow> succeeds F (f r) R) \<Longrightarrow> succeeds F (andThen (call ev g) f) R"
  unfolding succeeds_def by (rule meets_andThen_call) (auto intro: meets_trivial meets_mono)

lemma endsIn_andThen_call: "(\<And>r. F (ev r) \<Longrightarrow> endsIn F (f r) L) \<Longrightarrow> endsIn F (andThen (call ev g) f) L"
  unfolding endsIn_def
proof (rule meets_andThen_call)
  fix r
  assume tail: "\<And>r. F (ev r) \<Longrightarrow> meets (f r) (\<lambda>r es. list_all F es \<longrightarrow> (\<exists>a. r = Inr a \<and> es \<noteq> [] \<and> L a (last es)))"
  show "meets (f r) (\<lambda>b es. list_all F (ev r # es) \<longrightarrow> (\<exists>a. b = Inr a \<and> ev r # es \<noteq> [] \<and> L a (last (ev r # es))))"
    by (cases "F (ev r)") (auto intro: meets_trivial meets_mono [OF tail])
qed

lemma endsIn_withCondition:
  "(\<And>now. endsIn F (k (setCondition now nc ty st reason msg)) L) \<Longrightarrow> endsIn F (withCondition rc nc ty st reason msg k) L"
  unfolding endsIn_def by (rule meets_withCondition)

lemma succeeds_forE: "(\<And>i. i \<in> set is \<Longrightarrow> succeeds F (body i) (\<lambda>_. True)) \<Longrightarrow> succeeds F (forE is body) (\<lambda>_. True)"
  by (induction "is") (auto intro!: succeeds_ret succeeds_bindE)

lemma succeeds_mono: "succeeds F p R \<Longrightarrow> (\<And>a. R a \<Longrightarrow> S a) \<Longrightarrow> succeeds F p S"
  unfolding succeeds_def by (auto elim!: meets_mono)

lemma succeeds_wrapped: "succeeds F p R \<Longrightarrow> succeeds F (wrapped pre p) R"
  unfolding succeeds_def by (rule meets_wrapped) (auto elim!: meets_mono)

subsection \<open>The steps of a pass\<close>

lemma alike_trans: "alike x y \<Longrightarrow> alike y z \<Longrightarrow> alike x z"
  by (simp add: alike_def)

lemma alike_simps [simp]:
  "alike x x" "alike x (setCondition now y ty st reason msg) = alike x y"
  "alike x (y\<lparr>nc_status := t\<rparr>) = alike x y" "alike x (setPhase p y) = alike x y"
  by (simp_all add: alike_def setPhase_def)

lemma workableD:
  assumes "workable rc s"
  shows "admittedCluster s" "\<exists>q. rc_parseQuantity rc (ss_size (cs_storage s)) = Some q"
    "usableConfig cfg \<Longrightarrow> \<exists>ops. rc_newNomadClient rc cfg = Inr ops"
    "ownable nc m \<Longrightarrow> \<exists>m'. tk_setControllerReference (pf_toolkit (rc_platform rc)) (nc_meta nc) m = Inr m'"
    "\<exists>u. pf_gvkForObject (rc_platform rc) obj = Inr u"
  using assms by (auto simp: workable_def built_iff)

lemma applyObject_succeeds:
  assumes "workable rc s" and "ownable nc (appliedMeta obj)"
  shows "succeeds (favourable nc0) (applyObject rc nc obj) (\<lambda>_. True)"
proof -
  obtain m where m: "tk_setControllerReference (pf_toolkit (rc_platform rc)) (nc_meta nc) (appliedMeta obj) = Inr m"
    using workableD(4) [OF assms] by blast
  obtain u where u: "pf_gvkForObject (rc_platform rc) (withAppliedMeta obj m) = Inr u"
    using workableD(5) [OF assms(1)] by blast
  show ?thesis
    unfolding applyObject_def Let_def by (simp add: m u) (auto intro!: succeeds_call simp: built_iff)
qed

lemma ensureGossipKey_succeeds: "succeeds (favourable nc0) (ensureGossipKey rc nc) (\<lambda>_. True)"
  unfolding ensureGossipKey_def Let_def kube_calls randRead_def
  by (rule succeeds_andThen_call)
    (auto intro!: succeeds_ret succeeds_bindE [where R = "\<lambda>_. True"] succeeds_wrapped succeeds_call
       succeeds_andThen_call simp: built_iff split: sum.splits)

lemma certSecretReady_succeeds:
  "alike nc0 nc \<Longrightarrow> succeeds (favourable nc0) (certSecretReady rc nc) (\<lambda>ready. ready)"
  unfolding certSecretReady_def kube_calls
  by (rule succeeds_andThen_call) (auto intro!: succeeds_ret simp: certKeyOf_def alike_def split: sum.splits)

lemma ensureBootstrapToken_succeeds: "succeeds (favourable nc0) (ensureBootstrapToken rc nc ops) (\<lambda>_. True)"
  unfolding ensureBootstrapToken_def obtainTokenSecret_def newBootstrapToken_def randRead_def Let_def kube_calls
  by (intro succeeds_bindE [where R = "\<lambda>_. True"] succeeds_andThen_call)
    (auto intro!: succeeds_ret succeeds_bindE [where R = "\<lambda>_. True"] succeeds_wrapped succeeds_call
       simp: built_iff split: sum.splits)

lemma clusterNomadConfig_succeeds:
  assumes "alike nc0 nc"
  shows "succeeds (favourable nc0) (clusterNomadConfig pf nc) usableConfig"
proof -
  have key: "objectKey (nc_namespace nc) (ts_certSecretRef (cs_tls (nc_spec nc))) = certKeyOf nc0"
    using assms by (simp add: certKeyOf_def alike_def)
  show ?thesis
    unfolding clusterNomadConfig_def Let_def kube_calls key
    by (rule succeeds_bindE [where R = "\<lambda>_. True"], rule succeeds_call)
      (auto intro!: succeeds_andThen_call succeeds_ret split: sum.splits
        simp: usableConfig_def Validate_def hasTLSMaterial_def emptyTLS_def)
qed

lemma clientFor_succeeds:
  assumes "workable rc s" and "alike nc0 nc"
  shows "succeeds (favourable nc0) (clientFor rc nc) (\<lambda>_. True)"
  unfolding clientFor_def
  by (rule succeeds_bindE [OF clusterNomadConfig_succeeds [OF assms(2)]])
    (use workableD(3) [OF assms(1)] in \<open>fastforce intro: succeeds_liftE\<close>)

text \<open>Every object the operator builds can be given the cluster as its owner.\<close>

lemma ownable_front [simp]:
  "ownable nc (sv_meta (buildLoadBalancerService nc))"
  "buildManagedGateway nc = Inr gw \<Longrightarrow> ownable nc (gw_meta gw)"
  by (auto simp: ownable_def buildLoadBalancerService_def buildManagedGateway_def newMeta_def Let_def
      split: option.splits sum.splits)

lemma mapE_origin: "mapE f xs = Inr ys \<Longrightarrow> y \<in> set ys \<Longrightarrow> \<exists>x\<in>set xs. f x = Inr y"
  by (induction xs arbitrary: ys) (auto split: sum.splits)

lemma ownable_newMeta [simp]: "ownable nc (newMeta name (nc_namespace nc) labels)"
  by (simp add: ownable_def newMeta_def)

lemma ownable_built [simp]:
  "buildConfigMap uc nc addr = Inr cm \<Longrightarrow> ownable nc (cm_meta cm)"
  "ownable nc (sv_meta (buildHeadlessService nc))" "ownable nc (sv_meta (buildAPIService nc))"
  "ownable nc (sv_meta (buildPodService nc i))" "ownable nc (pdb_meta (buildPDB nc))"
  "buildTLSRoute nc = Inr t \<Longrightarrow> ownable nc (tr_meta t)"
  "buildStatefulSet pq nc hash = Inr ss \<Longrightarrow> ownable nc (sf_meta ss)"
  by (auto simp: buildConfigMap_def buildHeadlessService_def buildAPIService_def buildPodService_def buildPDB_def
      buildTLSRoute_def buildStatefulSet_def Let_def split: sum.splits)

lemma ownable_tcp: "buildTCPRoutes nc = Inr routes \<Longrightarrow> rt \<in> set routes \<Longrightarrow> ownable nc (cr_meta rt)"
  by (auto simp: buildTCPRoutes_def tcpRouteFor_def dest!: mapE_origin split: sum.splits prod.splits if_splits)

lemma Inr_map_sum: "Inr y = map_sum h f r \<longleftrightarrow> (\<exists>x. r = Inr x \<and> y = f x)"
  by (cases r) auto

lemma ownable_routes: "Inr obj \<in> set (routeObjects nc) \<Longrightarrow> ownable nc (appliedMeta obj)"
  by (auto simp: routeObjects_def Inr_map_sum ownable_tcp split: if_splits sum.splits)

lemma ownable_rollout:
  assumes "Inr obj \<in> set (rolloutObjects uc pq nc addr)"
  shows "ownable nc (appliedMeta obj)"
  using assms by (auto simp: rolloutObjects_def Inr_map_sum ownable_routes split: sum.splits prod.splits)

lemma provision_succeeds:
  assumes "workable rc (nc_spec nc)"
  shows "succeeds (favourable nc0) (provision rc nc addr) (\<lambda>_. True)"
  unfolding provision_refines
proof (rule succeeds_forE)
  fix obj
  assume obj: "obj \<in> set (rolloutObjects (tk_unicode (pf_toolkit (rc_platform rc))) (rc_parseQuantity rc) nc addr)"
  have "built obj"
    using rollout_total workableD(1,2) [OF assms] obj by (metis list_all_iff)
  then obtain x where x: "obj = Inr x" by (auto simp: built_iff)
  show "succeeds (favourable nc0) (applyBuilt rc nc obj) (\<lambda>_. True)"
    unfolding applyBuilt_def x using obj x by (auto intro: applyObject_succeeds [OF assms] ownable_rollout)
qed

subsection \<open>The address\<close>

definition addressed :: "nomad_cluster \<Rightarrow> nomad_cluster \<times> string \<times> bool \<Rightarrow> bool" where
  "addressed nc a \<longleftrightarrow> (case a of (nc', addr, ready) \<Rightarrow> nc' = nc \<and> ready \<and> addr \<noteq> [])"

lemma ready_address:
  "snd (firstAddress addrs) \<Longrightarrow> firstAddress addrs = (a, b) \<Longrightarrow> b \<and> a \<noteq> []"
  "snd (firstIngress ing) \<Longrightarrow> firstIngress ing = (a, b) \<Longrightarrow> b \<and> a \<noteq> []"
  using firstAddress_ready [of addrs] firstIngress_ready [of ing] by auto

lemma firstAddress_found:
  assumes "snd (firstAddress addrs)"
  obtains a where "find (\<lambda>a. a \<noteq> []) addrs = Some a" "a \<noteq> []"
  using assms by (auto simp: firstAddress_def find_Some_iff split: option.splits)

lemma ensureLoadBalancer_succeeds:
  assumes "workable rc s"
  shows "succeeds (favourable nc0) (ensureLoadBalancer rc nc) (\<lambda>(addr, ready). ready \<and> addr \<noteq> [])"
  unfolding ensureLoadBalancer_def Let_def kube_calls
  by (rule succeeds_bindE [where R = "\<lambda>_. True"], rule applyObject_succeeds [OF assms])
    (auto intro!: succeeds_andThen_call succeeds_ret dest: ready_address split: sum.splits)

lemma ensureManagedGateway_succeeds:
  assumes "workable rc s" and "buildManagedGateway nc = Inr gw"
  shows "succeeds (favourable nc0) (ensureManagedGateway rc nc) (\<lambda>(addr, ready). ready \<and> addr \<noteq> [])"
  unfolding ensureManagedGateway_def kube_calls assms(2) bindE_liftE
  by (rule succeeds_bindE [where R = "\<lambda>_. True"], rule applyObject_succeeds [OF assms(1)])
    (auto intro!: succeeds_bindE [where R = "\<lambda>g. snd (firstAddress (gw_addresses g))"] succeeds_call succeeds_ret
      dest: ready_address simp: assms(2) servesAddress_def split: sum.splits)

lemma ensureExistingGateway_succeeds:
  assumes "gatewayOf nc = Inr g" "gs_ref g = Some ref" "gs_mode g = GatewayModeExisting" "alike nc0 nc"
  shows "succeeds (favourable nc0) (ensureExistingGateway rc nc) (addressed nc)"
proof -
  have "gatewayOf nc0 = Inr g" using assms(1,4) by (simp add: gatewayOf_def alike_def)
  then show ?thesis
    unfolding ensureExistingGateway_def kube_calls assms(1) bindE_liftE
    using assms by (auto intro!: succeeds_andThen_call succeeds_ret
        simp: servesAddress_def addressed_def alike_def elim!: firstAddress_found split: sum.splits)
qed

lemma resolveAddress_succeeds:
  assumes "workable rc (nc_spec nc)" and "alike nc0 nc"
  shows "succeeds (favourable nc0) (resolveAddress rc nc) (addressed nc)"
proof (cases "ea_mode (nc_access nc) = ExternalAccessLoadBalancer")
  case True
  then show ?thesis
    unfolding resolveAddress_def
    by (auto intro!: succeeds_bindE [OF ensureLoadBalancer_succeeds [OF assms(1)]] succeeds_ret simp: addressed_def)
next
  case False
  note adm = workableD(1) [OF assms(1)]
  with False have gw: "ea_mode (nc_access nc) = ExternalAccessGateway"
    by (auto simp: admittedCluster_def admittedExternalAccess_def)
  obtain g where g: "ea_gateway (nc_access nc) = Some g" "admittedGateway g"
    using adm gw by (rule admittedCluster_gateway)
  then have of: "gatewayOf nc = Inr g" by (simp add: gatewayOf_def)
  have "succeeds (favourable nc0) (ensureGateway rc nc) (addressed nc)"
  proof (cases "gs_mode g = GatewayModeExisting")
    case True
    with g obtain ref where "gs_ref g = Some ref" by (auto simp: admittedGateway_def)
    from ensureExistingGateway_succeeds [OF of this True assms(2)] True show ?thesis
      by (simp add: ensureGateway_def of)
  next
    case other: False
    obtain x where "buildManagedGateway nc = Inr x" using routes_total(3) [OF adm gw] by blast
    note managed = ensureManagedGateway_succeeds [OF assms(1) this]
    show ?thesis
      using other by (auto simp: ensureGateway_def of addressed_def intro!: succeeds_bindE [OF managed] succeeds_ret)
  qed
  with False show ?thesis by (simp add: resolveAddress_def)
qed

subsection \<open>From the rollout to Ready\<close>

definition holdsTrue :: "nomad_cluster \<Rightarrow> string \<Rightarrow> bool" where
  "holdsTrue nc ty \<longleftrightarrow> (case findCondition ty (ct_conditions (nc_status nc)) of
     None \<Rightarrow> False | Some c \<Rightarrow> cn_status c = ConditionTrue)"

lemma cluster_types_differ [simp]:
  "CondReconciled \<noteq> CondExternalAccessReady" "CondReconciled \<noteq> CondQuorumHealthy"
  "CondReconciled \<noteq> CondACLBootstrapped" "CondReconciled \<noteq> CondReady" "CondReconciled \<noteq> CondRaftAddressDrift"
  "CondExternalAccessReady \<noteq> CondQuorumHealthy" "CondExternalAccessReady \<noteq> CondACLBootstrapped"
  "CondExternalAccessReady \<noteq> CondReady" "CondExternalAccessReady \<noteq> CondRaftAddressDrift"
  "CondQuorumHealthy \<noteq> CondACLBootstrapped" "CondQuorumHealthy \<noteq> CondReady" "CondACLBootstrapped \<noteq> CondReady"
  by (simp_all add: CondReconciled_def CondExternalAccessReady_def CondQuorumHealthy_def CondACLBootstrapped_def
      CondReady_def CondRaftAddressDrift_def)

lemma holdsTrue_set [simp]:
  "holdsTrue (setCondition now nc ty st reason msg) ty' \<longleftrightarrow> (if ty' = ty then st = ConditionTrue else holdsTrue nc ty')"
  by (simp add: holdsTrue_def cluster_cond.entry cluster_cond.other newCondition_def)

lemma holdsTrue_status [simp]:
  "holdsTrue (nc\<lparr>nc_status := (nc_status nc)\<lparr>ct_externalAddress := a\<rparr>\<rparr>) ty = holdsTrue nc ty"
  "holdsTrue (nc\<lparr>nc_status := (nc_status nc)\<lparr>ct_leader := a\<rparr>\<rparr>) ty = holdsTrue nc ty"
  "holdsTrue (nc\<lparr>nc_status := (nc_status nc)\<lparr>ct_bootstrapTokenSecretRef := a\<rparr>\<rparr>) ty = holdsTrue nc ty"
  "holdsTrue (nc\<lparr>nc_status := (nc_status nc)\<lparr>ct_gossipKeySecretRef := a\<rparr>\<rparr>) ty = holdsTrue nc ty"
  "holdsTrue (nc\<lparr>nc_status := (nc_status nc)\<lparr>ct_endpoint := a, ct_phase := p\<rparr>\<rparr>) ty = holdsTrue nc ty"
  "holdsTrue (setPhase p nc) ty = holdsTrue nc ty" "holdsTrue (seedBootstrapping nc) ty = holdsTrue nc ty"
  "holdsTrue (observeMembers nc m) ty = holdsTrue nc ty"
  by (simp_all add: holdsTrue_def setPhase_def seedBootstrapping_def observeMembers_def split: sum.split)

text \<open>What a stored cluster says when it is Ready.\<close>

definition reportsReady :: "nomad_cluster \<Rightarrow> bool" where
  "reportsReady nc \<longleftrightarrow> nc_phase nc = PhaseReady \<and> ct_leader (nc_status nc) \<noteq> [] \<and>
     ct_externalAddress (nc_status nc) \<noteq> [] \<and> ct_observedGeneration (nc_status nc) = om_generation (nc_meta nc) \<and>
     list_all (holdsTrue nc) [CondReconciled, CondExternalAccessReady, CondQuorumHealthy, CondACLBootstrapped, CondReady]"

definition storedReady :: "reconcile_result \<Rightarrow> event \<Rightarrow> bool" where
  "storedReady res e \<longleftrightarrow> res = requeueAfter requeueSteady \<and>
     (\<exists>x y. e = EvCluster (SUpdateStatus x (Inr y)) \<and> reportsReady y)"

text \<open>What has been established of the cluster object when the quorum is looked at.\<close>

definition prepared :: "nomad_cluster \<Rightarrow> nomad_cluster \<Rightarrow> bool" where
  "prepared nc0 nc \<longleftrightarrow> alike nc0 nc \<and> ct_externalAddress (nc_status nc) \<noteq> [] \<and>
     ct_observedGeneration (nc_status nc) = om_generation (nc_meta nc) \<and>
     holdsTrue nc CondReconciled \<and> holdsTrue nc CondExternalAccessReady"

lemma observeMembers_status [simp]:
  "ct_leader (nc_status (observeMembers nc m)) = ct_leader (nc_status nc)"
  "ct_observedGeneration (nc_status (observeMembers nc m)) = ct_observedGeneration (nc_status nc)"
  "ct_externalAddress (nc_status (observeMembers nc m)) = ct_externalAddress (nc_status nc)"
  "nc_meta (observeMembers nc m) = nc_meta nc" "nc_spec (observeMembers nc m) = nc_spec nc"
  by (simp_all add: observeMembers_def split: sum.split)

lemma alike_observeMembers [simp]: "alike x (observeMembers y m) = alike x y"
  by (simp add: alike_def)

lemma reportsReady_same:
  "alike x y \<Longrightarrow> nc_status y = nc_status x \<Longrightarrow> reportsReady y = reportsReady x"
  by (simp add: reportsReady_def alike_def holdsTrue_def)

lemma finish_ends:
  assumes "reportsReady nc"
  shows "endsIn (favourable nc0) (finish rc nc (requeueAfter requeueSteady)) storedReady"
  unfolding endsIn_def finish_def kube_calls
  using assms by (auto intro!: wp simp: storedReady_def dest: reportsReady_same split: sum.splits)

lemma becomeReady_ends:
  assumes "prepared nc0 nc" "ct_leader (nc_status nc) \<noteq> []" "holdsTrue nc CondQuorumHealthy"
  shows "endsIn (favourable nc0) (becomeReady rc nc) storedReady"
  unfolding becomeReady_def Let_def
  using assms by (auto intro!: endsIn_withCondition finish_ends simp: reportsReady_def prepared_def)

lemma bootstrap_ends:
  assumes "workable rc (nc_spec nc0)" and "prepared nc0 nc"
  shows "endsIn (favourable nc0) (bootstrapAndReady rc nc) storedReady"
proof -
  have token: "endsIn (favourable nc0) (andThen (ensureBootstrapToken rc nc' ops) (\<lambda>b. case b of
        Inl err \<Rightarrow> k err | Inr _ \<Rightarrow> becomeReady rc nc')) storedReady"
    if "endsIn (favourable nc0) (becomeReady rc nc') storedReady" for nc' ops k
    unfolding endsIn_def
    by (rule meets_andThen [OF ensureBootstrapToken_succeeds [unfolded succeeds_def]])
      (use that in \<open>auto intro: meets_trivial meets_mono simp: endsIn_def\<close>)
  show ?thesis
    unfolding bootstrapAndReady_def Let_def nomadCall_def
    by (rule endsIn_bindE [OF clientFor_succeeds [OF assms(1)]])
      (use assms(2) in \<open>auto intro!: endsIn_andThen_call endsIn_withCondition token becomeReady_ends
         simp: prepared_def split: sum.splits\<close>)
qed

lemma seedBootstrapping_prepared [simp]: "prepared nc0 (seedBootstrapping nc) = prepared nc0 nc"
  by (simp add: prepared_def seedBootstrapping_def setPhase_def holdsTrue_def alike_def)

lemma endsIn_checkAddressDrift:
  assumes "\<And>now st reason msg. endsIn (favourable nc0) (k (setCondition now nc CondRaftAddressDrift st reason msg)) L"
  shows "endsIn (favourable nc0) (checkAddressDrift rc nc prev cur k) L"
  unfolding endsIn_def
proof (rule meets_checkAddressDrift)
  fix now reason msg st evs
  show "meets (k (setCondition now nc CondRaftAddressDrift st reason msg))
    (\<lambda>r es. list_all (favourable nc0) (evs @ es) \<longrightarrow> (\<exists>a. r = Inr a \<and> evs @ es \<noteq> [] \<and> L a (last (evs @ es))))"
    using assms [unfolded endsIn_def] by (rule meets_mono) auto
qed

lemma rollOut_ends:
  assumes "workable rc (nc_spec nc0)" "alike nc0 nc" "addr \<noteq> []" "holdsTrue nc CondReconciled"
    "ct_observedGeneration (nc_status nc) = om_generation (nc_meta nc)"
  shows "endsIn (favourable nc0) (rollOut rc nc addr) storedReady"
proof -
  have stored: "succeeds (favourable nc0) (call (\<lambda>r. EvCluster (SUpdateStatus nc' r)) f) (prepared nc0)"
    if "prepared nc0 nc'" for nc' f
    using that by (auto intro!: succeeds_call simp: prepared_def holdsTrue_def alike_def split: sum.splits)
  have rest: "endsIn (favourable nc0) (bindE (provision rc nc' addr) (\<lambda>_. bootstrapAndReady rc (seedBootstrapping nc'))) storedReady"
    if "prepared nc0 nc'" for nc'
  proof (rule endsIn_bindE [OF provision_succeeds])
    show "workable rc (nc_spec nc')" using assms(1) that by (simp add: prepared_def alike_def)
  qed (use that assms(1) in \<open>simp add: bootstrap_ends\<close>)
  show ?thesis
    unfolding rollOut_def Let_def kube_calls
    by (intro endsIn_withCondition endsIn_checkAddressDrift endsIn_bindE [OF stored rest])
      (use assms in \<open>auto simp: prepared_def\<close>)
qed

lemma reconcileCluster_ends:
  assumes "workable rc (nc_spec nc)"
  shows "endsIn (favourable nc) (reconcileCluster rc nc) storedReady"
proof -
  have address: "endsIn (favourable nc) (bindE (resolveAddress rc nc') (\<lambda>(nc, extAddr, extReady).
        if \<not> extReady then waitForAddress rc nc else rollOut rc nc extAddr)) storedReady"
    if "alike nc nc'" "holdsTrue nc' CondReconciled" "ct_observedGeneration (nc_status nc') = om_generation (nc_meta nc')" for nc'
  proof (rule endsIn_bindE [OF resolveAddress_succeeds])
    show "workable rc (nc_spec nc')" using assms that(1) by (simp add: alike_def)
  qed (use that assms in \<open>auto simp: addressed_def intro!: rollOut_ends\<close>)
  show ?thesis
    unfolding reconcileCluster_def Let_def
    by (intro endsIn_withCondition endsIn_bindE [OF ensureGossipKey_succeeds] endsIn_bindE [OF certSecretReady_succeeds])
      (auto intro!: address)
qed

text \<open>
  C2: in a favourable environment a pass makes progress: when the certificate is complete, an address
  is assigned, Nomad has a leader and accepts the bootstrap (or has it already), and no call fails, a
  pass over an admitted cluster ends without an error, whatever phase and conditions the cluster had,
  and what it stores last is Ready with all five conditions true, the leader, the address and the generation it has seen.
\<close>

theorem cluster_pass_reaches_ready:
  assumes "workable rc (nc_spec nc)"
    and "events_of (ReconcileCluster rc key w) = EvCluster (SGet key (Inr nc)) # es" and "list_all (favourable nc) es"
  shows "result_of (ReconcileCluster rc key w) = Inr (requeueAfter requeueSteady) \<and>
    (\<exists>x y. last es = EvCluster (SUpdateStatus x (Inr y)) \<and> reportsReady y)"
proof -
  have "meets (ReconcileCluster rc key) (\<lambda>r all. all = EvCluster (SGet key (Inr nc)) # es \<and> list_all (favourable nc) es \<longrightarrow>
      (\<exists>res. r = Inr res \<and> storedReady res (last es)))"
    unfolding ReconcileCluster_def kube_calls
  proof (rule meets_andThen_call)
    fix r
    show "meets (case r of Inl err \<Rightarrow> ret (ignoreNotFound err) | Inr nc \<Rightarrow> reconcileCluster rc nc)
      (\<lambda>b all. EvCluster (SGet key r) # all = EvCluster (SGet key (Inr nc)) # es \<and> list_all (favourable nc) es \<longrightarrow>
        (\<exists>res. b = Inr res \<and> storedReady res (last es)))"
      by (cases "r = Inr nc")
        (use reconcileCluster_ends [OF assms(1)] in \<open>auto simp: endsIn_def intro: meets_trivial elim!: meets_mono\<close>)
  qed
  from meetsD [OF this, of w] assms(2,3) show ?thesis by (auto simp: storedReady_def)
qed

subsection \<open>A healthy installation\<close>

text \<open>Procedures all of whose calls are answered favourably, by the way they are composed.\<close>

definition emits :: "(event \<Rightarrow> bool) \<Rightarrow> ('w, 'a) reconciler_proc \<Rightarrow> bool" where
  "emits F p \<longleftrightarrow> (\<forall>w. list_all F (events_of (p w)))"

lemma emits_rules:
  "emits F (ret x)" "emits F (liftE y)"
  "(\<And>w. F (ev (fst (f w)))) \<Longrightarrow> emits F (call ev f)"
  "emits F m \<Longrightarrow> (\<And>a. emits F (k a)) \<Longrightarrow> emits F (andThen m k)"
  "emits F m \<Longrightarrow> (\<And>a. emits F (l a)) \<Longrightarrow> emits F (bindE m l)"
  "(\<And>a. emits F (h a)) \<Longrightarrow> emits F (andThen (observe g) h)"
  "F e \<Longrightarrow> (\<And>u. emits F (j u)) \<Longrightarrow> emits F (andThen (emit e) j)"
  by (auto simp: emits_def ret_run liftE_def call_run andThen_def bindE_def observe_def emit_def
      split: prod.splits sum.splits) (metis events_of_def fst_conv snd_conv)+

lemma emits_forE: "(\<And>i. emits F (body i)) \<Longrightarrow> emits F (forE is body)"
  by (induction "is") (auto intro: emits_rules)

lemma emits_cases:
  "emits F p \<Longrightarrow> emits F q \<Longrightarrow> emits F (if b then p else q)"
  "(\<And>e. emits F (k e)) \<Longrightarrow> (\<And>a. emits F (l a)) \<Longrightarrow> emits F (case r of Inl e \<Rightarrow> k e | Inr a \<Rightarrow> l a)"
  "emits F p \<Longrightarrow> (\<And>x. emits F (h x)) \<Longrightarrow> emits F (case v of None \<Rightarrow> p | Some x \<Rightarrow> h x)"
  "(\<And>x y. emits F (j x y)) \<Longrightarrow> emits F (case z of (x, y) \<Rightarrow> j x y)"
  by (simp_all split: sum.split option.split prod.split)

definition healthyOps :: "unit NomadOps" where
  "healthyOps = \<lparr>op_Leader = (\<lambda>w. (Inr ''10.0.0.1:4647'', w)), op_ACLBootstrap = (\<lambda>t w. (Inr t, w)),
     op_ServerHealth = (\<lambda>w. (Inr [], w))\<rparr>"

definition healthyGateway :: gateway where
  "healthyGateway = \<lparr>gw_meta = newMeta ''prod'' ''nomad'' [], gw_className = ''envoy'', gw_listeners = [],
     gw_addresses = [''203.0.113.7'']\<rparr>"

definition healthyService :: service where
  "healthyService = (buildLoadBalancerService sampleCluster)\<lparr>sv_ingress := [(''203.0.113.7'', [])]\<rparr>"

definition healthyReconciler :: "unit cluster_reconciler" where
  "healthyReconciler = \<lparr>rc_platform = samplePlatform\<lparr>pf_clusters := fixedStore sampleCluster, pf_gateways := fixedStore healthyGateway,
       pf_services := fixedStore healthyService\<rparr>,
     rc_newNomadClient = (\<lambda>_. Inr healthyOps), rc_recorder = True, rc_parseQuantity = Some\<rparr>"

lemma healthy_workable: "workable healthyReconciler (nc_spec sampleCluster)"
  by (simp add: workable_def sampleCluster_admitted healthyReconciler_def samplePlatform_def sampleToolkit_def)

lemma healthy_apply: "emits (favourable sampleCluster) (applyObject healthyReconciler nc obj)"
  unfolding applyObject_def Let_def
  by (intro emits_rules) (simp add: healthyReconciler_def samplePlatform_def)

lemmas healthy_calls = healthyReconciler_def samplePlatform_def fixedStore_def sampleSecret_def healthyOps_def
  healthyGateway_def servesAddress_def gatewayOf_def sampleCluster_def firstAddress_def certKeys_def mapGetOr_def

lemma healthy_client: "bindE (clientFor healthyReconciler nc) k =
    bindE (clusterNomadConfig (rc_platform healthyReconciler) nc) (\<lambda>_. k healthyOps)"
  by (simp add: clientFor_def bindE_assoc) (simp add: healthyReconciler_def)

lemmas healthy_intros = emits_rules emits_cases emits_forE healthy_apply

lemma healthy_security:
  "emits (favourable sampleCluster) (ensureGossipKey healthyReconciler nc)"
  "emits (favourable sampleCluster) (certSecretReady healthyReconciler nc)"
  "emits (favourable sampleCluster) (clusterNomadConfig (rc_platform healthyReconciler) nc)"
  "emits (favourable sampleCluster) (ensureBootstrapToken healthyReconciler nc healthyOps)"
  unfolding ensureGossipKey_def certSecretReady_def clusterNomadConfig_def ensureBootstrapToken_def obtainTokenSecret_def
    newBootstrapToken_def wrapped_def randRead_def kube_calls Let_def
  by (intro healthy_intros; simp add: healthy_calls)+

lemma healthy_rest:
  "emits (favourable sampleCluster) (provision healthyReconciler nc addr)"
  "emits (favourable sampleCluster) (finish healthyReconciler nc res)"
  "emits (favourable sampleCluster) (resolveAddress healthyReconciler nc)"
  unfolding provision_def applyRoutes_def applyBuilt_def finish_def resolveAddress_def ensureLoadBalancer_def
    ensureGateway_def ensureManagedGateway_def ensureExistingGateway_def setNotReady_def withCondition_def kube_calls Let_def
  by (intro healthy_intros; simp add: healthy_calls healthyService_def)+

lemma healthy_pass: "emits (favourable sampleCluster) (reconcileCluster healthyReconciler nc)"
  unfolding reconcileCluster_def rollOut_def checkAddressDrift_def waitForCert_def waitForAddress_def bootstrapAndReady_def
    noLeader_def becomeReady_def withCondition_def healthy_client Let_def kube_calls
  by (intro healthy_intros healthy_security healthy_rest; simp add: healthy_calls)+

theorem cluster_pass_reaches_ready_witness:
  "\<exists>x y. last (events_of (ReconcileCluster healthyReconciler (objectKey ''nomad'' ''prod'') ())) =
     EvCluster (SUpdateStatus x (Inr y)) \<and> reportsReady y"
proof -
  let ?key = "objectKey ''nomad'' ''prod''" and ?rest = "events_of (reconcileCluster healthyReconciler sampleCluster ())"
  have pass: "events_of (ReconcileCluster healthyReconciler ?key ()) = EvCluster (SGet ?key (Inr sampleCluster)) # ?rest"
    by (simp add: ReconcileCluster_def healthyReconciler_def fixedStore_def kGet_def andThen_def call_run split: prod.split)
  have good: "list_all (favourable sampleCluster) ?rest"
    using healthy_pass by (simp add: emits_def)
  from cluster_pass_reaches_ready [OF healthy_workable pass good]
  obtain x y where "last ?rest = EvCluster (SUpdateStatus x (Inr y))" "reportsReady y" by blast
  moreover have "?rest \<noteq> []"
    using meetsD [OF reconcileCluster_ends [OF healthy_workable, unfolded endsIn_def], of "()"] good by auto
  ultimately show ?thesis by (auto simp: pass)
qed

end
