(* ===== verification/ClusterVerdict.thy ===== *)
theory ClusterVerdict
  imports ClusterReady
begin

section \<open>Where a pass over a cluster stopped, and what the stored status says of it\<close>

text \<open>
  A pass that returns no error ends with a status the API server stored. Its requeue time and its
  conditions tell where the pass stopped: ready, held back before the rollout, without a leader, or
  without a bootstrapped ACL system.
\<close>

definition holdsFalse :: "nomad_cluster \<Rightarrow> string \<Rightarrow> bool" where
  "holdsFalse nc ty \<longleftrightarrow> (case findCondition ty (ct_conditions (nc_status nc)) of
     None \<Rightarrow> False | Some c \<Rightarrow> cn_status c = ConditionFalse)"

lemma holdsFalse_set [simp]:
  "holdsFalse (setCondition now nc ty st reason msg) ty' \<longleftrightarrow> (if ty' = ty then st = ConditionFalse else holdsFalse nc ty')"
  by (simp add: holdsFalse_def cluster_cond.entry cluster_cond.other newCondition_def)

lemma holdsFalse_setPhase [simp]: "holdsFalse (setPhase p nc) ty = holdsFalse nc ty"
  by (simp add: holdsFalse_def setPhase_def)

text \<open>
  Held back: nothing was rolled out; a provisioned cluster keeps its phase and says nothing new, another one
  is Pending with the reason as a false condition.
\<close>

definition heldBack :: "string \<Rightarrow> event list \<Rightarrow> nomad_cluster \<Rightarrow> bool" where
  "heldBack p es x \<longleftrightarrow> quiet rollsOut es \<and>
     (if provisionedPhase p then nc_phase x = p
      else nc_phase x = PhasePending \<and> (holdsFalse x CondReady \<or> holdsFalse x CondExternalAccessReady))"

definition clusterVerdict :: "string \<Rightarrow> event list \<Rightarrow> reconcile_result \<Rightarrow> nomad_cluster \<Rightarrow> bool" where
  "clusterVerdict p es res x \<longleftrightarrow>
     (if res = requeueAfter requeueSteady
      then nc_phase x = PhaseReady \<and> list_all (holdsTrue x) [CondQuorumHealthy, CondACLBootstrapped, CondReady] \<and>
        some_call electedLeader es \<and> some_call bootstrapAccepted es
      else res = requeueAfter requeueShort \<and>
        (heldBack p es x \<or>
         some_call leaderMissing es \<and> holdsFalse x CondQuorumHealthy \<and> nc_phase x \<noteq> PhaseReady \<or>
         some_call electedLeader es \<and> holdsTrue x CondQuorumHealthy \<and> holdsFalse x CondACLBootstrapped))"

subsection \<open>Procedures that conclude with a verdict\<close>

definition concludes ::
    "(event list \<Rightarrow> reconcile_result \<Rightarrow> nomad_cluster \<Rightarrow> bool) \<Rightarrow> ('w, reconcile_result) reconciler_proc \<Rightarrow> bool" where
  "concludes V p \<longleftrightarrow> meets p (\<lambda>r es. case r of
     Inl _ \<Rightarrow> True
   | Inr res \<Rightarrow> es \<noteq> [] \<and> (\<exists>x y. last es = EvCluster (SUpdateStatus x (Inr y)) \<and> V es res x))"

lemma concludes_after:
  assumes "concludes (\<lambda>es'. V (es @ es')) p"
  shows "meets p (\<lambda>r es'. case r of
     Inl _ \<Rightarrow> True
   | Inr res \<Rightarrow> es @ es' \<noteq> [] \<and> (\<exists>x y. last (es @ es') = EvCluster (SUpdateStatus x (Inr y)) \<and> V (es @ es') res x))"
  using assms unfolding concludes_def by (rule meets_mono) (auto split: sum.splits)

lemma concludes_bindE:
  assumes "meets m R" and "\<And>a es. R (Inr a) es \<Longrightarrow> concludes (\<lambda>es'. V (es @ es')) (f a)"
  shows "concludes V (bindE m f)"
  unfolding concludes_def by (rule meets_bindE [OF assms(1)]) (simp_all add: concludes_after [OF assms(2)])

lemma concludes_andThen:
  assumes "meets m R" and "\<And>a es. R a es \<Longrightarrow> concludes (\<lambda>es'. V (es @ es')) (f a)"
  shows "concludes V (andThen m f)"
  unfolding concludes_def by (rule meets_andThen [OF assms(1)]) (rule concludes_after [OF assms(2)])

lemma concludes_withCondition:
  "(\<And>now. concludes V (k (setCondition now nc ty st reason msg))) \<Longrightarrow> concludes V (withCondition rc nc ty st reason msg k)"
  unfolding concludes_def by (rule meets_withCondition)

lemma concludes_drift:
  assumes "\<And>now st reason msg es. onChannels {ChRecord} es \<Longrightarrow>
    concludes (\<lambda>es'. V (es @ es')) (k (setCondition now nc CondRaftAddressDrift st reason msg))"
  shows "concludes V (checkAddressDrift rc nc prev cur k)"
  unfolding concludes_def by (rule meets_checkAddressDrift) (rule concludes_after [OF assms])

lemma concludes_finish:
  "(\<And>y. V [EvCluster (SUpdateStatus nc (Inr y))] res nc) \<Longrightarrow> concludes V (finish rc nc res)"
  unfolding concludes_def finish_def kube_calls by (auto intro!: wp split: sum.splits)

lemma requeue_times [simp]: "requeueAfter requeueShort \<noteq> requeueAfter requeueSteady"
  by (simp add: requeueAfter_def requeueShort_def requeueSteady_def second_def)

lemma waitForCert_concludes:
  "nc_phase nc = p \<Longrightarrow> quiet rollsOut es \<Longrightarrow> concludes (\<lambda>es'. clusterVerdict p (es @ es')) (waitForCert rc nc)"
  unfolding waitForCert_def
  by (auto intro!: concludes_withCondition concludes_finish simp: clusterVerdict_def heldBack_def trace_simps)

lemma meets_conj: "meets p Q \<Longrightarrow> meets p R \<Longrightarrow> meets p (\<lambda>r es. Q r es \<and> R r es)"
  by (simp add: meets_def)

text \<open>In Existing mode the address step itself says why there is no address.\<close>

definition noAddressSaid :: "nomad_cluster \<Rightarrow> nomad_cluster \<times> string \<times> bool \<Rightarrow> bool" where
  "noAddressSaid nc a \<longleftrightarrow> (case a of (nc', _, ready) \<Rightarrow>
     \<not> ready \<and> \<not> provisionedPhase (nc_phase nc) \<and> existingMode nc = Inr True \<longrightarrow> holdsFalse nc' CondExternalAccessReady)"

lemma resolveAddress_says: "meets (resolveAddress rc nc) (\<lambda>r es. \<forall>a. r = Inr a \<longrightarrow> noAddressSaid nc a)"
  unfolding resolveAddress_def ensureLoadBalancer_def ensureGateway_def ensureManagedGateway_def ensureExistingGateway_def
    setNotReady_def kube_calls Let_def
  by (auto intro!: wp meets_withCondition meets_trivial [where p = "applyObject a b c" for a b c]
      simp: noAddressSaid_def existingMode_def split: sum.splits option.splits if_splits)

lemma waitForAddress_concludes:
  assumes "nc_phase nc = p" "quiet rollsOut es"
    and "\<not> provisionedPhase p \<Longrightarrow> existingMode nc = Inr True \<Longrightarrow> holdsFalse nc CondExternalAccessReady"
  shows "concludes (\<lambda>es'. clusterVerdict p (es @ es')) (waitForAddress rc nc)"
proof (cases "provisionedPhase p")
  case True
  then show ?thesis
    unfolding waitForAddress_def
    using assms by (auto intro!: concludes_finish simp: clusterVerdict_def heldBack_def trace_simps)
next
  case False
  have same: "existingMode (setPhase PhasePending nc) = existingMode nc"
    by (simp add: existingMode_def gatewayOf_def setPhase_def)
  have none: "meets (liftE r) (\<lambda>r' es. r' = r \<and> es = [])" for r :: "error + bool"
    by (simp add: meets_liftE)
  show ?thesis
    unfolding waitForAddress_def Let_def same
    using assms False
    by (auto intro!: concludes_bindE [OF none] concludes_withCondition concludes_finish
        simp: clusterVerdict_def heldBack_def trace_simps same)
qed

lemma bootstrap_concludes: "concludes (\<lambda>es'. clusterVerdict p (es @ es')) (bootstrapAndReady rc nc)"
proof -
  have call: "meets (nomadCall ev f) (\<lambda>r es. es = [EvNomad (ev r)])" for ev f
    unfolding nomadCall_def by (rule meets_call) simp
  have lost: "concludes (\<lambda>es'. clusterVerdict p (f es')) (noLeader rc nc')" if "\<And>es'. some_call leaderMissing (f es')" for f nc'
    unfolding noLeader_def using that
    by (auto intro!: concludes_withCondition concludes_finish simp: clusterVerdict_def)
  have token: "concludes (\<lambda>es'. clusterVerdict p (f es')) (andThen (ensureBootstrapToken rc nc' ops) (\<lambda>b. case b of
        Inl err \<Rightarrow> withCondition rc nc' CondACLBootstrapped ConditionFalse ''BootstrapFailed'' (errorText err)
                          (\<lambda>nc. finish rc nc (requeueAfter requeueShort))
      | Inr _ \<Rightarrow> becomeReady rc nc'))"
    if "\<And>es'. some_call electedLeader (f es')" "holdsTrue nc' CondQuorumHealthy"
      "\<And>es'. some_call bootstrapAccepted es' \<Longrightarrow> some_call bootstrapAccepted (f es')" for f nc' ops
    unfolding becomeReady_def Let_def using that
    by (auto intro!: concludes_andThen [OF ensureBootstrapToken_spec] concludes_withCondition concludes_finish
        simp: clusterVerdict_def some_call_append split: sum.splits)
  show ?thesis
    unfolding bootstrapAndReady_def Let_def
    by (auto intro!: concludes_bindE [OF clientFor_spec] concludes_andThen [OF call] concludes_withCondition lost token
        simp: trace_simps split: sum.splits)
qed

lemma rollOut_concludes: "concludes (\<lambda>es'. clusterVerdict p (es @ es')) (rollOut rc nc addr)"
proof -
  have stored: "meets (kUpdateStatus EvCluster st x) (\<lambda>r es. True)" for st x
    by (rule meets_trivial) simp
  have any: "meets (provision rc x addr) (\<lambda>r es. True)" for x
    by (rule meets_trivial) simp
  show ?thesis
    unfolding rollOut_def Let_def
    by (intro concludes_withCondition concludes_drift concludes_bindE [OF stored] concludes_bindE [OF any])
      (use bootstrap_concludes [where es = "es @ es1 @ es2 @ es3" for es1 es2 es3] in simp)
qed

lemma reconcileCluster_concludes: "concludes (clusterVerdict (nc_phase nc)) (reconcileCluster rc nc)"
proof -
  let ?V = "clusterVerdict (nc_phase nc)"
  have address: "concludes (\<lambda>es'. ?V (es @ es')) (bindE (resolveAddress rc nc') (\<lambda>(nc, extAddr, extReady).
        if \<not> extReady then waitForAddress rc nc else rollOut rc nc extAddr))"
    if "nc_phase nc' = nc_phase nc" "quiet rollsOut es" for nc' es
  proof (rule concludes_bindE [OF meets_conj [OF resolveAddress_spec resolveAddress_says]])
    fix a es'
    assume step: "addressStep nc' (Inr a) es' \<and> (\<forall>b. Inr a = Inr b \<longrightarrow> noAddressSaid nc' b)"
    obtain x addr ready where a: "a = (x, addr, ready)" by (cases a)
    have "quiet rollsOut es'" using step by (auto intro: quiet_rollsOut(4))
    then have same: "nc_phase x = nc_phase nc" "existingMode x = existingMode nc'" and idle: "quiet rollsOut (es @ es')"
      using step that by (auto simp: a addressStep_def sameCluster_def existingMode_def gatewayOf_def quiet_append)
    show "concludes (\<lambda>es''. ?V (es @ es' @ es'')) (case a of (nc, extAddr, extReady) \<Rightarrow>
        if \<not> extReady then waitForAddress rc nc else rollOut rc nc extAddr)"
    proof (cases ready)
      case True
      then show ?thesis
        using rollOut_concludes [of "nc_phase nc" "es @ es'" rc x addr] by (simp add: a)
    next
      case False
      have "concludes (\<lambda>es''. ?V ((es @ es') @ es'')) (waitForAddress rc x)"
        by (rule waitForAddress_concludes [OF same(1) idle]) (use step False same that in \<open>simp add: a noAddressSaid_def\<close>)
      with False show ?thesis by (simp add: a)
    qed
  qed
  have gate: "concludes (\<lambda>es'. ?V (es @ es')) (bindE (certSecretReady rc nc') (\<lambda>certReady.
      if \<not> certReady then waitForCert rc nc' else bindE (resolveAddress rc nc') (\<lambda>(nc, extAddr, extReady).
        if \<not> extReady then waitForAddress rc nc else rollOut rc nc extAddr)))"
    if "nc_phase nc' = nc_phase nc" "quiet rollsOut es" for nc' es
  proof (rule concludes_bindE [OF certSecretReady_spec])
    fix a es'
    assume "onChannels {ChSecret} es' \<and> quiet secretWrite es' \<and> (Inr a = Inr True \<longrightarrow> (\<exists>s.
       es' = [EvSecret (SGet (objectKey (nc_namespace nc') (ts_certSecretRef (cs_tls (nc_spec nc')))) (Inr s))] \<and>
       list_all (\<lambda>k. length (mapGetOr [] (se_data s) k) \<noteq> 0) certKeys))"
    then have idle: "quiet rollsOut (es @ es')" using that(2) by (auto simp: quiet_append)
    show "concludes (\<lambda>es''. ?V (es @ es' @ es'')) (if \<not> a then waitForCert rc nc'
        else bindE (resolveAddress rc nc') (\<lambda>(nc, extAddr, extReady).
          if \<not> extReady then waitForAddress rc nc else rollOut rc nc extAddr))"
      using waitForCert_concludes [OF that(1) idle, of rc] address [OF that(1) idle] by simp
  qed
  show ?thesis
    unfolding reconcileCluster_def Let_def
    by (rule concludes_withCondition, rule concludes_bindE [OF ensureGossipKey_spec]) (rule gate, auto)
qed

text \<open>
  C4: a pass over a cluster that returns no error says with the status it stored last where it stopped:
  repeated after a minute, it is Ready with a leader seen and a bootstrap accepted in this pass; repeated after
  15 seconds, either nothing was rolled out and an unprovisioned cluster is Pending with a false condition (a
  provisioned one keeps its phase), or there was no leader and the quorum condition is false, or the
  bootstrap failed and its condition is false.
\<close>

theorem cluster_pass_explains:
  "case (result_of (ReconcileCluster rc key w), events_of (ReconcileCluster rc key w)) of
     (Inr res, EvCluster (SGet _ (Inr nc)) # es) \<Rightarrow>
       es \<noteq> [] \<and> (\<exists>x y. last es = EvCluster (SUpdateStatus x (Inr y)) \<and> clusterVerdict (nc_phase nc) es res x)
   | _ \<Rightarrow> True"
proof -
  have "meets (ReconcileCluster rc key) (\<lambda>r es. case (r, es) of
     (Inr res, EvCluster (SGet _ (Inr nc)) # es) \<Rightarrow>
       es \<noteq> [] \<and> (\<exists>x y. last es = EvCluster (SUpdateStatus x (Inr y)) \<and> clusterVerdict (nc_phase nc) es res x)
   | _ \<Rightarrow> True)"
    unfolding ReconcileCluster_def kube_calls
    by (rule meets_andThen_call)
      (auto intro!: meets_ret reconcileCluster_concludes [unfolded concludes_def, THEN meets_mono] split: sum.splits)
  then show ?thesis by (rule meetsD)
qed

end
