(* ===== verification/ClusterHistory.thy ===== *)
theory ClusterHistory
  imports ClusterSpec Converge
begin

section \<open>The phase of a cluster over many passes, stale reads and lost answers\<close>

text \<open>
  The phase machine judges the writes of one pass against what that pass has read. The API server keeps
  versions: a write is stored only if it carries the resource version of the object as it is. So a
  pass that worked on a stale copy cannot move the phase back, whoever else edits the object in between and
  whichever answers get lost.
\<close>

subsection \<open>A pass writes back the object it read\<close>

fun observedMeta :: "event \<Rightarrow> object_meta option" where
  "observedMeta (EvCluster (SGet _ (Inr nc))) = Some (nc_meta nc)"
| "observedMeta (EvCluster (SUpdateStatus _ (Inr nc))) = Some (nc_meta nc)"
| "observedMeta _ = None"

primrec metaScan :: "object_meta \<Rightarrow> event list \<Rightarrow> bool" where
  "metaScan m [] \<longleftrightarrow> True"
| "metaScan m (e # es) \<longleftrightarrow>
     (case statusWrite e of None \<Rightarrow> True | Some nc \<Rightarrow> nc_meta nc = m) \<and>
     metaScan (case observedMeta e of None \<Rightarrow> m | Some m' \<Rightarrow> m') es"

lemma metaScan_append_off [simp]: "offCluster es \<Longrightarrow> metaScan m (es @ es') \<longleftrightarrow> metaScan m es'"
proof (induction es)
  case (Cons e es)
  have "statusWrite e = None \<and> observedMeta e = None"
    using Cons.prems by (cases e rule: channelOf.cases) (simp_all add: offCluster_def quiet_def)
  with Cons show ?case by (simp add: offCluster_def quiet_def)
qed simp

lemma metaScan_off [simp]: "offCluster es \<Longrightarrow> metaScan m es"
  using metaScan_append_off [of es m "[]"] by simp

lemma kept_meta [simp]: "nc_meta (setPhase p nc) = nc_meta nc" "nc_meta (observeMembers nc r) = nc_meta nc"
  "nc_meta (seedBootstrapping nc) = nc_meta nc"
  by (simp_all add: setPhase_def observeMembers_def seedBootstrapping_def split: sum.split)

lemma bootstrap_meta: "nc_meta nc = m \<Longrightarrow> meets (bootstrapAndReady rc nc) (\<lambda>r es. metaScan m es)"
  unfolding bootstrapAndReady_def
  by (rule meets_bindE [OF clientFor_spec])
    (auto intro!: wp meets_withCondition ensureBootstrapToken_wp split: sum.splits
      simp: noLeader_def becomeReady_def finish_def kube_calls Let_def)

lemma rollOut_meta: "meets (rollOut rc nc addr) (\<lambda>r es. metaScan (nc_meta nc) es)"
proof -
  have boot: "meets (bootstrapAndReady rc (seedBootstrapping nc')) (\<lambda>r es. metaScan (nc_meta nc') es)" for nc'
    by (rule bootstrap_meta) simp
  show ?thesis
    unfolding rollOut_def Let_def kube_calls
    by (auto intro!: wp meets_withCondition meets_checkAddressDrift clusterStep_wp boot [THEN meets_mono] split: sum.splits)
qed

lemma wait_meta:
  "nc_meta nc = m \<Longrightarrow> meets (waitForCert rc nc) (\<lambda>r es. metaScan m es)"
  "nc_meta nc = m \<Longrightarrow> meets (waitForAddress rc nc) (\<lambda>r es. metaScan m es)"
  unfolding waitForCert_def waitForAddress_def finish_def kube_calls Let_def
  by (auto intro!: wp meets_withCondition split: sum.splits)

lemma reconcileCluster_meta:
  assumes "nc_meta nc = m"
  shows "meets (reconcileCluster rc nc) (\<lambda>r es. metaScan m es)"
proof -
  have tail: "meets (bindE (resolveAddress rc nc1) (\<lambda>(nc, extAddr, extReady).
      if \<not> extReady then waitForAddress rc nc else rollOut rc nc extAddr)) (\<lambda>r es. metaScan m es)"
    if "nc_meta nc1 = m" for nc1
    by (rule meets_bindE [OF resolveAddress_spec])
      (auto simp: that addressStep_def sameCluster_def intro!: meets_case_prod meets_if wait_meta rollOut_meta [THEN meets_mono])
  have gate: "meets (bindE (certSecretReady rc nc1) (\<lambda>certReady. if \<not> certReady then waitForCert rc nc1
      else bindE (resolveAddress rc nc1) (\<lambda>(nc, extAddr, extReady).
        if \<not> extReady then waitForAddress rc nc else rollOut rc nc extAddr)))
      (\<lambda>r es. metaScan m es)" if "nc_meta nc1 = m" for nc1
    by (rule meets_bindE [OF certSecretReady_spec]) (auto simp: that intro!: meets_if wait_meta tail)
  show ?thesis
    unfolding reconcileCluster_def Let_def
    by (rule meets_withCondition, rule meets_bindE [OF ensureGossipKey_spec], simp, simp, rule gate) (simp add: assms)
qed

subsection \<open>The versions the API server keeps\<close>

text \<open>The versions of one object, the newest first, with the phase each has.\<close>

type_synonym history = "(string \<times> string) list"

text \<open>Others edit the object: new versions with the phase as it was.\<close>

definition edited :: "history \<Rightarrow> history \<Rightarrow> bool" where
  "edited h g \<longleftrightarrow> (\<exists>vs. g = map (\<lambda>v. (v, snd (hd h))) vs @ h \<and> distinct (map fst g))"

definition stores :: "history \<Rightarrow> nomad_cluster \<Rightarrow> history \<Rightarrow> bool" where
  "stores h x g \<longleftrightarrow> om_resourceVersion (nc_meta x) = fst (hd h) \<and>
     (\<exists>v. v \<notin> fst ` set h \<and> g = (v, nc_phase x) # h)"

text \<open>A read shows any version, old ones too; a write whose answer is an error may have been stored.\<close>

fun answers :: "history \<Rightarrow> event \<Rightarrow> history \<Rightarrow> bool" where
  "answers h (EvCluster (SGet _ (Inr nc))) g \<longleftrightarrow>
     g = h \<and> (om_resourceVersion (nc_meta nc), nc_phase nc) \<in> set h"
| "answers h (EvCluster (SUpdateStatus x r)) g \<longleftrightarrow> (case r of
     Inl _ \<Rightarrow> g = h \<or> stores h x g
   | Inr y \<Rightarrow> stores h x g \<and> om_resourceVersion (nc_meta y) = fst (hd g) \<and> nc_phase y = nc_phase x)"
| "answers h _ g \<longleftrightarrow> g = h"

definition versionServer :: "history \<Rightarrow> event \<Rightarrow> history \<Rightarrow> bool" where
  "versionServer h e h' \<longleftrightarrow> (\<exists>g. edited h g \<and> answers g e h')"

text \<open>Every version has a phase the machine can reach from that of the version before.\<close>

definition lawful :: "history \<Rightarrow> bool" where
  "lawful h \<longleftrightarrow> h \<noteq> [] \<and> distinct (map fst h) \<and> successively (\<lambda>new old. phaseMove (snd old) (snd new)) h"

lemma phaseMove_refl [simp]: "phaseMove p p"
  by (simp add: phaseMove_def)

lemma lawful_edited: "lawful h \<Longrightarrow> edited h g \<Longrightarrow> lawful g \<and> suffix h g"
proof -
  assume h: "lawful h" "edited h g"
  then obtain vs where g: "g = map (\<lambda>v. (v, snd (hd h))) vs @ h" and "distinct (map fst g)" by (auto simp: edited_def)
  moreover have "successively (\<lambda>new old. phaseMove (snd old) (snd new)) (map (\<lambda>v. (v, snd (hd h))) vs @ h)"
    using h(1) by (induction vs) (auto simp: lawful_def successively_Cons hd_append hd_map)
  ultimately show ?thesis using h(1) by (simp add: lawful_def suffix_def)
qed

lemma lawful_stores:
  assumes "lawful h" "stores h x g" "(om_resourceVersion (nc_meta x), p) \<in> set h" "phaseMove p (nc_phase x)"
  shows "lawful g \<and> suffix h g"
proof -
  obtain v q rest where h: "h = (v, q) # rest" using assms(1) by (cases h) (auto simp: lawful_def)
  have "p = q" using assms(1-3) by (auto simp: h lawful_def stores_def image_iff dest: bspec)
  then show ?thesis using assms by (auto simp: h stores_def lawful_def suffix_def)
qed

subsection \<open>Passes over a history\<close>

lemma edited_set: "edited h g \<Longrightarrow> set h \<subseteq> set g"
  by (auto simp: edited_def)

lemma scan_keeps:
  assumes "path versionServer h es h'" "lawful h" "phaseScan phaseRule p past es" "metaScan m es"
    and "(om_resourceVersion m, p) \<in> set h"
  shows "lawful h' \<and> suffix h h'"
  using assms
proof (induction es arbitrary: h p past m)
  case Nil
  then show ?case by simp
next
  case (Cons e es)
  from Cons.prems(1) obtain h1 where step: "versionServer h e h1" and rest: "path versionServer h1 es h'" by auto
  from step obtain g where g: "edited h g" "answers g e h1" by (auto simp: versionServer_def)
  have lg: "lawful g" "suffix h g" using lawful_edited [OF Cons.prems(2) g(1)] by auto
  have seen: "(om_resourceVersion m, p) \<in> set g" using Cons.prems(5) edited_set [OF g(1)] by auto
  let ?p = "case observedPhase e of None \<Rightarrow> p | Some q \<Rightarrow> q" and ?m = "case observedMeta e of None \<Rightarrow> m | Some m' \<Rightarrow> m'"
  have "lawful h1 \<and> suffix g h1 \<and> (om_resourceVersion ?m, ?p) \<in> set h1"
  proof (cases "statusWrite e")
    case None
    then have "h1 = g \<and> (om_resourceVersion ?m, ?p) \<in> set g"
      using g(2) seen by (cases "(g, e, h1)" rule: answers.cases) auto
    then show ?thesis using lg by simp
  next
    case (Some x)
    then obtain r where e: "e = EvCluster (SUpdateStatus x r)" by (cases e rule: statusWrite.cases) auto
    have x: "nc_meta x = m" "phaseMove p (nc_phase x)"
      using Cons.prems(3,4) by (simp_all add: e phaseRule_def)
    have new: "stores g x h1 \<Longrightarrow> lawful h1 \<and> suffix g h1"
      using lawful_stores [OF lg(1)] seen x by simp
    show ?thesis
    proof (cases r)
      case (Inl err)
      with g(2) seen new lg show ?thesis by (auto simp: e dest: set_mono_suffix)
    next
      case (Inr y)
      then have "stores g x h1" and y: "om_resourceVersion (nc_meta y) = fst (hd h1)" "nc_phase y = nc_phase x"
        using g(2) by (simp_all add: e)
      then have "(om_resourceVersion (nc_meta y), nc_phase y) \<in> set h1" by (auto simp: stores_def)
      with new [OF \<open>stores g x h1\<close>] show ?thesis by (simp add: e Inr)
    qed
  qed
  then have h1: "lawful h1" "suffix g h1" "(om_resourceVersion ?m, ?p) \<in> set h1" by auto
  have "lawful h' \<and> suffix h1 h'"
    by (rule Cons.IH [OF rest h1(1) _ _ h1(3), of "past @ [e]"]) (use Cons.prems(3,4) in auto)
  with h1(2) lg(2) show ?case by (auto intro: suffix_order.trans)
qed

lemma pass_scans:
  "meets (ReconcileCluster rc key) (\<lambda>r es. \<exists>ans rest. es = EvCluster (SGet key ans) # rest \<and> (case ans of
     Inl _ \<Rightarrow> rest = []
   | Inr nc \<Rightarrow> phaseScan phaseRule (nc_phase nc) [] rest \<and> metaScan (nc_meta nc) rest))"
  unfolding ReconcileCluster_def kube_calls
proof (rule meets_andThen_call)
  fix r
  show "meets (case r of Inl err \<Rightarrow> ret (ignoreNotFound err) | Inr nc \<Rightarrow> reconcileCluster rc nc)
    (\<lambda>b es. \<exists>ans rest. EvCluster (SGet key r) # es = EvCluster (SGet key ans) # rest \<and> (case ans of
       Inl _ \<Rightarrow> rest = []
     | Inr nc \<Rightarrow> phaseScan phaseRule (nc_phase nc) [] rest \<and> metaScan (nc_meta nc) rest))"
  proof (cases r)
    case (Inr nc)
    have "meets (reconcileCluster rc nc) (\<lambda>r es. phaseScan phaseRule (nc_phase nc) [] es)"
      "meets (reconcileCluster rc nc) (\<lambda>r es. metaScan (nc_meta nc) es)"
      by (rule reconcileCluster_phase reconcileCluster_meta, rule refl)+
    then show ?thesis by (simp add: Inr meets_def)
  qed (auto intro: meets_ret)
qed

lemma pass_keeps:
  assumes "path versionServer h (events_of (ReconcileCluster rc key w)) h'" "lawful h"
  shows "lawful h' \<and> suffix h h'"
proof -
  obtain ans rest where es: "events_of (ReconcileCluster rc key w) = EvCluster (SGet key ans) # rest"
    and scans: "case ans of Inl _ \<Rightarrow> rest = [] | Inr nc \<Rightarrow> phaseScan phaseRule (nc_phase nc) [] rest \<and> metaScan (nc_meta nc) rest"
    using meetsD [OF pass_scans, of rc key w] by blast
  from assms(1) obtain h1 where step: "versionServer h (EvCluster (SGet key ans)) h1" and rest: "path versionServer h1 rest h'"
    by (auto simp: es)
  from step obtain g where g: "edited h g" "answers g (EvCluster (SGet key ans)) h1" by (auto simp: versionServer_def)
  have lg: "lawful g" "suffix h g" using lawful_edited [OF assms(2) g(1)] by auto
  show ?thesis
  proof (cases ans)
    case (Inl err)
    with scans rest g(2) lg show ?thesis by simp
  next
    case (Inr nc)
    with scans rest g(2) scan_keeps [of g rest h' "nc_phase nc" "[]" "nc_meta nc"] lg show ?thesis
      by (auto intro: suffix_order.trans)
  qed
qed

text \<open>Once provisioned, always provisioned.\<close>

lemma phaseMove_provisioned: "phaseMove p q \<Longrightarrow> provisionedPhase p \<Longrightarrow> provisionedPhase q"
  by (auto simp: phaseMove_def provisionedPhase_def)

lemma lawful_provisioned:
  "lawful h \<Longrightarrow> i \<le> j \<Longrightarrow> j < length h \<Longrightarrow> provisionedPhase (snd (h ! j)) \<Longrightarrow> provisionedPhase (snd (h ! i))"
proof (induction "j - i" arbitrary: i)
  case (Suc k)
  then have "provisionedPhase (snd (h ! Suc i))" by simp
  moreover have "phaseMove (snd (h ! Suc i)) (snd (h ! i))"
    using Suc.prems Suc.hyps(2) by (auto simp: lawful_def successively_conv_nth)
  ultimately show ?case by (rule phaseMove_provisioned [rotated])
qed simp

lemma runs_keep:
  assumes "runs versionServer (\<lambda>es. \<exists>key w. es = events_of (ReconcileCluster rc key w)) h es h'" and "lawful h"
  shows "lawful h' \<and> suffix h h'"
  using assms
proof (induction rule: runs.induct)
  case (pass h es g es' h')
  from pass.hyps(2) obtain key w where "es' = events_of (ReconcileCluster rc key w)" by blast
  with pass.hyps(3) pass.IH pass.prems pass_keeps [of g rc key w h'] show ?case
    by (auto intro: suffix_order.trans)
qed simp

text \<open>
  C3: over any number of passes, with reads that show old versions, answers that get lost and others
  editing the object in between, every version the API server keeps of a cluster has a phase the machine can reach
  from the version before; so a cluster that was Ready or Degraded once is never Pending or Bootstrapping
  again.
\<close>

theorem cluster_never_demoted:
  assumes "runs versionServer (\<lambda>es. \<exists>key w. es = events_of (ReconcileCluster rc key w)) h es h'" and "lawful h"
  shows "lawful h' \<and> suffix h h' \<and>
    (\<forall>j < length h'. \<forall>i \<le> j. provisionedPhase (snd (h' ! j)) \<longrightarrow> provisionedPhase (snd (h' ! i)))"
  using runs_keep [OF assms] lawful_provisioned by blast

text \<open>A Ready cluster whose Secrets are gone is not demoted: the pass stores a new version and waits.\<close>

definition bumpVersion :: "nomad_cluster \<Rightarrow> nomad_cluster" where
  "bumpVersion nc = nc\<lparr>nc_meta := (nc_meta nc)\<lparr>om_resourceVersion := ''2''\<rparr>\<rparr>"

definition versionedReconciler :: "unit cluster_reconciler" where
  "versionedReconciler = \<lparr>rc_platform = samplePlatform\<lparr>pf_secrets := emptyStore,
       pf_clusters := (fixedStore readyCluster)\<lparr>st_updateStatus := (\<lambda>x w. (Inr (bumpVersion x), w))\<rparr>\<rparr>,
     rc_newNomadClient = (\<lambda>_. Inl (PlainError ''down'')), rc_recorder = True, rc_parseQuantity = Some\<rparr>"

lemma path_step:
  "distinct (map fst h) \<Longrightarrow> answers h e h \<Longrightarrow> path versionServer h es h' \<Longrightarrow> path versionServer h (e # es) h'"
  "distinct (map fst h) \<Longrightarrow> answers h e h' \<Longrightarrow> path versionServer h [e] h'"
  by (auto simp: versionServer_def edited_def intro!: exI [of _ h])

theorem cluster_never_demoted_witness:
  "\<exists>es. path versionServer [([], PhaseReady)] es [(''2'', PhaseReady), ([], PhaseReady)] \<and>
     lawful [(''2'', PhaseReady), ([], PhaseReady)]"
proof -
  let ?es = "events_of (ReconcileCluster versionedReconciler (objectKey ''nomad'' ''prod'') ())"
  note run = ReconcileCluster_def reconcileCluster_def ensureGossipKey_def randRead_def wrapped_def certSecretReady_def
    waitForCert_def finish_def withCondition_def sample_run versionedReconciler_def observe_def provisionedPhase_def
    kubeIsNotFound_def kubeReason_def bumpVersion_def
  have path: "path versionServer [([], PhaseReady)] ?es [(''2'', PhaseReady), ([], PhaseReady)]"
    by (simp add: run del: path.simps) ((rule path_step(1), (simp; fail), (simp; fail))+,
      rule path_step(2), simp, simp add: stores_def setCondition_replace PhaseReady_def)
  have "runs versionServer (\<lambda>es. \<exists>key w. es = events_of (ReconcileCluster versionedReconciler key w))
      [([], PhaseReady)] ?es [(''2'', PhaseReady), ([], PhaseReady)]"
    by (rule runs_single) (use path in blast)+
  from cluster_never_demoted [OF this] path show ?thesis by (auto simp: lawful_def)
qed

end
