(* ===== verification/RolloutSpec.thy ===== *)
theory RolloutSpec
  imports ClusterSpec
begin

section \<open>The rollout is a function of the spec\<close>

text \<open>
  Every pass writes the status of the cluster several times before and after it rolls out. None of
  what it rolls out may depend on that, or the operator would restart servers because it wrote down
  that it had restarted them.
\<close>

abbreviation withStatus :: "nomad_cluster_status \<Rightarrow> nomad_cluster \<Rightarrow> nomad_cluster" where
  "withStatus st nc \<equiv> nc\<lparr>nc_status := st\<rparr>"

lemma labels_status [simp]: "Labels (names (withStatus st nc)) = Labels (names nc)"
  by (simp add: Labels_def)

lemma config_status [simp]:
  "renderBody uc (withStatus st nc) = renderBody uc nc"
  "rpcAdvertisePorts (withStatus st nc) = rpcAdvertisePorts nc"
  "rpcAdvertiseStrategy (withStatus st nc) = rpcAdvertiseStrategy nc"
  by (simp_all add: renderBody_def rpcAdvertisePorts_def rpcAdvertiseStrategy_def Let_def)

lemma configMap_status [simp]:
  "renderConfig uc (withStatus st nc) a = renderConfig uc nc a"
  "buildConfigMap uc (withStatus st nc) a = buildConfigMap uc nc a"
  by (simp_all add: renderConfig_def buildConfigMap_def Let_def cong: sum.case_cong prod.case_cong)

lemma services_status [simp]:
  "buildHeadlessService (withStatus st nc) = buildHeadlessService nc"
  "buildAPIService (withStatus st nc) = buildAPIService nc"
  "buildPodService (withStatus st nc) i = buildPodService nc i"
  "buildPDB (withStatus st nc) = buildPDB nc"
  by (simp_all add: buildHeadlessService_def buildAPIService_def buildPodService_def buildPDB_def PodName_def PodSvc_def)

lemma parent_status [simp]:
  "gatewayOf (withStatus st nc) = gatewayOf nc" "parentGateway (withStatus st nc) = parentGateway nc"
  by (simp_all add: gatewayOf_def parentGateway_def cong: sum.case_cong if_cong option.case_cong)

lemma routes_status [simp]:
  "buildTLSRoute (withStatus st nc) = buildTLSRoute nc"
  "tcpRouteFor (withStatus st nc) = tcpRouteFor nc"
  by (simp_all add: buildTLSRoute_def tcpRouteFor_def TCPRoute_def PodSvc_def fun_eq_iff cong: sum.case_cong)

lemma tcpRoutes_status [simp]: "buildTCPRoutes (withStatus st nc) = buildTCPRoutes nc"
  by (simp add: buildTCPRoutes_def)

lemma containers_status [simp]:
  "renderContainer (withStatus st nc) = renderContainer nc" "nomadContainer (withStatus st nc) = nomadContainer nc"
  "podVolumes (withStatus st nc) = podVolumes nc"
  by (simp_all add: renderContainer_def nomadContainer_def podVolumes_def)

lemma statefulset_status [simp]: "buildStatefulSet pq (withStatus st nc) h = buildStatefulSet pq nc h"
  by (simp add: buildStatefulSet_def Let_def cong: sum.case_cong)

lemma applyObject_status [simp]: "applyObject rc (withStatus st nc) = applyObject rc nc"
  by (simp add: applyObject_def fun_eq_iff)

lemma apply_status [simp]:
  "applyBuilt rc (withStatus st nc) obj = applyBuilt rc nc obj"
  "applyRoutes rc (withStatus st nc) = applyRoutes rc nc"
  by (simp_all add: applyObject_def applyBuilt_def applyRoutes_def)

text \<open>
  A pass rolls out what the spec asks for, never what the status says: provisioning is the same
  procedure whatever the status of the cluster is, so the status writes of the passes before (phase,
  members, addresses, conditions) change no applied object and restart no server.
\<close>

lemma provision_ignores_status:
  "provision rc (nc\<lparr>nc_status := st\<rparr>) extAddr = provision rc nc extAddr"
  by (simp add: provision_def)

end
