(* ===== verification/Flags.thy ===== *)
theory Flags
  imports Prelude
begin

section \<open>The command line (cmd/main.go)\<close>

text \<open>
  The flags the operator defines, and \<^verbatim>\<open>flag.Parse\<close> of Go's standard library on them. The
  flags that the logging and the client packages register on the same set are a parameter: which of
  them take no value, and how they are set.
\<close>

record command_line =
  fl_metricsAddr :: string
  fl_probeAddr :: string
  fl_enableLeaderElection :: bool
  fl_secureMetrics :: bool
  fl_webhookCertPath :: string
  fl_webhookCertName :: string
  fl_webhookCertKey :: string
  fl_metricsCertPath :: string
  fl_metricsCertName :: string
  fl_metricsCertKey :: string
  fl_enableHTTP2 :: bool

text \<open>The third argument of each \<^verbatim>\<open>StringVar\<close> and \<^verbatim>\<open>BoolVar\<close>.\<close>

definition flagDefaults :: command_line where
  "flagDefaults =
     \<lparr>fl_metricsAddr = ''0'', fl_probeAddr = '':8081'', fl_enableLeaderElection = False, fl_secureMetrics = True,
      fl_webhookCertPath = [], fl_webhookCertName = ''tls.crt'', fl_webhookCertKey = ''tls.key'',
      fl_metricsCertPath = [], fl_metricsCertName = ''tls.crt'', fl_metricsCertKey = ''tls.key'',
      fl_enableHTTP2 = False\<rparr>"

datatype flag_target =
    BoolTarget "bool \<Rightarrow> command_line \<Rightarrow> command_line"
  | TextTarget "string \<Rightarrow> command_line \<Rightarrow> command_line"

definition definedFlags :: "(string \<times> flag_target) list" where
  "definedFlags =
     [(''metrics-bind-address'', TextTarget (\<lambda>v. fl_metricsAddr_update (\<lambda>_. v))),
      (''health-probe-bind-address'', TextTarget (\<lambda>v. fl_probeAddr_update (\<lambda>_. v))),
      (''leader-elect'', BoolTarget (\<lambda>v. fl_enableLeaderElection_update (\<lambda>_. v))),
      (''metrics-secure'', BoolTarget (\<lambda>v. fl_secureMetrics_update (\<lambda>_. v))),
      (''webhook-cert-path'', TextTarget (\<lambda>v. fl_webhookCertPath_update (\<lambda>_. v))),
      (''webhook-cert-name'', TextTarget (\<lambda>v. fl_webhookCertName_update (\<lambda>_. v))),
      (''webhook-cert-key'', TextTarget (\<lambda>v. fl_webhookCertKey_update (\<lambda>_. v))),
      (''metrics-cert-path'', TextTarget (\<lambda>v. fl_metricsCertPath_update (\<lambda>_. v))),
      (''metrics-cert-name'', TextTarget (\<lambda>v. fl_metricsCertName_update (\<lambda>_. v))),
      (''metrics-cert-key'', TextTarget (\<lambda>v. fl_metricsCertKey_update (\<lambda>_. v))),
      (''enable-http2'', BoolTarget (\<lambda>v. fl_enableHTTP2_update (\<lambda>_. v)))]"

subsection \<open>\<^verbatim>\<open>flag.Parse\<close>\<close>

text \<open>A bool flag needs no value; the setter of a foreign flag may refuse its value.\<close>

record 'z foreign_flags =
  ff_isBool :: "string \<Rightarrow> bool option"
  ff_set :: "string \<Rightarrow> string \<Rightarrow> 'z \<Rightarrow> string + 'z"

datatype flag_error = BadFlagSyntax string | FlagNotDefined string | HelpAsked | NeedsArgument string
  | InvalidValue string string

text \<open>\<^verbatim>\<open>strconv.ParseBool\<close>.\<close>

definition parseBool :: "string \<Rightarrow> bool option" where
  "parseBool s =
     (if s \<in> {''1'', ''t'', ''T'', ''TRUE'', ''true'', ''True''} then Some True
      else if s \<in> {''0'', ''f'', ''F'', ''FALSE'', ''false'', ''False''} then Some False else None)"

definition flagIsBool :: "'z foreign_flags \<Rightarrow> string \<Rightarrow> bool option" where
  "flagIsBool ff name = (case map_of definedFlags name of
     Some (BoolTarget _) \<Rightarrow> Some True
   | Some (TextTarget _) \<Rightarrow> Some False
   | None \<Rightarrow> ff_isBool ff name)"

definition setFlag ::
    "'z foreign_flags \<Rightarrow> string \<Rightarrow> string \<Rightarrow> command_line \<times> 'z \<Rightarrow> flag_error + command_line \<times> 'z" where
  "setFlag ff name v st = (case st of (cl, z) \<Rightarrow>
     (case map_of definedFlags name of
        Some (BoolTarget f) \<Rightarrow> (case parseBool v of None \<Rightarrow> Inl (InvalidValue name v) | Some b \<Rightarrow> Inr (f b cl, z))
      | Some (TextTarget f) \<Rightarrow> Inr (f v cl, z)
      | None \<Rightarrow> (case ff_set ff name v z of Inl _ \<Rightarrow> Inl (InvalidValue name v) | Inr z' \<Rightarrow> Inr (cl, z'))))"

text \<open>\<open>body\<close> is the argument without its dashes: the name ends at the first equals sign.\<close>

definition flagName :: "string \<Rightarrow> string" where
  "flagName body = takeWhile (\<lambda>c. c \<noteq> CHR ''='') body"

definition flagValue :: "string \<Rightarrow> string option" where
  "flagValue body = (case dropWhile (\<lambda>c. c \<noteq> CHR ''='') body of [] \<Rightarrow> None | _ # v \<Rightarrow> Some v)"

definition flagBody :: "string \<Rightarrow> string" where
  "flagBody s = (if s ! 1 = CHR ''-'' then drop 2 s else drop 1 s)"

fun parseFlags ::
    "'z foreign_flags \<Rightarrow> string list \<Rightarrow> command_line \<times> 'z \<Rightarrow> flag_error + command_line \<times> 'z" where
  "parseFlags ff [] st = Inr st"
| "parseFlags ff (s # args) st =
     (if length s < 2 \<or> hd s \<noteq> CHR ''-'' then Inr st
      else if s = ''--'' then Inr st
      else let body = flagBody s in
        if body = [] \<or> hd body = CHR ''-'' \<or> hd body = CHR ''='' then Inl (BadFlagSyntax s)
        else let name = flagName body in
          (case flagIsBool ff name of
             None \<Rightarrow> if name = ''help'' \<or> name = ''h'' then Inl HelpAsked else Inl (FlagNotDefined name)
           | Some True \<Rightarrow>
               (case setFlag ff name (case flagValue body of Some v \<Rightarrow> v | None \<Rightarrow> ''true'') st of
                  Inl e \<Rightarrow> Inl e | Inr st' \<Rightarrow> parseFlags ff args st')
           | Some False \<Rightarrow>
               (case flagValue body of
                  Some v \<Rightarrow> (case setFlag ff name v st of Inl e \<Rightarrow> Inl e | Inr st' \<Rightarrow> parseFlags ff args st')
                | None \<Rightarrow>
                    (case args of
                       [] \<Rightarrow> Inl (NeedsArgument name)
                     | v # args' \<Rightarrow>
                         (case setFlag ff name v st of Inl e \<Rightarrow> Inl e | Inr st' \<Rightarrow> parseFlags ff args' st')))))"

text \<open>\<^verbatim>\<open>flag.CommandLine\<close> exits on a parse error: 0 when help was asked for, 2 otherwise.\<close>

definition parseExit :: "flag_error \<Rightarrow> nat" where
  "parseExit e = (case e of HelpAsked \<Rightarrow> 0 | _ \<Rightarrow> 2)"

subsection \<open>Writing a command line\<close>

definition boolText :: "bool \<Rightarrow> string" where
  "boolText b = (if b then ''true'' else ''false'')"

definition renderFlags :: "command_line \<Rightarrow> string list" where
  "renderFlags cl = map (\<lambda>(name, v). ''--'' @ name @ ''='' @ v)
     [(''metrics-bind-address'', fl_metricsAddr cl), (''health-probe-bind-address'', fl_probeAddr cl),
      (''leader-elect'', boolText (fl_enableLeaderElection cl)), (''metrics-secure'', boolText (fl_secureMetrics cl)),
      (''webhook-cert-path'', fl_webhookCertPath cl), (''webhook-cert-name'', fl_webhookCertName cl),
      (''webhook-cert-key'', fl_webhookCertKey cl), (''metrics-cert-path'', fl_metricsCertPath cl),
      (''metrics-cert-name'', fl_metricsCertName cl), (''metrics-cert-key'', fl_metricsCertKey cl),
      (''enable-http2'', boolText (fl_enableHTTP2 cl))]"

lemma parseBool_boolText [simp]: "parseBool (boolText b) = Some b"
  by (simp add: parseBool_def boolText_def)

lemma flagName_assigned [simp]: "CHR ''='' \<notin> set name \<Longrightarrow> flagName (name @ CHR ''='' # v) = name"
  unfolding flagName_def by (subst takeWhile_append2) auto

lemma flagValue_assigned [simp]: "CHR ''='' \<notin> set name \<Longrightarrow> flagValue (name @ CHR ''='' # v) = Some v"
proof -
  assume "CHR ''='' \<notin> set name"
  then have "dropWhile (\<lambda>c. c \<noteq> CHR ''='') (name @ CHR ''='' # v) = CHR ''='' # v"
    by (subst dropWhile_append2) auto
  then show ?thesis by (simp add: flagValue_def)
qed

lemma parseFlags_assigned:
  assumes known: "map_of definedFlags name \<noteq> None" and name: "CHR ''='' \<notin> set name" "name \<noteq> []" "hd name \<noteq> CHR ''-''"
  shows "parseFlags ff ((''--'' @ name @ ''='' @ v) # args) st =
    (case setFlag ff name v st of Inl e \<Rightarrow> Inl e | Inr st' \<Rightarrow> parseFlags ff args st')"
proof -
  have body: "flagBody (''--'' @ name @ ''='' @ v) = name @ CHR ''='' # v" by (simp add: flagBody_def)
  have head: "hd name \<noteq> CHR ''=''" using name(1,2) by (cases name) auto
  have "flagIsBool ff name \<noteq> None"
    using known by (auto simp: flagIsBool_def split: option.split flag_target.split)
  then obtain b where isBool: "flagIsBool ff name = Some b" by blast
  show ?thesis
    by (cases b) (simp_all add: Let_def body [simplified] isBool head name)
qed

text \<open>
  C40: writing a command line as flags and parsing it over the defaults gives it back, whatever foreign
  flags the same set holds.
\<close>

theorem flags_roundtrip: "parseFlags ff (renderFlags cl) (flagDefaults, z) = Inr (cl, z)"
  unfolding renderFlags_def list.map prod.case
  by (simp add: parseFlags_assigned setFlag_def definedFlags_def flagDefaults_def del: parseFlags.simps(2) append_Cons append_Nil)

end
