(* ===== verification/Manager.thy ===== *)
theory Manager
  imports Cluster Pool NamespaceCtl Job Node Flags
begin

section \<open>The manager process (cmd/main.go) and the controllers' registration\<close>

text \<open>
  The process builds a scheme, reads its flags, creates the manager, registers five controllers and
  two probes, and starts. The controller runtime is a parameter; what the code hands to it (options,
  watch plans) is data. The second half is the watch side of each reconciler: which events wake which
  passes.
\<close>

subsection \<open>Kinds and the scheme\<close>

datatype watched_kind =
    KNomadCluster | KNomadNode | KNomadPool | KNomadNamespace | KNomadJob
  | KConfigMap | KService | KStatefulSet | KPodDisruptionBudget | KGateway | KTLSRoute | KTCPRoute

text \<open>The packages whose types \<^verbatim>\<open>init\<close> adds to the scheme, in order; any failure panics.\<close>

datatype api_package = ClientGoScheme | NomadV1alpha1 | GatewayV1 | GatewayV1alpha2

definition schemePackages :: "api_package list" where
  "schemePackages = [ClientGoScheme, NomadV1alpha1, GatewayV1, GatewayV1alpha2]"

text \<open>
  The kinds \<^verbatim>\<open>SchemeBuilder.Register\<close> collects in the five types files, in the order Go
  initialises the files of a package, and the package each Go type of the code comes from.
\<close>

definition registeredKinds :: "watched_kind list" where
  "registeredKinds = [KNomadCluster, KNomadJob, KNomadNamespace, KNomadNode, KNomadPool]"

definition packageOf :: "watched_kind \<Rightarrow> api_package" where
  "packageOf k = (if k \<in> set registeredKinds then NomadV1alpha1
     else if k = KGateway then GatewayV1
     else if k \<in> {KTLSRoute, KTCPRoute} then GatewayV1alpha2
     else ClientGoScheme)"

fun appliedKind :: "applied_object \<Rightarrow> watched_kind" where
  "appliedKind (AConfigMap _) = KConfigMap"
| "appliedKind (AService _) = KService"
| "appliedKind (AStatefulSet _) = KStatefulSet"
| "appliedKind (APDB _) = KPodDisruptionBudget"
| "appliedKind (AGateway _) = KGateway"
| "appliedKind (ATLSRoute _) = KTLSRoute"
| "appliedKind (ATCPRoute _) = KTCPRoute"

subsection \<open>SetupWithManager\<close>

text \<open>
  What a controller tells the runtime: the kind it reconciles, the kinds it owns, the kinds it
  watches through a mapping function. The two fields a test may preset are filled in if nil.
\<close>

datatype map_function = GatewayToClusters | ClusterForNode | PoolsForCluster | JobsForCluster | NamespacesForCluster

record controller_plan =
  cp_name :: string
  cp_for :: watched_kind
  cp_owns :: "watched_kind list"
  cp_watches :: "(watched_kind \<times> map_function) list"

record 'f setup_fields =
  sf_NewNomadClient :: "'f option"
  sf_Recorder :: "string option"

definition orDefault :: "'a option \<Rightarrow> 'a \<Rightarrow> 'a option" where
  "orDefault x d = (case x of None \<Rightarrow> Some d | Some y \<Rightarrow> Some y)"

definition setupCluster ::
    "'w NomadOps client_factory \<Rightarrow> 'w NomadOps client_factory setup_fields \<Rightarrow>
     'w NomadOps client_factory setup_fields \<times> controller_plan" where
  "setupCluster dflt r =
     (\<lparr>sf_NewNomadClient = orDefault (sf_NewNomadClient r) dflt, sf_Recorder = orDefault (sf_Recorder r) ''nomadcluster''\<rparr>,
      \<lparr>cp_name = ''nomadcluster'', cp_for = KNomadCluster,
       cp_owns = [KStatefulSet, KService, KConfigMap, KPodDisruptionBudget, KGateway, KTCPRoute, KTLSRoute],
       cp_watches = [(KGateway, GatewayToClusters)]\<rparr>)"

definition setupNode ::
    "'w NomadNodeOps client_factory \<Rightarrow> 'w NomadNodeOps client_factory setup_fields \<Rightarrow>
     'w NomadNodeOps client_factory setup_fields \<times> controller_plan" where
  "setupNode dflt r =
     (r\<lparr>sf_NewNomadClient := orDefault (sf_NewNomadClient r) dflt\<rparr>,
      \<lparr>cp_name = ''nomadnode'', cp_for = KNomadCluster, cp_owns = [], cp_watches = [(KNomadNode, ClusterForNode)]\<rparr>)"

definition setupPool ::
    "'w NomadPoolOps client_factory \<Rightarrow> 'w NomadPoolOps client_factory setup_fields \<Rightarrow>
     'w NomadPoolOps client_factory setup_fields \<times> controller_plan" where
  "setupPool dflt r =
     (\<lparr>sf_NewNomadClient = orDefault (sf_NewNomadClient r) dflt, sf_Recorder = orDefault (sf_Recorder r) ''nomadpool''\<rparr>,
      \<lparr>cp_name = ''nomadpool'', cp_for = KNomadPool, cp_owns = [], cp_watches = [(KNomadCluster, PoolsForCluster)]\<rparr>)"

definition setupJob ::
    "'w NomadJobOps client_factory \<Rightarrow> 'w NomadJobOps client_factory setup_fields \<Rightarrow>
     'w NomadJobOps client_factory setup_fields \<times> controller_plan" where
  "setupJob dflt r =
     (\<lparr>sf_NewNomadClient = orDefault (sf_NewNomadClient r) dflt, sf_Recorder = orDefault (sf_Recorder r) ''nomadjob''\<rparr>,
      \<lparr>cp_name = ''nomadjob'', cp_for = KNomadJob, cp_owns = [], cp_watches = [(KNomadCluster, JobsForCluster)]\<rparr>)"

definition setupNamespace ::
    "'w NomadNamespaceOps client_factory \<Rightarrow> 'w NomadNamespaceOps client_factory setup_fields \<Rightarrow>
     'w NomadNamespaceOps client_factory setup_fields \<times> controller_plan" where
  "setupNamespace dflt r =
     (\<lparr>sf_NewNomadClient = orDefault (sf_NewNomadClient r) dflt, sf_Recorder = orDefault (sf_Recorder r) ''nomadnamespace''\<rparr>,
      \<lparr>cp_name = ''nomadnamespace'', cp_for = KNomadNamespace, cp_owns = [],
       cp_watches = [(KNomadCluster, NamespacesForCluster)]\<rparr>)"

text \<open>The reconcilers of \<^verbatim>\<open>main\<close> preset neither field.\<close>

definition unsetFields :: "'f setup_fields" where
  "unsetFields = \<lparr>sf_NewNomadClient = None, sf_Recorder = None\<rparr>"

definition controllerPlans :: "unicode_tables \<Rightarrow> 'w api_constructor \<Rightarrow> controller_plan list" where
  "controllerPlans uc newApi =
     [snd (setupCluster (DefaultNomadClientFactory newApi) unsetFields),
      snd (setupNode (DefaultNomadNodeClientFactory uc newApi) unsetFields),
      snd (setupPool (DefaultNomadPoolClientFactory uc newApi) unsetFields),
      snd (setupJob (DefaultNomadJobClientFactory uc newApi) unsetFields),
      snd (setupNamespace (DefaultNomadNamespaceClientFactory uc newApi) unsetFields)]"

subsection \<open>Server options\<close>

text \<open>A TLS option is a function on the config; \<^verbatim>\<open>NextProtos\<close> is the field the code sets.\<close>

record tls_settings =
  tc_NextProtos :: "string list"
  tc_rest :: opaque

type_synonym tls_option = "tls_settings \<Rightarrow> tls_settings"

definition disableHTTP2 :: tls_option where
  "disableHTTP2 c = c\<lparr>tc_NextProtos := [''http/1.1'']\<rparr>"

definition tlsOptions :: "command_line \<Rightarrow> tls_option list" where
  "tlsOptions cl = (if \<not> fl_enableHTTP2 cl then [disableHTTP2] else [])"

record webhook_options =
  wo_TLSOpts :: "tls_option list"
  wo_CertDir :: string
  wo_CertName :: string
  wo_KeyName :: string

definition webhookServerOptions :: "command_line \<Rightarrow> webhook_options" where
  "webhookServerOptions cl =
     (let o0 = \<lparr>wo_TLSOpts = tlsOptions cl, wo_CertDir = [], wo_CertName = [], wo_KeyName = []\<rparr> in
      if length (fl_webhookCertPath cl) > 0
      then o0\<lparr>wo_CertDir := fl_webhookCertPath cl, wo_CertName := fl_webhookCertName cl, wo_KeyName := fl_webhookCertKey cl\<rparr>
      else o0)"

datatype filter_provider = WithAuthenticationAndAuthorization

record metrics_options =
  mo_BindAddress :: string
  mo_SecureServing :: bool
  mo_TLSOpts :: "tls_option list"
  mo_FilterProvider :: "filter_provider option"
  mo_CertDir :: string
  mo_CertName :: string
  mo_KeyName :: string

definition metricsServerOptions :: "command_line \<Rightarrow> metrics_options" where
  "metricsServerOptions cl =
     (let o0 = \<lparr>mo_BindAddress = fl_metricsAddr cl, mo_SecureServing = fl_secureMetrics cl, mo_TLSOpts = tlsOptions cl,
               mo_FilterProvider = None, mo_CertDir = [], mo_CertName = [], mo_KeyName = []\<rparr>;
          o1 = (if fl_secureMetrics cl then o0\<lparr>mo_FilterProvider := Some WithAuthenticationAndAuthorization\<rparr> else o0)
      in if length (fl_metricsCertPath cl) > 0
         then o1\<lparr>mo_CertDir := fl_metricsCertPath cl, mo_CertName := fl_metricsCertName cl, mo_KeyName := fl_metricsCertKey cl\<rparr>
         else o1)"

record manager_options =
  mg_Metrics :: metrics_options
  mg_WebhookServer :: webhook_options
  mg_HealthProbeBindAddress :: string
  mg_LeaderElection :: bool
  mg_LeaderElectionID :: string

definition managerOptions :: "command_line \<Rightarrow> manager_options" where
  "managerOptions cl = \<lparr>mg_Metrics = metricsServerOptions cl, mg_WebhookServer = webhookServerOptions cl,
     mg_HealthProbeBindAddress = fl_probeAddr cl, mg_LeaderElection = fl_enableLeaderElection cl,
     mg_LeaderElectionID = ''71b9e934.operator.io''\<rparr>"

subsection \<open>The process\<close>

record 'w runtime_services =
  rt_addToScheme :: "api_package \<Rightarrow> 'w \<Rightarrow> (error + unit) \<times> 'w"
  rt_getConfig :: "'w \<Rightarrow> (error + opaque) \<times> 'w"
  rt_newManager :: "opaque \<Rightarrow> manager_options \<Rightarrow> 'w \<Rightarrow> (error + unit) \<times> 'w"
  rt_complete :: "controller_plan \<Rightarrow> 'w \<Rightarrow> (error + unit) \<times> 'w"
  rt_addHealthz :: "string \<Rightarrow> 'w \<Rightarrow> (error + unit) \<times> 'w"
  rt_addReadyz :: "string \<Rightarrow> 'w \<Rightarrow> (error + unit) \<times> 'w"
  rt_start :: "'w \<Rightarrow> (error + unit) \<times> 'w"

datatype boot_event =
    BInstall api_package "error + unit"
  | BConfig "error + opaque"
  | BManager manager_options "error + unit"
  | BController controller_plan "error + unit"
  | BHealthz string "error + unit"
  | BReadyz string "error + unit"
  | BStart "error + unit"

text \<open>How the process ends: \<^verbatim>\<open>main\<close> returns, \<^verbatim>\<open>os.Exit\<close>, or a panic of \<^verbatim>\<open>Must\<close>.\<close>

datatype process_end = Returned | Exited nat | Panicked error

definition orEnd :: "(error \<Rightarrow> process_end) \<Rightarrow> ('w, boot_event, error + 'a) procedure \<Rightarrow> ('w, boot_event, process_end + 'a) procedure"
  where
  "orEnd f p = andThen p (\<lambda>r. ret (case r of Inl e \<Rightarrow> Inl (f e) | Inr a \<Rightarrow> Inr a))"

definition orExit :: "('w, boot_event, error + 'a) procedure \<Rightarrow> ('w, boot_event, process_end + 'a) procedure" where
  "orExit p = orEnd (\<lambda>_. Exited 1) p"

definition initScheme :: "'w runtime_services \<Rightarrow> ('w, boot_event, process_end + unit) procedure" where
  "initScheme rt = forE schemePackages (\<lambda>p. orEnd Panicked (call (BInstall p) (rt_addToScheme rt p)))"

definition runManager ::
    "'w runtime_services \<Rightarrow> controller_plan list \<Rightarrow> command_line \<Rightarrow> ('w, boot_event, process_end + unit) procedure" where
  "runManager rt plans cl =
     bindE (orExit (call BConfig (rt_getConfig rt))) (\<lambda>cfg.
     bindE (orExit (call (BManager (managerOptions cl)) (rt_newManager rt cfg (managerOptions cl)))) (\<lambda>_.
     bindE (forE plans (\<lambda>p. orExit (call (BController p) (rt_complete rt p)))) (\<lambda>_.
     bindE (orExit (call (BHealthz ''healthz'') (rt_addHealthz rt ''healthz''))) (\<lambda>_.
     bindE (orExit (call (BReadyz ''readyz'') (rt_addReadyz rt ''readyz''))) (\<lambda>_.
     orExit (call BStart (rt_start rt)))))))"

definition main ::
    "'w runtime_services \<Rightarrow> controller_plan list \<Rightarrow> 'z foreign_flags \<Rightarrow> 'z \<Rightarrow> string list \<Rightarrow>
     ('w, boot_event, process_end) procedure" where
  "main rt plans ff z args =
     andThen (bindE (initScheme rt) (\<lambda>_.
       case parseFlags ff args (flagDefaults, z) of
         Inl e \<Rightarrow> ret (Inl (Exited (parseExit e)))
       | Inr (cl, _) \<Rightarrow> runManager rt plans cl))
     (\<lambda>r. ret (case r of Inl e \<Rightarrow> e | Inr _ \<Rightarrow> Returned))"

end
