(* ===== verification/ManagerSpec.thy ===== *)
theory ManagerSpec
  imports Manager Samples
begin

section \<open>Start-up and the watch side\<close>

text \<open>
  The process starts serving only after everything was set up; the server options follow the flags;
  the watch plans cover what the passes write and read.
\<close>

subsection \<open>All or nothing\<close>

fun isStart :: "boot_event \<Rightarrow> bool" where
  "isStart (BStart _) = True"
| "isStart _ = False"

fun servedWell :: "boot_event \<Rightarrow> bool" where
  "servedWell (BStart (Inr _)) = True"
| "servedWell _ = False"

text \<open>Every earlier step succeeded, each once and in this order.\<close>

definition setUp :: "controller_plan list \<Rightarrow> command_line \<Rightarrow> boot_event list \<Rightarrow> bool" where
  "setUp plans cl past \<longleftrightarrow> (\<exists>cfg. past =
     map (\<lambda>p. BInstall p (Inr ())) schemePackages @ [BConfig (Inr cfg), BManager (managerOptions cl) (Inr ())] @
     map (\<lambda>p. BController p (Inr ())) plans @ [BHealthz ''healthz'' (Inr ()), BReadyz ''readyz'' (Inr ())])"

text \<open>A step that ends the process when it fails, alone, in sequence and in a loop.\<close>

lemma meets_orEnd:
  assumes "\<And>e. Q (Inl (f e)) [ev (Inl e)]" and "\<And>a. Q (Inr a) [ev (Inr a)]"
  shows "meets (orEnd f (call ev g)) Q"
  unfolding orEnd_def by (rule meets_andThen_call) (auto intro!: meets_ret simp: assms split: sum.split)

lemma meets_bindE_orEnd:
  assumes "\<And>e. Q (Inl (f e)) [ev (Inl e)]" and "\<And>a. meets (k a) (\<lambda>r es. Q r (ev (Inr a) # es))"
  shows "meets (bindE (orEnd f (call ev g)) k) Q"
  by (rule meets_bindE [OF meets_orEnd, where R = "\<lambda>r es. (case r of Inl x \<Rightarrow> \<exists>e. x = f e \<and> es = [ev (Inl e)] | Inr a \<Rightarrow> es = [ev (Inr a)])"])
    (auto simp: assms)

definition stepsDone :: "('i \<Rightarrow> boot_event) \<Rightarrow> 'i list \<Rightarrow> process_end + unit \<Rightarrow> boot_event list \<Rightarrow> bool" where
  "stepsDone ok xs r es \<longleftrightarrow> quiet isStart es \<and> (case r of Inl e \<Rightarrow> e \<noteq> Returned | Inr _ \<Rightarrow> es = map ok xs)"

lemma meets_steps:
  assumes "\<And>p r. \<not> isStart (ev p r)" "\<And>e. f e \<noteq> Returned"
  shows "meets (forE xs (\<lambda>p. orEnd f (call (ev p) (g p)))) (stepsDone (\<lambda>p. ev p (Inr ())) xs)"
proof (induction xs)
  case Nil
  show ?case by (simp add: meets_ret trace_simps stepsDone_def)
next
  case (Cons x xs)
  show ?case
    unfolding forE.simps
    by (rule meets_bindE_orEnd)
      (auto intro!: meets_mono [OF Cons.IH] simp: assms stepsDone_def trace_simps split: sum.splits)
qed

lemma not_started: "quiet isStart es \<Longrightarrow> \<not> some_call servedWell es"
proof -
  have "servedWell e \<Longrightarrow> isStart e" for e by (cases e) simp_all
  then show "quiet isStart es \<Longrightarrow> \<not> some_call servedWell es"
    by (auto simp: quiet_def some_call_def list_all_iff list_ex_iff)
qed

text \<open>\<open>startsAfter\<close>: the manager is started only when all is set up, and the end of the process tells whether it served.\<close>

definition endsAs :: "process_end + unit \<Rightarrow> boot_event list \<Rightarrow> bool" where
  "endsAs r es \<longleftrightarrow> (case r of Inl e \<Rightarrow> e \<noteq> Returned \<and> \<not> some_call servedWell es | Inr _ \<Rightarrow> some_call servedWell es)"

lemma runManager_spec:
  "meets (runManager rt plans cl) (\<lambda>r es. endsAs r es \<and>
     guardedFrom isStart (setUp plans cl) (map (\<lambda>p. BInstall p (Inr ())) schemePackages) es)"
proof -
  have probes: "meets (bindE (orExit (call (BHealthz ''healthz'') (rt_addHealthz rt ''healthz''))) (\<lambda>_.
      bindE (orExit (call (BReadyz ''readyz'') (rt_addReadyz rt ''readyz''))) (\<lambda>_. orExit (call BStart (rt_start rt)))))
      (\<lambda>r es. endsAs r es \<and> guardedFrom isStart (setUp plans cl) (map (\<lambda>p. BInstall p (Inr ())) schemePackages @
        [BConfig (Inr cfg), BManager (managerOptions cl) (Inr ())] @ map (\<lambda>p. BController p (Inr ())) plans) es)" for cfg
    unfolding orExit_def
    by (rule meets_bindE_orEnd, simp add: endsAs_def trace_simps,
        rule meets_bindE_orEnd, simp add: endsAs_def trace_simps,
        rule meets_orEnd) (auto simp: endsAs_def trace_simps setUp_def)
  have plans: "meets (forE plans (\<lambda>p. orExit (call (BController p) (rt_complete rt p))))
      (stepsDone (\<lambda>p. BController p (Inr ())) plans)"
    unfolding orExit_def by (rule meets_steps) simp_all
  show ?thesis
    unfolding runManager_def
    apply (subst (1 2) orExit_def)
    apply (rule meets_bindE_orEnd, simp add: endsAs_def trace_simps)
    apply (rule meets_bindE_orEnd, simp add: endsAs_def trace_simps)
    apply (rule meets_bindE [OF plans])
     apply (simp add: stepsDone_def endsAs_def trace_simps not_started quiet_guardedFrom)
    apply (rule meets_mono [OF probes])
    apply (auto simp: stepsDone_def endsAs_def trace_simps not_started quiet_guardedFrom split: sum.splits)
    done
qed

lemma initScheme_spec: "meets (initScheme rt) (stepsDone (\<lambda>p. BInstall p (Inr ())) schemePackages)"
  unfolding initScheme_def by (rule meets_steps) simp_all

lemma main_spec:
  "meets (main rt plans ff z args) (\<lambda>r es. (r = Returned \<longleftrightarrow> some_call servedWell es) \<and>
     (case parseFlags ff args (flagDefaults, z) of
        Inl _ \<Rightarrow> quiet isStart es | Inr (cl, _) \<Rightarrow> guarded isStart (setUp plans cl) es))"
proof (cases "parseFlags ff args (flagDefaults, z)")
  case (Inl e)
  then show ?thesis
    unfolding main_def
    by (auto intro!: meets_andThen_wp meets_bindE [OF initScheme_spec] meets_ret
        simp: stepsDone_def trace_simps not_started quiet_guarded guarded_def split: sum.splits)
next
  case (Inr st)
  then show ?thesis
    unfolding main_def
    by (auto intro!: meets_andThen_wp meets_bindE [OF initScheme_spec] meets_ret runManager_spec [THEN meets_mono]
        simp: stepsDone_def endsAs_def trace_simps not_started quiet_guardedFrom guarded_def split: sum.splits prod.splits)
qed

subsection \<open>Watching what is read and written\<close>

text \<open>The type a mapping function asserts of its object; \<open>None\<close> when it only uses the metadata.\<close>

definition assertedKind :: "map_function \<Rightarrow> watched_kind option" where
  "assertedKind m = (case m of GatewayToClusters \<Rightarrow> None | ClusterForNode \<Rightarrow> Some KNomadNode
     | PoolsForCluster \<Rightarrow> Some KNomadCluster | JobsForCluster \<Rightarrow> Some KNomadCluster
     | NamespacesForCluster \<Rightarrow> Some KNomadCluster)"

definition planKinds :: "controller_plan \<Rightarrow> watched_kind list" where
  "planKinds p = cp_for p # cp_owns p @ map fst (cp_watches p)"

fun readsGateway :: "namespaced_name \<Rightarrow> event \<Rightarrow> bool" where
  "readsGateway k (EvGateway (SGet key _)) \<longleftrightarrow> key = k"
| "readsGateway k _ \<longleftrightarrow> False"

fun appliedGateway :: "namespaced_name \<Rightarrow> event \<Rightarrow> bool" where
  "appliedGateway k (EvApply (AGateway gw) (Inr _)) \<longleftrightarrow> objectKey (om_namespace (gw_meta gw)) (om_name (gw_meta gw)) = k"
| "appliedGateway k _ \<longleftrightarrow> False"

lemma gatewayToClusters_spec:
  "meets (gatewayToClusters rc obj) (\<lambda>r es. \<exists>ans. es = [EvCluster (SList everywhere ans)] \<and>
     r = (case ans of Inl _ \<Rightarrow> []
       | Inr items \<Rightarrow> map (\<lambda>nc. objectKey (nc_namespace nc) (nc_name nc)) (filter (referencesGateway obj) items)))"
  unfolding gatewayToClusters_def kube_calls by (rule meets_andThen_call) (auto intro!: meets_ret)

lemma resolveAddress_gateways:
  assumes laws: "toolkit_laws (pf_toolkit (rc_platform rc))"
  shows "meets (resolveAddress rc nc) (\<lambda>r es.
    some_call (readsGateway (objectKey (om_namespace obj) (om_name obj))) es \<longrightarrow>
    referencesGateway obj nc \<or> some_call (appliedGateway (objectKey (om_namespace obj) (om_name obj))) es)"
  unfolding resolveAddress_def ensureLoadBalancer_def ensureGateway_def ensureManagedGateway_def ensureExistingGateway_def
    setNotReady_def Let_def kube_calls
  by (auto intro!: wp meets_withCondition applyObject_wp split: sum.splits option.splits
      simp: trace_simps gatewayOf_def referencesGateway_def setControllerReference_keeps [OF laws])

subsection \<open>Claims\<close>

text \<open>
  C24: the manager is started only after the scheme, the manager with the options of the parsed flags,
  all five controllers in their order and both probes were set up without an error; the main function returns
  exactly when the start itself succeeded, and after a bad command line nothing is started.
\<close>

theorem startup_all_or_nothing:
  "let out = main rt (controllerPlans uc newApi) ff z args w; es = events_of out in
     (result_of out = Returned \<longleftrightarrow> some_call servedWell es) \<and>
     (case parseFlags ff args (flagDefaults, z) of
        Inl _ \<Rightarrow> quiet isStart es
      | Inr (cl, _) \<Rightarrow> guarded isStart (setUp (controllerPlans uc newApi) cl) es)"
  using meetsD [OF main_spec, of rt "controllerPlans uc newApi" ff z args w] by (simp add: Let_def)

text \<open>
  Unless HTTP/2 is enabled by its flag, every TLS option list handed to the webhook and the metrics
  server leaves exactly HTTP/1.1 to negotiate; the metrics endpoint is filtered for authentication and
  authorization exactly when it is served securely; and a certificate directory is set exactly when its
  path was given. With no flags at all the metrics endpoint is off and leader election is not used.
\<close>

lemma server_options_follow_flags:
  "let m = metricsServerOptions cl; wh = webhookServerOptions cl in
     tc_NextProtos (foldl (\<lambda>c f. f c) c (wo_TLSOpts wh)) = (if fl_enableHTTP2 cl then tc_NextProtos c else [''http/1.1'']) \<and>
     tc_NextProtos (foldl (\<lambda>c f. f c) c (mo_TLSOpts m)) = (if fl_enableHTTP2 cl then tc_NextProtos c else [''http/1.1'']) \<and>
     (mo_FilterProvider m \<noteq> None \<longleftrightarrow> mo_SecureServing m) \<and>
     mo_CertDir m = fl_metricsCertPath cl \<and> wo_CertDir wh = fl_webhookCertPath cl \<and>
     (mo_KeyName m = (if fl_metricsCertPath cl = [] then [] else fl_metricsCertKey cl)) \<and>
     (wo_KeyName wh = (if fl_webhookCertPath cl = [] then [] else fl_webhookCertKey cl)) \<and>
     mo_BindAddress (metricsServerOptions flagDefaults) = ''0'' \<and> \<not> mg_LeaderElection (managerOptions flagDefaults)"
  by (simp add: Let_def metricsServerOptions_def webhookServerOptions_def managerOptions_def tlsOptions_def
      disableHTTP2_def flagDefaults_def)

text \<open>
  the cluster controller owns the kind of every object a pass can apply; each kind any controller
  watches is served by a package of the scheme; and every mapping function is attached to the kind it
  asserts its object to be.
\<close>

lemma watch_plans_cover:
  "(let plans = controllerPlans uc newApi in
     appliedKind obj \<in> set (cp_owns (hd plans)) \<and>
     list_all (\<lambda>p. list_all (\<lambda>k. packageOf k \<in> set schemePackages) (planKinds p)) plans \<and>
     list_all (\<lambda>p. list_all (\<lambda>(k, m). assertedKind m \<in> {None, Some k}) (cp_watches p)) plans \<and>
     distinct (map cp_name plans))"
  by (cases obj) (simp_all add: Let_def controllerPlans_def setupCluster_def setupNode_def setupPool_def setupJob_def
      setupNamespace_def planKinds_def packageOf_def registeredKinds_def schemePackages_def assertedKind_def)

text \<open>
  C25: no Gateway a cluster pass reads for its address is left unwatched: an event on it either maps back
  to the cluster, when the listing answers and holds it, or the pass has itself applied that Gateway,
  an object the controller owns.
\<close>

theorem gateway_reads_are_watched:
  assumes "toolkit_laws (pf_toolkit (rc_platform rc))"
    and "events_of (gatewayToClusters rc obj w) = [EvCluster (SList everywhere (Inr items))]" and "nc \<in> set items"
    and "some_call (readsGateway (objectKey (om_namespace obj) (om_name obj))) (events_of (resolveAddress rc nc w'))"
  shows "objectKey (nc_namespace nc) (nc_name nc) \<in> set (result_of (gatewayToClusters rc obj w)) \<or>
    some_call (appliedGateway (objectKey (om_namespace obj) (om_name obj))) (events_of (resolveAddress rc nc w'))"
  using meetsD [OF resolveAddress_gateways [OF assms(1), of nc obj], of w'] meetsD [OF gatewayToClusters_spec, of rc obj w] assms(2-4)
  by auto

definition edgeCluster :: nomad_cluster where
  "edgeCluster = sampleCluster\<lparr>nc_spec := (nc_spec sampleCluster)\<lparr>cs_externalAccess :=
     \<lparr>ea_mode = ExternalAccessGateway,
      ea_gateway = Some \<lparr>gs_mode = GatewayModeExisting, gs_className = [],
        gs_ref = Some \<lparr>gr_name = ''edge'', gr_namespace = ''infra''\<rparr>, gs_rpcPorts = [4647, 4657, 4667],
        gs_httpHostname = ''nomad.example.org''\<rparr>,
      ea_loadBalancer = None\<rparr>\<rparr>\<rparr>"

definition edgeReconciler :: "unit cluster_reconciler" where
  "edgeReconciler = \<lparr>rc_platform = samplePlatform\<lparr>pf_clusters := fixedStore edgeCluster\<rparr>,
     rc_newNomadClient = (\<lambda>_. Inl (PlainError ''down'')), rc_recorder = True, rc_parseQuantity = Some\<rparr>"

theorem gateway_reads_are_watched_witness:
  "objectKey ''nomad'' ''prod'' \<in> set (result_of (gatewayToClusters edgeReconciler (newMeta ''edge'' ''infra'' []) ()))"
proof -
  note run = edgeReconciler_def edgeCluster_def sample_run gatewayToClusters_def resolveAddress_def ensureGateway_def
    ensureExistingGateway_def gatewayOf_def ExternalAccessGateway_def ExternalAccessLoadBalancer_def
    setNotReady_def withCondition_def observe_def provisionedPhase_def kubeIsNotFound_def kubeReason_def
  have laws: "toolkit_laws (pf_toolkit (rc_platform edgeReconciler))"
    by (simp add: edgeReconciler_def sampleToolkit_laws)
  have listed: "events_of (gatewayToClusters edgeReconciler (newMeta ''edge'' ''infra'' []) ()) =
      [EvCluster (SList everywhere (Inr [edgeCluster]))]"
    by (simp add: run)
  have reads: "some_call (readsGateway (objectKey (om_namespace (newMeta ''edge'' ''infra'' [])) (om_name (newMeta ''edge'' ''infra'' []))))
      (events_of (resolveAddress edgeReconciler edgeCluster ()))"
    and quiet: "\<not> some_call (appliedGateway (objectKey (om_namespace (newMeta ''edge'' ''infra'' [])) (om_name (newMeta ''edge'' ''infra'' []))))
      (events_of (resolveAddress edgeReconciler edgeCluster ()))"
    by (simp_all add: run)
  from gateway_reads_are_watched [OF laws listed _ reads] quiet show ?thesis
    by (simp add: edgeCluster_def sampleCluster_def newMeta_def)
qed

end
