(* ===== verification/Access.thy ===== *)
theory Access
  imports ManagerSpec Footprint
begin

section \<open>The permissions the controllers ask for\<close>

text \<open>
  The \<^verbatim>\<open>+kubebuilder:rbac\<close> markers above the reconcilers are the source of the operator's cluster
  role. Here they are as data, with the permission each recorded call of a pass needs and the theorem
  that compares the two.
\<close>

record policy_rule =
  ru_groups :: "string list"
  ru_resources :: "string list"
  ru_verbs :: "string list"

definition rbacRule :: "string \<Rightarrow> string list \<Rightarrow> string list \<Rightarrow> policy_rule" where
  "rbacRule g rs vs = \<lparr>ru_groups = [g], ru_resources = rs, ru_verbs = vs\<rparr>"

definition allVerbs :: "string list" where
  "allVerbs = [''get'', ''list'', ''watch'', ''create'', ''update'', ''patch'', ''delete'']"

definition readVerbs :: "string list" where
  "readVerbs = [''get'', ''list'', ''watch'']"

definition operatorGroup :: string where
  "operatorGroup = ''nomad.operator.io''"

definition clusterRules :: "policy_rule list" where
  "clusterRules =
     [rbacRule operatorGroup [''nomadclusters''] allVerbs,
      rbacRule operatorGroup [''nomadclusters/status''] [''get'', ''update'', ''patch''],
      rbacRule operatorGroup [''nomadclusters/finalizers''] [''update''],
      rbacRule ''apps'' [''statefulsets''] allVerbs,
      rbacRule [] [''services'', ''configmaps'', ''secrets''] allVerbs,
      rbacRule ''policy'' [''poddisruptionbudgets''] allVerbs,
      rbacRule ''gateway.networking.k8s.io'' [''gateways'', ''tcproutes'', ''tlsroutes'', ''httproutes''] allVerbs]"

definition nodeRules :: "policy_rule list" where
  "nodeRules =
     [rbacRule operatorGroup [''nomadnodes''] allVerbs,
      rbacRule operatorGroup [''nomadnodes/status''] [''get'', ''update'', ''patch'']]"

definition kindRules :: "string \<Rightarrow> policy_rule list" where
  "kindRules resource =
     [rbacRule operatorGroup [resource] allVerbs,
      rbacRule operatorGroup [resource @ ''/status''] [''get'', ''update'', ''patch''],
      rbacRule operatorGroup [resource @ ''/finalizers''] [''update''],
      rbacRule operatorGroup [''nomadclusters''] readVerbs,
      rbacRule [] [''secrets''] readVerbs,
      rbacRule [] [''events''] [''create'', ''patch'']]"

definition poolRules :: "policy_rule list" where "poolRules = kindRules ''nomadpools''"
definition namespaceRules :: "policy_rule list" where "namespaceRules = kindRules ''nomadnamespaces''"
definition jobRules :: "policy_rule list" where "jobRules = kindRules ''nomadjobs''"

text \<open>The role is the union of the markers.\<close>

definition operatorRole :: "policy_rule list" where
  "operatorRole = clusterRules @ nodeRules @ poolRules @ namespaceRules @ jobRules"

type_synonym permission = "string \<times> string \<times> string"

definition granted :: "policy_rule list \<Rightarrow> permission \<Rightarrow> bool" where
  "granted rules p \<longleftrightarrow> (case p of (g, r, v) \<Rightarrow>
     list_ex (\<lambda>ru. g \<in> set (ru_groups ru) \<and> r \<in> set (ru_resources ru) \<and> v \<in> set (ru_verbs ru)) rules)"

subsection \<open>What a call needs\<close>

text \<open>Reads go through the manager's cache, which lists and watches what it is asked for.\<close>

fun storeNeeds :: "string \<Rightarrow> string \<Rightarrow> 'o store_call \<Rightarrow> permission list" where
  "storeNeeds g r (SGet _ _) = map (\<lambda>v. (g, r, v)) readVerbs"
| "storeNeeds g r (SList _ _) = map (\<lambda>v. (g, r, v)) readVerbs"
| "storeNeeds g r (SCreate _ _) = [(g, r, ''create'')]"
| "storeNeeds g r (SUpdate _ _) = [(g, r, ''update'')]"
| "storeNeeds g r (SUpdateStatus _ _) = [(g, r @ ''/status'', ''update'')]"
| "storeNeeds g r (SDelete _ _) = [(g, r, ''delete'')]"

definition kindResource :: "watched_kind \<Rightarrow> string \<times> string" where
  "kindResource k = (case k of
     KNomadCluster \<Rightarrow> (operatorGroup, ''nomadclusters'') | KNomadNode \<Rightarrow> (operatorGroup, ''nomadnodes'')
   | KNomadPool \<Rightarrow> (operatorGroup, ''nomadpools'') | KNomadNamespace \<Rightarrow> (operatorGroup, ''nomadnamespaces'')
   | KNomadJob \<Rightarrow> (operatorGroup, ''nomadjobs'') | KConfigMap \<Rightarrow> ([], ''configmaps'') | KService \<Rightarrow> ([], ''services'')
   | KStatefulSet \<Rightarrow> (''apps'', ''statefulsets'') | KPodDisruptionBudget \<Rightarrow> (''policy'', ''poddisruptionbudgets'')
   | KGateway \<Rightarrow> (''gateway.networking.k8s.io'', ''gateways'') | KTLSRoute \<Rightarrow> (''gateway.networking.k8s.io'', ''tlsroutes'')
   | KTCPRoute \<Rightarrow> (''gateway.networking.k8s.io'', ''tcproutes''))"

text \<open>
  \<open>eventGroup\<close> is the API group the client library's recorder writes its events to. Secrets, Gateways
  and Services have no status the operator writes.
\<close>

fun callNeeds :: "string \<Rightarrow> event \<Rightarrow> permission list" where
  "callNeeds eventGroup (EvCluster c) = storeNeeds operatorGroup ''nomadclusters'' c"
| "callNeeds eventGroup (EvNode c) = storeNeeds operatorGroup ''nomadnodes'' c"
| "callNeeds eventGroup (EvPool c) = storeNeeds operatorGroup ''nomadpools'' c"
| "callNeeds eventGroup (EvNamespace c) = storeNeeds operatorGroup ''nomadnamespaces'' c"
| "callNeeds eventGroup (EvJob c) = storeNeeds operatorGroup ''nomadjobs'' c"
| "callNeeds eventGroup (EvSecret c) = storeNeeds [] ''secrets'' c"
| "callNeeds eventGroup (EvGateway c) = storeNeeds ''gateway.networking.k8s.io'' ''gateways'' c"
| "callNeeds eventGroup (EvService c) = storeNeeds [] ''services'' c"
| "callNeeds eventGroup (EvApply obj _) = [(fst (kindResource (appliedKind obj)), snd (kindResource (appliedKind obj)), ''patch'')]"
| "callNeeds eventGroup (EvRecord _ _ _ _) = [(eventGroup, ''events'', ''create'')]"
| "callNeeds eventGroup (EvRand _ _) = []"
| "callNeeds eventGroup (EvNomad _) = []"

fun foreignStatusWrite :: "event \<Rightarrow> bool" where
  "foreignStatusWrite (EvSecret (SUpdateStatus _ _)) = True"
| "foreignStatusWrite (EvGateway (SUpdateStatus _ _)) = True"
| "foreignStatusWrite (EvService (SUpdateStatus _ _)) = True"
| "foreignStatusWrite _ = False"

fun isRecord :: "event \<Rightarrow> bool" where
  "isRecord (EvRecord _ _ _ _) = True"
| "isRecord _ = False"

lemmas role_defs = operatorRole_def clusterRules_def nodeRules_def poolRules_def namespaceRules_def jobRules_def
  kindRules_def rbacRule_def allVerbs_def readVerbs_def operatorGroup_def granted_def

lemma store_granted:
  assumes "r \<in> {''nomadclusters'', ''nomadnodes'', ''nomadpools'', ''nomadnamespaces'', ''nomadjobs''}"
  shows "list_all (granted operatorRole) (storeNeeds operatorGroup r c)"
  using assms by (cases c) (auto simp: role_defs)

lemma core_granted:
  assumes "(g, r) \<in> {([], ''secrets''), ([], ''services''), (''gateway.networking.k8s.io'', ''gateways'')}"
  shows "list_all (granted operatorRole) (storeNeeds g r c) \<longleftrightarrow> (case c of SUpdateStatus _ _ \<Rightarrow> False | _ \<Rightarrow> True)"
  using assms by (cases c) (auto simp: role_defs)

lemma kinds_granted: "granted operatorRole (fst (kindResource k), snd (kindResource k), v)" if "v \<in> set allVerbs"
  using that by (cases k) (auto simp: role_defs kindResource_def)

text \<open>
  The role of the markers grants every call that can be recorded, watches included, but for status
  writes to objects that have no status of the operator's and for the recorder's events, which are
  granted in the core group only.
\<close>

lemma role_covers_calls:
  "list_all (granted operatorRole) (callNeeds eventGroup e) =
     (if isRecord e then eventGroup = [] else \<not> foreignStatusWrite e) \<and>
   list_all (\<lambda>p. list_all (\<lambda>k. granted operatorRole (fst (kindResource k), snd (kindResource k), ''list'') \<and>
     granted operatorRole (fst (kindResource k), snd (kindResource k), ''watch'')) (planKinds p)) (controllerPlans uc newApi)"
proof
  show "list_all (granted operatorRole) (callNeeds eventGroup e) =
     (if isRecord e then eventGroup = [] else \<not> foreignStatusWrite e)"
  proof (cases e)
    case (EvSecret c) then show ?thesis by (simp add: core_granted split: store_call.split)
  next
    case (EvGateway c) then show ?thesis by (simp add: core_granted split: store_call.split)
  next
    case (EvService c) then show ?thesis by (simp add: core_granted split: store_call.split)
  next
    case (EvRecord a b c d) then show ?thesis by (auto simp: role_defs)
  qed (simp_all add: store_granted kinds_granted allVerbs_def)
next
  show "list_all (\<lambda>p. list_all (\<lambda>k. granted operatorRole (fst (kindResource k), snd (kindResource k), ''list'') \<and>
     granted operatorRole (fst (kindResource k), snd (kindResource k), ''watch'')) (planKinds p)) (controllerPlans uc newApi)"
    by (simp add: kinds_granted allVerbs_def list_all_iff)
qed

lemma no_foreign_status: "footprintOf e \<in> footprintFor i \<Longrightarrow> \<not> foreignStatusWrite e"
  by (cases i; cases e rule: foreignStatusWrite.cases)
    (auto simp: clusterFootprint_def secretFootprint_def nodeFootprint_def kind_footprints)

text \<open>
  C27: whatever it is answered, no pass of any of the five reconcilers makes a call the role of the markers
  does not grant, watches and the cluster listing behind Gateway events included, with one exception
  that depends on the library: events of the recorder are granted exactly when it writes them to the
  core group.
\<close>

theorem passes_within_role:
  "list_all (\<lambda>e. list_all (granted operatorRole) (callNeeds eventGroup e) = (if isRecord e then eventGroup = [] else True))
     (events_of (passOf op i w)) \<and>
   list_all (\<lambda>e. list_all (granted operatorRole) (callNeeds eventGroup e)) (events_of (gatewayToClusters rc obj w)) \<and>
   list_all (\<lambda>p. list_all (\<lambda>k. granted operatorRole (fst (kindResource k), snd (kindResource k), ''list'') \<and>
     granted operatorRole (fst (kindResource k), snd (kindResource k), ''watch'')) (planKinds p)) (controllerPlans uc newApi)"
proof (intro conjI)
  show "list_all (\<lambda>e. list_all (granted operatorRole) (callNeeds eventGroup e) = (if isRecord e then eventGroup = [] else True))
      (events_of (passOf op i w))"
    using no_foreign_status [OF pass_footprint] by (fastforce simp: list_all_iff [of _ "events_of (passOf op i w)"] role_covers_calls)
next
  have "meets (gatewayToClusters rc obj) (\<lambda>_. list_all (\<lambda>e. list_all (granted operatorRole) (callNeeds eventGroup e)))"
    unfolding gatewayToClusters_def kube_calls by (auto intro!: wp simp: role_covers_calls)
  then show "list_all (\<lambda>e. list_all (granted operatorRole) (callNeeds eventGroup e)) (events_of (gatewayToClusters rc obj w))"
    by (rule meetsD)
next
  show "list_all (\<lambda>p. list_all (\<lambda>k. granted operatorRole (fst (kindResource k), snd (kindResource k), ''list'') \<and>
      granted operatorRole (fst (kindResource k), snd (kindResource k), ''watch'')) (planKinds p)) (controllerPlans uc newApi)"
    using role_covers_calls by blast
qed

end
