(* ===== verification/Contract.thy ===== *)
theory Contract
  imports Platform
begin

section \<open>The compile-time contract with the Nomad library (contract.go)\<close>

text \<open>
  \<^verbatim>\<open>contract.go\<close> refers to the symbols of the Nomad library the operator depends on, so that a version
  that renames one no longer builds. Nothing of it runs: the model is the lists of the pinned symbols, and
  what is shown is that they are the symbols the client's methods call.
\<close>

definition pinnedTypes :: "string list" where
  "pinnedTypes = [''Config'', ''TLSConfig'', ''QueryOptions'', ''Client'', ''Nodes'', ''Agent'', ''NodeListStub'',
     ''Node'', ''DriverInfo'', ''Status'', ''ACLTokens'', ''ACLToken'', ''AgentHealthResponse'', ''AgentHealth'',
     ''WriteOptions'', ''WriteMeta'', ''UnexpectedResponseError'', ''DrainSpec'', ''DrainMetadata'', ''DrainStrategy'',
     ''NodePool'', ''Job'', ''JobPlanResponse'', ''JobDiff'', ''JobRegisterResponse'', ''JobSummary'',
     ''TaskGroupSummary'', ''Namespace'', ''JobListStub'', ''OperatorHealthReply'', ''ServerHealth'']"

datatype api_method =
    Api_NewClient | Api_Client_Nodes | Api_Client_Agent | Api_Client_Status | Api_Client_ACLTokens
    | Api_Nodes_List | Api_Nodes_Info | Api_Agent_Self | Api_Agent_Health | Api_Status_Leader
    | Api_ACLTokens_BootstrapOpts | Api_Nodes_ToggleEligibility | Api_Nodes_UpdateDrain
    | Api_Client_NodePools | Api_NodePools_Info | Api_NodePools_Register | Api_NodePools_Delete
    | Api_NodePools_ListNodes | Api_NodePools_ListJobs | Api_Client_Namespaces | Api_Namespaces_Info
    | Api_Namespaces_Register | Api_Namespaces_Delete | Api_Jobs_List | Api_Client_Jobs | Api_Jobs_Info
    | Api_Jobs_Plan | Api_Jobs_Register | Api_Jobs_Deregister | Api_Jobs_Summary | Api_Client_Operator
    | Api_Operator_AutopilotServerHealth | Api_QueryOptions_WithContext | Api_WriteOptions_WithContext
    | Api_UnexpectedResponseError_StatusCode | Api_UnexpectedResponseError_Body

definition pinnedMethods :: "api_method list" where
  "pinnedMethods = [
     Api_NewClient, Api_Client_Nodes, Api_Client_Agent, Api_Client_Status, Api_Client_ACLTokens
     , Api_Nodes_List, Api_Nodes_Info, Api_Agent_Self, Api_Agent_Health, Api_Status_Leader
     , Api_ACLTokens_BootstrapOpts, Api_Nodes_ToggleEligibility, Api_Nodes_UpdateDrain
     , Api_Client_NodePools, Api_NodePools_Info, Api_NodePools_Register, Api_NodePools_Delete
     , Api_NodePools_ListNodes, Api_NodePools_ListJobs, Api_Client_Namespaces, Api_Namespaces_Info
     , Api_Namespaces_Register, Api_Namespaces_Delete, Api_Jobs_List, Api_Client_Jobs, Api_Jobs_Info
     , Api_Jobs_Plan, Api_Jobs_Register, Api_Jobs_Deregister, Api_Jobs_Summary, Api_Client_Operator
     , Api_Operator_AutopilotServerHealth, Api_QueryOptions_WithContext, Api_WriteOptions_WithContext
     , Api_UnexpectedResponseError_StatusCode, Api_UnexpectedResponseError_Body]"

definition pinnedConstants :: "string list" where
  "pinnedConstants = [''NodeStatusInit'', ''NodeStatusReady'', ''NodeStatusDown'', ''NodeStatusDisconnected'',
     ''NodeSchedulingEligible'', ''NodeSchedulingIneligible'', ''DrainStatusComplete'', ''NodePoolDefault'',
     ''NodePoolAll'']"

text \<open>The methods each function of the package calls, in the order of its text.\<close>

definition readOptions :: "api_method list" where
  "readOptions = [Api_QueryOptions_WithContext]"

definition changeOptions :: "api_method list" where
  "changeOptions = [Api_WriteOptions_WithContext]"

definition clientCalls :: "(string \<times> api_method list) list" where
  "clientCalls =
    [(''New'', [Api_NewClient]),
     (''ListNodes'', [Api_Client_Nodes, Api_Nodes_List] @ readOptions),
     (''NodeInfo'', [Api_Client_Nodes, Api_Nodes_Info] @ readOptions),
     (''Ping'', [Api_Client_Agent, Api_Agent_Self]),
     (''Leader'', [Api_Client_Status, Api_Status_Leader]),
     (''ServerHealthy'', [Api_Client_Agent, Api_Agent_Health]),
     (''ServerHealth'', [Api_Client_Operator, Api_Operator_AutopilotServerHealth] @ readOptions),
     (''ACLBootstrap'', [Api_Client_ACLTokens, Api_ACLTokens_BootstrapOpts] @ changeOptions),
     (''SetEligibility'', [Api_Client_Nodes, Api_Nodes_ToggleEligibility] @ changeOptions),
     (''UpdateDrain'', [Api_Client_Nodes, Api_Nodes_UpdateDrain] @ changeOptions),
     (''GetNodePool'', [Api_Client_NodePools, Api_NodePools_Info] @ readOptions),
     (''UpsertNodePool'', [Api_Client_NodePools, Api_NodePools_Register] @ changeOptions),
     (''DeleteNodePool'', [Api_Client_NodePools, Api_NodePools_Delete] @ changeOptions),
     (''CountNodePoolNodes'', [Api_Client_NodePools, Api_NodePools_ListNodes] @ readOptions),
     (''CountNodePoolJobs'', [Api_Client_NodePools, Api_NodePools_ListJobs] @ readOptions),
     (''GetJob'', [Api_Client_Jobs, Api_Jobs_Info] @ readOptions),
     (''PlanJob'', [Api_Client_Jobs, Api_Jobs_Plan] @ changeOptions),
     (''RegisterJob'', [Api_Client_Jobs, Api_Jobs_Register] @ changeOptions),
     (''DeregisterJob'', [Api_Client_Jobs, Api_Jobs_Deregister] @ changeOptions),
     (''JobGroupSummary'', [Api_Client_Jobs, Api_Jobs_Summary] @ readOptions),
     (''GetNamespace'', [Api_Client_Namespaces, Api_Namespaces_Info] @ readOptions),
     (''UpsertNamespace'', [Api_Client_Namespaces, Api_Namespaces_Register] @ changeOptions),
     (''DeleteNamespace'', [Api_Client_Namespaces, Api_Namespaces_Delete] @ changeOptions),
     (''CountNamespaceJobs'', [Api_Client_Jobs, Api_Jobs_List] @ readOptions),
     (''IsACLAlreadyBootstrapped'', [Api_UnexpectedResponseError_StatusCode, Api_UnexpectedResponseError_Body]),
     (''IsNotFound'', [Api_UnexpectedResponseError_StatusCode]),
     (''IsNodePoolNotEmpty'', [Api_UnexpectedResponseError_Body]),
     (''IsNamespaceNotEmpty'', [Api_UnexpectedResponseError_Body])]"

text \<open>The function of the package behind each call the reconcilers record.\<close>

fun calledFunction :: "nomad_call \<Rightarrow> string" where
  "calledFunction (NListNodes _) = ''ListNodes''"
| "calledFunction (NNodeInfo _ _) = ''NodeInfo''"
| "calledFunction (NSetEligibility _ _ _) = ''SetEligibility''"
| "calledFunction (NUpdateDrain _ _ _ _) = ''UpdateDrain''"
| "calledFunction (NGetNodePool _ _) = ''GetNodePool''"
| "calledFunction (NUpsertNodePool _ _) = ''UpsertNodePool''"
| "calledFunction (NDeleteNodePool _ _) = ''DeleteNodePool''"
| "calledFunction (NCountNodePoolNodes _ _) = ''CountNodePoolNodes''"
| "calledFunction (NCountNodePoolJobs _ _) = ''CountNodePoolJobs''"
| "calledFunction (NGetNamespace _ _) = ''GetNamespace''"
| "calledFunction (NUpsertNamespace _ _) = ''UpsertNamespace''"
| "calledFunction (NDeleteNamespace _ _) = ''DeleteNamespace''"
| "calledFunction (NCountNamespaceJobs _ _) = ''CountNamespaceJobs''"
| "calledFunction (NGetJob _ _ _) = ''GetJob''"
| "calledFunction (NPlanJob _ _) = ''PlanJob''"
| "calledFunction (NRegisterJob _ _) = ''RegisterJob''"
| "calledFunction (NDeregisterJob _ _ _ _) = ''DeregisterJob''"
| "calledFunction (NJobGroupSummary _ _ _) = ''JobGroupSummary''"
| "calledFunction (NLeader _) = ''Leader''"
| "calledFunction (NACLBootstrap _ _) = ''ACLBootstrap''"
| "calledFunction (NServerHealth _) = ''ServerHealth''"

text \<open>
  The pinned methods are exactly the methods the package calls, each pinned once, and every call of a
  reconciler goes through one of those functions.
\<close>

theorem contract_is_exact:
  "set pinnedMethods = set (concat (map snd clientCalls)) \<and> distinct pinnedMethods \<and>
   distinct (map fst clientCalls) \<and> calledFunction c \<in> set (map fst clientCalls)"
proof (intro conjI)
  show "set pinnedMethods = set (concat (map snd clientCalls))"
    unfolding pinnedMethods_def clientCalls_def readOptions_def changeOptions_def by auto
  show "distinct pinnedMethods" by (simp add: pinnedMethods_def)
  show "distinct (map fst clientCalls)" by (simp add: clientCalls_def)
  show "calledFunction c \<in> set (map fst clientCalls)" by (cases c) (simp_all add: clientCalls_def)
qed

end
