(* ===== verification/NameLoop.thy ===== *)
theory NameLoop
  imports Names "HOL-Library.Log_Nat"
begin

section \<open>The loop that flattens dashes (nomadnode_names.go)\<close>

text \<open>
  \<^verbatim>\<open>sanitizeLabel\<close> replaces double dashes by single ones for as long as there is one. A replacement pass
  halves every run of dashes, so the number of passes is bounded by the bits of the length, and
  what the loop leaves is each run cut to one dash.
\<close>

definition dash :: char where
  "dash = CHR ''-''"

lemma dash_code [simp]: "CHR ''-'' = dash"
  by (simp add: dash_def)

fun squeeze :: "string \<Rightarrow> string" where
  "squeeze (c # d # s) = (if c = dash \<and> d = dash then squeeze (d # s) else c # squeeze (d # s))"
| "squeeze s = s"

text \<open>The loop with a bound on its passes; none when the bound is too small.\<close>

primrec collapseWithin :: "nat \<Rightarrow> string \<Rightarrow> string option" where
  "collapseWithin 0 out = (if strContains out ''--'' then None else Some out)"
| "collapseWithin (Suc k) out =
     (if strContains out ''--'' then collapseWithin k (replaceAll out ''--'' ''-'') else Some out)"

text \<open>The longest run of dashes, where \<open>n\<close> dashes stand right before the string.\<close>

primrec longestRun :: "nat \<Rightarrow> string \<Rightarrow> nat" where
  "longestRun n [] = n"
| "longestRun n (c # s) = (if c = dash then longestRun (Suc n) s else max n (longestRun 0 s))"

lemma halve_simps [simp]:
  "replaceAll (dash # dash # s) [dash, dash] [dash] = dash # replaceAll s [dash, dash] [dash]"
  "\<not> prefix [dash, dash] (c # s) \<Longrightarrow> replaceAll (c # s) [dash, dash] [dash] = c # replaceAll s [dash, dash] [dash]"
  by (auto simp: replaceAll.simps(2))

lemma halve_induct [case_names Nil pair other]:
  assumes "P []" and "\<And>s. P s \<Longrightarrow> P (dash # dash # s)"
    and "\<And>c s. \<not> prefix [dash, dash] (c # s) \<Longrightarrow> P s \<Longrightarrow> P (c # s)"
  shows "P s"
proof (induction "length s" arbitrary: s rule: less_induct)
  case less
  show ?case
  proof (cases s)
    case (Cons c t)
    show ?thesis
    proof (cases "prefix [dash, dash] (c # t)")
      case True
      then obtain u where "s = dash # dash # u" using Cons by (auto simp: prefix_def)
      with less assms(2) show ?thesis by simp
    next
      case False
      with Cons less assms(3) show ?thesis by simp
    qed
  qed (use assms(1) in simp)
qed

lemma squeeze_halve_Cons: "squeeze (d # replaceAll s [dash, dash] [dash]) = squeeze (d # s)"
  by (induction s arbitrary: d rule: halve_induct) simp_all

lemma squeeze_halve: "squeeze (replaceAll s [dash, dash] [dash]) = squeeze s"
  by (induction s rule: halve_induct) (simp_all add: squeeze_halve_Cons)

lemma longestRun_ge: "n \<le> longestRun n s"
  by (induction s arbitrary: n) (auto intro: order.trans [OF le_SucI])

lemma longestRun_other: "c \<noteq> dash \<Longrightarrow> longestRun n (c # s) = max n (longestRun 0 (c # s))"
  by simp

lemma longestRun_halve: "even n \<Longrightarrow> longestRun (n div 2) (replaceAll s [dash, dash] [dash]) \<le> Suc (longestRun n s) div 2"
proof (induction s arbitrary: n rule: halve_induct)
  case (pair s)
  from pair.IH [of "Suc (Suc n)"] pair.prems show ?case by simp
next
  case (other c s)
  show ?case
  proof (cases "c = dash")
    case True
    then have "s = [] \<or> hd s \<noteq> dash" using other.hyps by (cases s) auto
    then show ?thesis
    proof
      assume "hd s \<noteq> dash"
      then show ?thesis using True other.prems other.hyps other.IH [of 0]
        by (cases s) (auto simp: elim!: evenE)
    qed (use True other.prems in \<open>auto elim!: evenE\<close>)
  next
    case False
    with other.IH [of 0] other.prems other.hyps show ?thesis by (auto elim!: evenE)
  qed
qed simp

lemma double_dash_from:
  "n \<le> 1 \<Longrightarrow> strContains (replicate n dash @ s) [dash, dash] \<longleftrightarrow> 2 \<le> longestRun n s"
proof (induction s arbitrary: n)
  case Nil
  then show ?case by (cases n) simp_all
next
  case (Cons c s)
  consider "n = 0" | "n = 1" using Cons.prems by linarith
  then show ?case
    using Cons.IH [of 0] Cons.IH [of 1] longestRun_ge [of 2 s] by cases (auto simp: numeral_2_eq_2)
qed

lemma double_dash_iff: "strContains s [dash, dash] \<longleftrightarrow> 2 \<le> longestRun 0 s"
  using double_dash_from [of 0 s] by simp

lemma squeeze_flat: "\<not> strContains s [dash, dash] \<Longrightarrow> squeeze s = s"
  by (induction s rule: squeeze.induct) auto

lemma longestRun_length: "longestRun n s \<le> n + length s"
proof (induction s arbitrary: n)
  case (Cons c s)
  from Cons.IH [of 0] Cons.IH [of "Suc n"] show ?case by auto
qed simp

lemma collapseWithin_squeeze: "longestRun 0 s \<le> 2 ^ k \<Longrightarrow> collapseWithin k s = Some (squeeze s)"
proof (induction k arbitrary: s)
  case 0
  then show ?case by (simp add: double_dash_iff squeeze_flat)
next
  case (Suc k)
  have "longestRun 0 (replaceAll s [dash, dash] [dash]) \<le> Suc (longestRun 0 s) div 2"
    using longestRun_halve [of 0 s] by simp
  also have "\<dots> \<le> 2 ^ k" using Suc.prems by simp
  finally show ?case
    using Suc.IH by (simp add: squeeze_halve squeeze_flat)
qed

lemma collapseDashes_within: "collapseWithin k s = Some t \<Longrightarrow> collapseDashes s = t"
proof (induction k arbitrary: s)
  case 0
  then show ?case by (auto simp: collapse_id split: if_splits)
next
  case (Suc k)
  then show ?case by (subst collapseDashes.simps) (auto split: if_splits)
qed

text \<open>
  C35: the loop of sanitizeLabel that replaces double dashes ends after at most as many passes as its
  string's length has binary digits, and leaves the string with every run of dashes cut to a single one.
\<close>

theorem dash_loop_terminates:
  "collapseWithin (floorlog 2 (length s)) s = Some (collapseDashes s) \<and> collapseDashes s = squeeze s"
proof -
  have "length s \<le> 2 ^ floorlog 2 (length s)"
    by (cases "length s = 0") (auto intro: less_imp_le floorlog_bounds [THEN conjunct2, THEN order.strict_implies_order])
  then have "longestRun 0 s \<le> 2 ^ floorlog 2 (length s)"
    using longestRun_length [of 0 s] by simp
  from collapseWithin_squeeze [OF this] show ?thesis
    by (auto dest: collapseDashes_within)
qed

declare dash_code [simp del]

end
