(* ===== verification/GoHeap.thy ===== *)
theory GoHeap
  imports Prelude "HOL-Library.State_Monad" "HOL-Library.AList"
begin

section \<open>A store for Go pointers, and what it means to copy a structure deeply\<close>

text \<open>
  The reconcilers are modelled on values: a resource in hand is a record, a pointer field an
  \<open>option\<close>, a slice a list. In Go the same resource is a graph of cells, and two variables may
  share a cell. This theory holds the store behind that picture: a heap is the list of its
  cells, an address an index, allocation appends; a pointer, a slice and a map field are a
  nil-able address of the cell that holds the target, the backing array or the table. A \<open>shape\<close>
  says of a Go type which addresses a value of it holds on to (\<open>sh_reach\<close>) and what the value
  reads as (\<open>sh_view\<close>). The locale \<open>copier\<close> is the contract of a generated
  \<^verbatim>\<open>DeepCopyInto\<close>: the old cells stay as they were, the copy reads as the original, and the copy
  holds on to new cells only. The combinators below are the loops and blocks the generator
  emits, each proved to meet the contract once.
\<close>

type_synonym addr = nat

subsection \<open>Cells\<close>

definition newCell :: "'c \<Rightarrow> ('c list, addr) state" where
  "newCell c = State (\<lambda>h. (length h, h @ [c]))"

definition readCell :: "('c \<Rightarrow> 'a) \<Rightarrow> addr \<Rightarrow> ('c list, 'a) state" where
  "readCell sel a = State (\<lambda>h. (sel (h ! a), h))"

definition writeCell :: "addr \<Rightarrow> 'c \<Rightarrow> ('c list, unit) state" where
  "writeCell a c = State (\<lambda>h. ((), h[a := c]))"

lemma run_cells [simp]:
  "run_state (newCell c) h = (length h, h @ [c])"
  "run_state (readCell sel a) h = (sel (h ! a), h)"
  "run_state (writeCell a c) h = ((), h[a := c])"
  by (simp_all add: newCell_def readCell_def writeCell_def)

text \<open>Two heaps agree on some addresses when both hold them, with the same cells.\<close>

definition agree :: "'c list \<Rightarrow> 'c list \<Rightarrow> addr set \<Rightarrow> bool" where
  "agree h h' A \<longleftrightarrow> (\<forall>a\<in>A. a < length h \<and> a < length h' \<and> h' ! a = h ! a)"

lemma agree_Un [simp]: "agree h h' (A \<union> B) \<longleftrightarrow> agree h h' A \<and> agree h h' B"
  by (auto simp: agree_def)

lemma agree_insert [simp]:
  "agree h h' (insert a A) \<longleftrightarrow> a < length h \<and> a < length h' \<and> h' ! a = h ! a \<and> agree h h' A"
  by (auto simp: agree_def)

lemma agree_UN [simp]: "agree h h' (\<Union>x\<in>X. A x) \<longleftrightarrow> (\<forall>x\<in>X. agree h h' (A x))"
  by (auto simp: agree_def)

lemma agree_empty [simp]: "agree h h' {}"
  by (simp add: agree_def)

lemma prefix_agree: "prefix h h' \<Longrightarrow> A \<subseteq> {..<length h} \<Longrightarrow> agree h h' A"
  by (auto simp: agree_def prefix_def nth_append)

lemma prefix_nth: "prefix h h' \<Longrightarrow> a < length h \<Longrightarrow> h' ! a = h ! a"
  by (auto simp: prefix_def nth_append)

lemma prefix_update: "prefix h h' \<Longrightarrow> length h \<le> a \<Longrightarrow> prefix h (h'[a := c])"
  by (auto simp: prefix_def list_update_append)

lemma prefix_less: "prefix h h' \<Longrightarrow> a < length h \<Longrightarrow> a < length h'"
  using prefix_length_le by fastforce

text \<open>
  What code that holds on to the addresses \<open>K\<close> can do to the heap: it writes cells it holds on
  to, and it allocates cells, which it then holds on to as well.
\<close>

inductive mutates :: "addr set \<Rightarrow> 'c list \<Rightarrow> 'c list \<Rightarrow> bool" where
  rest: "mutates K h h"
| overwrite: "a \<in> K \<Longrightarrow> mutates K (h[a := c]) h' \<Longrightarrow> mutates K h h'"
| alloc: "mutates (insert (length h) K) (h @ [c]) h' \<Longrightarrow> mutates K h h'"

lemma mutates_agree:
  "mutates K h h' \<Longrightarrow> A \<inter> K = {} \<Longrightarrow> A \<subseteq> {..<length h} \<Longrightarrow> agree h h' A"
proof (induction rule: mutates.induct)
  case (rest K h)
  then show ?case by (auto simp: agree_def)
next
  case (overwrite a K h c h')
  then have "agree (h[a := c]) h' A" by auto
  moreover have "(h[a := c]) ! b = h ! b" if "b \<in> A" for b
    using that overwrite.hyps(1) overwrite.prems(1) by (metis disjoint_iff nth_list_update_neq)
  ultimately show ?case
    by (simp add: agree_def)
next
  case (alloc h K c h')
  then have "agree (h @ [c]) h' A" by fastforce
  with alloc.prems show ?case
    by (auto simp: agree_def nth_append)
qed

subsection \<open>Shapes and the contract of a copy\<close>

record ('c, 'a, 'v) shape =
  sh_reach :: "'c list \<Rightarrow> 'a \<Rightarrow> addr set"
  sh_view :: "'c list \<Rightarrow> 'a \<Rightarrow> 'v"

definition held :: "('c, 'a, 'v) shape \<Rightarrow> 'c list \<Rightarrow> 'a \<Rightarrow> bool" where
  "held S h x \<longleftrightarrow> sh_reach S h x \<subseteq> {..<length h}"

locale shaped =
  fixes S :: "('c, 'a, 'v) shape"
  assumes frame: "agree h h' (sh_reach S h x) \<Longrightarrow>
    sh_reach S h' x = sh_reach S h x \<and> sh_view S h' x = sh_view S h x"

locale copier = shaped S for S :: "('c, 'a, 'v) shape" +
  fixes copy :: "'a \<Rightarrow> ('c list, 'a) state"
  assumes copies: "\<lbrakk>run_state (copy x) h = (y, h'); held S h x\<rbrakk> \<Longrightarrow>
    prefix h h' \<and> sh_view S h' y = sh_view S h x \<and> sh_reach S h' y \<subseteq> {length h..<length h'}"

context copier
begin

text \<open>
  The same for a copy taken in a heap that has grown since: what was read of the original
  still holds, and it holds of the copy in every heap that keeps the new cells.
\<close>

lemma copy_later:
  assumes run: "run_state (copy x) h1 = (y, h2)" and x: "held S h x" and grown: "prefix h h1"
    and kept: "agree h2 h3 {length h1..<length h2}"
  shows "prefix h1 h2" "sh_view S h3 y = sh_view S h x"
    "sh_reach S h3 y \<subseteq> {length h1..<length h2}" "sh_reach S h2 y \<subseteq> {length h1..<length h2}"
proof -
  have a: "agree h h1 (sh_reach S h x)"
    using x grown by (simp add: held_def prefix_agree)
  have same: "sh_reach S h1 x = sh_reach S h x" "sh_view S h1 x = sh_view S h x"
    using frame [OF a] by simp_all
  have "held S h1 x"
    using x prefix_length_le [OF grown] same by (auto simp: held_def)
  note c = copies [OF run this]
  then show "prefix h1 h2" by simp
  have "agree h2 h3 (sh_reach S h2 y)"
    using kept c by (auto simp: agree_def)
  note f = frame [OF this]
  show "sh_view S h3 y = sh_view S h x" "sh_reach S h3 y \<subseteq> {length h1..<length h2}"
    "sh_reach S h2 y \<subseteq> {length h1..<length h2}"
    using f c same by simp_all
qed

text \<open>
  Code that holds the original, or anything else there was before the copy, cannot change what
  the copy reads as; and code that holds the copy cannot change the original.
\<close>

lemma copy_isolated:
  assumes run: "run_state (copy x) h = (y, h')" and x: "held S h x"
    and mutated: "mutates K h' h''" and old: "K \<subseteq> {..<length h}"
  shows "sh_view S h'' y = sh_view S h x"
proof -
  have "agree h' h'' {length h..<length h'}"
    by (rule mutates_agree [OF mutated]) (use old in auto)
  then show ?thesis
    using copy_later(2) [OF run x prefix_order.refl] by simp
qed

lemma original_isolated:
  assumes run: "run_state (copy x) h = (y, h')" and x: "held S h x"
    and mutated: "mutates (sh_reach S h' y) h' h''"
  shows "sh_view S h'' x = sh_view S h x"
proof -
  have c: "prefix h h'" "sh_reach S h' y \<subseteq> {length h..<length h'}"
    using copies [OF run x] by simp_all
  have "sh_reach S h x \<subseteq> {..<length h}"
    using x by (simp add: held_def)
  then have "sh_reach S h x \<inter> sh_reach S h' y = {}" "sh_reach S h x \<subseteq> {..<length h'}"
    using c(2) prefix_length_le [OF c(1)] by (auto simp: subset_eq disjoint_iff not_less [symmetric])
  from mutates_agree [OF mutated this] have "agree h' h'' (sh_reach S h x)" .
  then have "agree h h'' (sh_reach S h x)"
    using x prefix_nth [OF c(1)] by (auto simp: agree_def held_def)
  then show ?thesis
    using frame by blast
qed

end

subsection \<open>Values without pointers\<close>

definition plain :: "('c, 'a, 'a) shape" where
  "plain = \<lparr>sh_reach = (\<lambda>_ _. {}), sh_view = (\<lambda>_ x. x)\<rparr>"

lemma plain_simps [simp]: "sh_reach plain h x = {}" "sh_view plain h x = x"
  by (simp_all add: plain_def)

lemma held_plain [simp]: "held plain h x"
  by (simp add: held_def)

text \<open>\<^verbatim>\<open>*out = *in\<close> is a deep copy exactly of such values.\<close>

definition assignCopy :: "'a \<Rightarrow> ('c list, 'a) state" where
  "assignCopy x = State_Monad.return x"

interpretation assigned: copier plain assignCopy
  by unfold_locales (auto simp: assignCopy_def)

lemmas copier_plain = assigned.copier_axioms

subsection \<open>Two parts, one after the other\<close>

definition pairShape ::
    "('c, 'a, 'v) shape \<Rightarrow> ('c, 'b, 'u) shape \<Rightarrow> ('c, 'a \<times> 'b, 'v \<times> 'u) shape" where
  "pairShape S T = \<lparr>sh_reach = (\<lambda>h (x, y). sh_reach S h x \<union> sh_reach T h y),
     sh_view = (\<lambda>h (x, y). (sh_view S h x, sh_view T h y))\<rparr>"

lemma pairShape_simps [simp]:
  "sh_reach (pairShape S T) h (x, y) = sh_reach S h x \<union> sh_reach T h y"
  "sh_view (pairShape S T) h (x, y) = (sh_view S h x, sh_view T h y)"
  by (simp_all add: pairShape_def)

definition copyPair ::
    "('a \<Rightarrow> ('c list, 'a) state) \<Rightarrow> ('b \<Rightarrow> ('c list, 'b) state) \<Rightarrow> 'a \<times> 'b \<Rightarrow> ('c list, 'a \<times> 'b) state"
  where
  "copyPair c d p = do { x \<leftarrow> c (fst p); y \<leftarrow> d (snd p); State_Monad.return (x, y) }"

lemma shaped_pair: "shaped S \<Longrightarrow> shaped T \<Longrightarrow> shaped (pairShape S T)"
  by (auto simp: shaped_def)

lemma agree_refl: "A \<subseteq> {..<length h} \<Longrightarrow> agree h h A"
  by (auto simp: agree_def)

lemma copier_pair:
  assumes c: "copier S c" and d: "copier T d"
  shows "copier (pairShape S T) (copyPair c d)"
proof (intro copier.intro copier_axioms.intro)
  show "shaped (pairShape S T)"
    using c d by (simp add: copier_def shaped_pair)
  fix p q h h'
  assume run: "run_state (copyPair c d p) h = (q, h')" and held: "held (pairShape S T) h p"
  obtain x y where p: "p = (x, y)" by force
  obtain x' h1 where 1: "run_state (c x) h = (x', h1)" by force
  obtain y' h2 where 2: "run_state (d y) h1 = (y', h2)" by force
  have q: "q = (x', y')" "h' = h2"
    using run 1 2 by (simp_all add: copyPair_def p)
  have hx: "held S h x" and hy: "held T h y"
    using held by (simp_all add: held_def p)
  have p1: "prefix h h1"
    using copier.copies [OF c 1 hx] by simp
  have "agree h2 h2 {length h1..<length h2}"
    by (rule agree_refl) auto
  note d' = copier.copy_later [OF d 2 hy p1 this]
  have "agree h1 h2 {length h..<length h1}"
    by (rule prefix_agree [OF d'(1)]) auto
  note c' = copier.copy_later [OF c 1 hx prefix_order.refl this]
  have l: "length h \<le> length h1" "length h1 \<le> length h2"
    using p1 d'(1) by (simp_all add: prefix_length_le)
  show "prefix h h' \<and> sh_view (pairShape S T) h' q = sh_view (pairShape S T) h p
      \<and> sh_reach (pairShape S T) h' q \<subseteq> {length h..<length h'}"
    using prefix_order.trans [OF p1 d'(1)] c'(2,3) d'(2,3) l unfolding p q by (auto; force)
qed

subsection \<open>Structs\<close>

text \<open>
  A struct is its pointer-holding parts and the rest of its fields. Its \<^verbatim>\<open>DeepCopyInto\<close> starts
  from \<^verbatim>\<open>*out = *in\<close> and replaces the parts by their copies.
\<close>

definition structShape :: "('a \<Rightarrow> 'r) \<Rightarrow> ('a \<Rightarrow> 'p) \<Rightarrow> ('c, 'p, 'v) shape \<Rightarrow> ('c, 'a, 'r \<times> 'v) shape" where
  "structShape rest parts S =
     \<lparr>sh_reach = (\<lambda>h x. sh_reach S h (parts x)), sh_view = (\<lambda>h x. (rest x, sh_view S h (parts x)))\<rparr>"

lemma structShape_simps [simp]:
  "sh_reach (structShape rest parts S) h x = sh_reach S h (parts x)"
  "sh_view (structShape rest parts S) h x = (rest x, sh_view S h (parts x))"
  by (simp_all add: structShape_def)

lemma copier_struct:
  assumes c: "copier S c"
    and copy: "\<And>x. copy x = do { y \<leftarrow> c (parts x); State_Monad.return (build x y) }"
    and build: "\<And>x y. parts (build x y) = y" "\<And>x y. rest (build x y) = rest x"
  shows "copier (structShape rest parts S) copy"
proof (intro copier.intro copier_axioms.intro)
  show "shaped (structShape rest parts S)"
    using c by (simp add: copier_def shaped_def)
  fix x y h h'
  assume run: "run_state (copy x) h = (y, h')" and held: "held (structShape rest parts S) h x"
  obtain p where p: "run_state (c (parts x)) h = (p, h')" "y = build x p"
    using run by (cases "run_state (c (parts x)) h") (simp add: copy)
  have "held S h (parts x)"
    using held by (simp add: held_def)
  from copier.copies [OF c p(1) this]
  show "prefix h h' \<and> sh_view (structShape rest parts S) h' y = sh_view (structShape rest parts S) h x
      \<and> sh_reach (structShape rest parts S) h' y \<subseteq> {length h..<length h'}"
    by (simp add: p(2) build)
qed

subsection \<open>Pointers\<close>

text \<open>
  \<^verbatim>\<open>*out = new(T); (*in).DeepCopyInto(*out)\<close>, under \<^verbatim>\<open>if in != nil\<close>: a zero cell is allocated, then
  filled. A \<open>slot\<close> says how a value of \<open>T\<close> is put into a cell and read from it, and which value
  is zero.
\<close>

record ('c, 'a) slot =
  sl_put :: "'a \<Rightarrow> 'c"
  sl_get :: "'c \<Rightarrow> 'a"
  sl_zero :: 'a

definition slot_ok :: "('c, 'a) slot \<Rightarrow> bool" where
  "slot_ok s \<longleftrightarrow> (\<forall>x. sl_get s (sl_put s x) = x)"

definition ptrShape :: "('c, 'a) slot \<Rightarrow> ('c, 'a, 'v) shape \<Rightarrow> ('c, addr option, 'v option) shape" where
  "ptrShape s S =
     \<lparr>sh_reach = (\<lambda>h p. case p of None \<Rightarrow> {} | Some a \<Rightarrow> insert a (sh_reach S h (sl_get s (h ! a)))),
      sh_view = (\<lambda>h p. map_option (\<lambda>a. sh_view S h (sl_get s (h ! a))) p)\<rparr>"

lemma ptrShape_simps [simp]:
  "sh_reach (ptrShape s S) h None = {}"
  "sh_reach (ptrShape s S) h (Some a) = insert a (sh_reach S h (sl_get s (h ! a)))"
  "sh_view (ptrShape s S) h p = map_option (\<lambda>a. sh_view S h (sl_get s (h ! a))) p"
  by (simp_all add: ptrShape_def)

definition newPtr ::
    "('c, 'a) slot \<Rightarrow> ('a \<Rightarrow> ('c list, 'a) state) \<Rightarrow> addr option \<Rightarrow> ('c list, addr option) state"
  where
  "newPtr s into p = (case p of
     None \<Rightarrow> State_Monad.return None
   | Some a \<Rightarrow> do {
       b \<leftarrow> newCell (sl_put s (sl_zero s));
       x \<leftarrow> readCell (sl_get s) a;
       y \<leftarrow> into x;
       _ \<leftarrow> writeCell b (sl_put s y);
       State_Monad.return (Some b) })"

lemma shaped_ptr: "shaped S \<Longrightarrow> shaped (ptrShape s S)"
  unfolding shaped_def
proof (intro allI impI, goal_cases)
  case (1 h h' p)
  then show ?case
    by (cases p) auto
qed

text \<open>Overwriting a cell that an agreement does not speak of.\<close>

lemma agree_update: "b \<notin> A \<Longrightarrow> A \<subseteq> {..<length h} \<Longrightarrow> agree h (h[b := c]) A"
  by (auto simp: agree_def) (metis nth_list_update_neq)

lemma copier_ptr:
  assumes c: "copier S into" and cell: "slot_ok s"
  shows "copier (ptrShape s S) (newPtr s into)"
proof (intro copier.intro copier_axioms.intro)
  show "shaped (ptrShape s S)"
    using c by (simp add: copier_def shaped_ptr)
  fix p q h h'
  assume run: "run_state (newPtr s into p) h = (q, h')"
    and held: "held (ptrShape s S) h p"
  show "prefix h h' \<and> sh_view (ptrShape s S) h' q = sh_view (ptrShape s S) h p
      \<and> sh_reach (ptrShape s S) h' q \<subseteq> {length h..<length h'}"
  proof (cases p)
    case None
    then show ?thesis using run by (simp add: newPtr_def)
  next
    case (Some a)
    let ?h1 = "h @ [sl_put s (sl_zero s)]"
    have a: "a < length h" and hx: "held S h (sl_get s (h ! a))"
      using held by (simp_all add: held_def Some)
    obtain y h2 where y: "run_state (into (sl_get s (h ! a))) ?h1 = (y, h2)"
      by force
    have q: "q = Some (length h)" "h' = h2[length h := sl_put s y]"
      using run a y by (simp_all add: newPtr_def Some nth_append)
    have "agree h2 h' {length ?h1..<length h2}"
      by (auto simp: q agree_def)
    note later = copier.copy_later [OF c y hx _ this, simplified]
    have p2: "prefix h h2"
      using later(1) by (auto simp: prefix_def)
    have l: "length h < length h2"
      using prefix_length_le [OF later(1)] by simp
    show ?thesis
      using l later(2,3) prefix_update [OF p2, of "length h" "sl_put s y"]
      by (auto simp: q Some cell [unfolded slot_ok_def])
  qed
qed

subsection \<open>Slices\<close>

text \<open>
  A slice made by the generator or the decoder spans its whole backing array, so the array is
  the slice; a nil slice has none.
\<close>

record ('c, 'a) array =
  ar_put :: "'a list \<Rightarrow> 'c"
  ar_get :: "'c \<Rightarrow> 'a list"
  ar_zero :: 'a

definition array_ok :: "('c, 'a) array \<Rightarrow> bool" where
  "array_ok s \<longleftrightarrow> (\<forall>xs. ar_get s (ar_put s xs) = xs)"

definition sliceShape ::
    "('c, 'a) array \<Rightarrow> ('c, 'a, 'v) shape \<Rightarrow> ('c, addr option, 'v list option) shape" where
  "sliceShape s S =
     \<lparr>sh_reach = (\<lambda>h p. case p of None \<Rightarrow> {}
        | Some a \<Rightarrow> insert a (\<Union>x\<in>set (ar_get s (h ! a)). sh_reach S h x)),
      sh_view = (\<lambda>h p. map_option (\<lambda>a. map (sh_view S h) (ar_get s (h ! a))) p)\<rparr>"

lemma sliceShape_simps [simp]:
  "sh_reach (sliceShape s S) h None = {}"
  "sh_reach (sliceShape s S) h (Some a) = insert a (\<Union>x\<in>set (ar_get s (h ! a)). sh_reach S h x)"
  "sh_view (sliceShape s S) h p = map_option (\<lambda>a. map (sh_view S h) (ar_get s (h ! a))) p"
  by (simp_all add: sliceShape_def)

lemma shaped_slice:
  assumes "shaped S"
  shows "shaped (sliceShape s S)"
proof (rule shaped.intro)
  fix h h' p
  assume agree: "agree h h' (sh_reach (sliceShape s S) h p)"
  show "sh_reach (sliceShape s S) h' p = sh_reach (sliceShape s S) h p \<and>
      sh_view (sliceShape s S) h' p = sh_view (sliceShape s S) h p"
  proof (cases p)
    case None
    then show ?thesis by simp
  next
    case (Some a)
    have "sh_reach S h' x = sh_reach S h x \<and> sh_view S h' x = sh_view S h x"
      if "x \<in> set (ar_get s (h ! a))" for x
      using agree that shaped.frame [OF assms, of h h' x] by (simp add: Some)
    then show ?thesis
      using agree by (simp add: Some)
  qed
qed

text \<open>
  \<^verbatim>\<open>*out = make([]T, len(*in)); copy(*out, *in)\<close> for elements without pointers. The built-in
  \<^verbatim>\<open>copy\<close> overwrites as many elements as both slices have.
\<close>

definition copyBuiltin :: "'a list \<Rightarrow> 'a list \<Rightarrow> 'a list" where
  "copyBuiltin dst src = take (length dst) src @ drop (length src) dst"

definition copySlice ::
    "('c, 'a) array \<Rightarrow> addr option \<Rightarrow> ('c list, addr option) state" where
  "copySlice s p = (case p of
     None \<Rightarrow> State_Monad.return None
   | Some a \<Rightarrow> do {
       xs \<leftarrow> readCell (ar_get s) a;
       b \<leftarrow> newCell (ar_put s (replicate (length xs)(ar_zero s)));
       ys \<leftarrow> readCell (ar_get s) b;
       _ \<leftarrow> writeCell b (ar_put s (copyBuiltin ys xs));
       State_Monad.return (Some b) })"

lemma copier_slice:
  assumes cell: "array_ok s"
  shows "copier (sliceShape s plain) (copySlice s)"
proof (intro copier.intro copier_axioms.intro)
  show "shaped (sliceShape s plain)"
    by (intro shaped_slice assigned.shaped_axioms)
  fix p q h h'
  assume run: "run_state (copySlice s p) h = (q, h')"
    and held: "held (sliceShape s plain) h p"
  show "prefix h h' \<and> sh_view (sliceShape s plain) h' q = sh_view (sliceShape s plain) h p
      \<and> sh_reach (sliceShape s plain) h' q \<subseteq> {length h..<length h'}"
  proof (cases p)
    case None
    then show ?thesis using run by (simp add: copySlice_def)
  next
    case (Some a)
    have q: "q = Some (length h)" "h' = h @ [ar_put s (ar_get s (h ! a))]"
      using run by (simp_all add: copySlice_def Some cell [unfolded array_ok_def] copyBuiltin_def)
    show ?thesis
      by (simp add: q Some cell [unfolded array_ok_def])
  qed
qed

text \<open>
  \<^verbatim>\<open>for i := range *in { (*in)[i].DeepCopyInto(&(*out)[i]) }\<close> for elements with pointers.
\<close>

primrec copyElements ::
    "('c, 'a) array \<Rightarrow> ('a \<Rightarrow> ('c list, 'a) state) \<Rightarrow> addr \<Rightarrow> addr \<Rightarrow> nat list \<Rightarrow>
      ('c list, unit) state" where
  "copyElements s into a b [] = State_Monad.return ()"
| "copyElements s into a b (i # is) = do {
     x \<leftarrow> readCell (\<lambda>c. ar_get s c ! i) a;
     y \<leftarrow> into x;
     ys \<leftarrow> readCell (ar_get s) b;
     _ \<leftarrow> writeCell b (ar_put s (ys[i := y]));
     copyElements s into a b is }"

definition newSlice ::
    "('c, 'a) array \<Rightarrow> ('a \<Rightarrow> ('c list, 'a) state) \<Rightarrow> addr option \<Rightarrow> ('c list, addr option) state"
  where
  "newSlice s into p = (case p of
     None \<Rightarrow> State_Monad.return None
   | Some a \<Rightarrow> do {
       n \<leftarrow> readCell (\<lambda>c. length (ar_get s c)) a;
       b \<leftarrow> newCell (ar_put s (replicate n(ar_zero s)));
       _ \<leftarrow> copyElements s into a b [0..<n];
       State_Monad.return (Some b) })"

text \<open>
  The loop invariant: the cells of the heap the copy started in are unchanged, and the
  elements written so far read as the originals and hold on to cells newer than the array.
\<close>

definition copiedUpTo ::
    "('c, 'a) array \<Rightarrow> ('c, 'a, 'v) shape \<Rightarrow> 'c list \<Rightarrow> 'a list \<Rightarrow> nat \<Rightarrow> 'c list \<Rightarrow> bool" where
  "copiedUpTo s S h0 xs k h \<longleftrightarrow> prefix h0 h \<and> length h0 < length h \<and>
     length (ar_get s (h ! length h0)) = length xs \<and>
     (\<forall>j<k. sh_view S h (ar_get s (h ! length h0) ! j) = sh_view S h0 (xs ! j) \<and>
            sh_reach S h (ar_get s (h ! length h0) ! j) \<subseteq> {Suc (length h0)..<length h})"

lemma copiedUpTo_step:
  assumes c: "copier S into" and inv: "copiedUpTo s S h0 xs k h" and k: "k < length xs"
    and x: "held S h0 (xs ! k)" and run: "run_state (into (xs ! k)) h = (y, h2)"
    and cell: "array_ok s"
  shows "copiedUpTo s S h0 xs (Suc k)
    (h2[length h0 := ar_put s ((ar_get s (h2 ! length h0))[k := y])])"
proof -
  let ?b = "length h0" and ?h3 = "h2[length h0 := ar_put s ((ar_get s (h2 ! length h0))[k := y])]"
  note i = inv [unfolded copiedUpTo_def]
  have b: "?b < length h" using i by simp
  have "agree h2 ?h3 {length h..<length h2}"
    using b by (auto simp: agree_def)
  note later = copier.copy_later [OF c run x _ this]
  have p: "prefix h0 h" using i by simp
  note p2 = later(1) [OF p] and y = later(2,3) [OF p]
  have l: "length h \<le> length h2" using p2 by (rule prefix_length_le)
  have old: "h2 ! ?b = h ! ?b"
    using prefix_nth [OF p2 b] .
  have frame: "sh_view S ?h3 z = sh_view S h z \<and> sh_reach S ?h3 z = sh_reach S h z"
    if z: "sh_reach S h z \<subseteq> {Suc ?b..<length h}" for z
  proof -
    have "agree h ?h3 (sh_reach S h z)"
      using z l prefix_nth [OF p2] by (fastforce simp: agree_def)
    then show ?thesis
      using c by (simp add: copier_def shaped_def)
  qed
  have "\<forall>j<Suc k. sh_view S ?h3 (ar_get s (?h3 ! ?b) ! j) = sh_view S h0 (xs ! j) \<and>
      sh_reach S ?h3 (ar_get s (?h3 ! ?b) ! j) \<subseteq> {Suc ?b..<length ?h3}"
  proof (intro allI impI)
    fix j assume j: "j < Suc k"
    have arr: "ar_get s (?h3 ! ?b) = (ar_get s (h ! ?b))[k := y]"
      using b l by (simp add: old cell [unfolded array_ok_def])
    have len: "length (ar_get s (h ! ?b)) = length xs"
      using i by simp
    show "sh_view S ?h3 (ar_get s (?h3 ! ?b) ! j) = sh_view S h0 (xs ! j) \<and>
        sh_reach S ?h3 (ar_get s (?h3 ! ?b) ! j) \<subseteq> {Suc ?b..<length ?h3}"
    proof (cases "j = k")
      case True
      then show ?thesis
        using y b k unfolding arr by (auto simp: len)
    next
      case False
      then have "j < k" using j by simp
      then have prev: "sh_view S h (ar_get s (h ! ?b) ! j) = sh_view S h0 (xs ! j)"
        "sh_reach S h (ar_get s (h ! ?b) ! j) \<subseteq> {Suc ?b..<length h}"
        using i by auto
      show ?thesis
        using frame [OF prev(2)] prev l False unfolding arr by auto
    qed
  qed
  moreover have "prefix h0 ?h3"
    using prefix_update [OF prefix_order.trans [OF p p2]] by simp
  ultimately show ?thesis
    using i b l by (simp add: copiedUpTo_def old cell [unfolded array_ok_def])
qed

lemma copyElements_copied:
  assumes c: "copier S into" and a: "a < length h0" and xs: "ar_get s (h0 ! a) = xs"
    and held: "\<forall>x\<in>set xs. held S h0 x" and cell: "array_ok s"
  shows "copiedUpTo s S h0 xs k h \<Longrightarrow> k \<le> length xs \<Longrightarrow>
    run_state (copyElements s into a (length h0) [k..<length xs]) h = (u, h') \<Longrightarrow>
    copiedUpTo s S h0 xs (length xs) h'"
proof (induction "length xs - k" arbitrary: k h)
  case 0
  then show ?case by simp
next
  case (Suc n)
  then have k: "k < length xs" by simp
  have ha: "h ! a = h0 ! a"
    using Suc.prems(1) a by (auto simp: copiedUpTo_def intro: prefix_nth)
  obtain y h2 where y: "run_state (into (xs ! k)) h = (y, h2)" by force
  let ?h3 = "h2[length h0 := ar_put s ((ar_get s (h2 ! length h0))[k := y])]"
  have "copiedUpTo s S h0 xs (Suc k) ?h3"
    by (rule copiedUpTo_step [OF c Suc.prems(1) k _ y cell]) (use held k in auto)
  moreover have "run_state (copyElements s into a (length h0) [Suc k..<length xs]) ?h3 = (u, h')"
    using Suc.prems(3) k y by (simp add: upt_conv_Cons ha xs)
  ultimately show ?case
    using Suc.hyps(1) [of "Suc k" ?h3] Suc.hyps(2) k by simp
qed

lemma copier_newSlice:
  assumes c: "copier S into" and cell: "array_ok s"
  shows "copier (sliceShape s S) (newSlice s into)"
proof (intro copier.intro copier_axioms.intro)
  show "shaped (sliceShape s S)"
    using c by (simp add: copier_def shaped_slice)
  fix p q h h'
  assume run: "run_state (newSlice s into p) h = (q, h')"
    and held: "held (sliceShape s S) h p"
  show "prefix h h' \<and> sh_view (sliceShape s S) h' q = sh_view (sliceShape s S) h p
      \<and> sh_reach (sliceShape s S) h' q \<subseteq> {length h..<length h'}"
  proof (cases p)
    case None
    then show ?thesis using run by (simp add: newSlice_def)
  next
    case (Some a)
    let ?xs = "ar_get s (h ! a)" and ?h1 = "h @ [ar_put s (replicate (length (ar_get s (h ! a))) (ar_zero s))]"
    have a: "a < length h" and xs: "\<forall>x\<in>set ?xs. held S h x"
      using held by (auto simp: held_def Some)
    obtain u where q: "q = Some (length h)"
      "run_state (copyElements s into a (length h) [0..<length ?xs]) ?h1 = (u, h')"
      using run by (auto simp: newSlice_def Some split: prod.splits)
    have "copiedUpTo s S h ?xs 0 ?h1"
      by (simp add: copiedUpTo_def cell [unfolded array_ok_def])
    from copyElements_copied [OF c a refl xs cell this _ q(2)]
    have done': "copiedUpTo s S h ?xs (length ?xs) h'" by simp
    note d = done' [unfolded copiedUpTo_def]
    have "map (sh_view S h') (ar_get s (h' ! length h)) = map (sh_view S h) ?xs"
      using d by (intro nth_equalityI) auto
    moreover have "sh_reach S h' x \<subseteq> {Suc (length h)..<length h'}" if "x \<in> set (ar_get s (h' ! length h))" for x
      using that d by (metis in_set_conv_nth)
    ultimately show ?thesis
      using d by (fastforce simp: q(1) Some)
  qed
qed

subsection \<open>Maps\<close>

text \<open>
  \<^verbatim>\<open>*out = make(map[K]V, len(*in)); for key, val := range *in { (*out)[key] = val }\<close>. A table is
  an association list with the value of a key at its first entry; \<open>order\<close> is the order in
  which this \<^verbatim>\<open>range\<close> happens to visit the keys.
\<close>

record ('c, 'k, 'b) table =
  ta_put :: "('k \<times> 'b) list \<Rightarrow> 'c"
  ta_get :: "'c \<Rightarrow> ('k \<times> 'b) list"

definition table_ok :: "('c, 'k, 'b) table \<Rightarrow> bool" where
  "table_ok s \<longleftrightarrow> (\<forall>t. ta_get s (ta_put s t) = t)"

definition mapShape :: "('c, 'k, 'b) table \<Rightarrow> ('c, addr option, ('k \<rightharpoonup> 'b) option) shape" where
  "mapShape s =
     \<lparr>sh_reach = (\<lambda>h p. set_option p), sh_view = (\<lambda>h p. map_option (\<lambda>a. map_of (ta_get s (h ! a))) p)\<rparr>"

lemma mapShape_simps [simp]:
  "sh_reach (mapShape s) h p = set_option p"
  "sh_view (mapShape s) h p = map_option (\<lambda>a. map_of (ta_get s (h ! a))) p"
  by (simp_all add: mapShape_def)

lemma shaped_map: "shaped (mapShape s)"
  unfolding shaped_def
proof (intro allI impI, goal_cases)
  case (1 h h' p)
  then show ?case
    by (cases p) auto
qed

primrec copyEntries ::
    "('c, 'k, 'b) table \<Rightarrow> addr \<Rightarrow> addr \<Rightarrow> 'k list \<Rightarrow> ('c list, unit) state"
  where
  "copyEntries s a b [] = State_Monad.return ()"
| "copyEntries s a b (key # keys) = do {
     val \<leftarrow> readCell (\<lambda>c. map_of (ta_get s c) key) a;
     t \<leftarrow> readCell (ta_get s) b;
     _ \<leftarrow> (case val of None \<Rightarrow> State_Monad.return ()
          | Some v \<Rightarrow> writeCell b (ta_put s (AList.update key v t)));
     copyEntries s a b keys }"

definition copyMap ::
    "('k list \<Rightarrow> 'k list) \<Rightarrow> ('c, 'k, 'b) table \<Rightarrow> addr option \<Rightarrow> ('c list, addr option) state"
  where
  "copyMap order s p = (case p of
     None \<Rightarrow> State_Monad.return None
   | Some a \<Rightarrow> do {
       keys \<leftarrow> readCell (\<lambda>c. order (remdups (map fst (ta_get s c)))) a;
       b \<leftarrow> newCell (ta_put s []);
       _ \<leftarrow> copyEntries s a b keys;
       State_Monad.return (Some b) })"

lemma copyEntries_copied:
  assumes a: "a < length h" and cell: "table_ok s"
  shows "run_state (copyEntries s a (length h) keys) (h @ [ta_put s t]) = (u, h') \<Longrightarrow>
    \<exists>t'. h' = h @ [ta_put s t'] \<and> map_of t' = map_of t ++ (map_of (ta_get s (h ! a)) |` set keys)"
proof (induction keys arbitrary: t)
  case Nil
  then show ?case by auto
next
  case (Cons key keys)
  show ?case
  proof (cases "map_of (ta_get s (h ! a)) key")
    case None
    then have "run_state (copyEntries s a (length h) keys) (h @ [ta_put s t]) = (u, h')"
      using Cons.prems a by (simp add: nth_append cell [unfolded table_ok_def])
    moreover have "map_of (ta_get s (h ! a)) |` set (key # keys) = map_of (ta_get s (h ! a)) |` set keys"
      using None by (auto simp: fun_eq_iff restrict_map_def)
    ultimately show ?thesis
      using Cons.IH [of t] by simp
  next
    case (Some v)
    then have "run_state (copyEntries s a (length h) keys) (h @ [ta_put s (AList.update key v t)]) = (u, h')"
      using Cons.prems a by (simp add: nth_append cell [unfolded table_ok_def])
    moreover have "map_of (AList.update key v t) ++ (map_of (ta_get s (h ! a)) |` set keys) =
        map_of t ++ (map_of (ta_get s (h ! a)) |` set (key # keys))"
      using Some by (auto simp: fun_eq_iff map_add_def restrict_map_def update_conv' split: option.splits)
    ultimately show ?thesis
      using Cons.IH [of "AList.update key v t"] by simp
  qed
qed

lemma copier_map:
  assumes cell: "table_ok s" and order: "\<And>ks. set (order ks) = set ks"
  shows "copier (mapShape s) (copyMap order s)"
proof (intro copier.intro copier_axioms.intro)
  show "shaped (mapShape s)" by (rule shaped_map)
  fix p q h h'
  assume run: "run_state (copyMap order s p) h = (q, h')" and held: "held (mapShape s) h p"
  show "prefix h h' \<and> sh_view (mapShape s) h' q = sh_view (mapShape s) h p
      \<and> sh_reach (mapShape s) h' q \<subseteq> {length h..<length h'}"
  proof (cases p)
    case None
    then show ?thesis using run by (simp add: copyMap_def)
  next
    case (Some a)
    let ?t = "ta_get s (h ! a)"
    have a: "a < length h"
      using held by (simp add: held_def Some)
    obtain u where q: "q = Some (length h)"
      "run_state (copyEntries s a (length h) (order (remdups (map fst ?t)))) (h @ [ta_put s []]) = (u, h')"
      using run by (auto simp: copyMap_def Some split: prod.splits)
    obtain t' where t': "h' = h @ [ta_put s t']" "map_of t' = Map.empty ++ (map_of ?t |` set (map fst ?t))"
      using copyEntries_copied [OF a cell q(2)] by (auto simp: order)
    have "map_of ?t |` set (map fst ?t) = map_of ?t"
      by (auto simp: fun_eq_iff restrict_map_def map_of_eq_None_iff [symmetric])
    then show ?thesis
      by (simp add: q(1) Some t' cell [unfolded table_ok_def])
  qed
qed

end
