(* ===== verification/MemTypes.thy ===== *)
theory MemTypes
  imports ApiTypes GoHeap
begin

section \<open>The resources as Go keeps them in memory\<close>

text \<open>
  The structs of \<^verbatim>\<open>api/v1alpha1\<close> once more, with their pointers: a field that is a pointer, a
  slice or a map holds the address of a cell, or is nil. A struct without such a field is the
  record it has in ApiTypes, and a \<^verbatim>\<open>clusterRef\<close> struct the one name it holds. For every struct
  with pointers there is its zero value (what \<^verbatim>\<open>new\<close> and \<^verbatim>\<open>make\<close> fill a cell with) and its
  shape, read off the declaration: every field that can hold an address is a part of it, and
  every other field belongs to the rest.
\<close>

subsection \<open>Third-party structs\<close>

text \<open>
  \<^verbatim>\<open>ObjectMeta\<close>, \<^verbatim>\<open>ListMeta\<close>, \<^verbatim>\<open>ResourceRequirements\<close> and \<^verbatim>\<open>RawExtension\<close> are declared elsewhere: a
  value of them is its plain fields in serialised form and the addresses it holds. What it
  holds on to beyond those is the library's affair, see \<open>library\<close> in the theory of the copies.
\<close>

datatype foreign_kind = ObjectMetaKind | ListMetaKind | ResourceRequirementsKind | RawExtensionKind

record foreign =
  fo_fields :: opaque
  fo_refs :: "addr list"

type_synonym foreign_view = "opaque \<times> opaque list"

definition zeroForeign :: foreign where
  "zeroForeign = \<lparr>fo_fields = [], fo_refs = []\<rparr>"

text \<open>\<^verbatim>\<open>metav1.TypeMeta\<close> is two strings.\<close>

record type_meta =
  tm_kind :: string
  tm_apiVersion :: string

subsection \<open>Structs with pointers\<close>

record mem_gateway_spec =
  gs'mode :: string
  gs'className :: string
  gs'ref :: "addr option"
  gs'rpcPorts :: "addr option"
  gs'httpHostname :: string

record mem_load_balancer_spec =
  lb'loadBalancerClass :: string
  lb'annotations :: "addr option"

record mem_external_access_spec =
  ea'mode :: string
  ea'gateway :: "addr option"
  ea'loadBalancer :: "addr option"

record mem_cluster_spec =
  cs'image :: string
  cs'servers :: int
  cs'region :: string
  cs'datacenters :: "addr option"
  cs'nodeGCThreshold :: "addr option"
  cs'storage :: storage_spec
  cs'tls :: tls_spec
  cs'externalAccess :: mem_external_access_spec
  cs'resources :: foreign

record mem_cluster_status =
  ct'phase :: string
  ct'conditions :: "addr option"
  ct'observedGeneration :: int
  ct'externalAddress :: string
  ct'members :: "addr option"
  ct'leader :: string
  ct'quorum :: string
  ct'endpoint :: string
  ct'bootstrapTokenSecretRef :: string
  ct'gossipKeySecretRef :: string

record mem_node_drain_spec =
  nd'deadline :: "addr option"
  nd'ignoreSystemJobs :: bool

record mem_node_spec =
  no'clusterRef :: string
  no'nodeName :: string
  no'eligible :: bool
  no'drain :: "addr option"

record mem_last_drain_status =
  ld'status :: string
  ld'startedAt :: "addr option"
  ld'updatedAt :: "addr option"

record mem_node_status =
  nt'nodeID :: string
  nt'status :: string
  nt'schedulingEligibility :: string
  nt'draining :: bool
  nt'drainObservedGeneration :: int
  nt'lastDrain :: "addr option"
  nt'nodeClass :: string
  nt'nodePool :: string
  nt'datacenter :: string
  nt'observedGeneration :: int
  nt'conditions :: "addr option"

record mem_pool_spec =
  ps'clusterRef :: string
  ps'poolName :: string
  ps'description :: string
  ps'meta :: "addr option"

record mem_pool_status =
  pt'nodeCount :: int
  pt'jobCount :: int
  pt'observedGeneration :: int
  pt'conditions :: "addr option"

record mem_namespace_spec =
  ns'clusterRef :: string
  ns'namespaceName :: string
  ns'description :: string
  ns'meta :: "addr option"

record mem_namespace_status =
  nst'jobCount :: int
  nst'observedGeneration :: int
  nst'conditions :: "addr option"

record mem_job_spec =
  js'clusterRef :: string
  js'jobID :: string
  js'nomadNamespace :: string
  js'job :: foreign

record mem_job_status =
  jt'jobStatus :: string
  jt'jobVersion :: int
  jt'groups :: "addr option"
  jt'observedGeneration :: int
  jt'conditions :: "addr option"

text \<open>The five resources share one layout, and so do their lists.\<close>

record ('s, 't) mem_object =
  ob'typeMeta :: type_meta
  ob'objectMeta :: foreign
  ob'spec :: 's
  ob'status :: 't

record mem_list =
  li'typeMeta :: type_meta
  li'listMeta :: foreign
  li'items :: "addr option"

type_synonym mem_cluster = "(mem_cluster_spec, mem_cluster_status) mem_object"
type_synonym mem_node = "(mem_node_spec, mem_node_status) mem_object"
type_synonym mem_pool = "(mem_pool_spec, mem_pool_status) mem_object"
type_synonym mem_namespace = "(mem_namespace_spec, mem_namespace_status) mem_object"
type_synonym mem_job = "(mem_job_spec, mem_job_status) mem_object"

subsection \<open>Cells\<close>

text \<open>
  One constructor per type that a pointer, a slice or a map of the program can refer to, with
  the selector that reads it, sorted by the file that declares the type.
\<close>

datatype base_cell =
    Duration' (duration': int)
  | Time' (time': timestamp)
  | Foreign' (foreign': opaque)
  | Int32s' (int32s': "int list")
  | Strings' (strings': "string list")
  | Conditions' (conditions': "condition list")
  | StringMap' (stringMap': strmap)

datatype cluster_cell =
    GatewayRef' (gatewayRef': gateway_ref)
  | StorageSpec' (storageSpec': storage_spec)
  | TLSSpec' (tlsSpec': tls_spec)
  | MemberStatus' (memberStatus': member_status)
  | GatewaySpec' (gatewaySpec': mem_gateway_spec)
  | LoadBalancerSpec' (loadBalancerSpec': mem_load_balancer_spec)
  | ExternalAccessSpec' (externalAccessSpec': mem_external_access_spec)
  | NomadClusterSpec' (nomadClusterSpec': mem_cluster_spec)
  | NomadClusterStatus' (nomadClusterStatus': mem_cluster_status)
  | NomadCluster' (nomadCluster': mem_cluster)
  | NomadClusterList' (nomadClusterList': mem_list)
  | Members' (members': "member_status list")
  | NomadClusters' (nomadClusters': "mem_cluster list")

datatype node_cell =
    NodeReference' (nodeReference': string)
  | NodeDrainSpec' (nodeDrainSpec': mem_node_drain_spec)
  | NomadNodeSpec' (nomadNodeSpec': mem_node_spec)
  | LastDrainStatus' (lastDrainStatus': mem_last_drain_status)
  | NomadNodeStatus' (nomadNodeStatus': mem_node_status)
  | NomadNode' (nomadNode': mem_node)
  | NomadNodeList' (nomadNodeList': mem_list)
  | NomadNodes' (nomadNodes': "mem_node list")

datatype pool_cell =
    PoolClusterRef' (poolClusterRef': string)
  | NomadPoolSpec' (nomadPoolSpec': mem_pool_spec)
  | NomadPoolStatus' (nomadPoolStatus': mem_pool_status)
  | NomadPool' (nomadPool': mem_pool)
  | NomadPoolList' (nomadPoolList': mem_list)
  | NomadPools' (nomadPools': "mem_pool list")

datatype namespace_cell =
    NamespaceClusterRef' (namespaceClusterRef': string)
  | NomadNamespaceSpec' (nomadNamespaceSpec': mem_namespace_spec)
  | NomadNamespaceStatus' (nomadNamespaceStatus': mem_namespace_status)
  | NomadNamespace' (nomadNamespace': mem_namespace)
  | NomadNamespaceList' (nomadNamespaceList': mem_list)
  | NomadNamespaces' (nomadNamespaces': "mem_namespace list")

datatype job_cell =
    JobClusterRef' (jobClusterRef': string)
  | NomadJobGroupStatus' (nomadJobGroupStatus': nomad_job_group_status)
  | NomadJobSpec' (nomadJobSpec': mem_job_spec)
  | NomadJobStatus' (nomadJobStatus': mem_job_status)
  | NomadJob' (nomadJob': mem_job)
  | NomadJobList' (nomadJobList': mem_list)
  | GroupMap' (groupMap': "(string \<times> nomad_job_group_status) list")
  | NomadJobs' (nomadJobs': "mem_job list")

datatype cell =
    InBase (inBase: base_cell)
  | InCluster (inCluster: cluster_cell)
  | InNode (inNode: node_cell)
  | InPool (inPool: pool_cell)
  | InNamespace (inNamespace: namespace_cell)
  | InJob (inJob: job_cell)

type_synonym memory = "cell list"

subsection \<open>Zero values\<close>

definition zeroGatewayRef :: gateway_ref where
  "zeroGatewayRef = \<lparr>gr_name = [], gr_namespace = []\<rparr>"

definition zeroStorageSpec :: storage_spec where
  "zeroStorageSpec = \<lparr>ss_size = [], ss_storageClassName = []\<rparr>"

definition zeroTLSSpec :: tls_spec where
  "zeroTLSSpec = \<lparr>ts_certSecretRef = []\<rparr>"

definition zeroMemberStatus :: member_status where
  "zeroMemberStatus = \<lparr>ms_name = [], ms_addr = [], ms_status = [], ms_leader = False, ms_voter = False\<rparr>"

definition zeroGroupStatus :: nomad_job_group_status where
  "zeroGroupStatus = \<lparr>jg_running = 0, jg_desired = 0\<rparr>"

definition zeroCondition :: condition where
  "zeroCondition = \<lparr>cn_type = [], cn_status = ConditionUnknown, cn_reason = [], cn_message = [],
     cn_observedGeneration = 0, cn_lastTransitionTime = 0\<rparr>"

definition zeroGatewaySpec :: mem_gateway_spec where
  "zeroGatewaySpec = \<lparr>gs'mode = [], gs'className = [], gs'ref = None, gs'rpcPorts = None, gs'httpHostname
     = []\<rparr>"

definition zeroLoadBalancerSpec :: mem_load_balancer_spec where
  "zeroLoadBalancerSpec = \<lparr>lb'loadBalancerClass = [], lb'annotations = None\<rparr>"

definition zeroExternalAccessSpec :: mem_external_access_spec where
  "zeroExternalAccessSpec = \<lparr>ea'mode = [], ea'gateway = None, ea'loadBalancer = None\<rparr>"

definition zeroNomadClusterSpec :: mem_cluster_spec where
  "zeroNomadClusterSpec = \<lparr>cs'image = [], cs'servers = 0, cs'region = [], cs'datacenters = None,
     cs'nodeGCThreshold = None, cs'storage = zeroStorageSpec, cs'tls = zeroTLSSpec,
     cs'externalAccess = zeroExternalAccessSpec, cs'resources = zeroForeign\<rparr>"

definition zeroNomadClusterStatus :: mem_cluster_status where
  "zeroNomadClusterStatus = \<lparr>ct'phase = [], ct'conditions = None, ct'observedGeneration = 0, ct'externalAddress
     = [], ct'members = None, ct'leader = [], ct'quorum = [], ct'endpoint = [],
     ct'bootstrapTokenSecretRef = [], ct'gossipKeySecretRef = []\<rparr>"

definition zeroNodeDrainSpec :: mem_node_drain_spec where
  "zeroNodeDrainSpec = \<lparr>nd'deadline = None, nd'ignoreSystemJobs = False\<rparr>"

definition zeroNomadNodeSpec :: mem_node_spec where
  "zeroNomadNodeSpec = \<lparr>no'clusterRef = [], no'nodeName = [], no'eligible = False, no'drain = None\<rparr>"

definition zeroLastDrainStatus :: mem_last_drain_status where
  "zeroLastDrainStatus = \<lparr>ld'status = [], ld'startedAt = None, ld'updatedAt = None\<rparr>"

definition zeroNomadNodeStatus :: mem_node_status where
  "zeroNomadNodeStatus = \<lparr>nt'nodeID = [], nt'status = [], nt'schedulingEligibility = [], nt'draining = False,
     nt'drainObservedGeneration = 0, nt'lastDrain = None, nt'nodeClass = [], nt'nodePool = [],
     nt'datacenter = [], nt'observedGeneration = 0, nt'conditions = None\<rparr>"

definition zeroNomadPoolSpec :: mem_pool_spec where
  "zeroNomadPoolSpec = \<lparr>ps'clusterRef = [], ps'poolName = [], ps'description = [], ps'meta = None\<rparr>"

definition zeroNomadPoolStatus :: mem_pool_status where
  "zeroNomadPoolStatus = \<lparr>pt'nodeCount = 0, pt'jobCount = 0, pt'observedGeneration = 0, pt'conditions =
     None\<rparr>"

definition zeroNomadNamespaceSpec :: mem_namespace_spec where
  "zeroNomadNamespaceSpec = \<lparr>ns'clusterRef = [], ns'namespaceName = [], ns'description = [], ns'meta =
     None\<rparr>"

definition zeroNomadNamespaceStatus :: mem_namespace_status where
  "zeroNomadNamespaceStatus = \<lparr>nst'jobCount = 0, nst'observedGeneration = 0, nst'conditions = None\<rparr>"

definition zeroNomadJobSpec :: mem_job_spec where
  "zeroNomadJobSpec = \<lparr>js'clusterRef = [], js'jobID = [], js'nomadNamespace = [], js'job =
     zeroForeign\<rparr>"

definition zeroNomadJobStatus :: mem_job_status where
  "zeroNomadJobStatus = \<lparr>jt'jobStatus = [], jt'jobVersion = 0, jt'groups = None, jt'observedGeneration = 0,
     jt'conditions = None\<rparr>"

definition zeroTypeMeta :: type_meta where
  "zeroTypeMeta = \<lparr>tm_kind = [], tm_apiVersion = []\<rparr>"

definition zeroObject :: "'s \<Rightarrow> 't \<Rightarrow> ('s, 't) mem_object" where
  "zeroObject spec status = \<lparr>ob'typeMeta = zeroTypeMeta, ob'objectMeta = zeroForeign,
     ob'spec = spec, ob'status = status\<rparr>"

definition zeroList :: mem_list where
  "zeroList = \<lparr>li'typeMeta = zeroTypeMeta, li'listMeta = zeroForeign, li'items = None\<rparr>"

abbreviation zeroNomadCluster :: mem_cluster where
  "zeroNomadCluster \<equiv> zeroObject zeroNomadClusterSpec zeroNomadClusterStatus"

abbreviation zeroNomadNode :: mem_node where
  "zeroNomadNode \<equiv> zeroObject zeroNomadNodeSpec zeroNomadNodeStatus"

abbreviation zeroNomadPool :: mem_pool where
  "zeroNomadPool \<equiv> zeroObject zeroNomadPoolSpec zeroNomadPoolStatus"

abbreviation zeroNomadNamespace :: mem_namespace where
  "zeroNomadNamespace \<equiv> zeroObject zeroNomadNamespaceSpec zeroNomadNamespaceStatus"

abbreviation zeroNomadJob :: mem_job where
  "zeroNomadJob \<equiv> zeroObject zeroNomadJobSpec zeroNomadJobStatus"

subsection \<open>How values are put into cells\<close>

definition DurationSlot :: "(cell, int) slot" where
  "DurationSlot = \<lparr>sl_put = InBase \<circ> Duration', sl_get = duration' \<circ> inBase,
     sl_zero = 0\<rparr>"

definition TimeSlot :: "(cell, timestamp) slot" where
  "TimeSlot = \<lparr>sl_put = InBase \<circ> Time', sl_get = time' \<circ> inBase, sl_zero = 0\<rparr>"

definition ForeignSlot :: "(cell, opaque) slot" where
  "ForeignSlot = \<lparr>sl_put = InBase \<circ> Foreign', sl_get = foreign' \<circ> inBase,
     sl_zero = []\<rparr>"

definition Int32Array :: "(cell, int) array" where
  "Int32Array = \<lparr>ar_put = InBase \<circ> Int32s', ar_get = int32s' \<circ> inBase, ar_zero = 0\<rparr>"

definition StringArray :: "(cell, string) array" where
  "StringArray = \<lparr>ar_put = InBase \<circ> Strings', ar_get = strings' \<circ> inBase, ar_zero = []\<rparr>"

definition ConditionArray :: "(cell, condition) array" where
  "ConditionArray = \<lparr>ar_put = InBase \<circ> Conditions', ar_get = conditions' \<circ> inBase, ar_zero = zeroCondition\<rparr>"

definition StringTable :: "(cell, string, string) table" where
  "StringTable = \<lparr>ta_put = InBase \<circ> StringMap', ta_get = stringMap' \<circ> inBase\<rparr>"

definition GatewayRefSlot :: "(cell, gateway_ref) slot" where
  "GatewayRefSlot = \<lparr>sl_put = InCluster \<circ> GatewayRef', sl_get = gatewayRef' \<circ> inCluster,
     sl_zero = zeroGatewayRef\<rparr>"

definition StorageSpecSlot :: "(cell, storage_spec) slot" where
  "StorageSpecSlot = \<lparr>sl_put = InCluster \<circ> StorageSpec', sl_get = storageSpec' \<circ> inCluster,
     sl_zero = zeroStorageSpec\<rparr>"

definition TLSSpecSlot :: "(cell, tls_spec) slot" where
  "TLSSpecSlot = \<lparr>sl_put = InCluster \<circ> TLSSpec', sl_get = tlsSpec' \<circ> inCluster,
     sl_zero = zeroTLSSpec\<rparr>"

definition MemberStatusSlot :: "(cell, member_status) slot" where
  "MemberStatusSlot = \<lparr>sl_put = InCluster \<circ> MemberStatus', sl_get = memberStatus' \<circ> inCluster,
     sl_zero = zeroMemberStatus\<rparr>"

definition GatewaySpecSlot :: "(cell, mem_gateway_spec) slot" where
  "GatewaySpecSlot = \<lparr>sl_put = InCluster \<circ> GatewaySpec', sl_get = gatewaySpec' \<circ> inCluster,
     sl_zero = zeroGatewaySpec\<rparr>"

definition LoadBalancerSpecSlot :: "(cell, mem_load_balancer_spec) slot" where
  "LoadBalancerSpecSlot = \<lparr>sl_put = InCluster \<circ> LoadBalancerSpec', sl_get = loadBalancerSpec' \<circ>
     inCluster, sl_zero = zeroLoadBalancerSpec\<rparr>"

definition ExternalAccessSpecSlot :: "(cell, mem_external_access_spec) slot" where
  "ExternalAccessSpecSlot = \<lparr>sl_put = InCluster \<circ> ExternalAccessSpec', sl_get = externalAccessSpec'
     \<circ> inCluster, sl_zero = zeroExternalAccessSpec\<rparr>"

definition NomadClusterSpecSlot :: "(cell, mem_cluster_spec) slot" where
  "NomadClusterSpecSlot = \<lparr>sl_put = InCluster \<circ> NomadClusterSpec', sl_get = nomadClusterSpec' \<circ>
     inCluster, sl_zero = zeroNomadClusterSpec\<rparr>"

definition NomadClusterStatusSlot :: "(cell, mem_cluster_status) slot" where
  "NomadClusterStatusSlot = \<lparr>sl_put = InCluster \<circ> NomadClusterStatus', sl_get = nomadClusterStatus'
     \<circ> inCluster, sl_zero = zeroNomadClusterStatus\<rparr>"

definition NomadClusterSlot :: "(cell, mem_cluster) slot" where
  "NomadClusterSlot = \<lparr>sl_put = InCluster \<circ> NomadCluster', sl_get = nomadCluster' \<circ> inCluster,
     sl_zero = zeroNomadCluster\<rparr>"

definition NomadClusterListSlot :: "(cell, mem_list) slot" where
  "NomadClusterListSlot = \<lparr>sl_put = InCluster \<circ> NomadClusterList', sl_get = nomadClusterList' \<circ>
     inCluster, sl_zero = zeroList\<rparr>"

definition MemberArray :: "(cell, member_status) array" where
  "MemberArray = \<lparr>ar_put = InCluster \<circ> Members', ar_get = members' \<circ> inCluster, ar_zero = zeroMemberStatus\<rparr>"

definition NomadClusterArray :: "(cell, mem_cluster) array" where
  "NomadClusterArray = \<lparr>ar_put = InCluster \<circ> NomadClusters', ar_get = nomadClusters' \<circ> inCluster, ar_zero = zeroNomadCluster\<rparr>"

definition NodeReferenceSlot :: "(cell, string) slot" where
  "NodeReferenceSlot = \<lparr>sl_put = InNode \<circ> NodeReference', sl_get = nodeReference' \<circ> inNode,
     sl_zero = []\<rparr>"

definition NodeDrainSpecSlot :: "(cell, mem_node_drain_spec) slot" where
  "NodeDrainSpecSlot = \<lparr>sl_put = InNode \<circ> NodeDrainSpec', sl_get = nodeDrainSpec' \<circ> inNode,
     sl_zero = zeroNodeDrainSpec\<rparr>"

definition NomadNodeSpecSlot :: "(cell, mem_node_spec) slot" where
  "NomadNodeSpecSlot = \<lparr>sl_put = InNode \<circ> NomadNodeSpec', sl_get = nomadNodeSpec' \<circ> inNode,
     sl_zero = zeroNomadNodeSpec\<rparr>"

definition LastDrainStatusSlot :: "(cell, mem_last_drain_status) slot" where
  "LastDrainStatusSlot = \<lparr>sl_put = InNode \<circ> LastDrainStatus', sl_get = lastDrainStatus' \<circ> inNode,
     sl_zero = zeroLastDrainStatus\<rparr>"

definition NomadNodeStatusSlot :: "(cell, mem_node_status) slot" where
  "NomadNodeStatusSlot = \<lparr>sl_put = InNode \<circ> NomadNodeStatus', sl_get = nomadNodeStatus' \<circ> inNode,
     sl_zero = zeroNomadNodeStatus\<rparr>"

definition NomadNodeSlot :: "(cell, mem_node) slot" where
  "NomadNodeSlot = \<lparr>sl_put = InNode \<circ> NomadNode', sl_get = nomadNode' \<circ> inNode,
     sl_zero = zeroNomadNode\<rparr>"

definition NomadNodeListSlot :: "(cell, mem_list) slot" where
  "NomadNodeListSlot = \<lparr>sl_put = InNode \<circ> NomadNodeList', sl_get = nomadNodeList' \<circ> inNode,
     sl_zero = zeroList\<rparr>"

definition NomadNodeArray :: "(cell, mem_node) array" where
  "NomadNodeArray = \<lparr>ar_put = InNode \<circ> NomadNodes', ar_get = nomadNodes' \<circ> inNode, ar_zero = zeroNomadNode\<rparr>"

definition PoolClusterRefSlot :: "(cell, string) slot" where
  "PoolClusterRefSlot = \<lparr>sl_put = InPool \<circ> PoolClusterRef', sl_get = poolClusterRef' \<circ> inPool,
     sl_zero = []\<rparr>"

definition NomadPoolSpecSlot :: "(cell, mem_pool_spec) slot" where
  "NomadPoolSpecSlot = \<lparr>sl_put = InPool \<circ> NomadPoolSpec', sl_get = nomadPoolSpec' \<circ> inPool,
     sl_zero = zeroNomadPoolSpec\<rparr>"

definition NomadPoolStatusSlot :: "(cell, mem_pool_status) slot" where
  "NomadPoolStatusSlot = \<lparr>sl_put = InPool \<circ> NomadPoolStatus', sl_get = nomadPoolStatus' \<circ> inPool,
     sl_zero = zeroNomadPoolStatus\<rparr>"

definition NomadPoolSlot :: "(cell, mem_pool) slot" where
  "NomadPoolSlot = \<lparr>sl_put = InPool \<circ> NomadPool', sl_get = nomadPool' \<circ> inPool,
     sl_zero = zeroNomadPool\<rparr>"

definition NomadPoolListSlot :: "(cell, mem_list) slot" where
  "NomadPoolListSlot = \<lparr>sl_put = InPool \<circ> NomadPoolList', sl_get = nomadPoolList' \<circ> inPool,
     sl_zero = zeroList\<rparr>"

definition NomadPoolArray :: "(cell, mem_pool) array" where
  "NomadPoolArray = \<lparr>ar_put = InPool \<circ> NomadPools', ar_get = nomadPools' \<circ> inPool, ar_zero = zeroNomadPool\<rparr>"

definition NamespaceClusterRefSlot :: "(cell, string) slot" where
  "NamespaceClusterRefSlot = \<lparr>sl_put = InNamespace \<circ> NamespaceClusterRef', sl_get = namespaceClusterRef'
     \<circ> inNamespace, sl_zero = []\<rparr>"

definition NomadNamespaceSpecSlot :: "(cell, mem_namespace_spec) slot" where
  "NomadNamespaceSpecSlot = \<lparr>sl_put = InNamespace \<circ> NomadNamespaceSpec', sl_get = nomadNamespaceSpec'
     \<circ> inNamespace, sl_zero = zeroNomadNamespaceSpec\<rparr>"

definition NomadNamespaceStatusSlot :: "(cell, mem_namespace_status) slot" where
  "NomadNamespaceStatusSlot = \<lparr>sl_put = InNamespace \<circ> NomadNamespaceStatus', sl_get = nomadNamespaceStatus'
     \<circ> inNamespace, sl_zero = zeroNomadNamespaceStatus\<rparr>"

definition NomadNamespaceSlot :: "(cell, mem_namespace) slot" where
  "NomadNamespaceSlot = \<lparr>sl_put = InNamespace \<circ> NomadNamespace', sl_get = nomadNamespace' \<circ>
     inNamespace, sl_zero = zeroNomadNamespace\<rparr>"

definition NomadNamespaceListSlot :: "(cell, mem_list) slot" where
  "NomadNamespaceListSlot = \<lparr>sl_put = InNamespace \<circ> NomadNamespaceList', sl_get = nomadNamespaceList'
     \<circ> inNamespace, sl_zero = zeroList\<rparr>"

definition NomadNamespaceArray :: "(cell, mem_namespace) array" where
  "NomadNamespaceArray = \<lparr>ar_put = InNamespace \<circ> NomadNamespaces', ar_get = nomadNamespaces' \<circ> inNamespace, ar_zero = zeroNomadNamespace\<rparr>"

definition JobClusterRefSlot :: "(cell, string) slot" where
  "JobClusterRefSlot = \<lparr>sl_put = InJob \<circ> JobClusterRef', sl_get = jobClusterRef' \<circ> inJob,
     sl_zero = []\<rparr>"

definition NomadJobGroupStatusSlot :: "(cell, nomad_job_group_status) slot" where
  "NomadJobGroupStatusSlot = \<lparr>sl_put = InJob \<circ> NomadJobGroupStatus', sl_get = nomadJobGroupStatus' \<circ>
     inJob, sl_zero = zeroGroupStatus\<rparr>"

definition NomadJobSpecSlot :: "(cell, mem_job_spec) slot" where
  "NomadJobSpecSlot = \<lparr>sl_put = InJob \<circ> NomadJobSpec', sl_get = nomadJobSpec' \<circ> inJob,
     sl_zero = zeroNomadJobSpec\<rparr>"

definition NomadJobStatusSlot :: "(cell, mem_job_status) slot" where
  "NomadJobStatusSlot = \<lparr>sl_put = InJob \<circ> NomadJobStatus', sl_get = nomadJobStatus' \<circ> inJob,
     sl_zero = zeroNomadJobStatus\<rparr>"

definition NomadJobSlot :: "(cell, mem_job) slot" where
  "NomadJobSlot = \<lparr>sl_put = InJob \<circ> NomadJob', sl_get = nomadJob' \<circ> inJob,
     sl_zero = zeroNomadJob\<rparr>"

definition NomadJobListSlot :: "(cell, mem_list) slot" where
  "NomadJobListSlot = \<lparr>sl_put = InJob \<circ> NomadJobList', sl_get = nomadJobList' \<circ> inJob,
     sl_zero = zeroList\<rparr>"

definition GroupTable :: "(cell, string, nomad_job_group_status) table" where
  "GroupTable = \<lparr>ta_put = InJob \<circ> GroupMap', ta_get = groupMap' \<circ> inJob\<rparr>"

definition NomadJobArray :: "(cell, mem_job) array" where
  "NomadJobArray = \<lparr>ar_put = InJob \<circ> NomadJobs', ar_get = nomadJobs' \<circ> inJob, ar_zero = zeroNomadJob\<rparr>"

lemma slots_ok [simp]:
  "slot_ok DurationSlot" "slot_ok TimeSlot" "slot_ok ForeignSlot" "slot_ok GatewayRefSlot"
  "slot_ok StorageSpecSlot" "slot_ok TLSSpecSlot" "slot_ok MemberStatusSlot"
  "slot_ok GatewaySpecSlot" "slot_ok LoadBalancerSpecSlot" "slot_ok ExternalAccessSpecSlot"
  "slot_ok NomadClusterSpecSlot" "slot_ok NomadClusterStatusSlot" "slot_ok NomadClusterSlot"
  "slot_ok NomadClusterListSlot" "slot_ok NodeReferenceSlot" "slot_ok NodeDrainSpecSlot"
  "slot_ok NomadNodeSpecSlot" "slot_ok LastDrainStatusSlot" "slot_ok NomadNodeStatusSlot"
  "slot_ok NomadNodeSlot" "slot_ok NomadNodeListSlot" "slot_ok PoolClusterRefSlot"
  "slot_ok NomadPoolSpecSlot" "slot_ok NomadPoolStatusSlot" "slot_ok NomadPoolSlot"
  "slot_ok NomadPoolListSlot" "slot_ok NamespaceClusterRefSlot" "slot_ok NomadNamespaceSpecSlot"
  "slot_ok NomadNamespaceStatusSlot" "slot_ok NomadNamespaceSlot"
  "slot_ok NomadNamespaceListSlot" "slot_ok JobClusterRefSlot" "slot_ok NomadJobGroupStatusSlot"
  "slot_ok NomadJobSpecSlot" "slot_ok NomadJobStatusSlot" "slot_ok NomadJobSlot"
  "slot_ok NomadJobListSlot"
  by (simp_all add: slot_ok_def DurationSlot_def TimeSlot_def ForeignSlot_def GatewayRefSlot_def StorageSpecSlot_def
    TLSSpecSlot_def MemberStatusSlot_def GatewaySpecSlot_def LoadBalancerSpecSlot_def
    ExternalAccessSpecSlot_def NomadClusterSpecSlot_def NomadClusterStatusSlot_def
    NomadClusterSlot_def NomadClusterListSlot_def NodeReferenceSlot_def NodeDrainSpecSlot_def
    NomadNodeSpecSlot_def LastDrainStatusSlot_def NomadNodeStatusSlot_def NomadNodeSlot_def
    NomadNodeListSlot_def PoolClusterRefSlot_def NomadPoolSpecSlot_def NomadPoolStatusSlot_def
    NomadPoolSlot_def NomadPoolListSlot_def NamespaceClusterRefSlot_def
    NomadNamespaceSpecSlot_def NomadNamespaceStatusSlot_def NomadNamespaceSlot_def
    NomadNamespaceListSlot_def JobClusterRefSlot_def NomadJobGroupStatusSlot_def
    NomadJobSpecSlot_def NomadJobStatusSlot_def NomadJobSlot_def NomadJobListSlot_def)

lemma arrays_ok [simp]:
  "array_ok Int32Array" "array_ok StringArray" "array_ok ConditionArray" "array_ok MemberArray"
  "array_ok NomadClusterArray" "array_ok NomadNodeArray" "array_ok NomadPoolArray"
  "array_ok NomadNamespaceArray" "array_ok NomadJobArray"
  by (simp_all add: array_ok_def Int32Array_def StringArray_def ConditionArray_def MemberArray_def NomadClusterArray_def
    NomadNodeArray_def NomadPoolArray_def NomadNamespaceArray_def NomadJobArray_def)

lemma tables_ok [simp]:
  "table_ok StringTable" "table_ok GroupTable"
  by (simp_all add: table_ok_def StringTable_def GroupTable_def)

end
