(* ===== verification/DeepCopy.thy ===== *)
theory DeepCopy
  imports MemTypes "HOL-Library.Multiset"
begin

section \<open>The generated deep copies (api/v1alpha1/zz_generated.deepcopy.go)\<close>

text \<open>
  Every \<^verbatim>\<open>DeepCopyInto\<close> and \<^verbatim>\<open>DeepCopy\<close> of the API package over the store of GoHeap. A
  \<^verbatim>\<open>DeepCopyInto\<close> is the function from the value at \<^verbatim>\<open>in\<close> to the value it leaves at \<^verbatim>\<open>out\<close>: it
  starts from \<^verbatim>\<open>*out = *in\<close>, so the fields it does not name keep the value of \<^verbatim>\<open>in\<close>, an address
  included. For every struct the lemma \<open>copier_T\<close> states that what it does name is enough.
\<close>

subsection \<open>The library's own copies\<close>

text \<open>
  The copies of third-party structs are parameters: for each struct the cells a value of it
  holds on to and what it reads as (\<open>lb_shape\<close>), and its \<^verbatim>\<open>DeepCopyInto\<close>. \<^verbatim>\<open>metav1.Condition\<close> and
  \<^verbatim>\<open>metav1.Time\<close> hold no address of a cell that can change. \<open>lb_range\<close> is the order in which
  the runtime visits the keys of a map. \<open>library\<close> is what the library documents: its copies
  are deep, and \<^verbatim>\<open>range\<close> visits every key once.
\<close>

record libs =
  lb_shape :: "foreign_kind \<Rightarrow> (cell, foreign, foreign_view) shape"
  lb_deepCopyInto :: "foreign_kind \<Rightarrow> foreign \<Rightarrow> (memory, foreign) state"
  lb_condition :: "condition \<Rightarrow> (memory, condition) state"
  lb_time :: "addr option \<Rightarrow> (memory, addr option) state"
  lb_range :: "string list \<Rightarrow> string list"

definition library :: "libs \<Rightarrow> bool" where
  "library L \<longleftrightarrow>
     (\<forall>k. copier (lb_shape L k) (lb_deepCopyInto L k)) \<and>
     copier plain (lb_condition L) \<and>
     copier (ptrShape TimeSlot plain) (lb_time L) \<and>
     (\<forall>ks. mset (lb_range L ks) = mset ks)"

lemma libraryD [dest]:
  assumes "library L"
  shows "copier (lb_shape L k) (lb_deepCopyInto L k)" "copier plain (lb_condition L)"
    "copier (ptrShape TimeSlot plain) (lb_time L)" "set (lb_range L ks) = set ks"
  using assms by (auto simp: library_def dest: mset_eq_setD)

text \<open>\<^verbatim>\<open>if p != nil { q = p.DeepCopy() }\<close> on a pointer whose copy is the library's.\<close>

definition unlessNil :: "(addr option \<Rightarrow> (memory, addr option) state) \<Rightarrow> addr option \<Rightarrow> (memory, addr option) state"
  where
  "unlessNil f p = (case p of None \<Rightarrow> State_Monad.return None | Some a \<Rightarrow> f (Some a))"

lemma copier_unlessNil:
  "copier (ptrShape s S) f \<Longrightarrow> copier (ptrShape s S) (unlessNil f)"
  unfolding copier_def copier_axioms_def unlessNil_def
  by (auto split: option.splits)

text \<open>The blocks that several structs share.\<close>

definition copyConditions :: "libs \<Rightarrow> addr option \<Rightarrow> (memory, addr option) state" where
  "copyConditions L = newSlice ConditionArray (lb_condition L)"

definition copyStringMap :: "libs \<Rightarrow> addr option \<Rightarrow> (memory, addr option) state" where
  "copyStringMap L = copyMap (lb_range L) StringTable"

definition copyDuration :: "addr option \<Rightarrow> (memory, addr option) state" where
  "copyDuration = newPtr DurationSlot assignCopy"

lemma copier_blocks:
  assumes "library L"
  shows copier_conditions: "copier (sliceShape ConditionArray plain) (copyConditions L)"
    and copier_stringMap: "copier (mapShape StringTable) (copyStringMap L)"
    and copier_time: "copier (ptrShape TimeSlot plain) (unlessNil (lb_time L))"
  using assms
  by (auto simp: copyConditions_def copyStringMap_def
      intro!: copier_newSlice copier_map copier_unlessNil)

lemma copier_duration: "copier (ptrShape DurationSlot plain) copyDuration"
  unfolding copyDuration_def by (intro copier_ptr copier_plain) simp

subsection \<open>Structs without pointers\<close>

definition DeepCopyInto_GatewayRef :: "gateway_ref \<Rightarrow> (memory, gateway_ref) state" where
  "DeepCopyInto_GatewayRef x = assignCopy x"

definition DeepCopy_GatewayRef :: "addr option \<Rightarrow> (memory, addr option) state" where
  "DeepCopy_GatewayRef = newPtr GatewayRefSlot DeepCopyInto_GatewayRef"

definition DeepCopyInto_StorageSpec :: "storage_spec \<Rightarrow> (memory, storage_spec) state" where
  "DeepCopyInto_StorageSpec x = assignCopy x"

definition DeepCopy_StorageSpec :: "addr option \<Rightarrow> (memory, addr option) state" where
  "DeepCopy_StorageSpec = newPtr StorageSpecSlot DeepCopyInto_StorageSpec"

definition DeepCopyInto_TLSSpec :: "tls_spec \<Rightarrow> (memory, tls_spec) state" where
  "DeepCopyInto_TLSSpec x = assignCopy x"

definition DeepCopy_TLSSpec :: "addr option \<Rightarrow> (memory, addr option) state" where
  "DeepCopy_TLSSpec = newPtr TLSSpecSlot DeepCopyInto_TLSSpec"

definition DeepCopyInto_MemberStatus :: "member_status \<Rightarrow> (memory, member_status) state" where
  "DeepCopyInto_MemberStatus x = assignCopy x"

definition DeepCopy_MemberStatus :: "addr option \<Rightarrow> (memory, addr option) state" where
  "DeepCopy_MemberStatus = newPtr MemberStatusSlot DeepCopyInto_MemberStatus"

definition DeepCopyInto_NodeReference :: "string \<Rightarrow> (memory, string) state" where
  "DeepCopyInto_NodeReference x = assignCopy x"

definition DeepCopy_NodeReference :: "addr option \<Rightarrow> (memory, addr option) state" where
  "DeepCopy_NodeReference = newPtr NodeReferenceSlot DeepCopyInto_NodeReference"

definition DeepCopyInto_PoolClusterRef :: "string \<Rightarrow> (memory, string) state" where
  "DeepCopyInto_PoolClusterRef x = assignCopy x"

definition DeepCopy_PoolClusterRef :: "addr option \<Rightarrow> (memory, addr option) state" where
  "DeepCopy_PoolClusterRef = newPtr PoolClusterRefSlot DeepCopyInto_PoolClusterRef"

definition DeepCopyInto_NamespaceClusterRef :: "string \<Rightarrow> (memory, string) state" where
  "DeepCopyInto_NamespaceClusterRef x = assignCopy x"

definition DeepCopy_NamespaceClusterRef :: "addr option \<Rightarrow> (memory, addr option) state" where
  "DeepCopy_NamespaceClusterRef = newPtr NamespaceClusterRefSlot DeepCopyInto_NamespaceClusterRef"

definition DeepCopyInto_JobClusterRef :: "string \<Rightarrow> (memory, string) state" where
  "DeepCopyInto_JobClusterRef x = assignCopy x"

definition DeepCopy_JobClusterRef :: "addr option \<Rightarrow> (memory, addr option) state" where
  "DeepCopy_JobClusterRef = newPtr JobClusterRefSlot DeepCopyInto_JobClusterRef"

definition DeepCopyInto_NomadJobGroupStatus :: "nomad_job_group_status \<Rightarrow> (memory, nomad_job_group_status) state" where
  "DeepCopyInto_NomadJobGroupStatus x = assignCopy x"

definition DeepCopy_NomadJobGroupStatus :: "addr option \<Rightarrow> (memory, addr option) state" where
  "DeepCopy_NomadJobGroupStatus = newPtr NomadJobGroupStatusSlot DeepCopyInto_NomadJobGroupStatus"

subsection \<open>Specs and statuses\<close>

definition GatewaySpecShape where
  "GatewaySpecShape = structShape
     (\<lambda>x. (gs'mode x, gs'className x, gs'httpHostname x))
     (\<lambda>x. (gs'ref x, gs'rpcPorts x))
     (pairShape (ptrShape GatewayRefSlot plain) (sliceShape Int32Array plain))"

definition DeepCopyInto_GatewaySpec :: "mem_gateway_spec \<Rightarrow> (memory, mem_gateway_spec) state" where
  "DeepCopyInto_GatewaySpec x = do {
     ref \<leftarrow> newPtr GatewayRefSlot assignCopy (gs'ref x);
     rpcPorts \<leftarrow> copySlice Int32Array (gs'rpcPorts x);
     State_Monad.return (x\<lparr>gs'ref := ref, gs'rpcPorts := rpcPorts\<rparr>) }"

definition DeepCopy_GatewaySpec :: "addr option \<Rightarrow> (memory, addr option) state" where
  "DeepCopy_GatewaySpec = newPtr GatewaySpecSlot DeepCopyInto_GatewaySpec"

lemma copier_GatewaySpec: "copier GatewaySpecShape DeepCopyInto_GatewaySpec"
  unfolding GatewaySpecShape_def
  by (rule copier_struct [OF copier_pair [OF copier_ptr [OF copier_plain] copier_slice],
      where build = "\<lambda>x y. x\<lparr>gs'ref := fst y, gs'rpcPorts := snd y\<rparr>"])
    (simp_all add: DeepCopyInto_GatewaySpec_def copyPair_def)

definition LoadBalancerSpecShape where
  "LoadBalancerSpecShape = structShape
     (\<lambda>x. lb'loadBalancerClass x)
     (\<lambda>x. lb'annotations x)
     (mapShape StringTable)"

definition DeepCopyInto_LoadBalancerSpec :: "libs \<Rightarrow> mem_load_balancer_spec \<Rightarrow> (memory, mem_load_balancer_spec) state" where
  "DeepCopyInto_LoadBalancerSpec L x = do {
     annotations \<leftarrow> copyStringMap L (lb'annotations x);
     State_Monad.return (x\<lparr>lb'annotations := annotations\<rparr>) }"

definition DeepCopy_LoadBalancerSpec :: "libs \<Rightarrow> addr option \<Rightarrow> (memory, addr option) state" where
  "DeepCopy_LoadBalancerSpec L = newPtr LoadBalancerSpecSlot (DeepCopyInto_LoadBalancerSpec L)"

lemma copier_LoadBalancerSpec:
  assumes "library L"
  shows "copier LoadBalancerSpecShape (DeepCopyInto_LoadBalancerSpec L)"
  unfolding LoadBalancerSpecShape_def
  by (rule copier_struct [OF copier_stringMap [OF assms],
      where build = "\<lambda>x y. x\<lparr>lb'annotations := y\<rparr>"])
    (simp_all add: DeepCopyInto_LoadBalancerSpec_def copyPair_def)

definition ExternalAccessSpecShape where
  "ExternalAccessSpecShape = structShape
     (\<lambda>x. ea'mode x)
     (\<lambda>x. (ea'gateway x, ea'loadBalancer x))
     (pairShape (ptrShape GatewaySpecSlot GatewaySpecShape) (ptrShape LoadBalancerSpecSlot
      LoadBalancerSpecShape))"

definition DeepCopyInto_ExternalAccessSpec :: "libs \<Rightarrow> mem_external_access_spec \<Rightarrow> (memory, mem_external_access_spec) state" where
  "DeepCopyInto_ExternalAccessSpec L x = do {
     gateway \<leftarrow> newPtr GatewaySpecSlot DeepCopyInto_GatewaySpec (ea'gateway x);
     loadBalancer \<leftarrow> newPtr LoadBalancerSpecSlot (DeepCopyInto_LoadBalancerSpec L) (ea'loadBalancer x);
     State_Monad.return (x\<lparr>ea'gateway := gateway, ea'loadBalancer := loadBalancer\<rparr>) }"

definition DeepCopy_ExternalAccessSpec :: "libs \<Rightarrow> addr option \<Rightarrow> (memory, addr option) state" where
  "DeepCopy_ExternalAccessSpec L = newPtr ExternalAccessSpecSlot (DeepCopyInto_ExternalAccessSpec L)"

lemma copier_ExternalAccessSpec:
  assumes "library L"
  shows "copier ExternalAccessSpecShape (DeepCopyInto_ExternalAccessSpec L)"
  unfolding ExternalAccessSpecShape_def
  by (rule copier_struct [OF copier_pair [OF copier_ptr [OF copier_GatewaySpec] copier_ptr [OF copier_LoadBalancerSpec
      [OF assms]]],
      where build = "\<lambda>x y. x\<lparr>ea'gateway := fst y, ea'loadBalancer := snd y\<rparr>"])
    (simp_all add: DeepCopyInto_ExternalAccessSpec_def copyPair_def)

definition NomadClusterSpecShape where
  "NomadClusterSpecShape L = structShape
     (\<lambda>x. (cs'image x, cs'servers x, cs'region x, cs'storage x, cs'tls x))
     (\<lambda>x. (cs'datacenters x, cs'nodeGCThreshold x, cs'externalAccess x, cs'resources x))
     (pairShape (sliceShape StringArray plain) (pairShape (ptrShape DurationSlot plain)
      (pairShape (ExternalAccessSpecShape) (lb_shape L ResourceRequirementsKind))))"

definition DeepCopyInto_NomadClusterSpec :: "libs \<Rightarrow> mem_cluster_spec \<Rightarrow> (memory, mem_cluster_spec) state" where
  "DeepCopyInto_NomadClusterSpec L x = do {
     datacenters \<leftarrow> copySlice StringArray (cs'datacenters x);
     nodeGCThreshold \<leftarrow> copyDuration (cs'nodeGCThreshold x);
     externalAccess \<leftarrow> DeepCopyInto_ExternalAccessSpec L (cs'externalAccess x);
     resources \<leftarrow> lb_deepCopyInto L ResourceRequirementsKind (cs'resources x);
     State_Monad.return (x\<lparr>cs'datacenters := datacenters, cs'nodeGCThreshold := nodeGCThreshold, cs'externalAccess :=
      externalAccess, cs'resources := resources\<rparr>) }"

definition DeepCopy_NomadClusterSpec :: "libs \<Rightarrow> addr option \<Rightarrow> (memory, addr option) state" where
  "DeepCopy_NomadClusterSpec L = newPtr NomadClusterSpecSlot (DeepCopyInto_NomadClusterSpec L)"

lemma copier_NomadClusterSpec:
  assumes "library L"
  shows "copier (NomadClusterSpecShape L) (DeepCopyInto_NomadClusterSpec L)"
  unfolding NomadClusterSpecShape_def
  by (rule copier_struct [OF copier_pair [OF copier_slice copier_pair [OF copier_duration copier_pair [OF
      copier_ExternalAccessSpec [OF assms] libraryD(1) [OF assms]]]],
      where build = "\<lambda>x y. x\<lparr>cs'datacenters := fst y, cs'nodeGCThreshold := fst (snd y), cs'externalAccess := fst (snd (snd y)), cs'resources := snd (snd (snd y))\<rparr>"])
    (simp_all add: DeepCopyInto_NomadClusterSpec_def copyPair_def)

definition NomadClusterStatusShape where
  "NomadClusterStatusShape = structShape
     (\<lambda>x. (ct'phase x, ct'observedGeneration x, ct'externalAddress x, ct'leader x, ct'quorum x,
        ct'endpoint x, ct'bootstrapTokenSecretRef x, ct'gossipKeySecretRef x))
     (\<lambda>x. (ct'conditions x, ct'members x))
     (pairShape (sliceShape ConditionArray plain) (sliceShape MemberArray plain))"

definition DeepCopyInto_NomadClusterStatus :: "libs \<Rightarrow> mem_cluster_status \<Rightarrow> (memory, mem_cluster_status) state" where
  "DeepCopyInto_NomadClusterStatus L x = do {
     conditions \<leftarrow> copyConditions L (ct'conditions x);
     members \<leftarrow> copySlice MemberArray (ct'members x);
     State_Monad.return (x\<lparr>ct'conditions := conditions, ct'members := members\<rparr>) }"

definition DeepCopy_NomadClusterStatus :: "libs \<Rightarrow> addr option \<Rightarrow> (memory, addr option) state" where
  "DeepCopy_NomadClusterStatus L = newPtr NomadClusterStatusSlot (DeepCopyInto_NomadClusterStatus L)"

lemma copier_NomadClusterStatus:
  assumes "library L"
  shows "copier NomadClusterStatusShape (DeepCopyInto_NomadClusterStatus L)"
  unfolding NomadClusterStatusShape_def
  by (rule copier_struct [OF copier_pair [OF copier_conditions [OF assms] copier_slice],
      where build = "\<lambda>x y. x\<lparr>ct'conditions := fst y, ct'members := snd y\<rparr>"])
    (simp_all add: DeepCopyInto_NomadClusterStatus_def copyPair_def)

definition NodeDrainSpecShape where
  "NodeDrainSpecShape = structShape
     (\<lambda>x. nd'ignoreSystemJobs x)
     (\<lambda>x. nd'deadline x)
     (ptrShape DurationSlot plain)"

definition DeepCopyInto_NodeDrainSpec :: "mem_node_drain_spec \<Rightarrow> (memory, mem_node_drain_spec) state" where
  "DeepCopyInto_NodeDrainSpec x = do {
     deadline \<leftarrow> copyDuration (nd'deadline x);
     State_Monad.return (x\<lparr>nd'deadline := deadline\<rparr>) }"

definition DeepCopy_NodeDrainSpec :: "addr option \<Rightarrow> (memory, addr option) state" where
  "DeepCopy_NodeDrainSpec = newPtr NodeDrainSpecSlot DeepCopyInto_NodeDrainSpec"

lemma copier_NodeDrainSpec: "copier NodeDrainSpecShape DeepCopyInto_NodeDrainSpec"
  unfolding NodeDrainSpecShape_def
  by (rule copier_struct [OF copier_duration,
      where build = "\<lambda>x y. x\<lparr>nd'deadline := y\<rparr>"])
    (simp_all add: DeepCopyInto_NodeDrainSpec_def copyPair_def)

definition NomadNodeSpecShape where
  "NomadNodeSpecShape = structShape
     (\<lambda>x. (no'clusterRef x, no'nodeName x, no'eligible x))
     (\<lambda>x. no'drain x)
     (ptrShape NodeDrainSpecSlot NodeDrainSpecShape)"

definition DeepCopyInto_NomadNodeSpec :: "mem_node_spec \<Rightarrow> (memory, mem_node_spec) state" where
  "DeepCopyInto_NomadNodeSpec x = do {
     drain \<leftarrow> newPtr NodeDrainSpecSlot DeepCopyInto_NodeDrainSpec (no'drain x);
     State_Monad.return (x\<lparr>no'drain := drain\<rparr>) }"

definition DeepCopy_NomadNodeSpec :: "addr option \<Rightarrow> (memory, addr option) state" where
  "DeepCopy_NomadNodeSpec = newPtr NomadNodeSpecSlot DeepCopyInto_NomadNodeSpec"

lemma copier_NomadNodeSpec: "copier NomadNodeSpecShape DeepCopyInto_NomadNodeSpec"
  unfolding NomadNodeSpecShape_def
  by (rule copier_struct [OF copier_ptr [OF copier_NodeDrainSpec],
      where build = "\<lambda>x y. x\<lparr>no'drain := y\<rparr>"])
    (simp_all add: DeepCopyInto_NomadNodeSpec_def copyPair_def)

definition LastDrainStatusShape where
  "LastDrainStatusShape = structShape
     (\<lambda>x. ld'status x)
     (\<lambda>x. (ld'startedAt x, ld'updatedAt x))
     (pairShape (ptrShape TimeSlot plain) (ptrShape TimeSlot plain))"

definition DeepCopyInto_LastDrainStatus :: "libs \<Rightarrow> mem_last_drain_status \<Rightarrow> (memory, mem_last_drain_status) state" where
  "DeepCopyInto_LastDrainStatus L x = do {
     startedAt \<leftarrow> unlessNil (lb_time L) (ld'startedAt x);
     updatedAt \<leftarrow> unlessNil (lb_time L) (ld'updatedAt x);
     State_Monad.return (x\<lparr>ld'startedAt := startedAt, ld'updatedAt := updatedAt\<rparr>) }"

definition DeepCopy_LastDrainStatus :: "libs \<Rightarrow> addr option \<Rightarrow> (memory, addr option) state" where
  "DeepCopy_LastDrainStatus L = newPtr LastDrainStatusSlot (DeepCopyInto_LastDrainStatus L)"

lemma copier_LastDrainStatus:
  assumes "library L"
  shows "copier LastDrainStatusShape (DeepCopyInto_LastDrainStatus L)"
  unfolding LastDrainStatusShape_def
  by (rule copier_struct [OF copier_pair [OF copier_time [OF assms] copier_time [OF assms]],
      where build = "\<lambda>x y. x\<lparr>ld'startedAt := fst y, ld'updatedAt := snd y\<rparr>"])
    (simp_all add: DeepCopyInto_LastDrainStatus_def copyPair_def)

definition NomadNodeStatusShape where
  "NomadNodeStatusShape = structShape
     (\<lambda>x. (nt'nodeID x, nt'status x, nt'schedulingEligibility x, nt'draining x,
        nt'drainObservedGeneration x, nt'nodeClass x, nt'nodePool x, nt'datacenter x,
        nt'observedGeneration x))
     (\<lambda>x. (nt'lastDrain x, nt'conditions x))
     (pairShape (ptrShape LastDrainStatusSlot LastDrainStatusShape) (sliceShape ConditionArray
      plain))"

definition DeepCopyInto_NomadNodeStatus :: "libs \<Rightarrow> mem_node_status \<Rightarrow> (memory, mem_node_status) state" where
  "DeepCopyInto_NomadNodeStatus L x = do {
     lastDrain \<leftarrow> newPtr LastDrainStatusSlot (DeepCopyInto_LastDrainStatus L) (nt'lastDrain x);
     conditions \<leftarrow> copyConditions L (nt'conditions x);
     State_Monad.return (x\<lparr>nt'lastDrain := lastDrain, nt'conditions := conditions\<rparr>) }"

definition DeepCopy_NomadNodeStatus :: "libs \<Rightarrow> addr option \<Rightarrow> (memory, addr option) state" where
  "DeepCopy_NomadNodeStatus L = newPtr NomadNodeStatusSlot (DeepCopyInto_NomadNodeStatus L)"

lemma copier_NomadNodeStatus:
  assumes "library L"
  shows "copier NomadNodeStatusShape (DeepCopyInto_NomadNodeStatus L)"
  unfolding NomadNodeStatusShape_def
  by (rule copier_struct [OF copier_pair [OF copier_ptr [OF copier_LastDrainStatus [OF assms]] copier_conditions [OF
      assms]],
      where build = "\<lambda>x y. x\<lparr>nt'lastDrain := fst y, nt'conditions := snd y\<rparr>"])
    (simp_all add: DeepCopyInto_NomadNodeStatus_def copyPair_def)

definition NomadPoolSpecShape where
  "NomadPoolSpecShape = structShape
     (\<lambda>x. (ps'clusterRef x, ps'poolName x, ps'description x))
     (\<lambda>x. ps'meta x)
     (mapShape StringTable)"

definition DeepCopyInto_NomadPoolSpec :: "libs \<Rightarrow> mem_pool_spec \<Rightarrow> (memory, mem_pool_spec) state" where
  "DeepCopyInto_NomadPoolSpec L x = do {
     meta \<leftarrow> copyStringMap L (ps'meta x);
     State_Monad.return (x\<lparr>ps'meta := meta\<rparr>) }"

definition DeepCopy_NomadPoolSpec :: "libs \<Rightarrow> addr option \<Rightarrow> (memory, addr option) state" where
  "DeepCopy_NomadPoolSpec L = newPtr NomadPoolSpecSlot (DeepCopyInto_NomadPoolSpec L)"

lemma copier_NomadPoolSpec:
  assumes "library L"
  shows "copier NomadPoolSpecShape (DeepCopyInto_NomadPoolSpec L)"
  unfolding NomadPoolSpecShape_def
  by (rule copier_struct [OF copier_stringMap [OF assms],
      where build = "\<lambda>x y. x\<lparr>ps'meta := y\<rparr>"])
    (simp_all add: DeepCopyInto_NomadPoolSpec_def copyPair_def)

definition NomadPoolStatusShape where
  "NomadPoolStatusShape = structShape
     (\<lambda>x. (pt'nodeCount x, pt'jobCount x, pt'observedGeneration x))
     (\<lambda>x. pt'conditions x)
     (sliceShape ConditionArray plain)"

definition DeepCopyInto_NomadPoolStatus :: "libs \<Rightarrow> mem_pool_status \<Rightarrow> (memory, mem_pool_status) state" where
  "DeepCopyInto_NomadPoolStatus L x = do {
     conditions \<leftarrow> copyConditions L (pt'conditions x);
     State_Monad.return (x\<lparr>pt'conditions := conditions\<rparr>) }"

definition DeepCopy_NomadPoolStatus :: "libs \<Rightarrow> addr option \<Rightarrow> (memory, addr option) state" where
  "DeepCopy_NomadPoolStatus L = newPtr NomadPoolStatusSlot (DeepCopyInto_NomadPoolStatus L)"

lemma copier_NomadPoolStatus:
  assumes "library L"
  shows "copier NomadPoolStatusShape (DeepCopyInto_NomadPoolStatus L)"
  unfolding NomadPoolStatusShape_def
  by (rule copier_struct [OF copier_conditions [OF assms],
      where build = "\<lambda>x y. x\<lparr>pt'conditions := y\<rparr>"])
    (simp_all add: DeepCopyInto_NomadPoolStatus_def copyPair_def)

definition NomadNamespaceSpecShape where
  "NomadNamespaceSpecShape = structShape
     (\<lambda>x. (ns'clusterRef x, ns'namespaceName x, ns'description x))
     (\<lambda>x. ns'meta x)
     (mapShape StringTable)"

definition DeepCopyInto_NomadNamespaceSpec :: "libs \<Rightarrow> mem_namespace_spec \<Rightarrow> (memory, mem_namespace_spec) state" where
  "DeepCopyInto_NomadNamespaceSpec L x = do {
     meta \<leftarrow> copyStringMap L (ns'meta x);
     State_Monad.return (x\<lparr>ns'meta := meta\<rparr>) }"

definition DeepCopy_NomadNamespaceSpec :: "libs \<Rightarrow> addr option \<Rightarrow> (memory, addr option) state" where
  "DeepCopy_NomadNamespaceSpec L = newPtr NomadNamespaceSpecSlot (DeepCopyInto_NomadNamespaceSpec L)"

lemma copier_NomadNamespaceSpec:
  assumes "library L"
  shows "copier NomadNamespaceSpecShape (DeepCopyInto_NomadNamespaceSpec L)"
  unfolding NomadNamespaceSpecShape_def
  by (rule copier_struct [OF copier_stringMap [OF assms],
      where build = "\<lambda>x y. x\<lparr>ns'meta := y\<rparr>"])
    (simp_all add: DeepCopyInto_NomadNamespaceSpec_def copyPair_def)

definition NomadNamespaceStatusShape where
  "NomadNamespaceStatusShape = structShape
     (\<lambda>x. (nst'jobCount x, nst'observedGeneration x))
     (\<lambda>x. nst'conditions x)
     (sliceShape ConditionArray plain)"

definition DeepCopyInto_NomadNamespaceStatus :: "libs \<Rightarrow> mem_namespace_status \<Rightarrow> (memory, mem_namespace_status) state" where
  "DeepCopyInto_NomadNamespaceStatus L x = do {
     conditions \<leftarrow> copyConditions L (nst'conditions x);
     State_Monad.return (x\<lparr>nst'conditions := conditions\<rparr>) }"

definition DeepCopy_NomadNamespaceStatus :: "libs \<Rightarrow> addr option \<Rightarrow> (memory, addr option) state" where
  "DeepCopy_NomadNamespaceStatus L = newPtr NomadNamespaceStatusSlot (DeepCopyInto_NomadNamespaceStatus L)"

lemma copier_NomadNamespaceStatus:
  assumes "library L"
  shows "copier NomadNamespaceStatusShape (DeepCopyInto_NomadNamespaceStatus L)"
  unfolding NomadNamespaceStatusShape_def
  by (rule copier_struct [OF copier_conditions [OF assms],
      where build = "\<lambda>x y. x\<lparr>nst'conditions := y\<rparr>"])
    (simp_all add: DeepCopyInto_NomadNamespaceStatus_def copyPair_def)

definition NomadJobSpecShape where
  "NomadJobSpecShape L = structShape
     (\<lambda>x. (js'clusterRef x, js'jobID x, js'nomadNamespace x))
     (\<lambda>x. js'job x)
     (lb_shape L RawExtensionKind)"

definition DeepCopyInto_NomadJobSpec :: "libs \<Rightarrow> mem_job_spec \<Rightarrow> (memory, mem_job_spec) state" where
  "DeepCopyInto_NomadJobSpec L x = do {
     job \<leftarrow> lb_deepCopyInto L RawExtensionKind (js'job x);
     State_Monad.return (x\<lparr>js'job := job\<rparr>) }"

definition DeepCopy_NomadJobSpec :: "libs \<Rightarrow> addr option \<Rightarrow> (memory, addr option) state" where
  "DeepCopy_NomadJobSpec L = newPtr NomadJobSpecSlot (DeepCopyInto_NomadJobSpec L)"

lemma copier_NomadJobSpec:
  assumes "library L"
  shows "copier (NomadJobSpecShape L) (DeepCopyInto_NomadJobSpec L)"
  unfolding NomadJobSpecShape_def
  by (rule copier_struct [OF libraryD(1) [OF assms],
      where build = "\<lambda>x y. x\<lparr>js'job := y\<rparr>"])
    (simp_all add: DeepCopyInto_NomadJobSpec_def copyPair_def)

definition NomadJobStatusShape where
  "NomadJobStatusShape = structShape
     (\<lambda>x. (jt'jobStatus x, jt'jobVersion x, jt'observedGeneration x))
     (\<lambda>x. (jt'groups x, jt'conditions x))
     (pairShape (mapShape GroupTable) (sliceShape ConditionArray plain))"

definition DeepCopyInto_NomadJobStatus :: "libs \<Rightarrow> mem_job_status \<Rightarrow> (memory, mem_job_status) state" where
  "DeepCopyInto_NomadJobStatus L x = do {
     groups \<leftarrow> copyMap (lb_range L) GroupTable (jt'groups x);
     conditions \<leftarrow> copyConditions L (jt'conditions x);
     State_Monad.return (x\<lparr>jt'groups := groups, jt'conditions := conditions\<rparr>) }"

definition DeepCopy_NomadJobStatus :: "libs \<Rightarrow> addr option \<Rightarrow> (memory, addr option) state" where
  "DeepCopy_NomadJobStatus L = newPtr NomadJobStatusSlot (DeepCopyInto_NomadJobStatus L)"

lemma copier_NomadJobStatus:
  assumes "library L"
  shows "copier NomadJobStatusShape (DeepCopyInto_NomadJobStatus L)"
  unfolding NomadJobStatusShape_def
  by (rule copier_struct [OF copier_pair [OF copier_map [OF _ libraryD(4) [OF assms]] copier_conditions [OF assms]],
      where build = "\<lambda>x y. x\<lparr>jt'groups := fst y, jt'conditions := snd y\<rparr>"])
    (simp_all add: DeepCopyInto_NomadJobStatus_def copyPair_def)

subsection \<open>The resources\<close>

subsubsection \<open>NomadCluster and its list\<close>

definition NomadClusterShape where
  "NomadClusterShape L = structShape
     (\<lambda>x. ob'typeMeta x)
     (\<lambda>x. (ob'objectMeta x, ob'spec x, ob'status x))
     (pairShape (lb_shape L ObjectMetaKind) (pairShape (NomadClusterSpecShape L)
      (NomadClusterStatusShape)))"

definition DeepCopyInto_NomadCluster :: "libs \<Rightarrow> mem_cluster \<Rightarrow> (memory, mem_cluster) state" where
  "DeepCopyInto_NomadCluster L x = do {
     objectMeta \<leftarrow> lb_deepCopyInto L ObjectMetaKind (ob'objectMeta x);
     spec \<leftarrow> DeepCopyInto_NomadClusterSpec L (ob'spec x);
     status \<leftarrow> DeepCopyInto_NomadClusterStatus L (ob'status x);
     State_Monad.return (x\<lparr>ob'objectMeta := objectMeta, ob'spec := spec, ob'status := status\<rparr>) }"

definition DeepCopy_NomadCluster :: "libs \<Rightarrow> addr option \<Rightarrow> (memory, addr option) state" where
  "DeepCopy_NomadCluster L = newPtr NomadClusterSlot (DeepCopyInto_NomadCluster L)"

lemma copier_NomadCluster:
  assumes "library L"
  shows "copier (NomadClusterShape L) (DeepCopyInto_NomadCluster L)"
  unfolding NomadClusterShape_def
  by (rule copier_struct [OF copier_pair [OF libraryD(1) [OF assms] copier_pair [OF copier_NomadClusterSpec [OF assms]
      copier_NomadClusterStatus [OF assms]]],
      where build = "\<lambda>x y. x\<lparr>ob'objectMeta := fst y, ob'spec := fst (snd y), ob'status := snd (snd y)\<rparr>"])
    (simp_all add: DeepCopyInto_NomadCluster_def copyPair_def)

definition NomadClusterListShape where
  "NomadClusterListShape L = structShape
     (\<lambda>x. li'typeMeta x)
     (\<lambda>x. (li'listMeta x, li'items x))
     (pairShape (lb_shape L ListMetaKind) (sliceShape NomadClusterArray (NomadClusterShape L)))"

definition DeepCopyInto_NomadClusterList :: "libs \<Rightarrow> mem_list \<Rightarrow> (memory, mem_list) state" where
  "DeepCopyInto_NomadClusterList L x = do {
     listMeta \<leftarrow> lb_deepCopyInto L ListMetaKind (li'listMeta x);
     items \<leftarrow> newSlice NomadClusterArray (DeepCopyInto_NomadCluster L) (li'items x);
     State_Monad.return (x\<lparr>li'listMeta := listMeta, li'items := items\<rparr>) }"

definition DeepCopy_NomadClusterList :: "libs \<Rightarrow> addr option \<Rightarrow> (memory, addr option) state" where
  "DeepCopy_NomadClusterList L = newPtr NomadClusterListSlot (DeepCopyInto_NomadClusterList L)"

lemma copier_NomadClusterList:
  assumes "library L"
  shows "copier (NomadClusterListShape L) (DeepCopyInto_NomadClusterList L)"
  unfolding NomadClusterListShape_def
  by (rule copier_struct [OF copier_pair [OF libraryD(1) [OF assms] copier_newSlice [OF copier_NomadCluster [OF assms]]],
      where build = "\<lambda>x y. x\<lparr>li'listMeta := fst y, li'items := snd y\<rparr>"])
    (simp_all add: DeepCopyInto_NomadClusterList_def copyPair_def)

subsubsection \<open>NomadNode and its list\<close>

definition NomadNodeShape where
  "NomadNodeShape L = structShape
     (\<lambda>x. ob'typeMeta x)
     (\<lambda>x. (ob'objectMeta x, ob'spec x, ob'status x))
     (pairShape (lb_shape L ObjectMetaKind) (pairShape (NomadNodeSpecShape)
      (NomadNodeStatusShape)))"

definition DeepCopyInto_NomadNode :: "libs \<Rightarrow> mem_node \<Rightarrow> (memory, mem_node) state" where
  "DeepCopyInto_NomadNode L x = do {
     objectMeta \<leftarrow> lb_deepCopyInto L ObjectMetaKind (ob'objectMeta x);
     spec \<leftarrow> DeepCopyInto_NomadNodeSpec (ob'spec x);
     status \<leftarrow> DeepCopyInto_NomadNodeStatus L (ob'status x);
     State_Monad.return (x\<lparr>ob'objectMeta := objectMeta, ob'spec := spec, ob'status := status\<rparr>) }"

definition DeepCopy_NomadNode :: "libs \<Rightarrow> addr option \<Rightarrow> (memory, addr option) state" where
  "DeepCopy_NomadNode L = newPtr NomadNodeSlot (DeepCopyInto_NomadNode L)"

lemma copier_NomadNode:
  assumes "library L"
  shows "copier (NomadNodeShape L) (DeepCopyInto_NomadNode L)"
  unfolding NomadNodeShape_def
  by (rule copier_struct [OF copier_pair [OF libraryD(1) [OF assms] copier_pair [OF copier_NomadNodeSpec
      copier_NomadNodeStatus [OF assms]]],
      where build = "\<lambda>x y. x\<lparr>ob'objectMeta := fst y, ob'spec := fst (snd y), ob'status := snd (snd y)\<rparr>"])
    (simp_all add: DeepCopyInto_NomadNode_def copyPair_def)

definition NomadNodeListShape where
  "NomadNodeListShape L = structShape
     (\<lambda>x. li'typeMeta x)
     (\<lambda>x. (li'listMeta x, li'items x))
     (pairShape (lb_shape L ListMetaKind) (sliceShape NomadNodeArray (NomadNodeShape L)))"

definition DeepCopyInto_NomadNodeList :: "libs \<Rightarrow> mem_list \<Rightarrow> (memory, mem_list) state" where
  "DeepCopyInto_NomadNodeList L x = do {
     listMeta \<leftarrow> lb_deepCopyInto L ListMetaKind (li'listMeta x);
     items \<leftarrow> newSlice NomadNodeArray (DeepCopyInto_NomadNode L) (li'items x);
     State_Monad.return (x\<lparr>li'listMeta := listMeta, li'items := items\<rparr>) }"

definition DeepCopy_NomadNodeList :: "libs \<Rightarrow> addr option \<Rightarrow> (memory, addr option) state" where
  "DeepCopy_NomadNodeList L = newPtr NomadNodeListSlot (DeepCopyInto_NomadNodeList L)"

lemma copier_NomadNodeList:
  assumes "library L"
  shows "copier (NomadNodeListShape L) (DeepCopyInto_NomadNodeList L)"
  unfolding NomadNodeListShape_def
  by (rule copier_struct [OF copier_pair [OF libraryD(1) [OF assms] copier_newSlice [OF copier_NomadNode [OF assms]]],
      where build = "\<lambda>x y. x\<lparr>li'listMeta := fst y, li'items := snd y\<rparr>"])
    (simp_all add: DeepCopyInto_NomadNodeList_def copyPair_def)

subsubsection \<open>NomadPool and its list\<close>

definition NomadPoolShape where
  "NomadPoolShape L = structShape
     (\<lambda>x. ob'typeMeta x)
     (\<lambda>x. (ob'objectMeta x, ob'spec x, ob'status x))
     (pairShape (lb_shape L ObjectMetaKind) (pairShape (NomadPoolSpecShape)
      (NomadPoolStatusShape)))"

definition DeepCopyInto_NomadPool :: "libs \<Rightarrow> mem_pool \<Rightarrow> (memory, mem_pool) state" where
  "DeepCopyInto_NomadPool L x = do {
     objectMeta \<leftarrow> lb_deepCopyInto L ObjectMetaKind (ob'objectMeta x);
     spec \<leftarrow> DeepCopyInto_NomadPoolSpec L (ob'spec x);
     status \<leftarrow> DeepCopyInto_NomadPoolStatus L (ob'status x);
     State_Monad.return (x\<lparr>ob'objectMeta := objectMeta, ob'spec := spec, ob'status := status\<rparr>) }"

definition DeepCopy_NomadPool :: "libs \<Rightarrow> addr option \<Rightarrow> (memory, addr option) state" where
  "DeepCopy_NomadPool L = newPtr NomadPoolSlot (DeepCopyInto_NomadPool L)"

lemma copier_NomadPool:
  assumes "library L"
  shows "copier (NomadPoolShape L) (DeepCopyInto_NomadPool L)"
  unfolding NomadPoolShape_def
  by (rule copier_struct [OF copier_pair [OF libraryD(1) [OF assms] copier_pair [OF copier_NomadPoolSpec [OF assms]
      copier_NomadPoolStatus [OF assms]]],
      where build = "\<lambda>x y. x\<lparr>ob'objectMeta := fst y, ob'spec := fst (snd y), ob'status := snd (snd y)\<rparr>"])
    (simp_all add: DeepCopyInto_NomadPool_def copyPair_def)

definition NomadPoolListShape where
  "NomadPoolListShape L = structShape
     (\<lambda>x. li'typeMeta x)
     (\<lambda>x. (li'listMeta x, li'items x))
     (pairShape (lb_shape L ListMetaKind) (sliceShape NomadPoolArray (NomadPoolShape L)))"

definition DeepCopyInto_NomadPoolList :: "libs \<Rightarrow> mem_list \<Rightarrow> (memory, mem_list) state" where
  "DeepCopyInto_NomadPoolList L x = do {
     listMeta \<leftarrow> lb_deepCopyInto L ListMetaKind (li'listMeta x);
     items \<leftarrow> newSlice NomadPoolArray (DeepCopyInto_NomadPool L) (li'items x);
     State_Monad.return (x\<lparr>li'listMeta := listMeta, li'items := items\<rparr>) }"

definition DeepCopy_NomadPoolList :: "libs \<Rightarrow> addr option \<Rightarrow> (memory, addr option) state" where
  "DeepCopy_NomadPoolList L = newPtr NomadPoolListSlot (DeepCopyInto_NomadPoolList L)"

lemma copier_NomadPoolList:
  assumes "library L"
  shows "copier (NomadPoolListShape L) (DeepCopyInto_NomadPoolList L)"
  unfolding NomadPoolListShape_def
  by (rule copier_struct [OF copier_pair [OF libraryD(1) [OF assms] copier_newSlice [OF copier_NomadPool [OF assms]]],
      where build = "\<lambda>x y. x\<lparr>li'listMeta := fst y, li'items := snd y\<rparr>"])
    (simp_all add: DeepCopyInto_NomadPoolList_def copyPair_def)

subsubsection \<open>NomadNamespace and its list\<close>

definition NomadNamespaceShape where
  "NomadNamespaceShape L = structShape
     (\<lambda>x. ob'typeMeta x)
     (\<lambda>x. (ob'objectMeta x, ob'spec x, ob'status x))
     (pairShape (lb_shape L ObjectMetaKind) (pairShape (NomadNamespaceSpecShape)
      (NomadNamespaceStatusShape)))"

definition DeepCopyInto_NomadNamespace :: "libs \<Rightarrow> mem_namespace \<Rightarrow> (memory, mem_namespace) state" where
  "DeepCopyInto_NomadNamespace L x = do {
     objectMeta \<leftarrow> lb_deepCopyInto L ObjectMetaKind (ob'objectMeta x);
     spec \<leftarrow> DeepCopyInto_NomadNamespaceSpec L (ob'spec x);
     status \<leftarrow> DeepCopyInto_NomadNamespaceStatus L (ob'status x);
     State_Monad.return (x\<lparr>ob'objectMeta := objectMeta, ob'spec := spec, ob'status := status\<rparr>) }"

definition DeepCopy_NomadNamespace :: "libs \<Rightarrow> addr option \<Rightarrow> (memory, addr option) state" where
  "DeepCopy_NomadNamespace L = newPtr NomadNamespaceSlot (DeepCopyInto_NomadNamespace L)"

lemma copier_NomadNamespace:
  assumes "library L"
  shows "copier (NomadNamespaceShape L) (DeepCopyInto_NomadNamespace L)"
  unfolding NomadNamespaceShape_def
  by (rule copier_struct [OF copier_pair [OF libraryD(1) [OF assms] copier_pair [OF copier_NomadNamespaceSpec [OF assms]
      copier_NomadNamespaceStatus [OF assms]]],
      where build = "\<lambda>x y. x\<lparr>ob'objectMeta := fst y, ob'spec := fst (snd y), ob'status := snd (snd y)\<rparr>"])
    (simp_all add: DeepCopyInto_NomadNamespace_def copyPair_def)

definition NomadNamespaceListShape where
  "NomadNamespaceListShape L = structShape
     (\<lambda>x. li'typeMeta x)
     (\<lambda>x. (li'listMeta x, li'items x))
     (pairShape (lb_shape L ListMetaKind) (sliceShape NomadNamespaceArray (NomadNamespaceShape
      L)))"

definition DeepCopyInto_NomadNamespaceList :: "libs \<Rightarrow> mem_list \<Rightarrow> (memory, mem_list) state" where
  "DeepCopyInto_NomadNamespaceList L x = do {
     listMeta \<leftarrow> lb_deepCopyInto L ListMetaKind (li'listMeta x);
     items \<leftarrow> newSlice NomadNamespaceArray (DeepCopyInto_NomadNamespace L) (li'items x);
     State_Monad.return (x\<lparr>li'listMeta := listMeta, li'items := items\<rparr>) }"

definition DeepCopy_NomadNamespaceList :: "libs \<Rightarrow> addr option \<Rightarrow> (memory, addr option) state" where
  "DeepCopy_NomadNamespaceList L = newPtr NomadNamespaceListSlot (DeepCopyInto_NomadNamespaceList L)"

lemma copier_NomadNamespaceList:
  assumes "library L"
  shows "copier (NomadNamespaceListShape L) (DeepCopyInto_NomadNamespaceList L)"
  unfolding NomadNamespaceListShape_def
  by (rule copier_struct [OF copier_pair [OF libraryD(1) [OF assms] copier_newSlice [OF copier_NomadNamespace [OF
      assms]]],
      where build = "\<lambda>x y. x\<lparr>li'listMeta := fst y, li'items := snd y\<rparr>"])
    (simp_all add: DeepCopyInto_NomadNamespaceList_def copyPair_def)

subsubsection \<open>NomadJob and its list\<close>

definition NomadJobShape where
  "NomadJobShape L = structShape
     (\<lambda>x. ob'typeMeta x)
     (\<lambda>x. (ob'objectMeta x, ob'spec x, ob'status x))
     (pairShape (lb_shape L ObjectMetaKind) (pairShape (NomadJobSpecShape L)
      (NomadJobStatusShape)))"

definition DeepCopyInto_NomadJob :: "libs \<Rightarrow> mem_job \<Rightarrow> (memory, mem_job) state" where
  "DeepCopyInto_NomadJob L x = do {
     objectMeta \<leftarrow> lb_deepCopyInto L ObjectMetaKind (ob'objectMeta x);
     spec \<leftarrow> DeepCopyInto_NomadJobSpec L (ob'spec x);
     status \<leftarrow> DeepCopyInto_NomadJobStatus L (ob'status x);
     State_Monad.return (x\<lparr>ob'objectMeta := objectMeta, ob'spec := spec, ob'status := status\<rparr>) }"

definition DeepCopy_NomadJob :: "libs \<Rightarrow> addr option \<Rightarrow> (memory, addr option) state" where
  "DeepCopy_NomadJob L = newPtr NomadJobSlot (DeepCopyInto_NomadJob L)"

lemma copier_NomadJob:
  assumes "library L"
  shows "copier (NomadJobShape L) (DeepCopyInto_NomadJob L)"
  unfolding NomadJobShape_def
  by (rule copier_struct [OF copier_pair [OF libraryD(1) [OF assms] copier_pair [OF copier_NomadJobSpec [OF assms]
      copier_NomadJobStatus [OF assms]]],
      where build = "\<lambda>x y. x\<lparr>ob'objectMeta := fst y, ob'spec := fst (snd y), ob'status := snd (snd y)\<rparr>"])
    (simp_all add: DeepCopyInto_NomadJob_def copyPair_def)

definition NomadJobListShape where
  "NomadJobListShape L = structShape
     (\<lambda>x. li'typeMeta x)
     (\<lambda>x. (li'listMeta x, li'items x))
     (pairShape (lb_shape L ListMetaKind) (sliceShape NomadJobArray (NomadJobShape L)))"

definition DeepCopyInto_NomadJobList :: "libs \<Rightarrow> mem_list \<Rightarrow> (memory, mem_list) state" where
  "DeepCopyInto_NomadJobList L x = do {
     listMeta \<leftarrow> lb_deepCopyInto L ListMetaKind (li'listMeta x);
     items \<leftarrow> newSlice NomadJobArray (DeepCopyInto_NomadJob L) (li'items x);
     State_Monad.return (x\<lparr>li'listMeta := listMeta, li'items := items\<rparr>) }"

definition DeepCopy_NomadJobList :: "libs \<Rightarrow> addr option \<Rightarrow> (memory, addr option) state" where
  "DeepCopy_NomadJobList L = newPtr NomadJobListSlot (DeepCopyInto_NomadJobList L)"

lemma copier_NomadJobList:
  assumes "library L"
  shows "copier (NomadJobListShape L) (DeepCopyInto_NomadJobList L)"
  unfolding NomadJobListShape_def
  by (rule copier_struct [OF copier_pair [OF libraryD(1) [OF assms] copier_newSlice [OF copier_NomadJob [OF assms]]],
      where build = "\<lambda>x y. x\<lparr>li'listMeta := fst y, li'items := snd y\<rparr>"])
    (simp_all add: DeepCopyInto_NomadJobList_def copyPair_def)

subsection \<open>DeepCopyObject\<close>

text \<open>
  \<^verbatim>\<open>runtime.Object\<close> is an interface: its value is a pointer with its type, or nil. A nil pointer
  boxed into it would not be nil, which is why the result of \<^verbatim>\<open>DeepCopy\<close> is tested first.
\<close>

datatype runtime_object =
    NomadClusterObject addr
  | NomadClusterListObject addr
  | NomadNodeObject addr
  | NomadNodeListObject addr
  | NomadPoolObject addr
  | NomadPoolListObject addr
  | NomadNamespaceObject addr
  | NomadNamespaceListObject addr
  | NomadJobObject addr
  | NomadJobListObject addr

definition DeepCopyObject_NomadCluster :: "libs \<Rightarrow> addr option \<Rightarrow> (memory, runtime_object option) state" where
  "DeepCopyObject_NomadCluster L x = do {
     c \<leftarrow> DeepCopy_NomadCluster L x;
     State_Monad.return (case c of Some a \<Rightarrow> Some (NomadClusterObject a) | None \<Rightarrow> None) }"

definition DeepCopyObject_NomadClusterList :: "libs \<Rightarrow> addr option \<Rightarrow> (memory, runtime_object option) state" where
  "DeepCopyObject_NomadClusterList L x = do {
     c \<leftarrow> DeepCopy_NomadClusterList L x;
     State_Monad.return (case c of Some a \<Rightarrow> Some (NomadClusterListObject a) | None \<Rightarrow> None) }"

definition DeepCopyObject_NomadNode :: "libs \<Rightarrow> addr option \<Rightarrow> (memory, runtime_object option) state" where
  "DeepCopyObject_NomadNode L x = do {
     c \<leftarrow> DeepCopy_NomadNode L x;
     State_Monad.return (case c of Some a \<Rightarrow> Some (NomadNodeObject a) | None \<Rightarrow> None) }"

definition DeepCopyObject_NomadNodeList :: "libs \<Rightarrow> addr option \<Rightarrow> (memory, runtime_object option) state" where
  "DeepCopyObject_NomadNodeList L x = do {
     c \<leftarrow> DeepCopy_NomadNodeList L x;
     State_Monad.return (case c of Some a \<Rightarrow> Some (NomadNodeListObject a) | None \<Rightarrow> None) }"

definition DeepCopyObject_NomadPool :: "libs \<Rightarrow> addr option \<Rightarrow> (memory, runtime_object option) state" where
  "DeepCopyObject_NomadPool L x = do {
     c \<leftarrow> DeepCopy_NomadPool L x;
     State_Monad.return (case c of Some a \<Rightarrow> Some (NomadPoolObject a) | None \<Rightarrow> None) }"

definition DeepCopyObject_NomadPoolList :: "libs \<Rightarrow> addr option \<Rightarrow> (memory, runtime_object option) state" where
  "DeepCopyObject_NomadPoolList L x = do {
     c \<leftarrow> DeepCopy_NomadPoolList L x;
     State_Monad.return (case c of Some a \<Rightarrow> Some (NomadPoolListObject a) | None \<Rightarrow> None) }"

definition DeepCopyObject_NomadNamespace :: "libs \<Rightarrow> addr option \<Rightarrow> (memory, runtime_object option) state" where
  "DeepCopyObject_NomadNamespace L x = do {
     c \<leftarrow> DeepCopy_NomadNamespace L x;
     State_Monad.return (case c of Some a \<Rightarrow> Some (NomadNamespaceObject a) | None \<Rightarrow> None) }"

definition DeepCopyObject_NomadNamespaceList :: "libs \<Rightarrow> addr option \<Rightarrow> (memory, runtime_object option) state" where
  "DeepCopyObject_NomadNamespaceList L x = do {
     c \<leftarrow> DeepCopy_NomadNamespaceList L x;
     State_Monad.return (case c of Some a \<Rightarrow> Some (NomadNamespaceListObject a) | None \<Rightarrow> None) }"

definition DeepCopyObject_NomadJob :: "libs \<Rightarrow> addr option \<Rightarrow> (memory, runtime_object option) state" where
  "DeepCopyObject_NomadJob L x = do {
     c \<leftarrow> DeepCopy_NomadJob L x;
     State_Monad.return (case c of Some a \<Rightarrow> Some (NomadJobObject a) | None \<Rightarrow> None) }"

definition DeepCopyObject_NomadJobList :: "libs \<Rightarrow> addr option \<Rightarrow> (memory, runtime_object option) state" where
  "DeepCopyObject_NomadJobList L x = do {
     c \<leftarrow> DeepCopy_NomadJobList L x;
     State_Monad.return (case c of Some a \<Rightarrow> Some (NomadJobListObject a) | None \<Rightarrow> None) }"

end
