(* ===== verification/CopySpec.thy ===== *)
theory CopySpec
  imports DeepCopy
begin

section \<open>What the generated copies promise the reconcilers\<close>

text \<open>
  The pool, namespace and job reconcilers keep \<^verbatim>\<open>orig := x.DeepCopy()\<close>, change \<open>x\<close>, and compare the
  two afterwards; the rest of the development treats \<open>orig\<close> as the value \<open>x\<close> had. That is right
  when the copy shares no cell with the original. The claims below say so for every resource
  and list of the API package.
\<close>

subsection \<open>A library that keeps its promise\<close>

text \<open>
  The parameters can be met: a third-party struct holds on to the cells it refers to, and its
  copy allocates each of them anew.
\<close>

primrec copyRefs :: "addr list \<Rightarrow> (memory, addr list) state" where
  "copyRefs [] = State_Monad.return []"
| "copyRefs (a # as) = do {
     x \<leftarrow> readCell (sl_get ForeignSlot) a;
     b \<leftarrow> newCell (sl_put ForeignSlot x);
     bs \<leftarrow> copyRefs as;
     State_Monad.return (b # bs) }"

definition refsShape :: "(cell, addr list, opaque list) shape" where
  "refsShape = \<lparr>sh_reach = (\<lambda>_ as. set as), sh_view = (\<lambda>h as. map (\<lambda>a. sl_get ForeignSlot (h ! a)) as)\<rparr>"

lemma copyRefs_run:
  "set as \<subseteq> {..<length h} \<Longrightarrow> run_state (copyRefs as) h =
     ([length h..<length h + length as], h @ map (\<lambda>a. sl_put ForeignSlot (sl_get ForeignSlot (h ! a))) as)"
  by (induction as arbitrary: h) (auto simp: nth_append upt_conv_Cons less_Suc_eq subset_eq simp del: upt_Suc)

lemma copier_refs: "copier refsShape copyRefs"
proof unfold_locales
  fix h h' :: memory and as
  assume "agree h h' (sh_reach refsShape h as)"
  then show "sh_reach refsShape h' as = sh_reach refsShape h as \<and>
      sh_view refsShape h' as = sh_view refsShape h as"
    by (simp add: refsShape_def agree_def)
next
  fix as bs :: "addr list" and h h' :: memory
  assume run: "run_state (copyRefs as) h = (bs, h')" and held: "held refsShape h as"
  have get: "sl_get ForeignSlot (sl_put ForeignSlot x) = x" for x
    using slots_ok by (simp add: slot_ok_def)
  have "set as \<subseteq> {..<length h}"
    using held by (simp add: held_def refsShape_def)
  from copyRefs_run [OF this] run
  have bs: "bs = [length h..<length h + length as]"
    "h' = h @ map (\<lambda>a. sl_put ForeignSlot (sl_get ForeignSlot (h ! a))) as" by simp_all
  show "prefix h h' \<and> sh_view refsShape h' bs = sh_view refsShape h as \<and>
      sh_reach refsShape h' bs \<subseteq> {length h..<length h'}"
    unfolding bs by (auto simp: refsShape_def get nth_append intro!: nth_equalityI)
qed

definition sampleLibs :: libs where
  "sampleLibs = \<lparr>lb_shape = (\<lambda>_. structShape fo_fields fo_refs refsShape),
     lb_deepCopyInto = (\<lambda>_ x. do { refs \<leftarrow> copyRefs (fo_refs x); State_Monad.return (x\<lparr>fo_refs := refs\<rparr>) }),
     lb_condition = assignCopy, lb_time = newPtr TimeSlot assignCopy, lb_range = rev\<rparr>"

lemma sampleLibs_library: "library sampleLibs"
  unfolding library_def sampleLibs_def
  by (auto intro!: copier_plain copier_ptr
      copier_struct [OF copier_refs, where build = "\<lambda>x y. x\<lparr>fo_refs := y\<rparr>"])

subsection \<open>Copies of the resources\<close>

text \<open>
  What a caller of \<^verbatim>\<open>DeepCopy\<close> gets: nil for nil; otherwise the old cells are unchanged, the copy
  reads as the original, and it holds on to no cell that was there before.
\<close>

definition separateCopy ::
    "('c, addr option, 'v) shape \<Rightarrow> (addr option \<Rightarrow> ('c list, addr option) state) \<Rightarrow> bool" where
  "separateCopy S f \<longleftrightarrow> (\<forall>h p q h'. run_state (f p) h = (q, h') \<and> held S h p \<longrightarrow>
     (q = None \<longleftrightarrow> p = None) \<and> prefix h h' \<and> sh_view S h' q = sh_view S h p \<and>
     sh_reach S h' q \<subseteq> {length h..<length h'})"

lemma newPtr_nil: "run_state (newPtr s into p) h = (q, h') \<Longrightarrow> q = None \<longleftrightarrow> p = None"
  by (auto simp: newPtr_def split: option.splits prod.splits)

lemma separate_newPtr:
  assumes "copier S into" "slot_ok s"
  shows "separateCopy (ptrShape s S) (newPtr s into)"
  unfolding separateCopy_def
  using copier.copies [OF copier_ptr [OF assms]] newPtr_nil by blast

lemmas copy_defs = DeepCopy_NomadCluster_def DeepCopy_NomadClusterList_def DeepCopy_NomadNode_def
  DeepCopy_NomadNodeList_def DeepCopy_NomadPool_def DeepCopy_NomadPoolList_def
  DeepCopy_NomadNamespace_def DeepCopy_NomadNamespaceList_def DeepCopy_NomadJob_def
  DeepCopy_NomadJobList_def

text \<open>
  C28: Every resource and every list of resources of the API package is copied deeply by its
  generated DeepCopy: the copy reads as the original in every field, nil and empty slices
  and maps told apart, and shares no pointer, no backing array and no map with anything that
  was there before. Given that the copies of the third-party structs are deep.
\<close>

theorem deep_copies_share_nothing:
  assumes "library L"
  shows "separateCopy (ptrShape NomadClusterSlot (NomadClusterShape L)) (DeepCopy_NomadCluster L) \<and>
    separateCopy (ptrShape NomadClusterListSlot (NomadClusterListShape L)) (DeepCopy_NomadClusterList L) \<and>
    separateCopy (ptrShape NomadNodeSlot (NomadNodeShape L)) (DeepCopy_NomadNode L) \<and>
    separateCopy (ptrShape NomadNodeListSlot (NomadNodeListShape L)) (DeepCopy_NomadNodeList L) \<and>
    separateCopy (ptrShape NomadPoolSlot (NomadPoolShape L)) (DeepCopy_NomadPool L) \<and>
    separateCopy (ptrShape NomadPoolListSlot (NomadPoolListShape L)) (DeepCopy_NomadPoolList L) \<and>
    separateCopy (ptrShape NomadNamespaceSlot (NomadNamespaceShape L)) (DeepCopy_NomadNamespace L) \<and>
    separateCopy (ptrShape NomadNamespaceListSlot (NomadNamespaceListShape L)) (DeepCopy_NomadNamespaceList L) \<and>
    separateCopy (ptrShape NomadJobSlot (NomadJobShape L)) (DeepCopy_NomadJob L) \<and>
    separateCopy (ptrShape NomadJobListSlot (NomadJobListShape L)) (DeepCopy_NomadJobList L)"
  unfolding copy_defs
  by (intro conjI separate_newPtr slots_ok copier_NomadCluster [OF assms] copier_NomadClusterList [OF assms]
      copier_NomadNode [OF assms] copier_NomadNodeList [OF assms]
      copier_NomadPool [OF assms] copier_NomadPoolList [OF assms]
      copier_NomadNamespace [OF assms] copier_NomadNamespaceList [OF assms]
      copier_NomadJob [OF assms] copier_NomadJobList [OF assms])

lemma deep_copies_share_nothing_witness:
  "separateCopy (ptrShape NomadPoolSlot (NomadPoolShape sampleLibs)) (DeepCopy_NomadPool sampleLibs)"
  using deep_copies_share_nothing [OF sampleLibs_library] by simp

text \<open>
  The two directions in which a copy and its original are independent: code that holds what the
  original held on to, and what it allocates itself, cannot change what the copy reads as; code
  that holds the copy cannot change what the original reads as.
\<close>

definition independent ::
    "('c, addr option, 'v) shape \<Rightarrow> (addr option \<Rightarrow> ('c list, addr option) state) \<Rightarrow> bool" where
  "independent S f \<longleftrightarrow> (\<forall>h p q h' h''. run_state (f p) h = (q, h') \<and> held S h p \<longrightarrow>
     (mutates (sh_reach S h p) h' h'' \<longrightarrow> sh_view S h'' q = sh_view S h p) \<and>
     (mutates (sh_reach S h' q) h' h'' \<longrightarrow> sh_view S h'' p = sh_view S h p))"

lemma independent_newPtr:
  assumes "copier S into" "slot_ok s"
  shows "independent (ptrShape s S) (newPtr s into)"
  unfolding independent_def
proof (intro allI impI conjI; elim conjE)
  note c = copier_ptr [OF assms]
  fix h p q h' h''
  assume run: "run_state (newPtr s into p) h = (q, h')" and held: "held (ptrShape s S) h p"
  show "sh_view (ptrShape s S) h'' q = sh_view (ptrShape s S) h p"
    if "mutates (sh_reach (ptrShape s S) h p) h' h''"
    by (rule copier.copy_isolated [OF c run held that held [unfolded held_def]])
  show "sh_view (ptrShape s S) h'' p = sh_view (ptrShape s S) h p"
    if "mutates (sh_reach (ptrShape s S) h' q) h' h''"
    by (rule copier.original_isolated [OF c run held that])
qed

text \<open>
  The three reconcilers that keep orig := x.DeepCopy() and go on writing to x compare
  with what x was: whatever is written to the cells x held on to, or to cells allocated
  since, orig reads as x did when it was copied; and writing through orig would not
  change x. This is why the model may keep orig as a value.
\<close>

lemma originals_are_independent:
  assumes "library L"
  shows "independent (ptrShape NomadPoolSlot (NomadPoolShape L)) (DeepCopy_NomadPool L) \<and>
    independent (ptrShape NomadNamespaceSlot (NomadNamespaceShape L)) (DeepCopy_NomadNamespace L) \<and>
    independent (ptrShape NomadJobSlot (NomadJobShape L)) (DeepCopy_NomadJob L)"
  unfolding DeepCopy_NomadPool_def DeepCopy_NomadNamespace_def DeepCopy_NomadJob_def
  by (intro conjI independent_newPtr slots_ok copier_NomadPool [OF assms]
      copier_NomadNamespace [OF assms] copier_NomadJob [OF assms])

lemma originals_are_independent_witness:
  "independent (ptrShape NomadPoolSlot (NomadPoolShape sampleLibs)) (DeepCopy_NomadPool sampleLibs)"
  using originals_are_independent [OF sampleLibs_library] by simp

subsection \<open>DeepCopyObject\<close>

definition boxed :: "runtime_object \<Rightarrow> string \<times> addr" where
  "boxed ob = (case ob of
     NomadClusterObject a \<Rightarrow> (''NomadCluster'', a) |
     NomadClusterListObject a \<Rightarrow> (''NomadClusterList'', a) |
     NomadNodeObject a \<Rightarrow> (''NomadNode'', a) |
     NomadNodeListObject a \<Rightarrow> (''NomadNodeList'', a) |
     NomadPoolObject a \<Rightarrow> (''NomadPool'', a) |
     NomadPoolListObject a \<Rightarrow> (''NomadPoolList'', a) |
     NomadNamespaceObject a \<Rightarrow> (''NomadNamespace'', a) |
     NomadNamespaceListObject a \<Rightarrow> (''NomadNamespaceList'', a) |
     NomadJobObject a \<Rightarrow> (''NomadJob'', a) |
     NomadJobListObject a \<Rightarrow> (''NomadJobList'', a))"

text \<open>The object boxes the pointer \<^verbatim>\<open>DeepCopy\<close> returned, with its type, and nil stays nil.\<close>

definition boxesCopy :: "string \<Rightarrow> (addr option \<Rightarrow> (memory, addr option) state) \<Rightarrow>
    (addr option \<Rightarrow> (memory, runtime_object option) state) \<Rightarrow> bool" where
  "boxesCopy kind copy f \<longleftrightarrow> (\<forall>p h.
     map_option boxed (fst (run_state (f p) h)) = map_option (Pair kind) (fst (run_state (copy p) h)) \<and>
     snd (run_state (f p) h) = snd (run_state (copy p) h) \<and>
     (fst (run_state (f p) h) = None \<longleftrightarrow> p = None))"

lemma boxesCopy_newPtr:
  assumes "\<And>a. boxed (box a) = (kind, a)"
  shows "boxesCopy kind (newPtr s into) (\<lambda>x. do { c \<leftarrow> newPtr s into x;
    State_Monad.return (case c of Some a \<Rightarrow> Some (box a) | None \<Rightarrow> None) })"
  unfolding boxesCopy_def
proof (intro allI, goal_cases)
  case (1 p h)
  obtain q h' where run: "run_state (newPtr s into p) h = (q, h')"
    by force
  then show ?case
    using newPtr_nil [OF run] by (cases q; cases p) (simp_all add: assms)
qed

lemmas copyObject_defs = DeepCopyObject_NomadCluster_def DeepCopyObject_NomadClusterList_def
  DeepCopyObject_NomadNode_def DeepCopyObject_NomadNodeList_def
  DeepCopyObject_NomadPool_def DeepCopyObject_NomadPoolList_def
  DeepCopyObject_NomadNamespace_def DeepCopyObject_NomadNamespaceList_def
  DeepCopyObject_NomadJob_def DeepCopyObject_NomadJobList_def

text \<open>
  DeepCopyObject of each resource and list returns the copy DeepCopy makes, boxed as an
  object of its own type, and a nil interface (not a typed nil) exactly for a nil receiver.
\<close>

lemma objects_box_their_copy:
  "boxesCopy ''NomadCluster'' (DeepCopy_NomadCluster L) (DeepCopyObject_NomadCluster L) \<and>
   boxesCopy ''NomadClusterList'' (DeepCopy_NomadClusterList L) (DeepCopyObject_NomadClusterList L) \<and>
   boxesCopy ''NomadNode'' (DeepCopy_NomadNode L) (DeepCopyObject_NomadNode L) \<and>
   boxesCopy ''NomadNodeList'' (DeepCopy_NomadNodeList L) (DeepCopyObject_NomadNodeList L) \<and>
   boxesCopy ''NomadPool'' (DeepCopy_NomadPool L) (DeepCopyObject_NomadPool L) \<and>
   boxesCopy ''NomadPoolList'' (DeepCopy_NomadPoolList L) (DeepCopyObject_NomadPoolList L) \<and>
   boxesCopy ''NomadNamespace'' (DeepCopy_NomadNamespace L) (DeepCopyObject_NomadNamespace L) \<and>
   boxesCopy ''NomadNamespaceList'' (DeepCopy_NomadNamespaceList L) (DeepCopyObject_NomadNamespaceList L) \<and>
   boxesCopy ''NomadJob'' (DeepCopy_NomadJob L) (DeepCopyObject_NomadJob L) \<and>
   boxesCopy ''NomadJobList'' (DeepCopy_NomadJobList L) (DeepCopyObject_NomadJobList L)"
  unfolding copyObject_defs [abs_def] copy_defs
  by (intro conjI boxesCopy_newPtr) (simp_all add: boxed_def)

end
