(* ===== verification/E2eUtils.thy ===== *)
theory E2eUtils
  imports GoErrors
begin

section \<open>The helpers of the end-to-end tests (test/utils/utils.go)\<close>

text \<open>
  The package drives \<^verbatim>\<open>kubectl\<close> and \<^verbatim>\<open>kind\<close> and edits source files. The operating system is a
  parameter: each call of it that matters is an event with its answer, the environment is read with
  \<open>observe\<close>. Where Go returns a value next to an error the model returns the pair. Writes to a
  \<^verbatim>\<open>bytes.Buffer\<close> never fail, so their error branches have no counterpart.
\<close>

subsection \<open>The operating system\<close>

record exec_cmd =
  cmd_Args :: "string list"
  cmd_Dir :: string
  cmd_Env :: "string list"

datatype os_call =
    OsGetwd "string \<times> error option"
  | OsChdir string "error option"
  | OsCombinedOutput exec_cmd "string \<times> error option"
  | OsReadFile string "error + string"
  | OsWriteFile string string nat "error option"
  | GinkgoWrite string

record 'w operating_system =
  os_Getwd :: "'w \<Rightarrow> (string \<times> error option) \<times> 'w"
  os_Chdir :: "string \<Rightarrow> 'w \<Rightarrow> error option \<times> 'w"
  os_Environ :: "'w \<Rightarrow> string list \<times> 'w"
  os_LookupEnv :: "string \<Rightarrow> 'w \<Rightarrow> string option \<times> 'w"
  os_CombinedOutput :: "exec_cmd \<Rightarrow> 'w \<Rightarrow> (string \<times> error option) \<times> 'w"
  os_ReadFile :: "string \<Rightarrow> 'w \<Rightarrow> (error + string) \<times> 'w"
  os_WriteFile :: "string \<Rightarrow> string \<Rightarrow> nat \<Rightarrow> 'w \<Rightarrow> error option \<times> 'w"
  os_tables :: unicode_tables

definition execCommand :: "string \<Rightarrow> string list \<Rightarrow> exec_cmd" where
  "execCommand name args = \<lparr>cmd_Args = name # args, cmd_Dir = [], cmd_Env = []\<rparr>"

subsection \<open>Package bufio and strings, as far as the helpers use them\<close>

definition newline :: char where
  "newline = CHR 0x0A"

definition carriageReturn :: char where
  "carriageReturn = CHR 0x0D"

fun strIndex :: "string \<Rightarrow> string \<Rightarrow> nat option" where
  "strIndex [] sub = (if sub = [] then Some 0 else None)"
| "strIndex (c # cs) sub = (if prefix sub (c # cs) then Some 0 else map_option Suc (strIndex cs sub))"

text \<open>
  A \<^verbatim>\<open>bufio.Scanner\<close> with its default split function returns the lines without their end, one
  trailing carriage return dropped, and no token for an empty rest. Its buffer grows to 64 KiB: a line that
  does not fit with the byte after it ends the scan, with an error in \<^verbatim>\<open>Err\<close>.
\<close>

definition maxScanTokenSize :: nat where
  "maxScanTokenSize = 65536"

definition dropCR :: "string \<Rightarrow> string" where
  "dropCR l = (if l \<noteq> [] \<and> last l = carriageReturn then butlast l else l)"

definition rawLines :: "string \<Rightarrow> string list" where
  "rawLines s = (let ls = splitOn newline s in if last ls = [] then butlast ls else ls)"

definition scannedLines :: "string \<Rightarrow> string list" where
  "scannedLines s = map dropCR (takeWhile (\<lambda>l. length l < maxScanTokenSize) (rawLines s))"

subsection \<open>Running commands\<close>

definition certmanagerVersion :: string where
  "certmanagerVersion = ''v1.20.2''"

definition certmanagerURL :: "string \<Rightarrow> string" where
  "certmanagerURL v = ''https://github.com/cert-manager/cert-manager/releases/download/'' @ v @ ''/cert-manager.yaml''"

definition defaultKindBinary :: string where
  "defaultKindBinary = ''kind''"

definition defaultKindCluster :: string where
  "defaultKindCluster = ''kind''"

definition warnError :: "error \<Rightarrow> ('w, os_call, unit) procedure" where
  "warnError err = emit (GinkgoWrite (''warning: '' @ errorText err @ [newline]))"

definition GetProjectDir :: "'w operating_system \<Rightarrow> ('w, os_call, string \<times> error option) procedure" where
  "GetProjectDir os = andThen (call OsGetwd (os_Getwd os)) (\<lambda>(wd, err). ret (case err of
     Some e \<Rightarrow> (wd, Some (Wrapped ''failed to get current working directory: '' e []))
   | None \<Rightarrow> (replaceAll wd ''/test/e2e'' [], None)))"

definition Run :: "'w operating_system \<Rightarrow> exec_cmd \<Rightarrow> ('w, os_call, string \<times> error option) procedure" where
  "Run os cmd =
     andThen (GetProjectDir os) (\<lambda>(dir, _).
     andThen (call (OsChdir dir) (os_Chdir os dir)) (\<lambda>err.
     andThen (case err of
         None \<Rightarrow> ret ()
       | Some e \<Rightarrow> emit (GinkgoWrite (''chdir dir: '' @ goQuote (os_tables os) (errorText e) @ [newline]))) (\<lambda>_.
     andThen (observe (os_Environ os)) (\<lambda>env.
     let cmd = cmd\<lparr>cmd_Dir := dir, cmd_Env := env @ [''GO111MODULE=on'']\<rparr>;
         command = strJoin '' '' (cmd_Args cmd)
     in
     andThen (emit (GinkgoWrite (''running: '' @ goQuote (os_tables os) command @ [newline]))) (\<lambda>_.
     andThen (call (OsCombinedOutput cmd) (os_CombinedOutput os cmd)) (\<lambda>(out, err). ret (out, case err of
         None \<Rightarrow> None
       | Some e \<Rightarrow> Some (Wrapped (goQuote (os_tables os) command @ '' failed with error '' @
           goQuote (os_tables os) out @ '': '') e []))))))))"

definition runWarning :: "'w operating_system \<Rightarrow> exec_cmd \<Rightarrow> ('w, os_call, unit) procedure" where
  "runWarning os cmd = andThen (Run os cmd) (\<lambda>(_, err). case err of None \<Rightarrow> ret () | Some e \<Rightarrow> warnError e)"

definition kubeSystemLeases :: "string list" where
  "kubeSystemLeases = [''cert-manager-cainjector-leader-election'', ''cert-manager-controller'']"

primrec deleteLeases :: "'w operating_system \<Rightarrow> string list \<Rightarrow> ('w, os_call, unit) procedure" where
  "deleteLeases os [] = ret ()"
| "deleteLeases os (lease # leases) =
     andThen (runWarning os (execCommand ''kubectl'' [''delete'', ''lease'', lease,
       ''-n'', ''kube-system'', ''--ignore-not-found'', ''--force'', ''--grace-period=0'']))
     (\<lambda>_. deleteLeases os leases)"

definition UninstallCertManager :: "'w operating_system \<Rightarrow> ('w, os_call, unit) procedure" where
  "UninstallCertManager os =
     andThen (runWarning os (execCommand ''kubectl'' [''delete'', ''-f'', certmanagerURL certmanagerVersion]))
     (\<lambda>_. deleteLeases os kubeSystemLeases)"

definition InstallCertManager :: "'w operating_system \<Rightarrow> ('w, os_call, error option) procedure" where
  "InstallCertManager os =
     andThen (Run os (execCommand ''kubectl'' [''apply'', ''-f'', certmanagerURL certmanagerVersion])) (\<lambda>(_, err).
     case err of
       Some e \<Rightarrow> ret (Some e)
     | None \<Rightarrow> andThen (Run os (execCommand ''kubectl'' [''wait'', ''deployment.apps/cert-manager-webhook'',
         ''--for'', ''condition=Available'', ''--namespace'', ''cert-manager'', ''--timeout'', ''5m'']))
         (\<lambda>(_, err). ret err))"

definition GetNonEmptyLines :: "string \<Rightarrow> string list" where
  "GetNonEmptyLines out = filter (\<lambda>element. element \<noteq> []) (splitOn newline out)"

definition certManagerCRDs :: "string list" where
  "certManagerCRDs = [''certificates.cert-manager.io'', ''issuers.cert-manager.io'',
     ''clusterissuers.cert-manager.io'', ''certificaterequests.cert-manager.io'',
     ''orders.acme.cert-manager.io'', ''challenges.acme.cert-manager.io'']"

definition IsCertManagerCRDsInstalled :: "'w operating_system \<Rightarrow> ('w, os_call, bool) procedure" where
  "IsCertManagerCRDsInstalled os =
     andThen (Run os (execCommand ''kubectl'' [''get'', ''crds''])) (\<lambda>(out, err). ret (case err of
       Some _ \<Rightarrow> False
     | None \<Rightarrow> (let crdList = GetNonEmptyLines out in
         list_ex (\<lambda>crd. list_ex (\<lambda>line. strContains line crd) crdList) certManagerCRDs)))"

definition LoadImageToKindClusterWithName ::
    "'w operating_system \<Rightarrow> string \<Rightarrow> ('w, os_call, error option) procedure" where
  "LoadImageToKindClusterWithName os name =
     andThen (observe (os_LookupEnv os ''KIND_CLUSTER'')) (\<lambda>v.
     let cluster = (case v of Some x \<Rightarrow> x | None \<Rightarrow> defaultKindCluster);
         kindOptions = [''load'', ''docker-image'', name, ''--name'', cluster]
     in
     andThen (observe (os_LookupEnv os ''KIND'')) (\<lambda>v.
     let kindBinary = (case v of Some x \<Rightarrow> x | None \<Rightarrow> defaultKindBinary) in
     andThen (Run os (execCommand kindBinary kindOptions)) (\<lambda>(_, err). ret err)))"

subsection \<open>Uncommenting code\<close>

text \<open>
  The lines of the target, each with the comment prefix cut off, joined by newlines: what the loop over the
  scanner writes. With no line at all the function returns before it writes the file.
\<close>

definition uncommented :: "string \<Rightarrow> string list \<Rightarrow> string" where
  "uncommented prefx lines = strJoin [newline] (map (\<lambda>l. trimPrefix l prefx) lines)"

definition UncommentCode ::
    "'w operating_system \<Rightarrow> string \<Rightarrow> string \<Rightarrow> string \<Rightarrow> ('w, os_call, error option) procedure" where
  "UncommentCode os filename target prefx =
     andThen (call (OsReadFile filename) (os_ReadFile os filename)) (\<lambda>r. case r of
       Inl err \<Rightarrow> ret (Some (Wrapped (''failed to read file '' @ goQuote (os_tables os) filename @ '': '') err []))
     | Inr content \<Rightarrow> (case strIndex content target of
         None \<Rightarrow> ret (Some (PlainError (''unable to find the code '' @ goQuote (os_tables os) target @
           '' to be uncommented'')))
       | Some idx \<Rightarrow> (case scannedLines target of
           [] \<Rightarrow> ret None
         | lines \<Rightarrow>
             let out = take idx content @ uncommented prefx lines @ drop (idx + length target) content in
             andThen (call (OsWriteFile filename out 420) (os_WriteFile os filename out 420)) (\<lambda>err. ret (case err of
               None \<Rightarrow> None
             | Some e \<Rightarrow> Some (Wrapped (''failed to write file '' @ goQuote (os_tables os) filename @ '': '') e []))))))"

subsection \<open>Searching and scanning\<close>

lemma strIndex_append: "strIndex s sub = Some i \<Longrightarrow> \<exists>rest. s = take i s @ sub @ rest"
proof (induction s arbitrary: i)
  case (Cons c s)
  show ?case
  proof (cases "prefix sub (c # s)")
    case True
    with Cons.prems show ?thesis by (auto simp: prefix_def)
  next
    case False
    with Cons.prems obtain j where "strIndex s sub = Some j" "i = Suc j" by auto
    with Cons.IH show ?thesis by fastforce
  qed
qed (simp split: if_splits)

lemma strIndex_split:
  assumes "strIndex s sub = Some i"
  shows "s = take i s @ sub @ drop (i + length sub) s"
proof -
  from strIndex_append [OF assms] obtain rest where s: "s = take i s @ sub @ rest" ..
  then have "drop i s = sub @ rest" by (metis append_take_drop_id same_append_eq)
  then have "drop (i + length sub) s = rest" by (metis add.commute append_eq_conv_conj drop_drop)
  with s show ?thesis by simp
qed

lemma strIndex_None_iff: "strIndex s sub = None \<longleftrightarrow> \<not> strContains s sub"
  by (induction s) auto

lemma contains_line:
  assumes "sub \<noteq> []" and "newline \<notin> set sub"
  shows "strContains s sub \<longleftrightarrow> list_ex (\<lambda>line. strContains line sub) (splitOn newline s)"
proof (induction s)
  case Nil
  with assms show ?case by simp
next
  case (Cons c s)
  obtain l ls where l: "splitOn newline s = l # ls" by (meson list.exhaust splitOn_nonempty)
  have s: "s = l \<or> (\<exists>rest. s = l @ newline # rest)"
    using strJoin_splitOn [of newline s] unfolding l by (cases ls) auto
  have "prefix sub (c # s) \<longleftrightarrow> c \<noteq> newline \<and> prefix sub (c # l)"
    using s assms by (cases sub) (auto simp: prefix_append prefix_Cons dest: set_mono_prefix)
  with Cons l assms show ?case by (auto simp: list_ex_iff)
qed

lemma rawLines_join:
  "ls \<noteq> [] \<Longrightarrow> \<forall>l\<in>set ls. newline \<notin> set l \<Longrightarrow> last ls \<noteq> [] \<Longrightarrow> rawLines (strJoin [newline] ls) = ls"
  by (simp add: rawLines_def splitOn_strJoin)

lemma scannedLines_join:
  assumes "ls \<noteq> []" and "last ls \<noteq> []"
    and "\<forall>l\<in>set ls. newline \<notin> set l \<and> carriageReturn \<notin> set l \<and> length l < maxScanTokenSize"
  shows "scannedLines (strJoin [newline] ls) = ls"
proof -
  have "map dropCR ls = ls"
    using assms(3) by (intro map_idI) (auto simp: dropCR_def dest: last_in_set)
  with assms show ?thesis by (simp add: scannedLines_def rawLines_join takeWhile_eq_all_conv [THEN iffD2])
qed

lemma trimPrefix_append [simp]: "trimPrefix (p @ s) p = s"
  by (simp add: trimPrefix_def)

subsection \<open>Commenting and uncommenting\<close>

definition commented :: "string \<Rightarrow> string \<Rightarrow> string" where
  "commented prefx code = strJoin [newline] (map (\<lambda>l. prefx @ l) (splitOn newline code))"

text \<open>The lines fit into the scanner and hold no carriage return it would drop.\<close>

definition scannable :: "string \<Rightarrow> string \<Rightarrow> bool" where
  "scannable prefx code \<longleftrightarrow> prefx \<noteq> [] \<and> newline \<notin> set prefx \<and> carriageReturn \<notin> set prefx \<and>
     carriageReturn \<notin> set code \<and> list_all (\<lambda>l. length prefx + length l < maxScanTokenSize) (splitOn newline code)"

lemma splitOn_subset: "l \<in> set (splitOn sep s) \<Longrightarrow> set l \<subseteq> set s"
proof (induction s arbitrary: l)
  case (Cons c s)
  obtain v vs where "splitOn sep s = v # vs" by (meson list.exhaust splitOn_nonempty)
  with Cons show ?case by (fastforce split: if_splits)
qed simp

lemma scannedLines_commented:
  assumes "scannable prefx code"
  shows "scannedLines (commented prefx code) = map (\<lambda>l. prefx @ l) (splitOn newline code)"
  unfolding commented_def using assms
  by (intro scannedLines_join)
    (auto simp: scannable_def last_map list_all_iff dest: sep_notin_splitOn splitOn_subset)

lemma uncommented_commented:
  assumes "scannable prefx code"
  shows "uncommented prefx (scannedLines (commented prefx code)) = code"
  by (simp add: scannedLines_commented [OF assms] uncommented_def comp_def strJoin_splitOn)

text \<open>
  Uncommenting the first place where commented code stands restores the code there, leaves the rest of
  the file as it is, and writes the file exactly once.
\<close>

theorem uncomment_restores:
  assumes "scannable prefx code"
    and "fst (os_ReadFile os f w) = Inr content" and "strIndex content (commented prefx code) = Some i"
  shows "let out = UncommentCode os f (commented prefx code) prefx w;
      new = take i content @ code @ drop (i + length (commented prefx code)) content in
    \<exists>err. events_of out = [OsReadFile f (Inr content), OsWriteFile f new 420 err] \<and> (result_of out = None \<longleftrightarrow> err = None)"
  using uncommented_commented [OF assms(1)] assms
  by (auto simp: Let_def UncommentCode_def andThen_def call_run ret_run scannedLines_commented
      split: prod.split list.split option.split)

text \<open>
  Every other outcome: either the file is only read, without an error only when the target has no line, or it
  is found to hold the target and is written once with nothing changed but that place.
\<close>

lemma uncomment_outcomes:
  "let ans = fst (os_ReadFile os f w); out = UncommentCode os f target prefx w in
     events_of out = [OsReadFile f ans] \<and> (result_of out = None \<longrightarrow> scannedLines target = []) \<or>
     (\<exists>content i new err. ans = Inr content \<and> strIndex content target = Some i \<and>
        new = take i content @ uncommented prefx (scannedLines target) @ drop (i + length target) content \<and>
        events_of out = [OsReadFile f ans, OsWriteFile f new 420 err] \<and> (result_of out = None \<longleftrightarrow> err = None))"
  by (auto simp: Let_def UncommentCode_def andThen_def call_run ret_run
      split: prod.splits list.splits option.splits sum.splits)

text \<open>The cert-manager CRDs count as installed when the listing succeeded and names one of them anywhere.\<close>

lemma crds_found_iff:
  "result_of (IsCertManagerCRDsInstalled os w) \<longleftrightarrow>
     (case result_of (Run os (execCommand ''kubectl'' [''get'', ''crds'']) w) of (out, err) \<Rightarrow>
        err = None \<and> list_ex (strContains out) certManagerCRDs)"
proof -
  have "list_ex (\<lambda>line. strContains line crd) (GetNonEmptyLines out) \<longleftrightarrow> strContains out crd"
    if "crd \<in> set certManagerCRDs" for out crd
  proof -
    from that have "crd \<noteq> []" "newline \<notin> set crd" by (auto simp: certManagerCRDs_def newline_def)
    then show ?thesis by (auto simp: contains_line [of crd out] GetNonEmptyLines_def list_ex_iff)
  qed
  then show ?thesis
    by (auto simp: IsCertManagerCRDsInstalled_def andThen_def ret_run Let_def list_ex_iff split: prod.splits option.splits)
qed

text \<open>
  A target that ends with a newline loses it: the line after the target is joined to the last
  uncommented one.
\<close>

lemma uncomment_joins_next_line:
  "uncommented ''# '' (scannedLines (''# a'' @ [newline])) @ ''b'' = ''ab''"
  by (simp add: scannedLines_def rawLines_def uncommented_def dropCR_def newline_def carriageReturn_def
      maxScanTokenSize_def trimPrefix_def)

end
