(* ===== verification/Spec2Isabelle.thy ===== *)
theory Spec2Isabelle
  imports InitScript SecretRuns Verdicts Watches Rivals NameBounds NodeRuns ClusterVerdict ClusterHistory RolloutSpec Access Contract NameLoop CopySpec E2eUtils
begin

text \<open>
  A verification development for nomad-operator, a Kubernetes operator (Go, controller-runtime) that
  runs HashiCorp Nomad clusters and keeps Nomad's node pools, namespaces, jobs and nodes in step with
  custom resources.

  The program. \<^verbatim>\<open>cmd/main.go\<close> starts one process with five controllers from
  \<^verbatim>\<open>internal/controller\<close>. Each controller has one method \<^verbatim>\<open>Reconcile\<close> that is called with the name of an
  object, reads it from the API server, acts, and writes a status; the runtime calls it again after an
  error, after the delay it returned, or when a watched object changes. NomadCluster: makes the gossip
  key and the bootstrap token, waits for a certificate and an external address, applies the owned
  objects (ConfigMap, Services, StatefulSet, disruption budget, Gateway and routes), bootstraps the ACL
  system, and keeps a phase. NomadPool, NomadNamespace and NomadJob: mirror one Nomad object each, with a
  finalizer that guards its removal. NomadNode: mirrors the node list into objects and drives
  eligibility and drains. \<^verbatim>\<open>internal/nomad\<close> is the client of one Nomad endpoint and
  \<^verbatim>\<open>api/v1alpha1\<close> holds the object types.

  How it is modelled. A Go method is a function of an abstract outside world that returns its result,
  the list of calls it made with their answers, and the world (theory Prelude: \<open>ret\<close>, \<open>call\<close>,
  \<open>andThen\<close>, \<open>bindE\<close> for \<^verbatim>\<open>if err != nil { return }\<close>, \<open>forE\<close> and \<open>forCollect\<close> for the range loops). The API
  server, the Nomad library, the random source, the clock, the Unicode tables, controllerutil and the
  controller runtime are records of functions on that world (\<open>platform\<close>, \<open>nomad_api\<close>, \<open>toolkit\<close>,
  \<open>runtime_services\<close>); nothing is assumed of them except where a theorem names a hypothesis
  (\<open>toolkit_laws\<close> states the documented behaviour of the finalizer and owner reference helpers). A
  property of the calls of a pass therefore holds for every failure, race and stale read. Errors are
  values of \<open>error + 'a\<close> with the wrapping chain of Go; a nil dereference, a failing \<^verbatim>\<open>MustParse\<close> and a
  negative \<^verbatim>\<open>make\<close> are errors of their own. Maps are association lists read through \<open>map_of\<close>; the order of
  a range over a map is a parameter. Objects are values, and a deep copy the reconcilers make is the
  value itself; that this is right is shown over an explicit store of Go cells (GoHeap, CopySpec).

  Theories and sources.
  Prelude, GoStrings, GoFormat, GoErrors, KubeTypes: the vocabulary, and the parts of Go's standard
  library the code uses (strings, strconv, hex, base64, the quoting of \<^verbatim>\<open>%q\<close>, errors.Is and errors.As), with
  object metadata, stores and client calls.
  ApiTypes: the specs, statuses, constants and admission markers of \<^verbatim>\<open>api/v1alpha1/*_types.go\<close>.
  NomadClient and NomadOps: \<^verbatim>\<open>internal/nomad/{client,namespace,config,errors}.go\<close> and the consumer
  interfaces \<^verbatim>\<open>*_ops.go\<close> with their factories; the locales there state what wrapping keeps of an error.
  Contract: the symbols \<^verbatim>\<open>contract.go\<close> pins, the methods of which are those the client calls.
  Platform: the built objects, the recorded calls (\<open>event\<close>) and the calls of the API server.
  Conditions: \<^verbatim>\<open>conditions.go\<close> and the four per-kind setters, five interpretations of one locale.
  Names: \<^verbatim>\<open>names.go\<close>, \<^verbatim>\<open>nomadnode_names.go\<close>, whose loop NameLoop bounds. Sha256 and ClusterConfig: \<^verbatim>\<open>config_render.go\<close>,
  \<^verbatim>\<open>nomadclient.go\<close>, \<^verbatim>\<open>status_members.go\<close>. Workload: \<^verbatim>\<open>resources_workload.go\<close>; InitScript: what the shell script
  \<^verbatim>\<open>initEntrypoint\<close> of that file writes for one server. Security: \<^verbatim>\<open>security.go\<close>. ExternalAccess: \<^verbatim>\<open>resources_gateway.go\<close>, \<^verbatim>\<open>resources_loadbalancer.go\<close>.
  Cluster and ClusterSpec: \<^verbatim>\<open>nomadcluster_controller.go\<close> and what its passes guarantee; ClusterReady: that a
  pass in a favourable environment makes the cluster Ready; ClusterVerdict: what the last status says of
  a pass; ClusterHistory: the phase over many passes with stale reads and lost answers.
  Lifecycle: the fields the per-kind reconcilers share and the rules of a resource with a finalizer, a
  locale interpreted by Pool, NamespaceCtl and Job, which hold \<^verbatim>\<open>nomadpool_controller.go\<close>,
  \<^verbatim>\<open>nomadnamespace_controller.go\<close> and \<^verbatim>\<open>nomadjob_controller.go\<close>.
  Node and NodeSpec: \<^verbatim>\<open>nomadnode_controller.go\<close> and its rules.
  Converge: sequences of passes against a server that keeps its state; PoolRuns, NamespaceRuns, JobRuns
  and SecretRuns apply it to Nomad's pools, namespaces and jobs and to the API server's Secrets. NodeRuns:
  the same for one node, its drain and the record of it. Verdicts: how a pass over a pool, namespace or
  job ends. Watches: a change of a cluster runs again whatever read it. RolloutSpec: what the rollout of
  a cluster does not depend on. NameBounds: which cluster names give valid Service names.
  Footprint: the operator as a set of workers, and which calls each can make at all. Interference and
  Together: schedules, the interleavings of the calls of all workers, and the convergence and the
  deletion of a pool, namespace or job in every one of them; the locales \<open>keyed_server\<close> and
  \<open>keyed_converging\<close> carry the argument. Rivals: objects that claim the same name.
  Flags, Manager, ManagerSpec and Access: \<^verbatim>\<open>cmd/main.go\<close>, the \<^verbatim>\<open>SetupWithManager\<close> of the five
  reconcilers and their RBAC markers. GoHeap, MemTypes, DeepCopy and CopySpec: a store of cells, the
  resource structs with their pointers, \<^verbatim>\<open>zz_generated.deepcopy.go\<close>, and its contract, the locale
  \<open>copier\<close> that every struct's copy is shown to meet. E2eUtils: \<^verbatim>\<open>test/utils/utils.go\<close>, the helpers
  of the end-to-end tests. Samples: the objects and the environment of the concrete runs.

  What is shown. One pass: the phase of a cluster moves only along its machine, and reaches Ready when every
  service answers as a healthy installation does; nothing is rolled out
  before key, certificate and address are there; objects are applied in order; pools, namespaces and jobs
  call Nomad only under a finalizer and a Ready cluster, and let go only with a reason; nodes are never
  pruned on an empty list, and a failing node does not stop the others. Functions: names are RFC 1123
  subdomains, the Gateway check is equivalent to its declarative reading, an admitted spec never panics
  while it is rolled out, what is rolled out does not depend on the status, the flags round-trip. Sequences
  of passes: a live pool, namespace or job reaches its spec in Nomad with at most one effective change and
  is then left alone, however the calls of the other workers interleave; two pools that claim one name
  stand down, while deletions and jobs have no such guard; Nomad starts at most one more drain of a node
  than the operator got errors for its drain calls and status writes; Ready is reported only
  at the goal, a finalizer that goes after a delete leaves nothing behind, and no Secret ever changes its
  data, so one bootstrap token is used for ever. Process: it starts only when all is set up, and its
  watches and permissions cover what the passes read and write, except for the recorder's events.
  Memory: the generated copies share no cell with their original, so neither side sees the writes of
  the other.

  Bounds and termination. Every definition is total: loops are structural recursion over the slice they
  range over, \<open>parseFlags\<close> recurses over the remaining arguments, and \<open>natDigits\<close> over the quotient; the
  one unbounded loop, \<open>collapseDashes\<close>, shortens its string, and a copy of it with fuel is shown to end
  within the number of binary digits of the length. Integers that can wrap are words: the bytes of keys and UUIDs, the 32-bit words of SHA-256,
  the 64-bit job version; Go's int and int32 fields that are only compared and printed are \<open>int\<close>.

  Not modelled. Log output, the work queue and the rate limiter of the runtime, and the HTTP side of the
  Nomad library. Two passes over the same object never overlap (the runtime guarantees it); passes over
  different objects do, call by call. Interference by writers outside the operator is the arbitrary
  world of the single-pass theorems; on Nomad's side it is excluded where a theorem about sequences of
  passes says so. A schedule concerns the objects of one cluster: those of another talk to another Nomad.
\<close>

section \<open>Properties that span components\<close>

subsection \<open>The path of an RPC connection\<close>

definition attachesTo :: "tcp_route \<Rightarrow> gateway_listener \<Rightarrow> bool" where
  "attachesTo rt l \<longleftrightarrow> map pr_sectionName (cr_parentRefs rt) = [Some (gl_name l)]"

lemma mapE_nth: "mapE f xs = Inr ys \<Longrightarrow> i < length xs \<Longrightarrow> f (xs ! i) = Inr (ys ! i)"
  by (induction xs arbitrary: ys i) (auto split: sum.splits simp: nth_Cons split: nat.splits)

lemma managed_listener:
  assumes "buildManagedGateway nc = Inr gw" "gatewayOf nc = Inr g" "i < length (gs_rpcPorts g)"
  shows "rpcListener i (gs_rpcPorts g ! i) \<in> set (gw_listeners gw)"
proof -
  have "(i, gs_rpcPorts g ! i) \<in> set (enumerate 0 (gs_rpcPorts g))"
    using assms(3) by (simp add: in_set_enumerate_eq)
  then show ?thesis using assms(1,2) by (force simp: buildManagedGateway_def)
qed

lemma tcp_route:
  assumes "buildTCPRoutes nc = Inr routes" "i < nat (nc_servers nc)"
  shows "attachesTo (routes ! i) l \<longleftrightarrow> gl_name l = listenerNameRPC i"
    and "cr_backendRefs (routes ! i) = [(om_name (sv_meta (buildPodService nc i)), portRPC)]"
proof -
  have "mapE (tcpRouteFor nc) [0..<nat (nc_servers nc)] = Inr routes"
    using assms(1) by (simp add: buildTCPRoutes_def split: if_splits)
  from mapE_nth [OF this, of i] have "tcpRouteFor nc i = Inr (routes ! i)" using assms(2) by simp
  then have rt: "(\<exists>parent. cr_parentRefs (routes ! i) = [parent\<lparr>pr_sectionName := Some (listenerNameRPC i)\<rparr>]) \<and>
      cr_backendRefs (routes ! i) = [(PodSvc (names nc) i, portRPC)]"
    by (auto simp: tcpRouteFor_def split: sum.splits dest!: sym [of _ "routes ! i"])
  then show "attachesTo (routes ! i) l \<longleftrightarrow> gl_name l = listenerNameRPC i"
    by (auto simp: attachesTo_def)
  show "cr_backendRefs (routes ! i) = [(om_name (sv_meta (buildPodService nc i)), portRPC)]"
    using rt by (simp add: buildPodService_def newMeta_def)
qed

lemma gateway_ports:
  "gatewayOf nc = Inr g \<Longrightarrow> ea_mode (nc_access nc) = ExternalAccessGateway \<Longrightarrow> rpcAdvertisePorts nc = Inr (gs_rpcPorts g)"
  by (auto simp: rpcAdvertisePorts_def gatewayOf_def split: option.splits)

lemmas itoa_4647 = itoa_portRPC [unfolded portRPC_def]

text \<open>
  C20: in Gateway mode the RPC address the init script of server i advertises leads to that server. Run on
  the built ConfigMap and gossip Secret under the pod's host name and address, the script writes the
  shared config and an overlay with the gossip key. A server without peers advertises the external
  address with the RPC port of its ordinal; one with peers advertises its own pod's address with 4647, the
  RPC port of its container. And in both cases the external port of the ordinal leads to the server: the
  managed Gateway listens on it, TCP route i attaches to that listener and to no other RPC listener, and
  forwards to the Service that selects pod i of this cluster and no other, on the container's port.
\<close>

theorem rpc_port_reaches_its_server:
  assumes "buildConfigMap uc nc addr = Inr cm" and "buildManagedGateway nc = Inr gw"
    and "buildTCPRoutes nc = Inr routes" and "gatewayOf nc = Inr g"
    and "ea_mode (nc_access nc) = ExternalAccessGateway"
    and "i < length (gs_rpcPorts g)" and "i < nat (nc_servers nc)"
  shows "runEntrypoint (cm_data cm) (se_data (gossipSecret nc buf)) (PodName (names nc) i) podIP =
      Some (renderBody uc nc, overlayText (base64String buf) (substituted addr @ '':4646'')
        (if nc_servers nc = 1 then substituted addr @ '':'' @ itoa (gs_rpcPorts g ! i) else podIP @ '':4647'') podIP) \<and>
    containerPort ''rpc'' 4647 [] \<in> set (co_ports (nomadContainer nc)) \<and>
    rpcListener i (gs_rpcPorts g ! i) \<in> set (gw_listeners gw) \<and>
    (attachesTo (routes ! i) (rpcListener j p) \<longleftrightarrow> j = i) \<and>
    cr_backendRefs (routes ! i) = [(om_name (sv_meta (buildPodService nc i)), 4647)] \<and>
    sv_ports (buildPodService nc i) = [servicePort ''rpc'' 4647 (Some 4647) ''TCP''] \<and>
    (selects (sv_selector (buildPodService nc i)) (mapPut podNameLabel (PodName (names nc) k) (Labels (names nc))) \<longleftrightarrow> k = i)"
  using runEntrypoint_server [OF assms(1) gateway_ports [OF assms(4,5)] assms(6), of buf podIP]
    managed_listener [OF assms(2,4,6)] tcp_route [OF assms(3,7)] buildPodService_selects [of nc i k]
  by (auto simp: rpcListener_def advertisedRPC_def itoa_4647 nomadContainer_def buildPodService_def portRPC_def)

definition soloCluster :: nomad_cluster where
  "soloCluster = sampleCluster\<lparr>nc_spec := (nc_spec sampleCluster)\<lparr>cs_servers := 1,
     cs_externalAccess := (nc_access sampleCluster)\<lparr>ea_gateway :=
       Some ((the (ea_gateway (nc_access sampleCluster)))\<lparr>gs_rpcPorts := [4647]\<rparr>)\<rparr>\<rparr>\<rparr>"

lemma sampleCluster_parts:
  "ea_mode (nc_access sampleCluster) = ExternalAccessGateway" "nc_servers sampleCluster = 3"
  "gatewayOf sampleCluster = Inr (the (ea_gateway (nc_access sampleCluster)))"
  "gs_rpcPorts (the (ea_gateway (nc_access sampleCluster))) = [4647, 4657, 4667]"
  "ea_mode (nc_access soloCluster) = ExternalAccessGateway" "nc_servers soloCluster = 1"
  "gatewayOf soloCluster = Inr (the (ea_gateway (nc_access soloCluster)))"
  "gs_rpcPorts (the (ea_gateway (nc_access soloCluster))) = [4647]"
  by (simp_all add: sampleCluster_def soloCluster_def gatewayOf_def)

lemma soloCluster_admitted: "admittedCluster (nc_spec soloCluster)"
  by (simp add: soloCluster_def sampleCluster_def admittedCluster_def admittedExternalAccess_def admittedGateway_def)

lemma gateway_objects_built:
  assumes "admittedCluster (nc_spec nc)" "ea_mode (nc_access nc) = ExternalAccessGateway"
  obtains cm gw routes where "buildConfigMap uc nc addr = Inr cm" "buildManagedGateway nc = Inr gw"
    "buildTCPRoutes nc = Inr routes"
proof -
  have "list_all built (rolloutObjects uc Some nc addr)"
    by (rule rollout_total [OF assms(1) refl])
  then have "built (buildConfigMap uc nc addr)"
    by (auto simp: rolloutObjects_def split: sum.splits)
  then show ?thesis
    using that routes_total(2,3) [OF assms] by (auto simp: built_iff)
qed

theorem rpc_port_reaches_its_server_witness:
  "(\<exists>cm gw routes. buildConfigMap sampleUnicode sampleCluster ''203.0.113.7'' = Inr cm \<and>
     buildManagedGateway sampleCluster = Inr gw \<and> buildTCPRoutes sampleCluster = Inr routes \<and>
     runEntrypoint (cm_data cm) (se_data (gossipSecret sampleCluster [])) ''prod-server-2'' ''10.0.0.3'' =
       Some (renderBody sampleUnicode sampleCluster, overlayText [] ''203.0.113.7:4646'' ''10.0.0.3:4647'' ''10.0.0.3'') \<and>
     rpcListener 2 4667 \<in> set (gw_listeners gw) \<and> attachesTo (routes ! 2) (rpcListener 2 4667)) \<and>
   (\<exists>cm. buildConfigMap sampleUnicode soloCluster ''203.0.113.7'' = Inr cm \<and>
     runEntrypoint (cm_data cm) (se_data (gossipSecret soloCluster [])) ''prod-server-0'' ''10.0.0.3'' =
       Some (renderBody sampleUnicode soloCluster, overlayText [] ''203.0.113.7:4646'' ''203.0.113.7:4647'' ''10.0.0.3''))"
proof
  have digits: "natDigits 2 = ''2''" "natDigits 0 = ''0''"
    by code_simp+
  have pods: "PodName (names sampleCluster) 2 = ''prod-server-2''" "PodName (names soloCluster) 0 = ''prod-server-0''"
    by (simp_all add: PodName_def digits sampleCluster_def soloCluster_def newMeta_def)
  have plain: "substituted ''203.0.113.7'' = ''203.0.113.7''" "base64String [] = []"
    by (simp_all add: substituted_same base64String_def)
  obtain cm gw routes where built: "buildConfigMap sampleUnicode sampleCluster ''203.0.113.7'' = Inr cm"
      "buildManagedGateway sampleCluster = Inr gw" "buildTCPRoutes sampleCluster = Inr routes"
    by (rule gateway_objects_built [OF sampleCluster_admitted sampleCluster_parts(1)])
  from rpc_port_reaches_its_server [OF built sampleCluster_parts(3,1), of 2 "[]" "''10.0.0.3''" 2 4667 2]
  have "runEntrypoint (cm_data cm) (se_data (gossipSecret sampleCluster [])) ''prod-server-2'' ''10.0.0.3'' =
       Some (renderBody sampleUnicode sampleCluster, overlayText [] ''203.0.113.7:4646'' ''10.0.0.3:4647'' ''10.0.0.3'')"
    "rpcListener 2 4667 \<in> set (gw_listeners gw)" "attachesTo (routes ! 2) (rpcListener 2 4667)"
    by (simp_all add: sampleCluster_parts pods plain)
  with built show "\<exists>cm gw routes. buildConfigMap sampleUnicode sampleCluster ''203.0.113.7'' = Inr cm \<and>
     buildManagedGateway sampleCluster = Inr gw \<and> buildTCPRoutes sampleCluster = Inr routes \<and>
     runEntrypoint (cm_data cm) (se_data (gossipSecret sampleCluster [])) ''prod-server-2'' ''10.0.0.3'' =
       Some (renderBody sampleUnicode sampleCluster, overlayText [] ''203.0.113.7:4646'' ''10.0.0.3:4647'' ''10.0.0.3'') \<and>
     rpcListener 2 4667 \<in> set (gw_listeners gw) \<and> attachesTo (routes ! 2) (rpcListener 2 4667)"
    by blast
  obtain cm' gw' routes' where solo: "buildConfigMap sampleUnicode soloCluster ''203.0.113.7'' = Inr cm'"
      "buildManagedGateway soloCluster = Inr gw'" "buildTCPRoutes soloCluster = Inr routes'"
    by (rule gateway_objects_built [OF soloCluster_admitted sampleCluster_parts(5)])
  show "\<exists>cm. buildConfigMap sampleUnicode soloCluster ''203.0.113.7'' = Inr cm \<and>
     runEntrypoint (cm_data cm) (se_data (gossipSecret soloCluster [])) ''prod-server-0'' ''10.0.0.3'' =
       Some (renderBody sampleUnicode soloCluster, overlayText [] ''203.0.113.7:4646'' ''203.0.113.7:4647'' ''10.0.0.3'')"
    using rpc_port_reaches_its_server [OF solo sampleCluster_parts(7,5), of 0 "[]" "''10.0.0.3''" 0 4647 0]
    by (intro exI [of _ cm']) (simp add: solo sampleCluster_parts pods plain itoa_4647)
qed

subsection \<open>Names and wiring\<close>

text \<open>
  The Services of a cluster have pairwise different names, and two clusters of one namespace never
  share a Service name: the name determines the cluster and the role.
\<close>

lemma service_names_never_collide:
  "serviceName nc r = serviceName nc' r' \<longleftrightarrow> nc_name nc = nc_name nc' \<and> r = r'"
  by (rule serviceName_inject)

text \<open>
  The StatefulSet is wired: every volume a container mounts is declared, its selector and those of
  the headless Service, the API Service and the disruption budget match the pods it makes, it is governed
  by the headless Service, runs the configured number of servers and mounts the cluster's ConfigMap.
\<close>

lemma statefulset_wired:
  assumes "buildStatefulSet pq nc hash = Inr ss"
  shows "set (mountedVolumes ss) \<subseteq> set (declaredVolumes ss) \<and>
    selects (sf_matchLabels ss) (pod_labels (sf_template ss)) \<and>
    selects (sv_selector (buildHeadlessService nc)) (pod_labels (sf_template ss)) \<and>
    selects (sv_selector (buildAPIService nc)) (pod_labels (sf_template ss)) \<and>
    selects (pdb_matchLabels (buildPDB nc)) (pod_labels (sf_template ss)) \<and>
    sf_serviceName ss = om_name (sv_meta (buildHeadlessService nc)) \<and> sf_replicas ss = nc_servers nc \<and>
    ConfigMapVolume (rn_ConfigMap (names nc)) \<in> vo_source ` set (pod_volumes (sf_template ss))"
  using buildStatefulSet_wired [OF assms] by blast

text \<open>
  The disruption budget lets one server go at a time, and for every admitted size above one the
  servers it keeps are a majority, so a voluntary disruption never costs the quorum.
\<close>

lemma disruption_keeps_quorum:
  assumes "admittedCluster (nc_spec nc)" and "nc_servers nc \<noteq> 1"
  shows "2 * pdb_minAvailable (buildPDB nc) > nc_servers nc"
  using assms by (auto simp: admittedCluster_def buildPDB_def)

lemma disruption_keeps_quorum_witness: "2 * pdb_minAvailable (buildPDB sampleCluster) > 3"
  using disruption_keeps_quorum [OF sampleCluster_admitted] by (simp add: sampleCluster_parts)

text \<open>
  The text whose hash rolls the pods determines the rendered config, the advertised address and the
  port list, as long as addresses contain no bar: a change of any of them changes the hash input.
\<close>

lemma config_hash_covers_inputs:
  assumes "CHR ''|'' \<notin> set gw" and "CHR ''|'' \<notin> set gw'"
  shows "hashInput body gw ports = hashInput body' gw' ports' \<longleftrightarrow> body = body' \<and> gw = gw' \<and> ports = ports'"
  using assms by (rule hashInput_inject)

subsection \<open>The advertised address\<close>

text \<open>
  The verdict the drift condition must carry: drift exactly when a previous address differs, with the
  reason that tells a single server (which will wedge) from a highly available one.
\<close>

definition driftVerdict :: "nomad_cluster \<Rightarrow> string \<Rightarrow> condition option \<Rightarrow> bool" where
  "driftVerdict nc extAddr c \<longleftrightarrow>
     (let prev = ct_externalAddress (nc_status nc) in
      map_option (\<lambda>c. (cn_status c, cn_reason c)) c = Some
        (if prev = [] \<or> prev = extAddr then (ConditionFalse, ''Stable'')
         else if nc_servers nc = 1 then (ConditionTrue, ''AddressChanged'') else (ConditionTrue, ''AddressChangedHA'')))"

definition firstStatus :: "event list \<Rightarrow> nomad_cluster option" where
  "firstStatus es = (case List.map_filter statusWrite es of [] \<Rightarrow> None | nc # _ \<Rightarrow> Some nc)"

lemma firstStatus_simps [simp]:
  "firstStatus (EvRecord a b c d # es) = firstStatus es"
  "firstStatus (EvCluster (SUpdateStatus nc r) # es) = Some nc"
  by (simp_all add: firstStatus_def map_filter_simps)

lemma status_first:
  assumes "P nc'"
  shows "meets (bindE (call (\<lambda>r. EvCluster (SUpdateStatus nc' r)) f) k)
    (\<lambda>r es. case firstStatus es of Some x \<Rightarrow> P x | None \<Rightarrow> False)"
  by (rule meets_bindE_call) (auto simp: assms intro: meets_trivial)

lemma rollOut_reports:
  "meets (rollOut rc nc extAddr) (\<lambda>r es. case firstStatus es of
     Some nc' \<Rightarrow> ct_externalAddress (nc_status nc') = extAddr \<and>
       driftVerdict nc extAddr (findCondition CondRaftAddressDrift (ct_conditions (nc_status nc')))
   | None \<Rightarrow> False)"
  unfolding rollOut_def checkAddressDrift_def Let_def kube_calls
  by (auto intro!: meets_withCondition meets_if meets_andThen_emit status_first
      simp: driftVerdict_def cluster_cond.entry Let_def)

text \<open>
  Before anything is rolled out, the first status a roll-out writes records the new external address
  and says whether it drifted from the recorded one, with the reason for one server or several.
\<close>

lemma address_drift_reported:
  "case firstStatus (events_of (rollOut rc nc extAddr w)) of
     Some nc' \<Rightarrow> ct_externalAddress (nc_status nc') = extAddr \<and>
       driftVerdict nc extAddr (findCondition CondRaftAddressDrift (ct_conditions (nc_status nc')))
   | None \<Rightarrow> False"
  by (rule meetsD [OF rollOut_reports])

subsection \<open>Conditions\<close>

text \<open>
  Setting a condition of a cluster leaves one entry of its type with the new status, reason, message
  and generation, moves the transition time exactly when the status changed, keeps the other entries, and
  a second pass with the same verdict changes nothing, whatever the clock says.
\<close>

lemma cluster_condition_contract:
  "(let cs = ct_conditions (nc_status nc);
        cs' = ct_conditions (nc_status (setCondition now nc ty st reason msg)) in
    findCondition ty cs' = Some (newCondition ty st reason msg (om_generation (nc_meta nc))
      (case findCondition ty cs of
         Some c \<Rightarrow> if cn_status c = st then cn_lastTransitionTime c else now | None \<Rightarrow> now)) \<and>
    (ty' = ty \<or> findCondition ty' cs' = findCondition ty' cs) \<and>
    findCondition ty (ct_conditions (nc_status (setCondition now' (setCondition now nc ty st reason msg) ty st reason msg))) =
      findCondition ty cs')"
  using cluster_cond.entry [of ty now nc st reason msg] cluster_cond.other [of ty' ty now nc st reason msg]
    cluster_cond.steady [of ty now' now nc st reason msg]
  unfolding Let_def by blast

text \<open>
  The four per-kind copies of the setter obey the same rule for the entry they write, with the
  generation of their own object.
\<close>

lemma kind_condition_contract:
  "findCondition ty (nt_conditions (no_status (setNodeCondition now nn ty st reason msg))) =
     Some (newCondition ty st reason msg (no_generation nn) (case findCondition ty (nt_conditions (no_status nn)) of
       Some c \<Rightarrow> if cn_status c = st then cn_lastTransitionTime c else now | None \<Rightarrow> now)) \<and>
   findCondition ty (pt_conditions (np_status (setPoolCondition now np ty st reason msg))) =
     Some (newCondition ty st reason msg (om_generation (np_meta np)) (case findCondition ty (pt_conditions (np_status np)) of
       Some c \<Rightarrow> if cn_status c = st then cn_lastTransitionTime c else now | None \<Rightarrow> now)) \<and>
   findCondition ty (nst_conditions (nns_status (setNamespaceCondition now ns ty st reason msg))) =
     Some (newCondition ty st reason msg (om_generation (nns_meta ns)) (case findCondition ty (nst_conditions (nns_status ns)) of
       Some c \<Rightarrow> if cn_status c = st then cn_lastTransitionTime c else now | None \<Rightarrow> now)) \<and>
   findCondition ty (jt_conditions (nj_status (setJobCondition now nj ty st reason msg))) =
     Some (newCondition ty st reason msg (om_generation (nj_meta nj)) (case findCondition ty (jt_conditions (nj_status nj)) of
       Some c \<Rightarrow> if cn_status c = st then cn_lastTransitionTime c else now | None \<Rightarrow> now))"
  by (intro conjI node_cond.entry pool_cond.entry namespace_cond.entry job_cond.entry)

subsection \<open>The Nomad client\<close>

text \<open>
  looking up a pool, a namespace or a job gives none exactly when Nomad answers 404 or an empty reply,
  so an error of a lookup never means that the object is missing and no caller recreates on an outage.
\<close>

lemma lookups_separate_missing_from_failure:
  "(fst (GetNodePool uc c name w) = Inr None \<longleftrightarrow> fst (api_PoolsInfo c name queryOpts w) = Inr None \<or>
      (\<exists>e. fst (api_PoolsInfo c name queryOpts w) = Inl e \<and> IsNotFound e)) \<and>
   (fst (GetNamespace uc c name w) = Inr None \<longleftrightarrow> fst (api_NamespacesInfo c name queryOpts w) = Inr None \<or>
      (\<exists>e. fst (api_NamespacesInfo c name queryOpts w) = Inl e \<and> IsNotFound e)) \<and>
   (fst (GetJob uc c ns name w) = Inr None \<longleftrightarrow> fst (api_JobsInfo c name (nsQueryOpts ns) w) = Inr None \<or>
      (\<exists>e. fst (api_JobsInfo c name (nsQueryOpts ns) w) = Inl e \<and> IsNotFound e))"
  by (intro conjI get_pool.none_iff get_namespace.none_iff get_job.none_iff)


text \<open>
  C39: a client config fails to be built only with the error of reading the certificate Secret the spec
  names. Otherwise the Nomad library is handed https to the cluster's own API Service, the cluster's
  region, the CA, certificate and key bytes just read from that Secret, verification on with the
  server name of the region, and the token of the cluster's token Secret, or none when that cannot be
  read; the only further error is the library's. Two reads of Secrets are all that is called.
\<close>

theorem nomad_clients_verify_tls:
  "let certKey = objectKey (nc_namespace nc) (ts_certSecretRef (cs_tls (nc_spec nc)));
       tokenKey = objectKey (nc_namespace nc) (rn_TokenSecret (names nc));
       calls = events_of (clusterNomadConfig pf nc w)
   in case result_of (clusterNomadConfig pf nc w) of
        Inl e \<Rightarrow> calls = [EvSecret (SGet certKey (Inl e))]
      | Inr cfg \<Rightarrow> (\<exists>certSec tokenSec.
          calls = [EvSecret (SGet certKey (Inr certSec)), EvSecret (SGet tokenKey tokenSec)] \<and>
          tlsPinned nc certSec tokenSec (apiConfigOf cfg) \<and>
          NewClient newApi cfg = map_sum (\<lambda>err. Wrapped ''nomad: new client: '' err []) id (newApi (apiConfigOf cfg)))"
  using meetsD [OF clusterNomadConfig_pinned [of pf nc newApi], of w] by (simp add: Let_def)

text \<open>
  The quorum text of the status counts the members the status lists: voters over all.
\<close>

lemma quorum_text_agrees_with_members:
  "quorumString ms = itoa (int (length (filter ms_voter (toMemberStatus ms)))) @ ''/'' @
     itoa (int (length (toMemberStatus ms)))"
  by (rule quorumString_members)

end
